(* ===== verification/Prelude.thy ===== *)
theory Prelude
  imports Complex_Main "HOL-Library.AList" "HOL-Library.Word"
begin

text \<open>
  Shared vocabulary of the BoundFlow development: time, JSON values, Go maps and SQL tables as
  association lists, and the handful of generic facts the component theories rewrite with.

  \<^item> Go maps and SQL tables are association lists. A Go map is iterated in an unspecified order and
    a SQL query without ORDER BY returns rows in an unspecified order: the list order stands for the
    order the runtime happened to choose, and theorems are stated for every list.
  \<^item> \<open>upd_row\<close> is \<open>UPDATE t SET .. WHERE pk = k AND guard\<close> (with the number of rows it touched,
    0 or 1, as a boolean), \<open>upd_where\<close> an update of every row that satisfies a guard,
    \<open>del_where\<close> a DELETE and \<open>sel_keys\<close> a SELECT of the primary keys.
  \<^item> float64 amounts are rational numbers: rounding, NaN and infinities are outside the model.
\<close>

named_theorems sql_defs "one atomic SQL statement each"
named_theorems row_simps "effect of a statement on a single row"

section \<open>Time and numbers\<close>

text \<open>Timestamps are microseconds since the epoch (the resolution of timestamptz).\<close>

type_synonym timestamp = int
type_synonym float64 = rat

definition secs :: "int \<Rightarrow> int" where
  "secs n = n * 1000000"

lemma secs_mono [simp]: "secs a \<le> secs b \<longleftrightarrow> a \<le> b"
  by (simp add: secs_def)

lemma secs_nonneg [simp]: "0 \<le> secs a \<longleftrightarrow> 0 \<le> a"
  by (simp add: secs_def)

lemma secs_pos [simp]: "0 < secs a \<longleftrightarrow> 0 < a"
  by (simp add: secs_def)

text \<open>A comparison with NULL is not true in SQL.\<close>

definition ts_before :: "timestamp option \<Rightarrow> timestamp \<Rightarrow> bool" where
  "ts_before t n = (case t of None \<Rightarrow> False | Some x \<Rightarrow> x < n)"

definition ts_upto :: "timestamp option \<Rightarrow> timestamp \<Rightarrow> bool" where
  "ts_upto t n = (case t of None \<Rightarrow> False | Some x \<Rightarrow> x \<le> n)"

lemma ts_before_simps [simp]:
  "\<not> ts_before None n"
  "ts_before (Some x) n \<longleftrightarrow> x < n"
  by (simp_all add: ts_before_def)

lemma ts_upto_simps [simp]:
  "\<not> ts_upto None n"
  "ts_upto (Some x) n \<longleftrightarrow> x \<le> n"
  by (simp_all add: ts_upto_def)

text \<open>Go's conversion to int32 keeps the low 32 bits and reads them as two's complement.\<close>

definition int32 :: "int \<Rightarrow> int" where
  "int32 x = signed_take_bit 31 x"

lemma int32_id: "- 2147483648 \<le> x \<Longrightarrow> x < 2147483648 \<Longrightarrow> int32 x = x"
  by (simp add: int32_def signed_take_bit_int_eq_self)

lemma int32_lower: "- 2147483648 \<le> int32 x"
  using signed_take_bit_int_greater_eq_minus_exp [of 31 x] by (simp add: int32_def)

lemma int32_upper: "int32 x < 2147483648"
  using signed_take_bit_int_less_exp [of 31 x] by (simp add: int32_def)

lemma int32_int32 [simp]: "int32 (int32 x) = int32 x"
  by (simp add: int32_def)

lemma int32_add_int32: "int32 (int32 a + b) = int32 (a + b)" "int32 (a + int32 b) = int32 (a + b)"
  unfolding int32_def by (metis signed_take_bit_add signed_take_bit_signed_take_bit min.idem)+

section \<open>JSON values (map[string]any)\<close>

datatype json =
    JNull
  | JBool bool
  | JNum float64
  | JStr string
  | JArr "json list"
  | JObj "(string \<times> json) list"

type_synonym json_map = "(string \<times> json) list"

section \<open>Association lists: Go maps and SQL tables\<close>

type_synonym ('k, 'r) table = "('k \<times> 'r) list"

definition keys :: "('k, 'r) table \<Rightarrow> 'k list" where
  "keys t = map fst t"

definition upd_row :: "'k \<Rightarrow> ('r \<Rightarrow> bool) \<Rightarrow> ('r \<Rightarrow> 'r) \<Rightarrow> ('k, 'r) table \<Rightarrow> ('k, 'r) table \<times> bool" where
  "upd_row k g f t =
     (case map_of t k of
        None \<Rightarrow> (t, False)
      | Some r \<Rightarrow> if g r then (AList.update k (f r) t, True) else (t, False))"

definition upd_where :: "('k \<Rightarrow> 'r \<Rightarrow> bool) \<Rightarrow> ('k \<Rightarrow> 'r \<Rightarrow> 'r) \<Rightarrow> ('k, 'r) table \<Rightarrow> ('k, 'r) table" where
  "upd_where g f t = map (\<lambda>(k, r). (k, if g k r then f k r else r)) t"

definition del_where :: "('k \<Rightarrow> 'r \<Rightarrow> bool) \<Rightarrow> ('k, 'r) table \<Rightarrow> ('k, 'r) table" where
  "del_where g t = filter (\<lambda>(k, r). \<not> g k r) t"

definition sel_where :: "('k \<Rightarrow> 'r \<Rightarrow> bool) \<Rightarrow> ('k, 'r) table \<Rightarrow> ('k, 'r) table" where
  "sel_where g t = filter (\<lambda>(k, r). g k r) t"

definition sel_keys :: "('k \<Rightarrow> 'r \<Rightarrow> bool) \<Rightarrow> ('k, 'r) table \<Rightarrow> 'k list" where
  "sel_keys g t = keys (sel_where g t)"

definition exists_row :: "('k \<Rightarrow> 'r \<Rightarrow> bool) \<Rightarrow> ('k, 'r) table \<Rightarrow> bool" where
  "exists_row g t = list_ex (\<lambda>(k, r). g k r) t"

text \<open>The primary-key constraint of a table.\<close>

definition pk :: "('k, 'r) table \<Rightarrow> bool" where
  "pk t = distinct (keys t)"

lemma map_of_map_key: "map_of (map (\<lambda>(k, r). (k, f k r)) t) k = map_option (f k) (map_of t k)"
  by (induction t) auto

lemma upd_row_None [simp]: "map_of t k = None \<Longrightarrow> upd_row k g f t = (t, False)"
  by (simp add: upd_row_def)

lemma upd_row_Some:
  "map_of t k = Some r \<Longrightarrow> upd_row k g f t = (if g r then (AList.update k (f r) t, True) else (t, False))"
  by (simp add: upd_row_def)

lemma upd_row_hit: "snd (upd_row k g f t) \<longleftrightarrow> (\<exists>r. map_of t k = Some r \<and> g r)"
  by (auto simp: upd_row_def split: option.splits)

lemma upd_row_miss: "\<not> snd (upd_row k g f t) \<Longrightarrow> fst (upd_row k g f t) = t"
  by (auto simp: upd_row_def split: option.splits if_splits)

lemma map_of_upd_row:
  "map_of (fst (upd_row k g f t)) k' =
     (if k' = k then map_option (\<lambda>r. if g r then f r else r) (map_of t k) else map_of t k')"
  by (auto simp: upd_row_def update_conv split: option.splits)

lemma map_of_upd_where [simp]:
  "map_of (upd_where g f t) k = map_option (\<lambda>r. if g k r then f k r else r) (map_of t k)"
  by (simp add: upd_where_def map_of_map_key)

lemma keys_upd_where [simp]: "keys (upd_where g f t) = keys t"
  by (induction t) (auto simp: upd_where_def keys_def)

lemma keys_update_present: "map_of t k = Some r \<Longrightarrow> keys (AList.update k v t) = keys t"
  by (induction t) (auto simp: keys_def split: if_splits)

lemma keys_upd_row [simp]: "keys (fst (upd_row k g f t)) = keys t"
  by (auto simp: upd_row_def keys_update_present split: option.splits)

lemma pk_upd_where [simp]: "pk (upd_where g f t) = pk t"
  by (simp add: pk_def)

lemma pk_upd_row [simp]: "pk (fst (upd_row k g f t)) = pk t"
  by (simp add: pk_def)

lemma pk_update [simp]: "pk t \<Longrightarrow> pk (AList.update k v t)"
  by (simp add: pk_def keys_def distinct_update)

lemma map_of_del_where:
  "pk t \<Longrightarrow> map_of (del_where g t) k =
     (case map_of t k of None \<Rightarrow> None | Some r \<Rightarrow> if g k r then None else Some r)"
  by (induction t) (auto simp: del_where_def pk_def keys_def map_of_eq_None_iff split: option.splits
      dest: map_of_SomeD)

lemma pk_del_where [simp]: "pk t \<Longrightarrow> pk (del_where g t)"
  by (simp add: pk_def keys_def del_where_def distinct_map_filter)

lemma pk_Nil [simp]: "pk []"
  by (simp add: pk_def keys_def)

lemma in_sel_keys: "pk t \<Longrightarrow> k \<in> set (sel_keys g t) \<longleftrightarrow> (\<exists>r. map_of t k = Some r \<and> g k r)"
  by (force simp: sel_keys_def sel_where_def keys_def pk_def)

lemma exists_row_iff: "pk t \<Longrightarrow> exists_row g t \<longleftrightarrow> (\<exists>k r. map_of t k = Some r \<and> g k r)"
  by (force simp: exists_row_def list_ex_iff pk_def keys_def)

lemma upd_where_none: "(\<And>k r. (k, r) \<in> set t \<Longrightarrow> \<not> g k r) \<Longrightarrow> upd_where g f t = t"
  unfolding upd_where_def by (rule map_idI) auto

text \<open>A constraint on every row of a table.\<close>

definition rows_all :: "('r \<Rightarrow> bool) \<Rightarrow> ('k, 'r) table \<Rightarrow> bool" where
  "rows_all P t = list_all (\<lambda>x. P (snd x)) t"

lemma rows_all_simps [simp]:
  "rows_all P []" "rows_all P (x # t) \<longleftrightarrow> P (snd x) \<and> rows_all P t" "rows_all P (t @ u) \<longleftrightarrow> rows_all P t \<and> rows_all P u"
  by (simp_all add: rows_all_def)

lemma rows_all_lookup: "rows_all P t \<Longrightarrow> map_of t k = Some r \<Longrightarrow> P r"
  by (induction t) (auto split: if_splits)

lemma rows_all_update: "rows_all P t \<Longrightarrow> P r \<Longrightarrow> rows_all P (AList.update k r t)"
  by (induction t) auto

lemma rows_all_upd_row: "rows_all P t \<Longrightarrow> (\<And>r. P r \<Longrightarrow> g r \<Longrightarrow> P (f r)) \<Longrightarrow> rows_all P (fst (upd_row k g f t))"
  by (auto simp: upd_row_def dest: rows_all_lookup intro!: rows_all_update split: option.split)

lemma rows_all_upd_where:
  "rows_all P t \<Longrightarrow> (\<And>k r. P r \<Longrightarrow> g k r \<Longrightarrow> P (f k r)) \<Longrightarrow> rows_all P (upd_where g f t)"
  by (induction t) (auto simp: upd_where_def)

lemma rows_all_del_where: "rows_all P t \<Longrightarrow> rows_all P (del_where g t)"
  by (induction t) (auto simp: del_where_def)

section \<open>Suffixes: the last n elements of a slice\<close>

text \<open>Go's \<open>xs[len(xs)-n:]\<close>.\<close>

definition last_n :: "nat \<Rightarrow> 'a list \<Rightarrow> 'a list" where
  "last_n n xs = drop (length xs - n) xs"

lemma length_last_n [simp]: "length (last_n n xs) = min n (length xs)"
  by (simp add: last_n_def)

lemma last_n_all: "length xs \<le> n \<Longrightarrow> last_n n xs = xs"
  by (simp add: last_n_def)

lemma last_n_snoc: "0 < n \<Longrightarrow> last_n n (xs @ [x]) = last_n (n - 1) xs @ [x]"
  by (cases "n \<le> length xs") (auto simp: last_n_def Suc_diff_le)

lemma set_last_n: "set (last_n n xs) \<subseteq> set xs"
  by (simp add: last_n_def set_drop_subset)

section \<open>Errors\<close>

text \<open>
  The sentinel errors of \<open>internal/storage/errors.go\<close> and \<open>internal/service/lifecycle.go\<close>, the
  errors the services build in place, a database error (\<open>DbError\<close>: the statement failed and
  changed nothing), and Go panics.
\<close>

datatype error =
    ErrAlreadyExists
  | ErrNotFound
  | ErrInvalidLifecycleState
  | ErrDeletionAlreadyRequested
  | ErrSuspensionAlreadyRequested
  | ErrTenantHasWorkflows
  | ErrTenantDeleted
  | ErrMissingRuntimeParams
  | ErrInvalidWorkflowState
  | ErrNotInterrupted
  | ErrActivateMismatch
  | ErrInvalidRepeatInterval
  | ErrQueueFull
  | ErrOther string
  | DbError
  | ForeignKeyViolation
  | Panic

type_synonym 'a result = "error + 'a"

end
