(* ===== verification/Domain.thy ===== *)
theory Domain
  imports Prelude
begin

text \<open>
  The domain types of \<open>src/internal/domain\<close>: one record per Go struct, one datatype per Go string
  enumeration. Enumerations whose value reaches the server from outside (metric names, action types)
  keep a constructor for the strings the code does not name. A Go pointer, and a nullable column, is
  an option; a Go string that the code only ever compares with the empty string stays a string. The
  primary key of a row is the key of its table (theory Database) and is left out of its record.
\<close>

section \<open>Requests (customer\_request.go)\<close>

datatype request_status =
    RUnscheduled | RScheduled | RInProgress | RFailed | RCompleted | RSuperceded | RAbandoned | RPaused

datatype request_type = TCreate | TInvoke | THealthCheck

datatype run_outcome =
    Successful | CustomerMarked | UncaughtException | OperationTimeout | Interrupted | Suspended

record customer_request =
  r_workflow_id :: string
  r_status :: request_status
  r_type :: request_type
  r_info :: json_map
  r_version :: int
  r_run_outcome :: "run_outcome option"
  r_failure_reason :: string
  r_created_at :: timestamp
  r_completed_at :: "timestamp option"
  r_result :: "json_map option"

section \<open>Metrics\<close>

text \<open>The wire message \<open>AgentInvocationMetrics\<close>: int32 counters, each absent until emitted.\<close>

record agent_invocation_metrics =
  m_cost_usd :: "float64 option"
  m_llm_calls :: "int option"
  m_tokens_used :: "int option"
  m_latency_seconds :: "float64 option"
  m_failures :: "int option"
  m_approval_rejections :: "int option"
  m_tool_failure_counts :: "(string \<times> int) list"
  m_calls_per_tool :: "(string \<times> int) list"
  m_ran_at :: int

text \<open>A Go map from agent name to a pointer: a present key may hold nil.\<close>

type_synonym agent_metrics = "(string \<times> agent_invocation_metrics option) list"

record workflow_job_metrics =
  wm_failures :: int
  wm_approval_rejections :: "int option"

definition IsZero :: "workflow_job_metrics \<Rightarrow> bool" where
  "IsZero m = (m = \<lparr>wm_failures = 0, wm_approval_rejections = None\<rparr>)"

record workflow_invocation_snapshot =
  s_cost_usd :: "float64 option"
  s_llm_calls :: "int option"
  s_latency_seconds :: "float64 option"
  s_failures :: "int option"
  s_approval_rejections :: "int option"
  s_tool_failure_counts :: "(string \<times> int) list"
  s_ran_at :: int
  s_request_id :: string

record agent_invocation_snapshot =
  a_cost_usd :: "float64 option"
  a_llm_calls :: "int option"
  a_tokens_used :: "int option"
  a_latency_seconds :: "float64 option"
  a_failures :: "int option"
  a_approval_rejections :: "int option"
  a_tool_failure_counts :: "(string \<times> int) list"
  a_calls_per_tool :: "(string \<times> int) list"
  a_ran_at :: int
  a_request_id :: string

record workflow_version_metrics =
  v_workflow_id :: string
  v_version :: int
  v_epoch :: int
  v_total_cost :: float64
  v_run_count :: int
  v_total_failures :: int
  v_total_llm_calls :: int
  v_total_latency_seconds :: float64
  v_total_approval_rejections :: int
  v_tool_failure_counts :: "(string \<times> int) list"

record agent_state =
  as_runtime_policy :: "json_map option"
  as_lifecycle_policy :: "json_map option"
  as_invocation_metrics :: "agent_invocation_snapshot list"

section \<open>Lifecycle policy (workflow\_policy.go)\<close>

datatype workflow_metric =
    NumFailures | Cost | NumLLMCalls | Latency | ApprovalRejections | ToolFailureRate | OtherMetric string

datatype policy_action_type = Pause | Cooldown | SetVersion | OtherAction string

record policy_action =
  pa_type :: policy_action_type
  pa_cooldown_seconds :: int
  pa_target_version :: int

definition MaxLifecycleWindow :: int where
  "MaxLifecycleWindow = 100"

record policy_rule =
  pr_metric :: workflow_metric
  pr_threshold :: float64
  pr_window :: int
  pr_tool_name :: string
  pr_action :: policy_action

record lifecycle_policy =
  lp_rules :: "policy_rule list"

section \<open>Jobs (job.go)\<close>

datatype job_status =
    JPending | JDispatched | JRunning | JAwaitingNext | JAwaitingApproval | JApproved | JRejected
  | JAwaitingInput | JAnswered | JInputTimedOut | JCompleted | JFailed | JTerminalFailed

record next_operation =
  no_operation_name :: string
  no_context :: json_map
  no_timeout_seconds :: int

text \<open>\<open>ApprovalBranch\<close> and \<open>InputBranch\<close> have the same fields.\<close>

record gate_branch =
  gb_next :: "next_operation option"
  gb_result :: "json_map option"

record approval_gate_metadata =
  ag_on_approve :: gate_branch
  ag_on_reject :: gate_branch

record input_gate_metadata =
  ig_on_answer :: gate_branch
  ig_on_timeout :: gate_branch

record job_metadata =
  jm_approval_gate :: "approval_gate_metadata option"
  jm_input_gate :: "input_gate_metadata option"

text \<open>The approval_* and the input_* columns of a jobs row.\<close>

record approval_cols =
  ap_id :: "string option"
  ap_opened_at :: "timestamp option"
  ap_timeout_at :: "timestamp option"
  ap_justification :: string
  ap_metadata :: "json_map option"
  ap_reason :: string

record input_cols =
  in_id :: "string option"
  in_opened_at :: "timestamp option"
  in_timeout_at :: "timestamp option"
  in_prompt :: string
  in_metadata :: "json_map option"
  in_answer :: "json_map option"

record job =
  j_request_id :: string
  j_version :: int
  j_current_atomic_operation :: string
  j_context :: json_map
  j_status :: job_status
  j_job_type :: request_type
  j_workflow_type :: string
  j_timeout_seconds :: int
  j_workflow_version :: int
  j_agent_metrics :: agent_metrics
  j_workflow_metrics :: workflow_job_metrics
  j_result_type :: "run_outcome option"
  j_failure_reason :: string
  j_result :: "json_map option"
  j_attempts :: int
  j_owner :: "string option"
  j_lease_expires_at :: "timestamp option"
  j_abandon_requested_at :: "timestamp option"
  j_created_at :: timestamp
  j_job_metadata :: job_metadata
  j_approval :: approval_cols
  j_input :: input_cols
  j_tenant_group_id :: string
  j_dispatch_at :: "timestamp option"

text \<open>The read views the sweepers return.\<close>

record completed_job =
  cj_request_id :: string
  cj_workflow_id :: string
  cj_version :: int
  cj_request_type :: request_type
  cj_result_type :: run_outcome
  cj_failure_reason :: string
  cj_result :: "json_map option"

record failed_job =
  fj_request_id :: string
  fj_workflow_id :: string
  fj_version :: int
  fj_failure_reason :: string
  fj_attempts :: int

record resolved_gate =
  rg_request_id :: string
  rg_tenant_group_id :: string
  rg_opened_at :: "timestamp option"
  rg_detail :: string

record expired_gate =
  eg_workflow_id :: string
  eg_request_id :: string
  eg_tenant_group_id :: string
  eg_gate_id :: string
  eg_opened_at :: "timestamp option"
  eg_timed_out_at :: timestamp
  eg_detail :: string

section \<open>Workflows (workflow.go)\<close>

datatype lifecycle_state =
    LCreating | LActive | LScheduled | LBlocked | LInvoking | LAwaitingApproval | LAwaitingInput
  | LDeleted | LInterrupted | LHalted

text \<open>The empty string is a third value the code treats as coalesce.\<close>

datatype invoke_mode = ModeUnset | Coalesce | Queue

definition DefaultMaxQueueDepth :: int where
  "DefaultMaxQueueDepth = 1000"

record workflow_config =
  wc_invoke_timeout_seconds :: int
  wc_repeat_every_seconds :: int
  wc_triggerable :: bool
  wc_invoke_mode :: invoke_mode
  wc_max_queue_depth :: int
  wc_resumable :: bool

datatype workflow_state = WActive | WPaused | WCooldown | WDisabled | WSuspended

record suspension =
  su_id :: "string option"
  su_reason :: string
  su_stop_current :: bool
  su_requested_at :: "timestamp option"
  su_finalized_at :: "timestamp option"

definition no_suspension :: suspension where
  "no_suspension = \<lparr>su_id = None, su_reason = [], su_stop_current = False,
     su_requested_at = None, su_finalized_at = None\<rparr>"

record lifecycle_info =
  li_state :: lifecycle_state
  li_last_completed_request_at :: "timestamp option"
  li_last_interrupted_request_id :: string
  li_last_gate_id :: "string option"
  li_last_gate_detail :: string
  li_last_gate_metadata :: "json_map option"
  li_last_gate_opened_at :: "timestamp option"
  li_last_gate_timeout_at :: "timestamp option"

record workflow =
  w_tenant_id :: string
  w_workflow_type :: string
  w_config :: workflow_config
  w_lifecycle :: lifecycle_info
  w_state :: workflow_state
  w_lifecycle_policy :: lifecycle_policy
  w_invocation_metrics :: "workflow_invocation_snapshot list"
  w_cooldown_until :: "timestamp option"
  w_last_policy_decision_request_id :: string
  w_lifecycle_last_resolved :: int
  w_current_workflow_version :: int
  w_scheduler_partition_id :: string
  w_target_version :: int
  w_current_version :: int
  w_metrics_emitted_at :: int
  w_created_at :: timestamp
  w_deletion_requested_at :: "timestamp option"
  w_deletion_finalized_at :: "timestamp option"
  w_suspension :: suspension

abbreviation w_lifecycle_state :: "workflow \<Rightarrow> lifecycle_state" where
  "w_lifecycle_state w \<equiv> li_state (w_lifecycle w)"

definition set_lifecycle_state :: "lifecycle_state \<Rightarrow> workflow \<Rightarrow> workflow" where
  "set_lifecycle_state s w = w\<lparr>w_lifecycle := (w_lifecycle w)\<lparr>li_state := s\<rparr>\<rparr>"

record pending_gate =
  pg_id :: string
  pg_detail :: string
  pg_metadata :: "json_map option"
  pg_opened_at :: "timestamp option"
  pg_timeout_at :: "timestamp option"

definition gate_of :: "lifecycle_info \<Rightarrow> string \<Rightarrow> pending_gate" where
  "gate_of l i = \<lparr>pg_id = i, pg_detail = li_last_gate_detail l, pg_metadata = li_last_gate_metadata l,
     pg_opened_at = li_last_gate_opened_at l, pg_timeout_at = li_last_gate_timeout_at l\<rparr>"

definition PendingApproval :: "lifecycle_info \<Rightarrow> pending_gate option" where
  "PendingApproval l = (if li_state l \<noteq> LAwaitingApproval then None
     else map_option (gate_of l) (li_last_gate_id l))"

definition PendingInput :: "lifecycle_info \<Rightarrow> pending_gate option" where
  "PendingInput l = (if li_state l \<noteq> LAwaitingInput then None
     else map_option (gate_of l) (li_last_gate_id l))"

section \<open>Tenants, partitions, API keys and pricing\<close>

record policy_set =
  ps_max_concurrent_operations :: int
  ps_enable_rollback :: bool
  ps_max_retries :: int
  ps_initial_backoff :: int
  ps_max_backoff :: int
  ps_backoff_multiplier :: float64
  ps_windows :: "(string \<times> int) list"
  ps_auto_pause :: bool
  ps_bake_time :: int
  ps_operation_timeout_seconds :: int

record tenant_group =
  tg_name :: string
  tg_policies :: policy_set
  tg_created_at :: timestamp

record tenant =
  t_name :: string
  t_tenant_group_id :: string
  t_policy_overrides :: "policy_set option"
  t_created_at :: timestamp
  t_deleted_at :: "timestamp option"
  t_workflow_count :: int
  t_scheduler_partition_id :: string

record scheduler_partition =
  p_workflow_count :: int
  p_owner :: "string option"
  p_lease_until :: "timestamp option"

record api_key =
  k_key_hash :: string
  k_tenant_group_id :: string
  k_created_at :: timestamp
  k_revoked_at :: "timestamp option"

record model_pricing =
  mp_model_id :: string
  mp_input_per_1m :: float64
  mp_output_per_1m :: float64

section \<open>Audit events (audit.go, agent\_policy.go)\<close>

datatype audit_event_type = EvApproval | EvPolicyAction | EvAgentPolicyAction | EvInput

datatype approval_decision = Approved | Rejected | ApprovalTimedOut

datatype input_decision = Answered | InputTimedOut

record approval_audit_details =
  ad_approval_id :: string
  ad_opened_at :: "timestamp option"
  ad_decided_at :: "timestamp option"
  ad_decision :: approval_decision
  ad_justification :: string
  ad_reason :: string

record input_audit_details =
  id_input_id :: string
  id_opened_at :: "timestamp option"
  id_decided_at :: "timestamp option"
  id_decision :: input_decision
  id_answer :: "json_map option"
  id_prompt :: string

record policy_action_details =
  pd_rule :: policy_rule
  pd_trigger_value :: float64
  pd_previous_version :: int
  pd_previous_state :: workflow_state

record agent_runtime_policy =
  rp_model :: string
  rp_max_llm_calls :: int
  rp_max_cost_usd :: float64
  rp_max_tokens_per_call :: int
  rp_max_call_seconds :: float64
  rp_tool_call_limits :: "(string \<times> int) list"

record agent_rule_action =
  ra_field :: string
  ra_model :: string
  ra_max_llm_calls :: int
  ra_max_cost_usd :: float64
  ra_max_tokens_per_call :: int

record agent_rule =
  ar_metric :: string
  ar_op :: string
  ar_threshold :: float64
  ar_window :: int
  ar_tool :: string
  ar_action :: agent_rule_action

record agent_policy_action_details =
  apd_agent :: string
  apd_base_policy :: agent_runtime_policy
  apd_effective_policy :: agent_runtime_policy
  apd_fired_rules :: "(agent_rule \<times> float64) list"

datatype audit_details =
    DApproval approval_audit_details
  | DInput input_audit_details
  | DPolicy policy_action_details
  | DAgentPolicy agent_policy_action_details

record audit_event =
  ae_tenant_group_id :: string
  ae_workflow_id :: string
  ae_request_id :: string
  ae_event_type :: audit_event_type
  ae_actor :: string
  ae_occurred_at :: timestamp
  ae_details :: audit_details

text \<open>
  The typed payload is decoded according to the event type; asking for the wrong one is an error.
  A payload of another shape than its event type stands for JSON that does not decode.
\<close>

definition ApprovalDetails :: "audit_event \<Rightarrow> approval_audit_details result" where
  "ApprovalDetails e =
     (if ae_event_type e \<noteq> EvApproval then Inl (ErrOther ''not an approval event'')
      else case ae_details e of DApproval d \<Rightarrow> Inr d | _ \<Rightarrow> Inl (ErrOther ''unmarshal''))"

definition InputDetails :: "audit_event \<Rightarrow> input_audit_details result" where
  "InputDetails e =
     (if ae_event_type e \<noteq> EvInput then Inl (ErrOther ''not an input event'')
      else case ae_details e of DInput d \<Rightarrow> Inr d | _ \<Rightarrow> Inl (ErrOther ''unmarshal''))"

definition PolicyDetails :: "audit_event \<Rightarrow> policy_action_details result" where
  "PolicyDetails e =
     (if ae_event_type e \<noteq> EvPolicyAction then Inl (ErrOther ''not a policy_action event'')
      else case ae_details e of DPolicy d \<Rightarrow> Inr d | _ \<Rightarrow> Inl (ErrOther ''unmarshal''))"

definition AgentPolicyDetails :: "audit_event \<Rightarrow> agent_policy_action_details result" where
  "AgentPolicyDetails e =
     (if ae_event_type e \<noteq> EvAgentPolicyAction then Inl (ErrOther ''not an agent_policy_action event'')
      else case ae_details e of DAgentPolicy d \<Rightarrow> Inr d | _ \<Rightarrow> Inl (ErrOther ''unmarshal''))"

end
