(* ===== verification/Database.thy ===== *)
theory Database
  imports Domain
begin

text \<open>
  The Postgres database of \<open>src/migrations\<close> as one record of tables, each an association list from
  primary key to row. Every repository operation is one atomic function on this state; the foreign
  keys the code relies on are written out where a statement can violate them. \<open>audit_events\<close> is an
  append-only list, newest last.
\<close>

record db =
  db_groups :: "(string, tenant_group) table"
  db_tenants :: "(string, tenant) table"
  db_workflows :: "(string, workflow) table"
  db_requests :: "(string, customer_request) table"
  db_jobs :: "(string, job) table"
  db_partitions :: "(string, scheduler_partition) table"
  db_agent_state :: "(string \<times> string, agent_state) table"
  db_version_metrics :: "(string \<times> int \<times> int, workflow_version_metrics) table"
  db_api_keys :: "(string, api_key) table"
  db_default_pricing :: "(string, model_pricing) table"
  db_pricing :: "(string \<times> string, model_pricing) table"
  db_audit :: "(string \<times> audit_event) list"

text \<open>All tables satisfy their primary-key constraint.\<close>

definition db_pk :: "db \<Rightarrow> bool" where
  "db_pk d = (pk (db_groups d) \<and> pk (db_tenants d) \<and> pk (db_workflows d) \<and> pk (db_requests d) \<and>
     pk (db_jobs d) \<and> pk (db_partitions d) \<and> pk (db_agent_state d) \<and> pk (db_version_metrics d) \<and>
     pk (db_api_keys d) \<and> pk (db_default_pricing d) \<and> pk (db_pricing d))"

abbreviation wf_of :: "db \<Rightarrow> string \<Rightarrow> workflow option" where
  "wf_of d \<equiv> map_of (db_workflows d)"

abbreviation job_of :: "db \<Rightarrow> string \<Rightarrow> job option" where
  "job_of d \<equiv> map_of (db_jobs d)"

abbreviation req_of :: "db \<Rightarrow> string \<Rightarrow> customer_request option" where
  "req_of d \<equiv> map_of (db_requests d)"

text \<open>\<open>workflow_id IN (SELECT id FROM workflows WHERE scheduler_partition_id = $1)\<close>.\<close>

definition in_partition :: "db \<Rightarrow> string \<Rightarrow> string \<Rightarrow> bool" where
  "in_partition d p w = (case wf_of d w of None \<Rightarrow> False | Some r \<Rightarrow> w_scheduler_partition_id r = p)"

text \<open>\<open>UPDATE jobs / workflows / customer_requests .. WHERE pk = k AND guard\<close>.\<close>

definition upd_job :: "string \<Rightarrow> (job \<Rightarrow> bool) \<Rightarrow> (job \<Rightarrow> job) \<Rightarrow> db \<Rightarrow> db \<times> bool" where
  "upd_job k g f d = (case upd_row k g f (db_jobs d) of (t, b) \<Rightarrow> (d\<lparr>db_jobs := t\<rparr>, b))"

definition upd_wf :: "string \<Rightarrow> (workflow \<Rightarrow> bool) \<Rightarrow> (workflow \<Rightarrow> workflow) \<Rightarrow> db \<Rightarrow> db \<times> bool" where
  "upd_wf k g f d = (case upd_row k g f (db_workflows d) of (t, b) \<Rightarrow> (d\<lparr>db_workflows := t\<rparr>, b))"

definition upd_req :: "string \<Rightarrow> (customer_request \<Rightarrow> bool) \<Rightarrow> (customer_request \<Rightarrow> customer_request) \<Rightarrow>
    db \<Rightarrow> db \<times> bool" where
  "upd_req k g f d = (case upd_row k g f (db_requests d) of (t, b) \<Rightarrow> (d\<lparr>db_requests := t\<rparr>, b))"

definition upd_reqs :: "(string \<Rightarrow> customer_request \<Rightarrow> bool) \<Rightarrow> (customer_request \<Rightarrow> customer_request) \<Rightarrow> db \<Rightarrow> db" where
  "upd_reqs g f d = d\<lparr>db_requests := upd_where g (\<lambda>_. f) (db_requests d)\<rparr>"

definition upd_jobs :: "(string \<Rightarrow> job \<Rightarrow> bool) \<Rightarrow> (job \<Rightarrow> job) \<Rightarrow> db \<Rightarrow> db" where
  "upd_jobs g f d = d\<lparr>db_jobs := upd_where g (\<lambda>_. f) (db_jobs d)\<rparr>"

definition upd_wfs :: "(string \<Rightarrow> workflow \<Rightarrow> bool) \<Rightarrow> (workflow \<Rightarrow> workflow) \<Rightarrow> db \<Rightarrow> db" where
  "upd_wfs g f d = d\<lparr>db_workflows := upd_where g (\<lambda>_. f) (db_workflows d)\<rparr>"

subsection \<open>What a single-row update does to each table\<close>

lemma snd_upd_job: "snd (upd_job k g f d) \<longleftrightarrow> (\<exists>j. job_of d k = Some j \<and> g j)"
  by (simp add: upd_job_def upd_row_hit case_prod_unfold)

lemma snd_upd_wf: "snd (upd_wf k g f d) \<longleftrightarrow> (\<exists>w. wf_of d k = Some w \<and> g w)"
  by (simp add: upd_wf_def upd_row_hit case_prod_unfold)

lemma snd_upd_req: "snd (upd_req k g f d) \<longleftrightarrow> (\<exists>r. req_of d k = Some r \<and> g r)"
  by (simp add: upd_req_def upd_row_hit case_prod_unfold)

lemma upd_job_miss: "\<not> snd (upd_job k g f d) \<Longrightarrow> fst (upd_job k g f d) = d"
  by (simp add: upd_job_def upd_row_miss case_prod_unfold)

lemma upd_wf_miss: "\<not> snd (upd_wf k g f d) \<Longrightarrow> fst (upd_wf k g f d) = d"
  by (simp add: upd_wf_def upd_row_miss case_prod_unfold)

lemma upd_req_miss: "\<not> snd (upd_req k g f d) \<Longrightarrow> fst (upd_req k g f d) = d"
  by (simp add: upd_req_def upd_row_miss case_prod_unfold)

lemma upd_job_blocked: "(\<And>j. job_of d k = Some j \<Longrightarrow> \<not> g j) \<Longrightarrow> upd_job k g f d = (d, False)"
  by (auto simp: prod_eq_iff snd_upd_job intro!: upd_job_miss)

lemma upd_wf_blocked: "(\<And>w. wf_of d k = Some w \<Longrightarrow> \<not> g w) \<Longrightarrow> upd_wf k g f d = (d, False)"
  by (auto simp: prod_eq_iff snd_upd_wf intro!: upd_wf_miss)

lemma upd_req_blocked: "(\<And>r. req_of d k = Some r \<Longrightarrow> \<not> g r) \<Longrightarrow> upd_req k g f d = (d, False)"
  by (auto simp: prod_eq_iff snd_upd_req intro!: upd_req_miss)

lemma job_upd_job:
  "job_of (fst (upd_job k g f d)) k' =
     (if k' = k then map_option (\<lambda>j. if g j then f j else j) (job_of d k) else job_of d k')"
  by (simp add: upd_job_def case_prod_unfold map_of_upd_row)

lemma wf_upd_wf:
  "wf_of (fst (upd_wf k g f d)) k' =
     (if k' = k then map_option (\<lambda>w. if g w then f w else w) (wf_of d k) else wf_of d k')"
  by (simp add: upd_wf_def case_prod_unfold map_of_upd_row)

lemma req_upd_req:
  "req_of (fst (upd_req k g f d)) k' =
     (if k' = k then map_option (\<lambda>r. if g r then f r else r) (req_of d k) else req_of d k')"
  by (simp add: upd_req_def case_prod_unfold map_of_upd_row)

lemma upd_job_other [simp]:
  "db_workflows (fst (upd_job k g f d)) = db_workflows d"
  "db_requests (fst (upd_job k g f d)) = db_requests d"
  "db_tenants (fst (upd_job k g f d)) = db_tenants d"
  "db_partitions (fst (upd_job k g f d)) = db_partitions d"
  "db_version_metrics (fst (upd_job k g f d)) = db_version_metrics d"
  "db_agent_state (fst (upd_job k g f d)) = db_agent_state d"
  "db_audit (fst (upd_job k g f d)) = db_audit d"
  by (simp_all add: upd_job_def case_prod_unfold)

lemma upd_wf_other [simp]:
  "db_jobs (fst (upd_wf k g f d)) = db_jobs d"
  "db_requests (fst (upd_wf k g f d)) = db_requests d"
  "db_tenants (fst (upd_wf k g f d)) = db_tenants d"
  "db_partitions (fst (upd_wf k g f d)) = db_partitions d"
  "db_version_metrics (fst (upd_wf k g f d)) = db_version_metrics d"
  "db_agent_state (fst (upd_wf k g f d)) = db_agent_state d"
  "db_audit (fst (upd_wf k g f d)) = db_audit d"
  by (simp_all add: upd_wf_def case_prod_unfold)

lemma upd_req_other [simp]:
  "db_jobs (fst (upd_req k g f d)) = db_jobs d"
  "db_workflows (fst (upd_req k g f d)) = db_workflows d"
  "db_tenants (fst (upd_req k g f d)) = db_tenants d"
  "db_partitions (fst (upd_req k g f d)) = db_partitions d"
  "db_version_metrics (fst (upd_req k g f d)) = db_version_metrics d"
  "db_agent_state (fst (upd_req k g f d)) = db_agent_state d"
  "db_audit (fst (upd_req k g f d)) = db_audit d"
  by (simp_all add: upd_req_def case_prod_unfold)

lemma upd_many_simps [simp]:
  "db_jobs (upd_reqs g f d) = db_jobs d"
  "db_workflows (upd_reqs g f d) = db_workflows d"
  "db_tenants (upd_reqs g f d) = db_tenants d"
  "db_requests (upd_jobs h u d) = db_requests d"
  "db_workflows (upd_jobs h u d) = db_workflows d"
  "db_tenants (upd_jobs h u d) = db_tenants d"
  "db_requests (upd_wfs a b d) = db_requests d"
  "db_jobs (upd_wfs a b d) = db_jobs d"
  "db_tenants (upd_wfs a b d) = db_tenants d"
  by (simp_all add: upd_reqs_def upd_jobs_def upd_wfs_def)

lemma req_upd_reqs: "req_of (upd_reqs g f d) k = map_option (\<lambda>r. if g k r then f r else r) (req_of d k)"
  by (simp add: upd_reqs_def)

lemma job_upd_jobs: "job_of (upd_jobs g f d) k = map_option (\<lambda>r. if g k r then f r else r) (job_of d k)"
  by (simp add: upd_jobs_def)

lemma wf_upd_wfs: "wf_of (upd_wfs g f d) k = map_option (\<lambda>r. if g k r then f r else r) (wf_of d k)"
  by (simp add: upd_wfs_def)

lemmas db_rows [row_simps] = job_upd_job wf_upd_wf req_upd_req req_upd_reqs job_upd_jobs wf_upd_wfs
  snd_upd_job snd_upd_wf snd_upd_req

lemma db_pk_upd [simp]:
  "db_pk d \<Longrightarrow> db_pk (fst (upd_job k g f d))"
  "db_pk d \<Longrightarrow> db_pk (fst (upd_wf k h u d))"
  "db_pk d \<Longrightarrow> db_pk (fst (upd_req k a b d))"
  "db_pk d \<Longrightarrow> db_pk (upd_reqs rg rf d)"
  "db_pk d \<Longrightarrow> db_pk (upd_jobs jg jf d)"
  "db_pk d \<Longrightarrow> db_pk (upd_wfs wg wu d)"
  by (simp_all add: db_pk_def upd_job_def upd_wf_def upd_req_def upd_reqs_def upd_jobs_def upd_wfs_def
      case_prod_unfold)

section \<open>Sample rows for the witnesses\<close>

definition empty_db :: db where
  "empty_db = \<lparr>db_groups = [], db_tenants = [], db_workflows = [], db_requests = [], db_jobs = [],
     db_partitions = [], db_agent_state = [], db_version_metrics = [], db_api_keys = [],
     db_default_pricing = [], db_pricing = [], db_audit = []\<rparr>"

definition sample_policies :: policy_set where
  "sample_policies = \<lparr>ps_max_concurrent_operations = 0, ps_enable_rollback = False, ps_max_retries = 0,
     ps_initial_backoff = 0, ps_max_backoff = 0, ps_backoff_multiplier = 0, ps_windows = [],
     ps_auto_pause = False, ps_bake_time = 0, ps_operation_timeout_seconds = 0\<rparr>"

definition sample_tenant :: tenant where
  "sample_tenant = \<lparr>t_name = ''t'', t_tenant_group_id = ''g'', t_policy_overrides = None, t_created_at = 0,
     t_deleted_at = None, t_workflow_count = 1, t_scheduler_partition_id = ''0''\<rparr>"

definition sample_wf :: workflow where
  "sample_wf = \<lparr>w_tenant_id = ''t'', w_workflow_type = ''T'',
     w_config = \<lparr>wc_invoke_timeout_seconds = 60, wc_repeat_every_seconds = 0, wc_triggerable = True,
       wc_invoke_mode = Coalesce, wc_max_queue_depth = 0, wc_resumable = False\<rparr>,
     w_lifecycle = \<lparr>li_state = LInvoking, li_last_completed_request_at = None, li_last_interrupted_request_id = [],
       li_last_gate_id = None, li_last_gate_detail = [], li_last_gate_metadata = None,
       li_last_gate_opened_at = None, li_last_gate_timeout_at = None\<rparr>,
     w_state = WActive, w_lifecycle_policy = \<lparr>lp_rules = []\<rparr>, w_invocation_metrics = [], w_cooldown_until = None,
     w_last_policy_decision_request_id = [], w_lifecycle_last_resolved = 0, w_current_workflow_version = 1,
     w_scheduler_partition_id = ''0'', w_target_version = 1, w_current_version = 0, w_metrics_emitted_at = 0,
     w_created_at = 0, w_deletion_requested_at = None, w_deletion_finalized_at = None, w_suspension = no_suspension\<rparr>"

definition sample_req :: "request_status \<Rightarrow> int \<Rightarrow> customer_request" where
  "sample_req s v = \<lparr>r_workflow_id = ''w'', r_status = s, r_type = TInvoke, r_info = [], r_version = v,
     r_run_outcome = None, r_failure_reason = [], r_created_at = 0, r_completed_at = None, r_result = None\<rparr>"

definition sample_job :: "job_status \<Rightarrow> string option \<Rightarrow> timestamp option \<Rightarrow> job" where
  "sample_job s ow e = \<lparr>j_request_id = ''r1'', j_version = 1, j_current_atomic_operation = ''op'', j_context = [],
     j_status = s, j_job_type = TInvoke, j_workflow_type = ''T'', j_timeout_seconds = 60, j_workflow_version = 1,
     j_agent_metrics = [], j_workflow_metrics = \<lparr>wm_failures = 0, wm_approval_rejections = None\<rparr>,
     j_result_type = None, j_failure_reason = [], j_result = None, j_attempts = 0, j_owner = ow,
     j_lease_expires_at = e, j_abandon_requested_at = None, j_created_at = 0,
     j_job_metadata = \<lparr>jm_approval_gate = None, jm_input_gate = None\<rparr>,
     j_approval = \<lparr>ap_id = None, ap_opened_at = None, ap_timeout_at = None, ap_justification = [],
       ap_metadata = None, ap_reason = []\<rparr>,
     j_input = \<lparr>in_id = None, in_opened_at = None, in_timeout_at = None, in_prompt = [], in_metadata = None,
       in_answer = None\<rparr>,
     j_tenant_group_id = ''g'', j_dispatch_at = None\<rparr>"

text \<open>One tenant, one workflow \<open>w\<close>, one request \<open>r1\<close> and its job.\<close>

definition sample_db :: "request_status \<Rightarrow> job \<Rightarrow> db" where
  "sample_db s j = empty_db\<lparr>db_tenants := [(''t'', sample_tenant)], db_workflows := [(''w'', sample_wf)],
     db_requests := [(''r1'', sample_req s 1)], db_jobs := [(''w'', j)]\<rparr>"

lemmas sample_row_defs = empty_db_def sample_policies_def sample_tenant_def sample_wf_def sample_req_def
  sample_job_def sample_db_def

end
