(* ===== verification/VersionGate.thy ===== *)
theory VersionGate
  imports Prelude
begin

text \<open>
  Many writes of the system are made idempotent by a version column: the statement only takes effect
  when the column is smaller than the version it carries, and then sets the column to that version.
  The contract is a locale over the state and the gate column; completing a run, failing a run,
  emitting its metrics and resolving its policy all interpret it.
\<close>

fun run_gated :: "('a \<Rightarrow> int \<Rightarrow> 's \<Rightarrow> 's \<times> bool) \<Rightarrow> ('a \<times> int) list \<Rightarrow> 's \<Rightarrow> 's \<times> int list" where
  "run_gated ap [] s = (s, [])"
| "run_gated ap ((a, v) # xs) s =
     (case ap a v s of (s', ok) \<Rightarrow>
        (case run_gated ap xs s' of (s'', vs) \<Rightarrow> (s'', if ok then v # vs else vs)))"

locale version_gate =
  fixes apply_at :: "'a \<Rightarrow> int \<Rightarrow> 's \<Rightarrow> 's \<times> bool"
    and gate :: "'s \<Rightarrow> int option"
  assumes miss: "\<not> snd (apply_at a v s) \<Longrightarrow> fst (apply_at a v s) = s"
    and hit: "snd (apply_at a v s) \<Longrightarrow> (\<exists>g. gate s = Some g \<and> g < v) \<and> gate (fst (apply_at a v s)) = Some v"
begin

lemma stale: "gate s = Some g \<Longrightarrow> v \<le> g \<Longrightarrow> apply_at a v s = (s, False)"
  using hit [of a v s] miss [of a v s] by (cases "apply_at a v s") fastforce

lemma idempotent: "apply_at a v s = (s', True) \<Longrightarrow> apply_at b v s' = (s', False)"
  using hit [of a v s] by (simp add: stale)

lemma gate_mono:
  "gate s = Some g \<Longrightarrow> \<exists>g'. gate (fst (apply_at a v s)) = Some g' \<and> g \<le> g'"
  using hit [of a v s] miss [of a v s] by (cases "snd (apply_at a v s)") fastforce+

lemma run_gated_increasing:
  "gate s = Some g \<Longrightarrow> run_gated apply_at xs s = (s', vs) \<Longrightarrow> sorted_wrt (<) vs \<and> (\<forall>v\<in>set vs. g < v)"
proof (induction xs arbitrary: s g s' vs)
  case (Cons x xs)
  obtain a v where x: "x = (a, v)" by (cases x)
  obtain s1 ok where s1: "apply_at a v s = (s1, ok)" by (cases "apply_at a v s")
  obtain s2 vs' where s2: "run_gated apply_at xs s1 = (s2, vs')" by (cases "run_gated apply_at xs s1")
  show ?case
  proof (cases ok)
    case True
    then have "g < v" "gate s1 = Some v" using hit [of a v s] s1 Cons.prems(1) by auto
    then show ?thesis using Cons.IH [OF _ s2] Cons.prems(2) x s1 s2 True by fastforce
  next
    case False
    then have "s1 = s" using miss [of a v s] s1 by simp
    then show ?thesis using Cons.IH [OF Cons.prems(1)] Cons.prems(2) x s1 s2 False by simp
  qed
qed simp

lemma each_version_once:
  "gate s = Some g \<Longrightarrow> run_gated apply_at xs s = (s', vs) \<Longrightarrow> distinct vs"
  using run_gated_increasing strict_sorted_iff by blast

end

end
