(* ===== verification/WorkflowRepo.thy ===== *)
theory WorkflowRepo
  imports Database VersionGate
begin

text \<open>
  The workflows repository, \<open>src/internal/storage/postgres/workflow.go\<close>: creation, the suspension and
  deletion protocols, the version-gated writes that finish a run, and the metrics epochs. Statements
  that touch several tables, and transactions, are one atomic function.
\<close>

section \<open>Creating and reading\<close>

text \<open>
  The insert reserves the tenant in the same statement. A primary-key violation rolls the reservation
  back (ErrAlreadyExists); no live tenant is ErrNotFound or ErrTenantDeleted.
\<close>

definition workflow_Create :: "string \<Rightarrow> workflow \<Rightarrow> timestamp \<Rightarrow> db \<Rightarrow> db \<times> workflow result" where
  "workflow_Create i w now d =
     (case map_of (db_tenants d) (w_tenant_id w) of
        None \<Rightarrow> (d, Inl ErrNotFound)
      | Some t \<Rightarrow>
          if t_deleted_at t \<noteq> None then (d, Inl ErrTenantDeleted)
          else if wf_of d i \<noteq> None then (d, Inl ErrAlreadyExists)
          else let row = w\<lparr>w_created_at := now, w_invocation_metrics := [], w_cooldown_until := None,
                   w_last_policy_decision_request_id := [], w_lifecycle_last_resolved := 0,
                   w_target_version := 0, w_current_version := 0, w_metrics_emitted_at := 0,
                   w_deletion_requested_at := None, w_deletion_finalized_at := None,
                   w_suspension := no_suspension,
                   w_lifecycle := (w_lifecycle w)\<lparr>li_last_interrupted_request_id := [], li_last_gate_id := None,
                     li_last_gate_detail := [], li_last_gate_metadata := None, li_last_gate_opened_at := None,
                     li_last_gate_timeout_at := None\<rparr>\<rparr>
               in (d\<lparr>db_tenants := AList.update (w_tenant_id w) (t\<lparr>t_workflow_count := t_workflow_count t + 1\<rparr>) (db_tenants d),
                     db_workflows := db_workflows d @ [(i, row)]\<rparr>,
                   Inr (w\<lparr>w_created_at := now\<rparr>)))"

text \<open>
  \<open>Get\<close> sorts the run history by its timestamps; columns that the Go struct lacks
  (\<open>metrics_emitted_at\<close>, \<open>deletion_finalized_at\<close>) ride along unread.
\<close>

definition workflow_Get :: "string \<Rightarrow> db \<Rightarrow> workflow result" where
  "workflow_Get i d =
     (case wf_of d i of
        None \<Rightarrow> Inl ErrNotFound
      | Some w \<Rightarrow> Inr (w\<lparr>w_invocation_metrics := sort_key s_ran_at (w_invocation_metrics w)\<rparr>))"

definition TenantGroupIDForWorkflow :: "string \<Rightarrow> db \<Rightarrow> string result" where
  "TenantGroupIDForWorkflow i d =
     (case wf_of d i of
        None \<Rightarrow> Inl ErrNotFound
      | Some w \<Rightarrow> (case map_of (db_tenants d) (w_tenant_id w) of
                     None \<Rightarrow> Inl ErrNotFound | Some t \<Rightarrow> Inr (t_tenant_group_id t)))"

text \<open>\<open>ORDER BY created_at DESC\<close>: a stable sort on the negated timestamp.\<close>

definition workflow_ListForTenantGroup :: "string \<Rightarrow> db \<Rightarrow> (string \<times> workflow) list" where
  "workflow_ListForTenantGroup g d =
     sort_key (\<lambda>x. - w_created_at (snd x))
       (sel_where (\<lambda>_ w. case map_of (db_tenants d) (w_tenant_id w) of None \<Rightarrow> False | Some t \<Rightarrow> t_tenant_group_id t = g)
         (db_workflows d))"

section \<open>Single-column writes\<close>

definition UpdateLifecycleState :: "string \<Rightarrow> lifecycle_state \<Rightarrow> db \<Rightarrow> db" where
  "UpdateLifecycleState i s d = fst (upd_wf i (\<lambda>_. True) (set_lifecycle_state s) d)"

definition UpdateLifecyclePolicy :: "string \<Rightarrow> lifecycle_policy \<Rightarrow> db \<Rightarrow> db" where
  "UpdateLifecyclePolicy i p d = fst (upd_wf i (\<lambda>_. True) (\<lambda>w. w\<lparr>w_lifecycle_policy := p\<rparr>) d)"

definition UpdateCurrentVersion :: "string \<Rightarrow> int \<Rightarrow> db \<Rightarrow> db" where
  "UpdateCurrentVersion i v d = fst (upd_wf i (\<lambda>_. True) (\<lambda>w. w\<lparr>w_current_version := v\<rparr>) d)"

definition UpdateSchedulerPartition :: "string \<Rightarrow> string \<Rightarrow> db \<Rightarrow> db" where
  "UpdateSchedulerPartition i p d = fst (upd_wf i (\<lambda>_. True) (\<lambda>w. w\<lparr>w_scheduler_partition_id := p\<rparr>) d)"

definition UpdateLastCompletedRequestAt :: "string \<Rightarrow> timestamp \<Rightarrow> db \<Rightarrow> db" where
  "UpdateLastCompletedRequestAt i t d =
     fst (upd_wf i (\<lambda>_. True) (\<lambda>w. w\<lparr>w_lifecycle := (w_lifecycle w)\<lparr>li_last_completed_request_at := Some t\<rparr>\<rparr>) d)"

definition IncrementTargetVersion :: "string \<Rightarrow> db \<Rightarrow> db \<times> int result" where
  "IncrementTargetVersion i d =
     (case wf_of d i of
        None \<Rightarrow> (d, Inl (ErrOther ''increment target version''))
      | Some w \<Rightarrow> (fst (upd_wf i (\<lambda>_. True) (\<lambda>w. w\<lparr>w_target_version := w_target_version w + 1\<rparr>) d),
                   Inr (w_target_version w + 1)))"

definition UpdateLifecycleStateAndIncrementVersion ::
  "string \<Rightarrow> lifecycle_state \<Rightarrow> lifecycle_state list \<Rightarrow> db \<Rightarrow> db \<times> int result" where
  "UpdateLifecycleStateAndIncrementVersion i s invalid d =
     (case wf_of d i of
        None \<Rightarrow> (d, Inl ErrNotFound)
      | Some w \<Rightarrow>
          if w_lifecycle_state w \<in> set invalid then (d, Inl ErrInvalidLifecycleState)
          else (fst (upd_wf i (\<lambda>_. True) (\<lambda>w. set_lifecycle_state s (w\<lparr>w_target_version := w_target_version w + 1\<rparr>)) d),
                Inr (w_target_version w + 1)))"

definition StartInvocationAndIncrementVersion :: "string \<Rightarrow> lifecycle_state list \<Rightarrow> db \<Rightarrow> db \<times> int result" where
  "StartInvocationAndIncrementVersion i invalid d = UpdateLifecycleStateAndIncrementVersion i LInvoking invalid d"

section \<open>Metrics epochs and configuration\<close>

definition zero_version_metrics :: "string \<Rightarrow> int \<Rightarrow> int \<Rightarrow> workflow_version_metrics" where
  "zero_version_metrics i ver ep = \<lparr>v_workflow_id = i, v_version = ver, v_epoch = ep, v_total_cost = 0, v_run_count = 0,
     v_total_failures = 0, v_total_llm_calls = 0, v_total_latency_seconds = 0, v_total_approval_rejections = 0,
     v_tool_failure_counts = []\<rparr>"

text \<open>\<open>COALESCE(MAX(epoch), 0)\<close> of a workflow version.\<close>

definition max_epoch :: "string \<Rightarrow> int \<Rightarrow> db \<Rightarrow> int" where
  "max_epoch i ver d = (case [e. (w, v, e) \<leftarrow> keys (db_version_metrics d), w = i \<and> v = ver] of
     [] \<Rightarrow> 0 | e # es \<Rightarrow> fold max es e)"

definition startNewMetricsEpoch :: "string \<Rightarrow> int \<Rightarrow> db \<Rightarrow> db" where
  "startNewMetricsEpoch i ver d =
     (let ep = max_epoch i ver d + 1
      in d\<lparr>db_version_metrics := db_version_metrics d @ [((i, ver, ep), zero_version_metrics i ver ep)]\<rparr>)"

definition UpdateConfig :: "string \<Rightarrow> workflow_config \<Rightarrow> int \<Rightarrow> db \<Rightarrow> db \<times> unit result" where
  "UpdateConfig i cfg ver d =
     (case wf_of d i of
        None \<Rightarrow> (d, Inl (ErrOther ''lock workflow for config update''))
      | Some w \<Rightarrow>
          (let d1 = fst (upd_wf i (\<lambda>_. True) (\<lambda>w. w\<lparr>w_current_workflow_version := ver, w_config := cfg\<rparr>) d)
           in (if w_current_workflow_version w \<noteq> ver then startNewMetricsEpoch i ver d1 else d1, Inr ())))"

section \<open>Deletion\<close>

definition MarkDeletionRequested :: "string \<Rightarrow> timestamp \<Rightarrow> db \<Rightarrow> db \<times> unit result" where
  "MarkDeletionRequested i now d =
     (case upd_wf i (\<lambda>w. w_deletion_requested_at w = None)
             (\<lambda>w. w\<lparr>w_state := WDisabled, w_deletion_requested_at := Some now\<rparr>) d of
        (d', hit) \<Rightarrow> (d', if hit then Inr () else Inl ErrDeletionAlreadyRequested))"

definition FinalizeDeleted :: "string \<Rightarrow> timestamp \<Rightarrow> db \<Rightarrow> db" where
  "FinalizeDeleted i now d =
     (case wf_of d i of
        None \<Rightarrow> d
      | Some w \<Rightarrow>
          if w_lifecycle_state w = LDeleted then d
          else let d1 = fst (upd_wf i (\<lambda>_. True)
                      (\<lambda>w. (set_lifecycle_state LDeleted w)\<lparr>w_deletion_finalized_at := Some now\<rparr>) d)
               in d1\<lparr>db_tenants := fst (upd_row (w_tenant_id w) (\<lambda>t. t_workflow_count t > 0)
                      (\<lambda>t. t\<lparr>t_workflow_count := t_workflow_count t - 1\<rparr>) (db_tenants d1))\<rparr>)"

text \<open>
  Deleting the row fails on the foreign keys of requests, jobs and version metrics; agent_state
  cascades.
\<close>

definition PurgeDeleted :: "string \<Rightarrow> db \<Rightarrow> db \<times> bool result" where
  "PurgeDeleted i d =
     (case wf_of d i of
        None \<Rightarrow> (d, Inr False)
      | Some w \<Rightarrow>
          if w_lifecycle_state w \<noteq> LDeleted then (d, Inr False)
          else if exists_row (\<lambda>_ r. r_workflow_id r = i) (db_requests d) \<or> job_of d i \<noteq> None \<or>
                  exists_row (\<lambda>(w, v, e) _. w = i) (db_version_metrics d)
          then (d, Inl ForeignKeyViolation)
          else (d\<lparr>db_workflows := del_where (\<lambda>k _. k = i) (db_workflows d),
                  db_agent_state := del_where (\<lambda>(w, a) _. w = i) (db_agent_state d)\<rparr>, Inr True))"

definition workflow_ListPurgeable :: "string \<Rightarrow> int \<Rightarrow> timestamp \<Rightarrow> db \<Rightarrow> string list" where
  "workflow_ListPurgeable p older now d =
     sel_keys (\<lambda>_ w. w_scheduler_partition_id w = p \<and> w_lifecycle_state w = LDeleted \<and>
       ts_before (w_deletion_finalized_at w) (now - older)) (db_workflows d)"

definition ListPendingDeletion :: "string \<Rightarrow> db \<Rightarrow> string list" where
  "ListPendingDeletion p d =
     sel_keys (\<lambda>_ w. w_scheduler_partition_id w = p \<and> w_deletion_requested_at w \<noteq> None \<and>
       w_lifecycle_state w \<noteq> LDeleted) (db_workflows d)"

section \<open>Suspension\<close>

text \<open>Freezing and releasing the queue of a workflow.\<close>

definition freeze_requests :: "string \<Rightarrow> db \<Rightarrow> db" where
  "freeze_requests i d = upd_reqs (\<lambda>_ r. r_workflow_id r = i \<and> r_status r = RUnscheduled) (\<lambda>r. r\<lparr>r_status := RPaused\<rparr>) d"

definition unfreeze_requests :: "string \<Rightarrow> db \<Rightarrow> db" where
  "unfreeze_requests i d = upd_reqs (\<lambda>_ r. r_workflow_id r = i \<and> r_status r = RPaused) (\<lambda>r. r\<lparr>r_status := RUnscheduled\<rparr>) d"

definition can_suspend :: "string \<Rightarrow> workflow \<Rightarrow> bool" where
  "can_suspend sid w = (w_state w \<noteq> WDisabled \<and> su_finalized_at (w_suspension w) = None \<and>
     (su_requested_at (w_suspension w) = None \<or> su_id (w_suspension w) = Some sid))"

definition suspend_row :: "string \<Rightarrow> string \<Rightarrow> bool \<Rightarrow> timestamp \<Rightarrow> workflow \<Rightarrow> workflow" where
  "suspend_row sid reason stop now w = w\<lparr>w_state := WSuspended,
     w_suspension := (w_suspension w)\<lparr>su_id := Some sid, su_reason := reason, su_stop_current := stop,
       su_requested_at := (case su_requested_at (w_suspension w) of None \<Rightarrow> Some now | Some t \<Rightarrow> Some t)\<rparr>\<rparr>"

definition MarkSuspensionRequested ::
  "string \<Rightarrow> string \<Rightarrow> string \<Rightarrow> bool \<Rightarrow> timestamp \<Rightarrow> db \<Rightarrow> db \<times> unit result" where
  "MarkSuspensionRequested i sid reason stop now d =
     (case upd_wf i (can_suspend sid) (suspend_row sid reason stop now) d of
        (d1, False) \<Rightarrow> (d1, Inl ErrSuspensionAlreadyRequested)
      | (d1, True) \<Rightarrow>
          (let d2 = freeze_requests i d1
           in (if stop then d2 else fst (upd_job i (\<lambda>_. True) (\<lambda>j. j\<lparr>j_abandon_requested_at := None\<rparr>) d2), Inr ())))"

definition FinalizeSuspended :: "string \<Rightarrow> string \<Rightarrow> timestamp \<Rightarrow> db \<Rightarrow> db" where
  "FinalizeSuspended i sid now d =
     fst (upd_wf i (\<lambda>w. su_id (w_suspension w) = Some sid \<and> w_state w = WSuspended \<and>
            su_requested_at (w_suspension w) \<noteq> None \<and> su_finalized_at (w_suspension w) = None)
          (\<lambda>w. (set_lifecycle_state LHalted w)\<lparr>w_suspension := (w_suspension w)\<lparr>su_finalized_at := Some now\<rparr>\<rparr>) d)"

definition AbortSuspension :: "string \<Rightarrow> string \<Rightarrow> db \<Rightarrow> db" where
  "AbortSuspension i sid d =
     (case upd_wf i (\<lambda>w. su_id (w_suspension w) = Some sid \<and> w_state w \<noteq> WSuspended)
             (\<lambda>w. w\<lparr>w_suspension := no_suspension\<rparr>) d of
        (d1, hit) \<Rightarrow> if hit then unfreeze_requests i d1 else d1)"

definition ListPendingSuspension :: "string \<Rightarrow> db \<Rightarrow> (string \<times> workflow) list" where
  "ListPendingSuspension p d =
     sel_where (\<lambda>_ w. w_scheduler_partition_id w = p \<and> su_requested_at (w_suspension w) \<noteq> None \<and>
       su_finalized_at (w_suspension w) = None) (db_workflows d)"

definition RestoreFromSuspension ::
  "string \<Rightarrow> string \<Rightarrow> workflow_state \<Rightarrow> int \<Rightarrow> int \<Rightarrow> timestamp option \<Rightarrow> db \<Rightarrow> db \<times> bool" where
  "RestoreFromSuspension i sid s expected target cd d =
     (case upd_wf i (\<lambda>w. su_id (w_suspension w) = Some sid \<and> w_state w = WSuspended \<and> su_finalized_at (w_suspension w) \<noteq> None)
             (\<lambda>w. (set_lifecycle_state LActive w)\<lparr>w_state := s, w_cooldown_until := cd,
                w_current_workflow_version := target, w_lifecycle_last_resolved := w_current_version w,
                w_suspension := no_suspension\<rparr>) d of
        (d1, False) \<Rightarrow> (d1, False)
      | (d1, True) \<Rightarrow>
          (let d2 = unfreeze_requests i d1
           in (if target \<noteq> expected then startNewMetricsEpoch i target d2 else d2, True)))"

section \<open>Activation and the end of a run\<close>

definition TryActivateWorkflow :: "string \<Rightarrow> string \<Rightarrow> db \<Rightarrow> db \<times> bool" where
  "TryActivateWorkflow i rid d =
     upd_wf i (\<lambda>w. w_state w \<in> {WPaused, WCooldown} \<and> w_last_policy_decision_request_id w = rid)
       (\<lambda>w. w\<lparr>w_state := WActive, w_cooldown_until := None\<rparr>) d"

definition ApplyCompletedJob :: "string \<Rightarrow> lifecycle_state \<Rightarrow> int \<Rightarrow> timestamp \<Rightarrow> db \<Rightarrow> db \<times> bool" where
  "ApplyCompletedJob i s ver now d =
     upd_wf i (\<lambda>w. w_current_version w < ver)
       (\<lambda>w. w\<lparr>w_current_version := ver,
              w_lifecycle := (w_lifecycle w)\<lparr>li_last_completed_request_at := Some now,
                li_state := (if w_target_version w = ver then s else w_lifecycle_state w)\<rparr>\<rparr>) d"

definition interrupt_row :: "string \<Rightarrow> lifecycle_state \<Rightarrow> workflow_state \<Rightarrow> int \<Rightarrow> timestamp \<Rightarrow> workflow \<Rightarrow> workflow" where
  "interrupt_row rid s ws ver now w = w\<lparr>w_current_version := ver, w_state := ws, w_suspension := no_suspension,
     w_lifecycle := (w_lifecycle w)\<lparr>li_last_completed_request_at := Some now,
       li_last_interrupted_request_id := rid, li_state := s\<rparr>\<rparr>"

definition ApplyFailedJob ::
  "string \<Rightarrow> string \<Rightarrow> lifecycle_state \<Rightarrow> workflow_state \<Rightarrow> int \<Rightarrow> timestamp \<Rightarrow> db \<Rightarrow> db \<times> bool" where
  "ApplyFailedJob i rid s ws ver now d =
     (case upd_wf i (\<lambda>w. w_current_version w < ver) (interrupt_row rid s ws ver now) d of
        (d1, hit) \<Rightarrow> (if hit then unfreeze_requests i d1 else d1, hit))"

definition ResolveInterruptedWorkflow :: "string \<Rightarrow> string \<Rightarrow> db \<Rightarrow> db \<times> bool" where
  "ResolveInterruptedWorkflow i rid d =
     upd_wf i (\<lambda>w. w_lifecycle_state w = LInterrupted \<and> li_last_interrupted_request_id (w_lifecycle w) = rid)
       (\<lambda>w. (set_lifecycle_state LActive w)\<lparr>w_state := WActive, w_lifecycle_last_resolved := w_current_version w\<rparr>) d"

lemma unfreeze_other [simp]:
  "db_workflows (unfreeze_requests i d) = db_workflows d" "db_jobs (unfreeze_requests i d) = db_jobs d"
  "db_tenants (unfreeze_requests i d) = db_tenants d" "db_workflows (freeze_requests i d) = db_workflows d"
  "db_jobs (freeze_requests i d) = db_jobs d" "db_tenants (freeze_requests i d) = db_tenants d"
  by (simp_all add: unfreeze_requests_def freeze_requests_def)

lemma startNewMetricsEpoch_other [simp]:
  "db_workflows (startNewMetricsEpoch i v d) = db_workflows d" "db_jobs (startNewMetricsEpoch i v d) = db_jobs d"
  "db_requests (startNewMetricsEpoch i v d) = db_requests d" "db_tenants (startNewMetricsEpoch i v d) = db_tenants d"
  by (simp_all add: startNewMetricsEpoch_def Let_def)

section \<open>A run ends at most once\<close>

text \<open>The two ways the scheduler ends a run on the workflow row.\<close>

datatype run_end =
    EndCompleted lifecycle_state timestamp
  | EndFailed string lifecycle_state workflow_state timestamp

fun end_run :: "string \<Rightarrow> run_end \<Rightarrow> int \<Rightarrow> db \<Rightarrow> db \<times> bool" where
  "end_run i (EndCompleted s now) ver d = ApplyCompletedJob i s ver now d"
| "end_run i (EndFailed rid s ws now) ver d = ApplyFailedJob i rid s ws ver now d"

definition current_version_of :: "string \<Rightarrow> db \<Rightarrow> int option" where
  "current_version_of i d = map_option w_current_version (wf_of d i)"

interpretation ends: version_gate "end_run i" "current_version_of i" for i
proof
  fix a v d
  show "\<not> snd (end_run i a v d) \<Longrightarrow> fst (end_run i a v d) = d"
    by (cases a) (auto simp: ApplyCompletedJob_def ApplyFailedJob_def case_prod_unfold upd_wf_miss)
  assume "snd (end_run i a v d)"
  then obtain w where "wf_of d i = Some w" "w_current_version w < v"
    by (cases a) (auto simp: ApplyCompletedJob_def ApplyFailedJob_def case_prod_unfold row_simps)
  then show "(\<exists>g. current_version_of i d = Some g \<and> g < v) \<and> current_version_of i (fst (end_run i a v d)) = Some v"
    by (cases a) (simp_all add: ApplyCompletedJob_def ApplyFailedJob_def case_prod_unfold row_simps
        current_version_of_def interrupt_row_def)
qed

section \<open>Epochs\<close>

lemma fold_max_ge: "e \<le> fold max es (e :: int) \<and> (\<forall>x\<in>set es. x \<le> fold max es e)"
  by (induction es arbitrary: e) (auto, fastforce+)

lemma max_epoch_ge: "(i, ver, e) \<in> set (keys (db_version_metrics d)) \<Longrightarrow> e \<le> max_epoch i ver d"
proof -
  assume "(i, ver, e) \<in> set (keys (db_version_metrics d))"
  then have "e \<in> set [e. (w, v, e) \<leftarrow> keys (db_version_metrics d), w = i \<and> v = ver]" by force
  then show ?thesis using fold_max_ge unfolding max_epoch_def
    by (cases "[e. (w, v, e) \<leftarrow> keys (db_version_metrics d), w = i \<and> v = ver]") auto
qed

lemma startNewMetricsEpoch_fresh: "map_of (db_version_metrics d) (i, ver, max_epoch i ver d + 1) = None"
  using max_epoch_ge [of i ver "max_epoch i ver d + 1" d] by (force simp: map_of_eq_None_iff keys_def)

lemma pk_startNewMetricsEpoch: "db_pk d \<Longrightarrow> db_pk (startNewMetricsEpoch i ver d)"
  using startNewMetricsEpoch_fresh [of d i ver]
  by (auto simp: db_pk_def startNewMetricsEpoch_def Let_def pk_def keys_def map_of_eq_None_iff)

section \<open>Freezing and releasing the queue\<close>

lemma req_freeze: "req_of (freeze_requests i d) k =
    map_option (\<lambda>r. if r_workflow_id r = i \<and> r_status r = RUnscheduled then r\<lparr>r_status := RPaused\<rparr> else r) (req_of d k)"
  by (simp add: freeze_requests_def row_simps)

lemma req_unfreeze: "req_of (unfreeze_requests i d) k =
    map_option (\<lambda>r. if r_workflow_id r = i \<and> r_status r = RPaused then r\<lparr>r_status := RUnscheduled\<rparr> else r) (req_of d k)"
  by (simp add: unfreeze_requests_def row_simps)

definition no_paused :: "string \<Rightarrow> db \<Rightarrow> bool" where
  "no_paused i d = list_all (\<lambda>(_, r). r_workflow_id r \<noteq> i \<or> r_status r \<noteq> RPaused) (db_requests d)"

text \<open>Releasing undoes freezing, when nothing was frozen before.\<close>

lemma freeze_unfreeze:
  assumes "no_paused i d"
  shows "db_requests (unfreeze_requests i (freeze_requests i d)) = db_requests d"
proof -
  have "upd_where (\<lambda>_ r. r_workflow_id r = i \<and> r_status r = RPaused) (\<lambda>_ r. r\<lparr>r_status := RUnscheduled\<rparr>)
      (upd_where (\<lambda>_ r. r_workflow_id r = i \<and> r_status r = RUnscheduled) (\<lambda>_ r. r\<lparr>r_status := RPaused\<rparr>) t) = t"
    if "list_all (\<lambda>(_, r). r_workflow_id r \<noteq> i \<or> r_status r \<noteq> RPaused) t" for t
    using that by (induction t) (auto simp: upd_where_def intro!: customer_request.equality)
  then show ?thesis using assms by (simp add: unfreeze_requests_def freeze_requests_def upd_reqs_def no_paused_def)
qed

section \<open>Properties\<close>

text \<open>C18. A run ends at most once: over any sequence of completions and failures applied to a workflow,
  the versions that take effect are strictly increasing, so no run is both completed and failed, or
  ended twice, however often a sweep or a retried call repeats it.\<close>

theorem run_versions_end_once:
  assumes "wf_of d i = Some w" "run_gated (end_run i) xs d = (d', vs)"
  shows "sorted_wrt (<) vs \<and> (\<forall>v\<in>set vs. w_current_version w < v)"
  by (rule ends.run_gated_increasing [OF _ assms(2)]) (simp add: current_version_of_def assms(1))

theorem run_versions_end_once_witness:
  "snd (run_gated (end_run ''w'')
     [(EndCompleted LActive 1, 1), (EndFailed ''r1'' LInterrupted WDisabled 2, 1), (EndCompleted LActive 3, 2)]
     (sample_db RInProgress (sample_job JCompleted None None))) = [1, 2] \<and> sorted_wrt (<) [1, 2 :: int]"
proof -
  let ?d = "sample_db RInProgress (sample_job JCompleted None None)"
  let ?xs = "[(EndCompleted LActive 1, 1), (EndFailed ''r1'' LInterrupted WDisabled 2, 1), (EndCompleted LActive 3, 2)]"
  have w: "wf_of ?d ''w'' = Some sample_wf" by (simp add: sample_db_def)
  have r: "run_gated (end_run ''w'') ?xs ?d = (fst (run_gated (end_run ''w'') ?xs ?d), [1, 2])"
    by (simp add: ApplyCompletedJob_def ApplyFailedJob_def upd_wf_def upd_row_def sample_row_defs)
  show ?thesis using run_versions_end_once [OF w r] r by (metis snd_conv)
qed

text \<open>An interruption outranks a suspension: when a failed run is applied, the suspension is torn
  down completely and every request it had frozen is released, in the same statement.\<close>

theorem interruption_tears_down_suspension:
  assumes "ApplyFailedJob i rid s ws ver now d = (d', True)"
  shows "\<exists>w. wf_of d' i = Some w \<and> w_suspension w = no_suspension \<and> w_state w = ws \<and> w_lifecycle_state w = s \<and>
      li_last_interrupted_request_id (w_lifecycle w) = rid \<and> w_current_version w = ver \<and> no_paused i d'"
proof -
  have hit: "snd (upd_wf i (\<lambda>w. w_current_version w < ver) (interrupt_row rid s ws ver now) d)"
    and d': "d' = unfreeze_requests i (fst (upd_wf i (\<lambda>w. w_current_version w < ver) (interrupt_row rid s ws ver now) d))"
    using assms by (auto simp: ApplyFailedJob_def case_prod_unfold split: if_splits)
  from hit obtain w where "wf_of d i = Some w" "w_current_version w < ver" by (auto simp: row_simps)
  moreover have "no_paused i d'"
    unfolding d' by (auto simp: no_paused_def unfreeze_requests_def upd_reqs_def upd_where_def list_all_iff split: if_splits)
  ultimately show ?thesis unfolding d' by (auto simp: row_simps interrupt_row_def)
qed

theorem interruption_tears_down_suspension_witness:
  "\<exists>w. wf_of (fst (ApplyFailedJob ''w'' ''r1'' LInterrupted WDisabled 1 9
        (sample_db RPaused (sample_job JTerminalFailed None None)))) ''w'' = Some w \<and> w_suspension w = no_suspension \<and>
     no_paused ''w'' (fst (ApplyFailedJob ''w'' ''r1'' LInterrupted WDisabled 1 9 (sample_db RPaused (sample_job JTerminalFailed None None))))"
proof -
  let ?d = "sample_db RPaused (sample_job JTerminalFailed None None)"
  have "ApplyFailedJob ''w'' ''r1'' LInterrupted WDisabled 1 9 ?d = (fst (ApplyFailedJob ''w'' ''r1'' LInterrupted WDisabled 1 9 ?d), True)"
    by (simp add: ApplyFailedJob_def upd_wf_def upd_row_def sample_row_defs)
  from interruption_tears_down_suspension [OF this] show ?thesis by blast
qed

text \<open>C32. Suspending and resuming is a round trip for the queue: if nothing was frozen before, then
  requesting a suspension, finalising it and restoring under the same id gives every request back its
  status, and the workflow is active in the requested state with no trace of the suspension and its
  policy resolution caught up.\<close>

theorem suspend_resume_round_trip:
  assumes "no_paused i d" "wf_of d i = Some w"
    and "MarkSuspensionRequested i sid reason stop t1 d = (d1, Inr ())"
  shows "\<exists>d3. RestoreFromSuspension i sid s expected target cd (FinalizeSuspended i sid t2 d1) = (d3, True) \<and>
    db_requests d3 = db_requests d \<and>
    wf_of d3 i = Some ((set_lifecycle_state LActive w)\<lparr>w_state := s, w_cooldown_until := cd,
       w_current_workflow_version := target, w_lifecycle_last_resolved := w_current_version w, w_suspension := no_suspension\<rparr>)"
proof -
  let ?susp = "suspend_row sid reason stop t1"
  let ?u = "upd_wf i (can_suspend sid) ?susp d"
  have hit: "can_suspend sid w"
    and d1: "db_workflows d1 = db_workflows (fst ?u)" "db_requests d1 = db_requests (freeze_requests i (fst ?u))"
    using assms(2,3) snd_upd_wf [of i "can_suspend sid" ?susp d]
    by (auto simp: MarkSuspensionRequested_def Let_def split: if_splits prod.splits bool.splits)
  have w1: "wf_of d1 i = Some (?susp w)" using hit assms(2) by (simp add: d1 row_simps)
  define d2 where "d2 = FinalizeSuspended i sid t2 d1"
  have w2: "wf_of d2 i = Some ((set_lifecycle_state LHalted (?susp w))
      \<lparr>w_suspension := (w_suspension (?susp w))\<lparr>su_finalized_at := Some t2\<rparr>\<rparr>)"
    using w1 hit by (auto simp: d2_def FinalizeSuspended_def row_simps suspend_row_def set_lifecycle_state_def
        can_suspend_def split: option.splits)
  let ?g = "\<lambda>w. su_id (w_suspension w) = Some sid \<and> w_state w = WSuspended \<and> su_finalized_at (w_suspension w) \<noteq> None"
  let ?f = "\<lambda>w. (set_lifecycle_state LActive w)\<lparr>w_state := s, w_cooldown_until := cd, w_current_workflow_version := target,
         w_lifecycle_last_resolved := w_current_version w, w_suspension := no_suspension\<rparr>"
  let ?d3 = "unfreeze_requests i (fst (upd_wf i ?g ?f d2))"
  have "snd (upd_wf i ?g ?f d2)" using w2 by (simp add: row_simps suspend_row_def set_lifecycle_state_def)
  then have res: "RestoreFromSuspension i sid s expected target cd d2 =
      (if target \<noteq> expected then startNewMetricsEpoch i target ?d3 else ?d3, True)"
    by (simp add: RestoreFromSuspension_def case_prod_unfold Let_def split: prod.splits bool.splits)
  have "db_requests (fst (upd_wf i ?g ?f d2)) = db_requests (freeze_requests i (fst ?u))"
    by (simp add: d2_def d1 FinalizeSuspended_def)
  then have "db_requests ?d3 = db_requests (unfreeze_requests i (freeze_requests i (fst ?u)))"
    by (simp add: unfreeze_requests_def upd_reqs_def)
  also have "\<dots> = db_requests d" using assms(1) by (subst freeze_unfreeze) (simp_all add: no_paused_def)
  finally show ?thesis using res w2 unfolding d2_def [symmetric]
    by (auto simp: row_simps suspend_row_def set_lifecycle_state_def)
qed

theorem suspend_resume_round_trip_witness:
  "\<exists>d3. RestoreFromSuspension ''w'' ''s'' WActive 1 1 None (FinalizeSuspended ''w'' ''s'' 8
        (fst (MarkSuspensionRequested ''w'' ''s'' [] True 7 (sample_db RUnscheduled (sample_job JPending None None))))) = (d3, True) \<and>
     db_requests d3 = [(''r1'', sample_req RUnscheduled 1)]"
proof -
  let ?d = "sample_db RUnscheduled (sample_job JPending None None)"
  have p: "no_paused ''w'' ?d" "wf_of ?d ''w'' = Some sample_wf" by (simp_all add: no_paused_def sample_row_defs)
  have m: "MarkSuspensionRequested ''w'' ''s'' [] True 7 ?d = (fst (MarkSuspensionRequested ''w'' ''s'' [] True 7 ?d), Inr ())"
    by (simp add: MarkSuspensionRequested_def upd_wf_def upd_row_def can_suspend_def no_suspension_def sample_row_defs Let_def)
  from suspend_resume_round_trip [OF p m, where s = WActive and expected = 1 and target = 1 and cd = None and ?t2.0 = 8]
  obtain d3 where "RestoreFromSuspension ''w'' ''s'' WActive 1 1 None (FinalizeSuspended ''w'' ''s'' 8
      (fst (MarkSuspensionRequested ''w'' ''s'' [] True 7 ?d))) = (d3, True)" "db_requests d3 = db_requests ?d" by blast
  then show ?thesis by (simp add: sample_db_def)
qed

text \<open>Acknowledging an interrupted run re-activates the workflow without looking at a deletion that
  was requested meanwhile: the workflow is active and runnable again although it is being deleted.\<close>

theorem acknowledge_reactivates_deleting_workflow:
  "\<exists>w. wf_of (fst (ResolveInterruptedWorkflow ''w'' ''r1'' (fst (MarkDeletionRequested ''w'' 9
        (fst (ApplyFailedJob ''w'' ''r1'' LInterrupted WDisabled 1 8 (sample_db RInProgress (sample_job JTerminalFailed None None)))))))) ''w'' = Some w \<and>
     w_deletion_requested_at w = Some 9 \<and> w_state w = WActive \<and> w_lifecycle_state w = LActive"
  by (simp add: ApplyFailedJob_def ResolveInterruptedWorkflow_def MarkDeletionRequested_def interrupt_row_def
      set_lifecycle_state_def upd_wf_def upd_row_def unfreeze_requests_def upd_reqs_def sample_row_defs)

end
