(* ===== verification/ResolverRepo.thy ===== *)
theory ResolverRepo
  imports WorkflowRepo
begin

text \<open>
  The repositories the policy resolution writes through: \<open>lifecycle_resolver.go\<close> (cooldowns and the
  version-gated policy decisions), \<open>metrics.go\<close> (the once-per-run emission of metrics),
  \<open>version_metrics.go\<close>, \<open>agent_state.go\<close> and \<open>audit.go\<close> of \<open>src/internal/storage/postgres\<close>.
  NUMERIC columns keep their exact value: rounding to six and three decimals is not modelled.
\<close>

section \<open>Cooldowns and policy decisions\<close>

definition cooldown_over :: "string \<Rightarrow> timestamp \<Rightarrow> workflow \<Rightarrow> bool" where
  "cooldown_over p now w = (w_scheduler_partition_id w = p \<and> w_state w = WCooldown \<and> ts_upto (w_cooldown_until w) now)"

definition GetExpiredCooldownWorkflows :: "string \<Rightarrow> timestamp \<Rightarrow> db \<Rightarrow> (string \<times> workflow) list" where
  "GetExpiredCooldownWorkflows p now d =
     map (\<lambda>(i, w). (i, w\<lparr>w_invocation_metrics := sort_key s_ran_at (w_invocation_metrics w)\<rparr>))
       (sel_where (\<lambda>_. cooldown_over p now) (db_workflows d))"

definition ExpireCooldowns :: "string \<Rightarrow> timestamp \<Rightarrow> db \<Rightarrow> db \<times> string list" where
  "ExpireCooldowns p now d =
     (upd_wfs (\<lambda>_. cooldown_over p now) (\<lambda>w. w\<lparr>w_state := WActive, w_cooldown_until := None\<rparr>) d,
      sel_keys (\<lambda>_. cooldown_over p now) (db_workflows d))"

definition TryApplyVersionResolution ::
  "string \<Rightarrow> int \<Rightarrow> int \<Rightarrow> int \<Rightarrow> string \<Rightarrow> db \<Rightarrow> db \<times> bool" where
  "TryApplyVersionResolution i resolved expected target rid d =
     (case upd_wf i (\<lambda>w. w_lifecycle_last_resolved w < resolved \<and> w_current_workflow_version w = expected \<and>
              w_state w \<notin> {WDisabled, WSuspended})
             (\<lambda>w. w\<lparr>w_lifecycle_last_resolved := resolved, w_current_workflow_version := target,
                w_last_policy_decision_request_id := rid\<rparr>) d of
        (d1, hit) \<Rightarrow> (if hit \<and> target \<noteq> expected then startNewMetricsEpoch i target d1 else d1, hit))"

definition TryApplyStateResolution ::
  "string \<Rightarrow> int \<Rightarrow> workflow_state \<Rightarrow> timestamp option \<Rightarrow> string \<Rightarrow> db \<Rightarrow> db \<times> bool" where
  "TryApplyStateResolution i resolved s cd rid d =
     upd_wf i (\<lambda>w. w_lifecycle_last_resolved w < resolved \<and> w_state w \<notin> {WDisabled, WSuspended})
       (\<lambda>w. w\<lparr>w_lifecycle_last_resolved := resolved, w_state := s, w_cooldown_until := cd,
              w_last_policy_decision_request_id := rid\<rparr>) d"

section \<open>Metrics\<close>

definition no_agent_state :: agent_state where
  "no_agent_state = \<lparr>as_runtime_policy = Some [], as_lifecycle_policy = Some [], as_invocation_metrics = []\<rparr>"

text \<open>\<open>INSERT .. ON CONFLICT (workflow_id, agent_name) DO UPDATE SET\<close> one column.\<close>

definition upsert_agent :: "string \<Rightarrow> string \<Rightarrow> (agent_state \<Rightarrow> agent_state) \<Rightarrow> db \<Rightarrow> db" where
  "upsert_agent w a f d =
     d\<lparr>db_agent_state := AList.update (w, a)
         (f (case map_of (db_agent_state d) (w, a) of None \<Rightarrow> no_agent_state | Some s \<Rightarrow> s)) (db_agent_state d)\<rparr>"

definition UpdateMetrics :: "string \<Rightarrow> string \<Rightarrow> agent_invocation_snapshot list \<Rightarrow> db \<Rightarrow> db \<times> unit result" where
  "UpdateMetrics w a ms d =
     (if wf_of d w = None then (d, Inl ForeignKeyViolation)
      else (upsert_agent w a (\<lambda>s. s\<lparr>as_invocation_metrics := ms\<rparr>) d, Inr ()))"

definition UpsertRuntimePolicy :: "string \<Rightarrow> string \<Rightarrow> json_map \<Rightarrow> db \<Rightarrow> db \<times> unit result" where
  "UpsertRuntimePolicy w a p d =
     (if wf_of d w = None then (d, Inl ForeignKeyViolation)
      else (upsert_agent w a (\<lambda>s. s\<lparr>as_runtime_policy := Some p\<rparr>) d, Inr ()))"

definition UpsertLifecyclePolicy :: "string \<Rightarrow> string \<Rightarrow> json_map \<Rightarrow> db \<Rightarrow> db \<times> unit result" where
  "UpsertLifecyclePolicy w a p d =
     (if wf_of d w = None then (d, Inl ForeignKeyViolation)
      else (upsert_agent w a (\<lambda>s. s\<lparr>as_lifecycle_policy := Some p\<rparr>) d, Inr ()))"

definition GetAllForWorkflow :: "string \<Rightarrow> db \<Rightarrow> (string \<times> agent_state) list" where
  "GetAllForWorkflow w d = [(a, s). ((w', a), s) \<leftarrow> db_agent_state d, w' = w]"

definition agent_Delete :: "string \<Rightarrow> string \<Rightarrow> db \<Rightarrow> db" where
  "agent_Delete w a d = d\<lparr>db_agent_state := del_where (\<lambda>k _. k = (w, a)) (db_agent_state d)\<rparr>"

definition GetCurrentVersionMetrics :: "string \<Rightarrow> int \<Rightarrow> db \<Rightarrow> workflow_version_metrics option" where
  "GetCurrentVersionMetrics w ver d = map_of (db_version_metrics d) (w, ver, max_epoch w ver d)"

definition version_DeleteForWorkflow :: "string \<Rightarrow> db \<Rightarrow> db" where
  "version_DeleteForWorkflow i d = d\<lparr>db_version_metrics := del_where (\<lambda>(w, v, e) _. w = i) (db_version_metrics d)\<rparr>"

text \<open>
  The transaction: the gate on \<open>metrics_emitted_at\<close>, the rolling history, the version totals and each
  touched agent's history, or nothing.
\<close>

definition put_histories :: "string \<Rightarrow> (string \<times> agent_invocation_snapshot list) list \<Rightarrow> db \<Rightarrow> db" where
  "put_histories i agents d = fold (\<lambda>(a, ms). upsert_agent i a (\<lambda>s. s\<lparr>as_invocation_metrics := ms\<rparr>)) agents d"

definition EmitMetrics ::
  "string \<Rightarrow> int \<Rightarrow> workflow_invocation_snapshot list \<Rightarrow> workflow_version_metrics \<Rightarrow>
   (string \<times> agent_invocation_snapshot list) list \<Rightarrow> db \<Rightarrow> db \<times> bool" where
  "EmitMetrics i emitted rolling vm agents d =
     (case upd_wf i (\<lambda>w. w_metrics_emitted_at w < emitted)
             (\<lambda>w. w\<lparr>w_metrics_emitted_at := emitted, w_invocation_metrics := rolling\<rparr>) d of
        (d1, False) \<Rightarrow> (d1, False)
      | (d1, True) \<Rightarrow>
          (put_histories i agents
             (d1\<lparr>db_version_metrics := AList.update (i, v_version vm, v_epoch vm) (vm\<lparr>v_workflow_id := i\<rparr>) (db_version_metrics d1)\<rparr>),
           True))"

section \<open>The audit log\<close>

text \<open>\<open>gen_random_uuid()\<close> is the parameter \<open>uid\<close>.\<close>

definition Append :: "string \<Rightarrow> audit_event \<Rightarrow> db \<Rightarrow> db" where
  "Append uid e d = d\<lparr>db_audit := db_audit d @ [(uid, e)]\<rparr>"

text \<open>\<open>details->>'agent'\<close>: only agent policy events carry the key.\<close>

fun details_agent :: "audit_details \<Rightarrow> string option" where
  "details_agent (DAgentPolicy x) = Some (apd_agent x)"
| "details_agent _ = None"

definition ListAuditEvents :: "string \<Rightarrow> string \<Rightarrow> string \<Rightarrow> audit_event_type list \<Rightarrow> db \<Rightarrow> (string \<times> audit_event) list" where
  "ListAuditEvents tg w agent types d =
     take 500 (sort_key (\<lambda>x. - ae_occurred_at (snd x))
       (filter (\<lambda>(_, e). ae_tenant_group_id e = tg \<and> (w = [] \<or> ae_workflow_id e = w) \<and>
          (agent = [] \<or> details_agent (ae_details e) = Some agent) \<and> (types = [] \<or> ae_event_type e \<in> set types)) (db_audit d)))"

definition GetApprovalByID :: "string \<Rightarrow> string \<Rightarrow> db \<Rightarrow> (string \<times> audit_event) option" where
  "GetApprovalByID tg gid d =
     (case sort_key (\<lambda>x. - ae_occurred_at (snd x))
        (filter (\<lambda>(_, e). ae_tenant_group_id e = tg \<and> ae_event_type e = EvApproval \<and>
           (case ae_details e of DApproval x \<Rightarrow> ad_approval_id x = gid | _ \<Rightarrow> False)) (db_audit d)) of
        [] \<Rightarrow> None | x # _ \<Rightarrow> Some x)"

lemma upsert_agent_other [simp]:
  "db_workflows (upsert_agent w a f d) = db_workflows d" "db_requests (upsert_agent w a f d) = db_requests d"
  "db_jobs (upsert_agent w a f d) = db_jobs d" "db_tenants (upsert_agent w a f d) = db_tenants d"
  "db_version_metrics (upsert_agent w a f d) = db_version_metrics d"
  by (simp_all add: upsert_agent_def)

lemma put_histories_other [simp]:
  "db_workflows (put_histories i as d) = db_workflows d" "db_requests (put_histories i as d) = db_requests d"
  "db_jobs (put_histories i as d) = db_jobs d" "db_tenants (put_histories i as d) = db_tenants d"
  "db_version_metrics (put_histories i as d) = db_version_metrics d"
  unfolding put_histories_def by (induction as arbitrary: d) (simp_all add: case_prod_unfold)

section \<open>The gates\<close>

text \<open>A policy resolution of a run is either a version change or a state change.\<close>

datatype resolution = ResolveVersion int int string | ResolveState workflow_state "timestamp option" string

fun resolve_run :: "string \<Rightarrow> resolution \<Rightarrow> int \<Rightarrow> db \<Rightarrow> db \<times> bool" where
  "resolve_run i (ResolveVersion expected target rid) v d = TryApplyVersionResolution i v expected target rid d"
| "resolve_run i (ResolveState s cd rid) v d = TryApplyStateResolution i v s cd rid d"

definition last_resolved_of :: "string \<Rightarrow> db \<Rightarrow> int option" where
  "last_resolved_of i d = map_option w_lifecycle_last_resolved (wf_of d i)"

interpretation resolves: version_gate "resolve_run i" "last_resolved_of i" for i
proof
  fix a v d
  show "\<not> snd (resolve_run i a v d) \<Longrightarrow> fst (resolve_run i a v d) = d"
    by (cases a) (auto simp: TryApplyVersionResolution_def TryApplyStateResolution_def case_prod_unfold upd_wf_miss)
  assume "snd (resolve_run i a v d)"
  then obtain w where "wf_of d i = Some w" "w_lifecycle_last_resolved w < v" "w_state w \<noteq> WDisabled" "w_state w \<noteq> WSuspended"
    "\<forall>e t r. a = ResolveVersion e t r \<longrightarrow> w_current_workflow_version w = e"
    by (cases a) (auto simp: TryApplyVersionResolution_def TryApplyStateResolution_def case_prod_unfold row_simps)
  then show "(\<exists>g. last_resolved_of i d = Some g \<and> g < v) \<and> last_resolved_of i (fst (resolve_run i a v d)) = Some v"
    by (cases a) (simp_all add: TryApplyVersionResolution_def TryApplyStateResolution_def case_prod_unfold row_simps
        last_resolved_of_def)
qed

definition emitted_at_of :: "string \<Rightarrow> db \<Rightarrow> int option" where
  "emitted_at_of i d = map_option w_metrics_emitted_at (wf_of d i)"

type_synonym emission =
  "workflow_invocation_snapshot list \<times> workflow_version_metrics \<times> (string \<times> agent_invocation_snapshot list) list"

definition emit_run :: "string \<Rightarrow> emission \<Rightarrow> int \<Rightarrow> db \<Rightarrow> db \<times> bool" where
  "emit_run i x v d = (case x of (rolling, vm, agents) \<Rightarrow> EmitMetrics i v rolling vm agents d)"

lemma EmitMetrics_hit: "snd (EmitMetrics i v rolling vm agents d) \<longleftrightarrow> (\<exists>w. wf_of d i = Some w \<and> w_metrics_emitted_at w < v)"
  by (auto simp: EmitMetrics_def case_prod_unfold row_simps split: bool.splits)

lemma EmitMetrics_miss: "\<not> snd (EmitMetrics i v rolling vm agents d) \<Longrightarrow> fst (EmitMetrics i v rolling vm agents d) = d"
  by (auto simp: EmitMetrics_def case_prod_unfold upd_wf_miss split: bool.splits)

lemma wf_EmitMetrics:
  "wf_of (fst (EmitMetrics i v rolling vm agents d)) k =
     (if k = i then map_option (\<lambda>w. if w_metrics_emitted_at w < v
        then w\<lparr>w_metrics_emitted_at := v, w_invocation_metrics := rolling\<rparr> else w) (wf_of d i) else wf_of d k)"
  by (auto simp: EmitMetrics_def case_prod_unfold row_simps split: bool.splits)

interpretation emits: version_gate "emit_run i" "emitted_at_of i" for i
proof
  fix a :: emission and v d
  obtain r vm as where a: "a = (r, vm, as)" by (cases a)
  show "\<not> snd (emit_run i a v d) \<Longrightarrow> fst (emit_run i a v d) = d"
    by (simp add: emit_run_def a EmitMetrics_miss)
  assume "snd (emit_run i a v d)"
  then obtain w where "wf_of d i = Some w" "w_metrics_emitted_at w < v" by (auto simp: emit_run_def a EmitMetrics_hit)
  then show "(\<exists>g. emitted_at_of i d = Some g \<and> g < v) \<and> emitted_at_of i (fst (emit_run i a v d)) = Some v"
    by (simp add: emitted_at_of_def emit_run_def a wf_EmitMetrics)
qed

section \<open>Properties\<close>

text \<open>Policy decisions are applied at most once per run and never out of order: over any sequence of
  version and state resolutions of a workflow, the run versions that take effect strictly increase.\<close>

theorem policy_resolved_once_per_run:
  assumes "wf_of d i = Some w" "run_gated (resolve_run i) xs d = (d', vs)"
  shows "sorted_wrt (<) vs \<and> (\<forall>v\<in>set vs. w_lifecycle_last_resolved w < v)"
  by (rule resolves.run_gated_increasing [OF _ assms(2)]) (simp add: last_resolved_of_def assms(1))

theorem policy_resolved_once_per_run_witness:
  "snd (run_gated (resolve_run ''w'') [(ResolveState WPaused None ''r1'', 1), (ResolveVersion 1 2 ''r1'', 1)]
     (sample_db RInProgress (sample_job JCompleted None None))) = [1] \<and> sorted_wrt (<) [1 :: int]"
proof -
  let ?d = "sample_db RInProgress (sample_job JCompleted None None)"
  let ?xs = "[(ResolveState WPaused None ''r1'', 1), (ResolveVersion 1 2 ''r1'', 1)]"
  have w: "wf_of ?d ''w'' = Some sample_wf" by (simp add: sample_db_def)
  have r: "run_gated (resolve_run ''w'') ?xs ?d = (fst (run_gated (resolve_run ''w'') ?xs ?d), [1])"
    by (simp add: TryApplyStateResolution_def TryApplyVersionResolution_def upd_wf_def upd_row_def sample_row_defs)
  show ?thesis using policy_resolved_once_per_run [OF w r] r by (metis snd_conv)
qed

text \<open>C33. The stored metrics of a run are written at most once: repeating an emission for a version that was
  already emitted, or an older one, changes nothing in the database and reports so; and the versions emitted by any
  sequence of attempts strictly increase. This is about the tables only: the figures a retried completion hands to the
  policy are computed before the emission and count the run again.\<close>

theorem metrics_emitted_once_per_run:
  assumes "wf_of d i = Some w" "run_gated (emit_run i) xs d = (d', vs)"
  shows "sorted_wrt (<) vs \<and> (v \<le> w_metrics_emitted_at w \<longrightarrow> emit_run i x v d = (d, False))"
  using emits.run_gated_increasing [OF _ assms(2)] emits.stale [of i d] assms(1)
  by (auto simp: emitted_at_of_def)

theorem metrics_emitted_once_per_run_witness:
  "sorted_wrt (<) (snd (run_gated (emit_run ''w'') [(([], zero_version_metrics ''w'' 1 1, []), 1), (([], zero_version_metrics ''w'' 1 1, []), 1)]
     (sample_db RInProgress (sample_job JCompleted None None)))) \<and>
   emit_run ''w'' ([], zero_version_metrics ''w'' 1 1, []) 0 (sample_db RInProgress (sample_job JCompleted None None)) =
     (sample_db RInProgress (sample_job JCompleted None None), False)"
proof -
  let ?d = "sample_db RInProgress (sample_job JCompleted None None)"
  have w: "wf_of ?d ''w'' = Some sample_wf" by (simp add: sample_db_def)
  have z: "0 \<le> w_metrics_emitted_at sample_wf" by (simp add: sample_wf_def)
  show ?thesis using metrics_emitted_once_per_run [OF w prod.collapse [symmetric]] z by blast
qed

end
