(* ===== verification/PolicyEngine.thy ===== *)
theory PolicyEngine
  imports Domain
begin

text \<open>
  The lifecycle policy engine, \<open>src/internal/lifecyclepolicy/engine.go\<close>: a pure function from the
  rolling run snapshots, the rules and the per-version totals to a goal state. The loop over the rules
  is \<open>resolve_loop\<close>, whose state is the three variables the Go loop keeps; a negative window makes
  the Go slice expression panic, which is the value \<open>Inl Panic\<close>.
\<close>

record goal_state =
  gs_version :: int
  gs_state :: "workflow_state option"
  gs_cooldown :: int
  gs_version_change :: bool

text \<open>The zero value of \<open>WorkflowGoalState\<close>: the empty state string is \<open>None\<close>.\<close>

definition no_goal :: goal_state where
  "no_goal = \<lparr>gs_version = 0, gs_state = None, gs_cooldown = 0, gs_version_change = False\<rparr>"

text \<open>A map lookup that misses yields 0 in Go.\<close>

fun getActionPriority :: "policy_action_type \<Rightarrow> int" where
  "getActionPriority SetVersion = 0"
| "getActionPriority Cooldown = 1"
| "getActionPriority Pause = 2"
| "getActionPriority (OtherAction _) = 0"

fun MetricEmitted :: "workflow_invocation_snapshot \<Rightarrow> workflow_metric \<Rightarrow> string \<Rightarrow> bool" where
  "MetricEmitted s NumFailures tool = (s_failures s \<noteq> None)"
| "MetricEmitted s Cost tool = (s_cost_usd s \<noteq> None)"
| "MetricEmitted s NumLLMCalls tool = (s_llm_calls s \<noteq> None)"
| "MetricEmitted s Latency tool = (s_latency_seconds s \<noteq> None)"
| "MetricEmitted s ApprovalRejections tool = (s_approval_rejections s \<noteq> None)"
| "MetricEmitted s ToolFailureRate tool = (map_of (s_tool_failure_counts s) tool \<noteq> None)"
| "MetricEmitted s (OtherMetric _) tool = False"

text \<open>
  The value a set_version rule compares: a total of the current version's metrics row. \<open>None\<close> is the
  \<open>continue\<close> of a tool that has no entry.
\<close>

fun version_value :: "workflow_version_metrics \<Rightarrow> workflow_metric \<Rightarrow> string \<Rightarrow> float64 option" where
  "version_value v NumFailures tool = Some (of_int (v_total_failures v))"
| "version_value v Cost tool = Some (v_total_cost v)"
| "version_value v NumLLMCalls tool = Some (of_int (v_total_llm_calls v))"
| "version_value v Latency tool = Some (v_total_latency_seconds v)"
| "version_value v ApprovalRejections tool = Some (of_int (v_total_approval_rejections v))"
| "version_value v ToolFailureRate tool = map_option of_int (map_of (v_tool_failure_counts v) tool)"
| "version_value v (OtherMetric _) tool = Some 0"

text \<open>The value one run contributes to a windowed rule; dereferencing a nil counter panics.\<close>

fun run_value :: "workflow_invocation_snapshot \<Rightarrow> workflow_metric \<Rightarrow> string \<Rightarrow> float64 result" where
  "run_value s NumFailures tool = (case s_failures s of None \<Rightarrow> Inl Panic | Some n \<Rightarrow> Inr (of_int n))"
| "run_value s Cost tool = (case s_cost_usd s of None \<Rightarrow> Inl Panic | Some c \<Rightarrow> Inr c)"
| "run_value s NumLLMCalls tool = (case s_llm_calls s of None \<Rightarrow> Inl Panic | Some n \<Rightarrow> Inr (of_int n))"
| "run_value s Latency tool = (case s_latency_seconds s of None \<Rightarrow> Inl Panic | Some c \<Rightarrow> Inr c)"
| "run_value s ApprovalRejections tool =
     (case s_approval_rejections s of None \<Rightarrow> Inl Panic | Some n \<Rightarrow> Inr (of_int n))"
| "run_value s ToolFailureRate tool =
     Inr (case map_of (s_tool_failure_counts s) tool of None \<Rightarrow> 0 | Some n \<Rightarrow> of_int n)"
| "run_value s (OtherMetric _) tool = Inr 0"

fun sum_runs :: "workflow_invocation_snapshot list \<Rightarrow> workflow_metric \<Rightarrow> string \<Rightarrow> float64 \<Rightarrow> float64 result" where
  "sum_runs [] m tool acc = Inr acc"
| "sum_runs (s # ss) m tool acc =
     (case run_value s m tool of Inl e \<Rightarrow> Inl e | Inr v \<Rightarrow> sum_runs ss m tool (acc + v))"

definition observed :: "workflow_invocation_snapshot list \<Rightarrow> policy_rule \<Rightarrow> workflow_invocation_snapshot list" where
  "observed ms r = filter (\<lambda>s. MetricEmitted s (pr_metric r) (pr_tool_name r)) ms"

text \<open>\<open>lastN := observed; if len(lastN) > rule.Window { lastN = lastN[len(lastN)-rule.Window:] }\<close>.\<close>

definition window_slice :: "'a list \<Rightarrow> int \<Rightarrow> 'a list result" where
  "window_slice xs w =
     (if int (length xs) > w
      then if w < 0 then Inl Panic else Inr (drop (length xs - nat w) xs)
      else Inr xs)"

text \<open>
  What one rule yields: \<open>None\<close> when it does not fire, otherwise its target and the value that crossed.
\<close>

definition eval_rule ::
  "workflow_invocation_snapshot list \<Rightarrow> workflow_version_metrics \<Rightarrow> policy_rule \<Rightarrow>
   (goal_state \<times> float64) option result" where
  "eval_rule ms vm r =
     (if ms = [] then Inr None
      else if \<not> MetricEmitted (last ms) (pr_metric r) (pr_tool_name r) then Inr None
      else case pa_type (pr_action r) of
        SetVersion \<Rightarrow>
          (case version_value vm (pr_metric r) (pr_tool_name r) of
             None \<Rightarrow> Inr None
           | Some val \<Rightarrow>
               if val \<ge> pr_threshold r
               then Inr (Some (no_goal\<lparr>gs_version := pa_target_version (pr_action r), gs_version_change := True\<rparr>, val))
               else Inr None)
      | OtherAction _ \<Rightarrow> Inr None
      | act \<Rightarrow>
          (case window_slice (observed ms r) (pr_window r) of
             Inl e \<Rightarrow> Inl e
           | Inr lastN \<Rightarrow>
               (case sum_runs lastN (pr_metric r) (pr_tool_name r) 0 of
                  Inl e \<Rightarrow> Inl e
                | Inr tot \<Rightarrow>
                    if tot \<ge> pr_threshold r
                    then Inr (Some
                      ((if act = Cooldown
                        then no_goal\<lparr>gs_cooldown := pa_cooldown_seconds (pr_action r), gs_state := Some WCooldown\<rparr>
                        else no_goal\<lparr>gs_state := Some WPaused\<rparr>), tot))
                    else Inr None)))"

text \<open>The winning goal, rule and value; the priority starts at -1.\<close>

type_synonym winner = "int \<times> goal_state \<times> policy_rule option \<times> float64"

fun resolve_loop ::
  "workflow_invocation_snapshot list \<Rightarrow> workflow_version_metrics \<Rightarrow> policy_rule list \<Rightarrow> winner \<Rightarrow> winner result" where
  "resolve_loop ms vm [] acc = Inr acc"
| "resolve_loop ms vm (r # rs) (p, g, wr, v) =
     (case eval_rule ms vm r of
        Inl e \<Rightarrow> Inl e
      | Inr None \<Rightarrow> resolve_loop ms vm rs (p, g, wr, v)
      | Inr (Some (g', v')) \<Rightarrow>
          (let q = getActionPriority (pa_type (pr_action r)) in
           if q > p then resolve_loop ms vm rs (q, g', Some r, v')
           else resolve_loop ms vm rs (p, g, wr, v)))"

definition ResolvePolicy ::
  "workflow_invocation_snapshot list \<Rightarrow> lifecycle_policy \<Rightarrow> workflow_version_metrics \<Rightarrow>
   (goal_state \<times> policy_rule option \<times> float64) result" where
  "ResolvePolicy ms pol vm =
     (case resolve_loop ms vm (lp_rules pol) (- 1, no_goal, None, 0) of
        Inl e \<Rightarrow> Inl e
      | Inr (p, g, wr, v) \<Rightarrow> Inr (g, wr, v))"

section \<open>A rule that was validated never panics\<close>

lemma run_value_emitted: "MetricEmitted s m tool \<Longrightarrow> \<exists>v. run_value s m tool = Inr v"
  by (cases m) auto

lemma sum_runs_emitted:
  "\<forall>s\<in>set ss. MetricEmitted s m tool \<Longrightarrow> \<exists>v. sum_runs ss m tool acc = Inr v"
proof (induction ss arbitrary: acc)
  case (Cons s ss)
  then obtain v where "run_value s m tool = Inr v" using run_value_emitted by force
  with Cons show ?case by simp
qed simp

lemma set_window_slice: "window_slice xs w = Inr ys \<Longrightarrow> set ys \<subseteq> set xs"
  by (auto simp: window_slice_def split: if_splits dest: in_set_dropD)

lemma window_slice_ok: "0 \<le> w \<Longrightarrow> window_slice xs w = Inr (last_n (nat w) xs)"
  by (auto simp: window_slice_def last_n_def)

definition rule_windowed :: "policy_rule \<Rightarrow> bool" where
  "rule_windowed r = (pa_type (pr_action r) = Pause \<or> pa_type (pr_action r) = Cooldown)"

lemma eval_rule_total:
  assumes "rule_windowed r \<Longrightarrow> 0 \<le> pr_window r"
  shows "\<exists>x. eval_rule ms vm r = Inr x"
proof (cases "rule_windowed r")
  case True
  with assms have w: "window_slice (observed ms r) (pr_window r) = Inr (last_n (nat (pr_window r)) (observed ms r))"
    by (simp add: window_slice_ok)
  have "\<forall>s\<in>set (last_n (nat (pr_window r)) (observed ms r)). MetricEmitted s (pr_metric r) (pr_tool_name r)"
    using set_last_n [of "nat (pr_window r)" "observed ms r"] by (auto simp: observed_def)
  from sum_runs_emitted [OF this, of 0] obtain t where
    "sum_runs (last_n (nat (pr_window r)) (observed ms r)) (pr_metric r) (pr_tool_name r) 0 = Inr t" ..
  with w True show ?thesis by (auto simp: eval_rule_def rule_windowed_def)
next
  case False
  then show ?thesis
    by (cases "pa_type (pr_action r)") (auto simp: eval_rule_def rule_windowed_def split: option.splits)
qed

lemma eval_rule_not_empty: "eval_rule ms vm r = Inr (Some x) \<Longrightarrow> ms \<noteq> []"
  by (auto simp: eval_rule_def)

section \<open>The declarative reading: the first fired rule of the highest priority\<close>

definition prio :: "policy_rule \<Rightarrow> int" where
  "prio r = getActionPriority (pa_type (pr_action r))"

definition fired ::
  "workflow_invocation_snapshot list \<Rightarrow> workflow_version_metrics \<Rightarrow> policy_rule list \<Rightarrow>
   (policy_rule \<times> goal_state \<times> float64) list" where
  "fired ms vm rs = List.map_filter (\<lambda>r. case eval_rule ms vm r of
       Inr (Some (g, v)) \<Rightarrow> Some (r, g, v) | _ \<Rightarrow> None) rs"

definition outranks_all :: "(policy_rule \<times> goal_state \<times> float64) list \<Rightarrow> policy_rule \<times> goal_state \<times> float64 \<Rightarrow> bool" where
  "outranks_all fs x = (\<forall>y\<in>set fs. prio (fst y) \<le> prio (fst x))"

definition policy_spec ::
  "workflow_invocation_snapshot list \<Rightarrow> lifecycle_policy \<Rightarrow> workflow_version_metrics \<Rightarrow>
   goal_state \<times> policy_rule option \<times> float64" where
  "policy_spec ms pol vm =
     (let fs = fired ms vm (lp_rules pol) in
      case find (outranks_all fs) fs of
        None \<Rightarrow> (no_goal, None, 0)
      | Some (r, g, v) \<Rightarrow> (g, Some r, v))"

lemma prio_nonneg [simp]: "0 \<le> prio r"
  by (cases "pa_type (pr_action r)") (simp_all add: prio_def)

lemma fired_simps [simp]:
  "fired ms vm [] = []"
  "eval_rule ms vm r = Inr None \<Longrightarrow> fired ms vm (r # rs) = fired ms vm rs"
  "eval_rule ms vm r = Inr (Some (g, v)) \<Longrightarrow> fired ms vm (r # rs) = (r, g, v) # fired ms vm rs"
  by (simp_all add: fired_def List.map_filter_simps)

text \<open>The loop as a fold over the rules that fired.\<close>

fun pick :: "(policy_rule \<times> goal_state \<times> float64) list \<Rightarrow> winner \<Rightarrow> winner" where
  "pick [] acc = acc"
| "pick ((r, g', v') # fs) (p, g, wr, v) =
     (if prio r > p then pick fs (prio r, g', Some r, v') else pick fs (p, g, wr, v))"

lemma resolve_loop_pick:
  "\<forall>r\<in>set rs. rule_windowed r \<longrightarrow> 0 \<le> pr_window r \<Longrightarrow>
   resolve_loop ms vm rs acc = Inr (pick (fired ms vm rs) acc)"
proof (induction rs arbitrary: acc)
  case (Cons r rs)
  obtain p g wr v where acc: "acc = (p, g, wr, v)" by (cases acc)
  obtain x where "eval_rule ms vm r = Inr x" using eval_rule_total [of r ms vm] Cons.prems by auto
  then show ?case using Cons acc by (cases x) (auto simp: Let_def prio_def)
qed simp

lemma pick_stable: "\<forall>x\<in>set fs. prio (fst x) \<le> p \<Longrightarrow> pick fs (p, g, wr, v) = (p, g, wr, v)"
  by (induction fs) auto

lemma find_argmax:
  assumes "y \<in> set fs" "p < prio (fst y)"
  shows "\<exists>x. find (\<lambda>x. p < prio (fst x) \<and> outranks_all fs x) fs = Some x"
proof -
  have "Max ((\<lambda>x. prio (fst x)) ` set fs) \<in> (\<lambda>x. prio (fst x)) ` set fs"
    using assms by (intro Max_in) auto
  then obtain z where z: "z \<in> set fs" "prio (fst z) = Max ((\<lambda>x. prio (fst x)) ` set fs)" by auto
  then have "outranks_all fs z" by (simp add: outranks_all_def)
  moreover from this have "p < prio (fst z)" using assms by (auto simp: outranks_all_def intro: less_le_trans)
  ultimately have "find (\<lambda>x. p < prio (fst x) \<and> outranks_all fs x) fs \<noteq> None"
    unfolding find_None_iff using z(1) by blast
  then show ?thesis by blast
qed

lemma pick_spec:
  "pick fs (p, g, wr, v) =
     (case find (\<lambda>x. p < prio (fst x) \<and> outranks_all fs x) fs of
        None \<Rightarrow> (p, g, wr, v)
      | Some (r, g', v') \<Rightarrow> (prio r, g', Some r, v'))"
proof (induction fs arbitrary: p g wr v)
  case (Cons a fs)
  obtain r g' v' where a: "a = (r, g', v')" by (cases a)
  consider (top) "p < prio r" "\<forall>x\<in>set fs. prio (fst x) \<le> prio r"
    | (later) y where "p < prio r" "y \<in> set fs" "prio r < prio (fst y)"
    | (low) "\<not> p < prio r" by force
  then show ?case
  proof cases
    case top
    then show ?thesis using a pick_stable [of fs "prio r"] by (auto simp: outranks_all_def)
  next
    case later
    then have eq: "(\<lambda>x. p < prio (fst x) \<and> outranks_all (a # fs) x) =
        (\<lambda>x. prio r < prio (fst x) \<and> outranks_all fs x)"
      using a by (force simp: outranks_all_def)
    obtain x where "find (\<lambda>x. prio r < prio (fst x) \<and> outranks_all fs x) fs = Some x"
      using find_argmax [OF later(2,3)] by blast
    then show ?thesis unfolding eq using later a Cons.IH [of "prio r"] by simp
  next
    case low
    then have eq: "(\<lambda>x. p < prio (fst x) \<and> outranks_all (a # fs) x) =
        (\<lambda>x. p < prio (fst x) \<and> outranks_all fs x)"
      using a by (force simp: outranks_all_def)
    show ?thesis unfolding eq using low a Cons.IH by simp
  qed
qed simp

lemma above_start [simp]: "- 1 < prio r"
  using prio_nonneg [of r] by linarith

lemma ResolvePolicy_spec:
  assumes "\<forall>r\<in>set (lp_rules pol). rule_windowed r \<longrightarrow> 0 \<le> pr_window r"
  shows "ResolvePolicy ms pol vm = Inr (policy_spec ms pol vm)"
  using resolve_loop_pick [OF assms, of ms vm "(- 1, no_goal, None, 0)"]
  by (simp add: ResolvePolicy_def policy_spec_def pick_spec Let_def split: option.splits prod.splits)

lemma fired_iff:
  "(r, g, v) \<in> set (fired ms vm rs) \<longleftrightarrow> r \<in> set rs \<and> eval_rule ms vm r = Inr (Some (g, v))"
proof (induction rs)
  case (Cons r' rs)
  then show ?case
  proof (cases "eval_rule ms vm r'")
    case (Inr x)
    then show ?thesis using Cons by (cases x) auto
  qed (auto simp: fired_def List.map_filter_simps)
qed simp

text \<open>A fired rule is never outranked by the rule the engine returns.\<close>

lemma policy_spec_max:
  assumes "r \<in> set (lp_rules pol)" "eval_rule ms vm r = Inr (Some (g, v))"
  obtains r' g' v' where "policy_spec ms pol vm = (g', Some r', v')" "prio r \<le> prio r'"
    "r' \<in> set (lp_rules pol)" "eval_rule ms vm r' = Inr (Some (g', v'))"
proof -
  let ?fs = "fired ms vm (lp_rules pol)"
  have m: "(r, g, v) \<in> set ?fs" using assms by (simp add: fired_iff)
  obtain x where "find (outranks_all ?fs) ?fs = Some x"
    using find_argmax [OF m, of "- 1"] by auto
  moreover obtain r' g' v' where x: "x = (r', g', v')" by (cases x)
  ultimately have f: "find (outranks_all ?fs) ?fs = Some (r', g', v')" by simp
  then have "(r', g', v') \<in> set ?fs" "outranks_all ?fs (r', g', v')"
    by (auto simp: find_Some_iff)
  moreover from this(2) have "prio r \<le> prio r'" using m by (force simp: outranks_all_def)
  ultimately show thesis using f that by (simp add: policy_spec_def fired_iff)
qed

lemma eval_pause_goal:
  "eval_rule ms vm r = Inr (Some (g, v)) \<Longrightarrow> pa_type (pr_action r) = Pause \<Longrightarrow>
   g = no_goal\<lparr>gs_state := Some WPaused\<rparr>"
  by (auto simp: eval_rule_def split: if_splits sum.splits)

lemma prio_Pause: "prio r = 2 \<longleftrightarrow> pa_type (pr_action r) = Pause"
  by (cases "pa_type (pr_action r)") (auto simp: prio_def)

lemma prio_le_2: "prio r \<le> 2"
  by (cases "pa_type (pr_action r)") (auto simp: prio_def)

section \<open>Windows\<close>

definition run_amount :: "workflow_invocation_snapshot \<Rightarrow> policy_rule \<Rightarrow> float64" where
  "run_amount s r = (case run_value s (pr_metric r) (pr_tool_name r) of Inl _ \<Rightarrow> 0 | Inr v \<Rightarrow> v)"

text \<open>The sum a windowed rule compares with its threshold.\<close>

definition window_total :: "workflow_invocation_snapshot list \<Rightarrow> policy_rule \<Rightarrow> float64" where
  "window_total ms r = (\<Sum>s\<leftarrow>last_n (nat (pr_window r)) (observed ms r). run_amount s r)"

lemma sum_runs_total:
  "\<forall>s\<in>set ss. MetricEmitted s (pr_metric r) (pr_tool_name r) \<Longrightarrow>
   sum_runs ss (pr_metric r) (pr_tool_name r) acc = Inr (acc + (\<Sum>s\<leftarrow>ss. run_amount s r))"
proof (induction ss arbitrary: acc)
  case (Cons s ss)
  then obtain v where "run_value s (pr_metric r) (pr_tool_name r) = Inr v"
    using run_value_emitted by force
  with Cons show ?case by (simp add: run_amount_def add.assoc)
qed simp

lemma observed_emitted: "s \<in> set (last_n n (observed ms r)) \<Longrightarrow> MetricEmitted s (pr_metric r) (pr_tool_name r)"
  using set_last_n [of n "observed ms r"] by (auto simp: observed_def)

text \<open>A windowed rule fires exactly when the last run emitted the metric and the window sum crosses.\<close>

definition windowed_goal :: "policy_rule \<Rightarrow> goal_state" where
  "windowed_goal r = (if pa_type (pr_action r) = Cooldown
     then no_goal\<lparr>gs_cooldown := pa_cooldown_seconds (pr_action r), gs_state := Some WCooldown\<rparr>
     else no_goal\<lparr>gs_state := Some WPaused\<rparr>)"

lemma eval_windowed:
  assumes "rule_windowed r" "0 \<le> pr_window r"
  shows "eval_rule ms vm r =
    Inr (if ms \<noteq> [] \<and> MetricEmitted (last ms) (pr_metric r) (pr_tool_name r) \<and> window_total ms r \<ge> pr_threshold r
         then Some (windowed_goal r, window_total ms r) else None)"
proof -
  have "sum_runs (last_n (nat (pr_window r)) (observed ms r)) (pr_metric r) (pr_tool_name r) 0 = Inr (window_total ms r)"
    by (subst sum_runs_total) (auto simp: window_total_def observed_emitted)
  moreover have "window_slice (observed ms r) (pr_window r) = Inr (last_n (nat (pr_window r)) (observed ms r))"
    using assms by (simp add: window_slice_ok)
  ultimately show ?thesis using assms(1)
    by (auto simp: eval_rule_def rule_windowed_def windowed_goal_def)
qed

lemma observed_snoc:
  "observed (ms @ [s]) r = (if MetricEmitted s (pr_metric r) (pr_tool_name r) then observed ms r @ [s] else observed ms r)"
  by (simp add: observed_def)

lemma window_total_snoc:
  assumes "MetricEmitted s (pr_metric r) (pr_tool_name r)" "int (length (observed ms r)) < pr_window r"
  shows "window_total (ms @ [s]) r = window_total ms r + run_amount s r"
  using assms by (simp add: window_total_def observed_snoc last_n_all)

section \<open>Sample inputs\<close>

definition sample_run :: "int \<Rightarrow> workflow_invocation_snapshot" where
  "sample_run n = \<lparr>s_cost_usd = None, s_llm_calls = None, s_latency_seconds = None, s_failures = Some n,
     s_approval_rejections = None, s_tool_failure_counts = [], s_ran_at = 0, s_request_id = []\<rparr>"

definition sample_rule :: "policy_action_type \<Rightarrow> int \<Rightarrow> policy_rule" where
  "sample_rule a w = \<lparr>pr_metric = NumFailures, pr_threshold = 2, pr_window = w, pr_tool_name = [],
     pr_action = \<lparr>pa_type = a, pa_cooldown_seconds = 60, pa_target_version = 7\<rparr>\<rparr>"

definition sample_totals :: workflow_version_metrics where
  "sample_totals = \<lparr>v_workflow_id = [], v_version = 1, v_epoch = 1, v_total_cost = 0, v_run_count = 2,
     v_total_failures = 5, v_total_llm_calls = 0, v_total_latency_seconds = 0,
     v_total_approval_rejections = 0, v_tool_failure_counts = []\<rparr>"

definition sample_policy :: lifecycle_policy where
  "sample_policy = \<lparr>lp_rules = [sample_rule SetVersion 0, sample_rule Cooldown 3, sample_rule Pause 3]\<rparr>"

lemmas sample_defs = sample_run_def sample_rule_def sample_totals_def sample_policy_def

section \<open>Properties of the engine\<close>

text \<open>C23. The optimised single pass over the rules computes the declarative choice: among the rules
  that fire, the first one of the highest action priority (pause over cooldown over set_version), with
  the goal state and the crossing value of that rule; no goal when nothing fires. In particular it never
  panics, provided the windows of pause and cooldown rules are not negative (the API requires 1..100).\<close>

theorem resolve_policy_first_of_highest_priority:
  assumes "\<forall>r\<in>set (lp_rules pol). rule_windowed r \<longrightarrow> 0 \<le> pr_window r"
  shows "ResolvePolicy ms pol vm = Inr (policy_spec ms pol vm)"
  by (rule ResolvePolicy_spec [OF assms])

theorem resolve_policy_first_of_highest_priority_witness:
  "ResolvePolicy [sample_run 1, sample_run 1] sample_policy sample_totals =
     Inr (policy_spec [sample_run 1, sample_run 1] sample_policy sample_totals)"
  by (rule resolve_policy_first_of_highest_priority) (simp add: sample_defs rule_windowed_def)

text \<open>C24. A pause rule that crosses its threshold always pauses the workflow, whatever cooldown or
  set_version rules fire with it and in whatever order they stand.\<close>

theorem crossing_pause_rule_pauses:
  assumes "\<forall>r\<in>set (lp_rules pol). rule_windowed r \<longrightarrow> 0 \<le> pr_window r"
    and "r \<in> set (lp_rules pol)" "pa_type (pr_action r) = Pause"
    and "ms \<noteq> []" "MetricEmitted (last ms) (pr_metric r) (pr_tool_name r)"
    and "pr_threshold r \<le> window_total ms r"
  shows "\<exists>r' v. ResolvePolicy ms pol vm = Inr (no_goal\<lparr>gs_state := Some WPaused\<rparr>, Some r', v) \<and>
           pa_type (pr_action r') = Pause"
proof -
  have "eval_rule ms vm r = Inr (Some (windowed_goal r, window_total ms r))"
    using assms by (simp add: eval_windowed rule_windowed_def)
  from policy_spec_max [OF assms(2) this] obtain r' g' v' where
    r': "policy_spec ms pol vm = (g', Some r', v')" "prio r \<le> prio r'" "eval_rule ms vm r' = Inr (Some (g', v'))"
    by blast
  moreover have "prio r = 2" using assms(3) by (simp add: prio_Pause)
  then have "pa_type (pr_action r') = Pause" using r'(2) prio_le_2 [of r'] prio_Pause [of r'] by simp
  ultimately show ?thesis
    using ResolvePolicy_spec [OF assms(1), of ms vm] eval_pause_goal [of ms vm r' g' v'] by auto
qed

theorem crossing_pause_rule_pauses_witness:
  "\<exists>r' v. ResolvePolicy [sample_run 1, sample_run 1] sample_policy sample_totals =
     Inr (no_goal\<lparr>gs_state := Some WPaused\<rparr>, Some r', v) \<and> pa_type (pr_action r') = Pause"
  by (rule crossing_pause_rule_pauses [where r = "sample_rule Pause 3"])
    (simp_all add: sample_defs rule_windowed_def window_total_def observed_def last_n_def run_amount_def)

text \<open>C25. The remark in the engine that a crossed sum stays crossed holds while the window is not
  full: a further run with a non-negative amount cannot un-cross a windowed rule.\<close>

theorem crossed_rule_stays_crossed_until_window_full:
  assumes "rule_windowed r" "eval_rule ms vm r = Inr (Some (g, v))"
    and "int (length (observed ms r)) < pr_window r"
    and "MetricEmitted s (pr_metric r) (pr_tool_name r)" "0 \<le> run_amount s r"
  shows "\<exists>v'. eval_rule (ms @ [s]) vm' r = Inr (Some (g, v')) \<and> v \<le> v'"
proof -
  have w: "0 \<le> pr_window r" using assms(3) by linarith
  have "g = windowed_goal r" "v = window_total ms r" "pr_threshold r \<le> v"
    using assms(2) by (auto simp: eval_windowed [OF assms(1) w] split: if_splits)
  then show ?thesis
    using assms(4,5) by (auto simp: eval_windowed [OF assms(1) w] window_total_snoc [OF assms(4,3)])
qed

theorem crossed_rule_stays_crossed_until_window_full_witness:
  "\<exists>v'. eval_rule ([sample_run 1, sample_run 1] @ [sample_run 0]) sample_totals (sample_rule Pause 3) =
     Inr (Some (windowed_goal (sample_rule Pause 3), v')) \<and> 2 \<le> v'"
  by (rule crossed_rule_stays_crossed_until_window_full [where vm = sample_totals])
    (simp_all add: sample_defs rule_windowed_def windowed_goal_def eval_rule_def window_slice_def observed_def
      run_amount_def)

text \<open>Once the window is full the remark no longer holds: a run without failures pushes an older
  failing run out of a window of two, and the rule that had crossed does not fire any more.\<close>

theorem full_window_can_uncross:
  "eval_rule [sample_run 2, sample_run 0] sample_totals (sample_rule Pause 2) =
     Inr (Some (windowed_goal (sample_rule Pause 2), 2)) \<and>
   eval_rule ([sample_run 2, sample_run 0] @ [sample_run 0]) sample_totals (sample_rule Pause 2) = Inr None"
  by (simp add: sample_defs windowed_goal_def eval_rule_def window_slice_def observed_def)

end
