(* ===== verification/MetricsModel.thy ===== *)
theory MetricsModel
  imports ResolverRepo PolicyEngine
begin

text \<open>
  The metrics handler, \<open>src/internal/metrics/metricshandler.go\<close>: merging the per-operation reports into
  the job's accumulator (int32 counters that wrap) and, once per run, folding the job's metrics into the
  agents' histories, the version totals and the workflow's run history. Go \<open>int\<close> sums are unbounded
  here; dereferencing a nil pointer is \<open>Inl Panic\<close>.
\<close>

section \<open>Accumulators\<close>

definition addF64 :: "float64 option \<Rightarrow> float64 option \<Rightarrow> float64 option" where
  "addF64 dst src = (case src of None \<Rightarrow> dst | Some x \<Rightarrow> (case dst of None \<Rightarrow> Some x | Some y \<Rightarrow> Some (y + x)))"

definition addI32 :: "int option \<Rightarrow> int option \<Rightarrow> int option" where
  "addI32 dst src = (case src of None \<Rightarrow> dst | Some x \<Rightarrow> (case dst of None \<Rightarrow> Some x | Some y \<Rightarrow> Some (int32 (y + x))))"

definition accF64 :: "float64 option \<Rightarrow> float64 \<Rightarrow> float64 option" where
  "accF64 dst v = (case dst of None \<Rightarrow> Some v | Some y \<Rightarrow> Some (y + v))"

definition accInt :: "int option \<Rightarrow> int \<Rightarrow> int option" where
  "accInt dst v = (case dst of None \<Rightarrow> Some v | Some y \<Rightarrow> Some (y + v))"

text \<open>A missing map key reads as zero.\<close>

definition count_of :: "(string \<times> int) list \<Rightarrow> string \<Rightarrow> int" where
  "count_of m k = (case map_of m k of None \<Rightarrow> 0 | Some n \<Rightarrow> n)"

definition add_counts32 :: "(string \<times> int) list \<Rightarrow> (string \<times> int) list \<Rightarrow> (string \<times> int) list" where
  "add_counts32 dst src = fold (\<lambda>(t, n) m. AList.update t (int32 (count_of m t + n)) m) src dst"

definition add_counts :: "(string \<times> int) list \<Rightarrow> (string \<times> int) list \<Rightarrow> (string \<times> int) list" where
  "add_counts dst src = fold (\<lambda>(t, n) m. AList.update t (count_of m t + n) m) src dst"

section \<open>Merging an operation's report into the job\<close>

definition merge_metric :: "agent_invocation_metrics \<Rightarrow> agent_invocation_metrics \<Rightarrow> agent_invocation_metrics" where
  "merge_metric job op = job\<lparr>
     m_cost_usd := addF64 (m_cost_usd job) (m_cost_usd op),
     m_llm_calls := addI32 (m_llm_calls job) (m_llm_calls op),
     m_tokens_used := addI32 (m_tokens_used job) (m_tokens_used op),
     m_latency_seconds := addF64 (m_latency_seconds job) (m_latency_seconds op),
     m_failures := addI32 (m_failures job) (m_failures op),
     m_approval_rejections := addI32 (m_approval_rejections job) (m_approval_rejections op),
     m_tool_failure_counts := add_counts32 (m_tool_failure_counts job) (m_tool_failure_counts op),
     m_calls_per_tool := add_counts32 (m_calls_per_tool job) (m_calls_per_tool op)\<rparr>"

fun MergeAgentMetrics :: "agent_metrics \<Rightarrow> agent_metrics \<Rightarrow> agent_metrics result" where
  "MergeAgentMetrics [] job = Inr job"
| "MergeAgentMetrics ((a, None) # ops) job = MergeAgentMetrics ops job"
| "MergeAgentMetrics ((a, Some op) # ops) job =
     (case map_of job a of
        None \<Rightarrow> MergeAgentMetrics ops (AList.update a (Some op) job)
      | Some None \<Rightarrow> Inl Panic
      | Some (Some jm) \<Rightarrow> MergeAgentMetrics ops (AList.update a (Some (merge_metric jm op)) job))"

definition MergeWorkflowMetrics :: "workflow_job_metrics \<Rightarrow> workflow_job_metrics \<Rightarrow> workflow_job_metrics" where
  "MergeWorkflowMetrics op job = job\<lparr>wm_failures := wm_failures job + wm_failures op,
     wm_approval_rejections := (case wm_approval_rejections op of
        None \<Rightarrow> wm_approval_rejections job | Some n \<Rightarrow> accInt (wm_approval_rejections job) n)\<rparr>"

section \<open>Promoting a run's metrics\<close>

definition toAgentInvocationSnapshot :: "agent_invocation_metrics \<Rightarrow> string \<Rightarrow> agent_invocation_snapshot" where
  "toAgentInvocationSnapshot m rid = \<lparr>a_cost_usd = m_cost_usd m, a_llm_calls = m_llm_calls m,
     a_tokens_used = m_tokens_used m, a_latency_seconds = m_latency_seconds m, a_failures = m_failures m,
     a_approval_rejections = m_approval_rejections m, a_tool_failure_counts = m_tool_failure_counts m,
     a_calls_per_tool = m_calls_per_tool m, a_ran_at = m_ran_at m, a_request_id = rid\<rparr>"

text \<open>\<open>append\<close>, then keep the last MaxLifecycleWindow entries.\<close>

definition push_history :: "'a list \<Rightarrow> 'a \<Rightarrow> 'a list" where
  "push_history xs x = last_n (nat MaxLifecycleWindow) (xs @ [x])"

definition fold_totals :: "agent_invocation_metrics \<Rightarrow> workflow_version_metrics \<Rightarrow> workflow_version_metrics" where
  "fold_totals m v = v\<lparr>
     v_total_cost := v_total_cost v + (case m_cost_usd m of None \<Rightarrow> 0 | Some c \<Rightarrow> c),
     v_total_llm_calls := v_total_llm_calls v + (case m_llm_calls m of None \<Rightarrow> 0 | Some c \<Rightarrow> c),
     v_total_latency_seconds := v_total_latency_seconds v + (case m_latency_seconds m of None \<Rightarrow> 0 | Some c \<Rightarrow> c),
     v_total_approval_rejections := v_total_approval_rejections v + (case m_approval_rejections m of None \<Rightarrow> 0 | Some c \<Rightarrow> c),
     v_tool_failure_counts := add_counts (v_tool_failure_counts v) (m_tool_failure_counts m)\<rparr>"

definition acc_opt :: "('a option \<Rightarrow> 'a \<Rightarrow> 'a option) \<Rightarrow> 'a option \<Rightarrow> 'a option \<Rightarrow> 'a option" where
  "acc_opt f dst src = (case src of None \<Rightarrow> dst | Some v \<Rightarrow> f dst v)"

definition fold_snapshot :: "agent_invocation_metrics \<Rightarrow> workflow_invocation_snapshot \<Rightarrow> workflow_invocation_snapshot" where
  "fold_snapshot m s = s\<lparr>
     s_cost_usd := acc_opt accF64 (s_cost_usd s) (m_cost_usd m),
     s_llm_calls := acc_opt accInt (s_llm_calls s) (m_llm_calls m),
     s_latency_seconds := acc_opt accF64 (s_latency_seconds s) (m_latency_seconds m),
     s_approval_rejections := acc_opt accInt (s_approval_rejections s) (m_approval_rejections m),
     s_tool_failure_counts := add_counts (s_tool_failure_counts s) (m_tool_failure_counts m)\<rparr>"

definition push_agent :: "string \<Rightarrow> string \<Rightarrow> agent_invocation_metrics \<Rightarrow> (string \<times> agent_state) list \<Rightarrow> (string \<times> agent_state) list" where
  "push_agent rid a m sts = AList.update a
     (case map_of sts a of
        Some st \<Rightarrow> st\<lparr>as_invocation_metrics := push_history (as_invocation_metrics st) (toAgentInvocationSnapshot m rid)\<rparr>
      | None \<Rightarrow> \<lparr>as_runtime_policy = None, as_lifecycle_policy = None,
                 as_invocation_metrics = [toAgentInvocationSnapshot m rid]\<rparr>) sts"

text \<open>The loop over the job's agents: version totals, run snapshot and agent states.\<close>

fun fold_agents :: "string \<Rightarrow> agent_metrics \<Rightarrow>
    workflow_version_metrics \<times> workflow_invocation_snapshot \<times> (string \<times> agent_state) list \<Rightarrow>
    workflow_version_metrics \<times> workflow_invocation_snapshot \<times> (string \<times> agent_state) list" where
  "fold_agents rid [] acc = acc"
| "fold_agents rid ((a, None) # ms) acc = fold_agents rid ms acc"
| "fold_agents rid ((a, Some m) # ms) (v, s, sts) =
     fold_agents rid ms (fold_totals m v, fold_snapshot m s, push_agent rid a m sts)"

text \<open>Collecting the touched agents dereferences a missing state for a nil entry of an unknown agent.\<close>

fun touched :: "(string \<times> agent_state) list \<Rightarrow> string list \<Rightarrow> (string \<times> agent_invocation_snapshot list) list result" where
  "touched sts [] = Inr []"
| "touched sts (a # as) =
     (case map_of sts a of
        None \<Rightarrow> Inl Panic
      | Some st \<Rightarrow> (case touched sts as of Inl e \<Rightarrow> Inl e | Inr xs \<Rightarrow> Inr ((a, as_invocation_metrics st) # xs)))"

definition fold_workflow_metrics :: "workflow_job_metrics \<Rightarrow> workflow_version_metrics \<times> workflow_invocation_snapshot \<Rightarrow>
    workflow_version_metrics \<times> workflow_invocation_snapshot" where
  "fold_workflow_metrics wm vs = (case vs of (v, s) \<Rightarrow>
     (v\<lparr>v_total_failures := v_total_failures v + wm_failures wm,
        v_total_approval_rejections := v_total_approval_rejections v + (case wm_approval_rejections wm of None \<Rightarrow> 0 | Some n \<Rightarrow> n)\<rparr>,
      s\<lparr>s_failures := accInt (s_failures s) (wm_failures wm),
        s_approval_rejections := acc_opt accInt (s_approval_rejections s) (wm_approval_rejections wm)\<rparr>))"

definition fresh_snapshot :: "string \<Rightarrow> int \<Rightarrow> workflow_invocation_snapshot" where
  "fresh_snapshot rid now = \<lparr>s_cost_usd = None, s_llm_calls = None, s_latency_seconds = None, s_failures = None,
     s_approval_rejections = None, s_tool_failure_counts = [], s_ran_at = now div 1000, s_request_id = rid\<rparr>"

text \<open>What the handler computes in memory before the emission.\<close>

definition run_metrics :: "string \<Rightarrow> agent_metrics \<Rightarrow> workflow_job_metrics \<Rightarrow> workflow_version_metrics \<Rightarrow>
    (string \<times> agent_state) list \<Rightarrow> int \<Rightarrow>
    workflow_version_metrics \<times> workflow_invocation_snapshot \<times> (string \<times> agent_state) list" where
  "run_metrics rid im wm v0 sts now =
     (case fold_agents rid im (v0\<lparr>v_run_count := v_run_count v0 + 1\<rparr>, fresh_snapshot rid now, sts) of
        (v, s, sts') \<Rightarrow> (case fold_workflow_metrics wm (v, s) of (v', s') \<Rightarrow> (v', s', sts')))"

text \<open>
  The workflow argument is a pointer whose run history the handler extends, whether or not the
  emission applies; the extended workflow is part of the result.
\<close>

definition HandleAgentMetrics ::
  "(string \<Rightarrow> bool) \<Rightarrow> string \<Rightarrow> agent_metrics \<Rightarrow> workflow_job_metrics \<Rightarrow> string \<Rightarrow> workflow \<Rightarrow> timestamp \<Rightarrow> db \<Rightarrow>
   db \<times> (workflow_version_metrics \<times> workflow) result" where
  "HandleAgentMetrics flt rid im wm i w now d =
     (if flt ''GetCurrentVersionMetrics'' then (d, Inl DbError)
      else if flt ''GetAllForWorkflow'' then (d, Inl DbError)
      else let v0 = (case GetCurrentVersionMetrics i (w_current_workflow_version w) d of
                       None \<Rightarrow> zero_version_metrics i (w_current_workflow_version w) 1 | Some v \<Rightarrow> v)
           in case run_metrics rid im wm v0 (GetAllForWorkflow i d) now of (v, s, sts) \<Rightarrow>
             (case touched sts (map fst im) of
                Inl e \<Rightarrow> (d, Inl e)
              | Inr agents \<Rightarrow>
                  (let w' = w\<lparr>w_invocation_metrics := push_history (w_invocation_metrics w) s\<rparr>
                   in if flt ''EmitMetrics'' then (d, Inl DbError)
                      else (fst (EmitMetrics i (w_current_version w) (w_invocation_metrics w') v agents d), Inr (v, w')))))"

section \<open>Accumulator values\<close>

definition fval :: "float64 option \<Rightarrow> float64" where
  "fval x = (case x of None \<Rightarrow> 0 | Some v \<Rightarrow> v)"

definition ival :: "int option \<Rightarrow> int" where
  "ival x = (case x of None \<Rightarrow> 0 | Some v \<Rightarrow> v)"

lemma fval_simps [simp]: "fval None = 0" "fval (Some x) = x" by (simp_all add: fval_def)

lemma ival_simps [simp]: "ival None = 0" "ival (Some x) = x" by (simp_all add: ival_def)

lemma fval_addF64 [simp]: "fval (addF64 a b) = fval a + fval b"
  by (simp add: addF64_def split: option.split)

lemma fval_acc [simp]: "fval (acc_opt accF64 a b) = fval a + fval b"
  by (simp add: acc_opt_def accF64_def split: option.split)

lemma ival_acc [simp]: "ival (acc_opt accInt a b) = ival a + ival b" "ival (accInt a v) = ival a + v"
  by (simp_all add: acc_opt_def accInt_def split: option.split)

text \<open>The range of a proto int32.\<close>

definition is_int32 :: "int \<Rightarrow> bool" where
  "is_int32 x = (- 2147483648 \<le> x \<and> x < 2147483648)"

lemma int32_is_int32 [simp]: "is_int32 (int32 x)"
  using int32_lower [of x] int32_upper [of x] by (simp add: is_int32_def)

lemma int32_of_is_int32: "is_int32 x \<Longrightarrow> int32 x = x"
  by (simp add: is_int32_def int32_id)

lemma ival_addI32: "is_int32 (ival a) \<Longrightarrow> is_int32 (ival b) \<Longrightarrow> ival (addI32 a b) = int32 (ival a + ival b)"
  by (cases a; cases b) (simp_all add: addI32_def int32_of_is_int32)

lemma count_of_update: "count_of (AList.update k v m) t = (if t = k then v else count_of m t)"
  by (simp add: count_of_def update_conv)

lemma count_of_Cons [simp]: "count_of ((k, n) # m) t = (if t = k then n else count_of m t)" "count_of [] t = 0"
  by (simp_all add: count_of_def)

lemma count_of_add_counts32:
  "distinct (map fst src) \<Longrightarrow>
   count_of (add_counts32 dst src) t = (case map_of src t of None \<Rightarrow> count_of dst t | Some n \<Rightarrow> int32 (count_of dst t + n))"
proof (induction src arbitrary: dst)
  case (Cons x src)
  obtain k n where x: "x = (k, n)" by (cases x)
  then have "map_of src k = None" using Cons.prems by (simp add: map_of_eq_None_iff)
  then show ?case using Cons x by (auto simp: add_counts32_def count_of_update split: option.split)
qed (simp add: add_counts32_def)

text \<open>What adding a map of counts adds to a tool does not depend on the map it is added to.\<close>

lemma count_of_add_counts: "count_of (add_counts dst src) t = count_of dst t + count_of (add_counts [] src) t"
proof (induction src arbitrary: dst)
  case (Cons x src)
  obtain k n where x: "x = (k, n)" by (cases x)
  have step: "add_counts e (x # src) = add_counts (AList.update k (count_of e k + n) e) src" for e by (simp add: add_counts_def x)
  show ?case unfolding step using Cons [of "AList.update k (count_of dst k + n) dst"] Cons [of "AList.update k (count_of [] k + n) []"]
    by (simp add: count_of_update)
qed (simp add: add_counts_def)

section \<open>Merging is a pointwise sum\<close>

definition no_nil :: "agent_metrics \<Rightarrow> bool" where
  "no_nil job = list_all (\<lambda>(_, m). m \<noteq> None) job"

lemma no_nil_lookup: "no_nil job \<Longrightarrow> map_of job a \<noteq> Some None"
  by (auto simp: no_nil_def list_all_iff dest!: map_of_SomeD)

lemma no_nil_update: "no_nil job \<Longrightarrow> no_nil (AList.update a (Some m) job)"
  by (induction job) (auto simp: no_nil_def)

lemma MergeAgentMetrics_total: "no_nil job \<Longrightarrow> \<exists>job'. MergeAgentMetrics ops job = Inr job' \<and> no_nil job'"
proof (induction ops job rule: MergeAgentMetrics.induct)
  case (3 a op ops job)
  then show ?case
    using no_nil_lookup [OF 3(3), of a] by (auto simp: no_nil_update split: option.split)
qed auto

lemma MergeAgentMetrics_lookup:
  "distinct (map fst ops) \<Longrightarrow> MergeAgentMetrics ops job = Inr job' \<Longrightarrow>
   map_of job' a = (case map_of ops a of
       Some (Some m) \<Rightarrow> (case map_of job a of Some (Some jm) \<Rightarrow> Some (Some (merge_metric jm m)) | _ \<Rightarrow> Some (Some m))
     | _ \<Rightarrow> map_of job a)"
proof (induction ops job rule: MergeAgentMetrics.induct)
  case (2 b ops job)
  then have "map_of ops b = None" by (simp add: map_of_eq_None_iff)
  with 2 show ?case by auto
next
  case (3 b op ops job)
  then have n: "map_of ops b = None" by (simp add: map_of_eq_None_iff)
  then show ?case using 3 by (auto simp: update_conv split: option.splits)
qed simp

section \<open>Totals and histories\<close>

lemma fold_totals_simps [simp]:
  "v_total_cost (fold_totals m v) = v_total_cost v + fval (m_cost_usd m)"
  "v_total_llm_calls (fold_totals m v) = v_total_llm_calls v + ival (m_llm_calls m)"
  "v_total_latency_seconds (fold_totals m v) = v_total_latency_seconds v + fval (m_latency_seconds m)"
  "v_total_approval_rejections (fold_totals m v) = v_total_approval_rejections v + ival (m_approval_rejections m)"
  "v_total_failures (fold_totals m v) = v_total_failures v"
  "v_run_count (fold_totals m v) = v_run_count v"
  "count_of (v_tool_failure_counts (fold_totals m v)) t = count_of (v_tool_failure_counts v) t + count_of (add_counts [] (m_tool_failure_counts m)) t"
  by (simp_all add: fold_totals_def fval_def ival_def count_of_add_counts [of "v_tool_failure_counts v"])

lemma fold_snapshot_simps [simp]:
  "fval (s_cost_usd (fold_snapshot m s)) = fval (s_cost_usd s) + fval (m_cost_usd m)"
  "ival (s_llm_calls (fold_snapshot m s)) = ival (s_llm_calls s) + ival (m_llm_calls m)"
  "fval (s_latency_seconds (fold_snapshot m s)) = fval (s_latency_seconds s) + fval (m_latency_seconds m)"
  "ival (s_approval_rejections (fold_snapshot m s)) = ival (s_approval_rejections s) + ival (m_approval_rejections m)"
  "s_failures (fold_snapshot m s) = s_failures s"
  "count_of (s_tool_failure_counts (fold_snapshot m s)) t = count_of (s_tool_failure_counts s) t + count_of (add_counts [] (m_tool_failure_counts m)) t"
  by (simp_all add: fold_snapshot_def count_of_add_counts [of "s_tool_failure_counts s"])

lemma fold_agents_totals:
  "fold_agents rid ms (v, s, sts) = (v', s', sts') \<Longrightarrow>
    v_total_cost v' - fval (s_cost_usd s') = v_total_cost v - fval (s_cost_usd s) \<and>
    v_total_llm_calls v' - ival (s_llm_calls s') = v_total_llm_calls v - ival (s_llm_calls s) \<and>
    v_total_latency_seconds v' - fval (s_latency_seconds s') = v_total_latency_seconds v - fval (s_latency_seconds s) \<and>
    v_total_approval_rejections v' - ival (s_approval_rejections s') = v_total_approval_rejections v - ival (s_approval_rejections s) \<and>
    count_of (v_tool_failure_counts v') t - count_of (s_tool_failure_counts s') t = count_of (v_tool_failure_counts v) t - count_of (s_tool_failure_counts s) t \<and>
    v_total_failures v' = v_total_failures v \<and> s_failures s' = s_failures s \<and> v_run_count v' = v_run_count v"
proof (induction rid ms "(v, s, sts)" arbitrary: v s sts rule: fold_agents.induct)
  case (3 rid a m ms v s sts)
  from 3 show ?case
    by (simp add: algebra_simps)
qed auto

definition short_histories :: "(string \<times> agent_state) list \<Rightarrow> bool" where
  "short_histories sts = rows_all (\<lambda>st. length (as_invocation_metrics st) \<le> 100) sts"

lemma length_push_history: "length (push_history xs x) \<le> 100"
  by (simp add: push_history_def MaxLifecycleWindow_def)

lemma short_push_agent: "short_histories sts \<Longrightarrow> short_histories (push_agent rid a m sts)"
  by (auto simp: short_histories_def push_agent_def length_push_history split: option.split intro!: rows_all_update)

lemma short_fold_agents: "fold_agents rid ms (v, s, sts) = (v', s', sts') \<Longrightarrow> short_histories sts \<Longrightarrow> short_histories sts'"
  by (induction rid ms "(v, s, sts)" arbitrary: v s sts rule: fold_agents.induct) (auto simp: short_push_agent)

lemma touched_short: "touched sts as = Inr xs \<Longrightarrow> short_histories sts \<Longrightarrow> rows_all (\<lambda>ms. length ms \<le> 100) xs"
  by (induction as arbitrary: xs)
    (auto simp: short_histories_def split: option.splits sum.splits dest: rows_all_lookup)

text \<open>Every stored history is at most 100 entries long.\<close>

definition bounded_histories :: "db \<Rightarrow> bool" where
  "bounded_histories d = (rows_all (\<lambda>w. length (w_invocation_metrics w) \<le> 100) (db_workflows d) \<and>
     rows_all (\<lambda>st. length (as_invocation_metrics st) \<le> 100) (db_agent_state d))"

lemma short_GetAllForWorkflow: "bounded_histories d \<Longrightarrow> short_histories (GetAllForWorkflow i d)"
  by (force simp: bounded_histories_def short_histories_def GetAllForWorkflow_def rows_all_def list_all_iff)

lemma bounded_put_histories:
  "rows_all (\<lambda>ms. length ms \<le> 100) as \<Longrightarrow> rows_all (\<lambda>st. length (as_invocation_metrics st) \<le> 100) (db_agent_state d) \<Longrightarrow>
   rows_all (\<lambda>st. length (as_invocation_metrics st) \<le> 100) (db_agent_state (put_histories i as d))"
  unfolding put_histories_def
proof (induction as arbitrary: d)
  case (Cons x as)
  obtain a ms where x: "x = (a, ms)" by (cases x)
  have "rows_all (\<lambda>st. length (as_invocation_metrics st) \<le> 100)
      (db_agent_state (upsert_agent i a (\<lambda>s. s\<lparr>as_invocation_metrics := ms\<rparr>) d))"
    using Cons.prems x by (simp add: upsert_agent_def rows_all_update)
  then show ?case using Cons x by simp
qed simp

lemma bounded_EmitMetrics:
  assumes "bounded_histories d" "length rolling \<le> 100" "rows_all (\<lambda>ms. length ms \<le> 100) agents"
  shows "bounded_histories (fst (EmitMetrics i v rolling vm agents d))"
proof -
  obtain d1 hit where u: "upd_wf i (\<lambda>w. w_metrics_emitted_at w < v)
      (\<lambda>w. w\<lparr>w_metrics_emitted_at := v, w_invocation_metrics := rolling\<rparr>) d = (d1, hit)" by fastforce
  then have d1: "d1 = fst (upd_wf i (\<lambda>w. w_metrics_emitted_at w < v)
      (\<lambda>w. w\<lparr>w_metrics_emitted_at := v, w_invocation_metrics := rolling\<rparr>) d)" by simp
  have "rows_all (\<lambda>w. length (w_invocation_metrics w) \<le> 100) (db_workflows d1)"
    unfolding d1 using assms by (auto simp: upd_wf_def bounded_histories_def case_prod_unfold intro!: rows_all_upd_row)
  moreover have "db_agent_state d1 = db_agent_state d" by (simp add: d1)
  ultimately show ?thesis using assms u
    by (cases hit) (simp_all add: EmitMetrics_def bounded_histories_def bounded_put_histories)
qed

section \<open>Sample metrics\<close>

definition no_metrics :: agent_invocation_metrics where
  "no_metrics = \<lparr>m_cost_usd = None, m_llm_calls = None, m_tokens_used = None, m_latency_seconds = None,
     m_failures = None, m_approval_rejections = None, m_tool_failure_counts = [], m_calls_per_tool = [], m_ran_at = 0\<rparr>"

definition one_failure :: workflow_job_metrics where
  "one_failure = \<lparr>wm_failures = 1, wm_approval_rejections = None\<rparr>"

section \<open>Properties\<close>

text \<open>Merging an operation's report into the job's accumulator is total and pointwise: an agent the
  operation reports is summed field by field into the job's entry, or carried over when the job has none;
  every other agent keeps its entry; a nil report changes nothing.\<close>

theorem merge_is_pointwise:
  assumes "no_nil job" "distinct (map fst ops)"
  shows "\<exists>job'. MergeAgentMetrics ops job = Inr job' \<and> no_nil job' \<and>
    (\<forall>a. map_of job' a = (case map_of ops a of
       Some (Some m) \<Rightarrow> (case map_of job a of Some (Some jm) \<Rightarrow> Some (Some (merge_metric jm m)) | _ \<Rightarrow> Some (Some m))
     | _ \<Rightarrow> map_of job a))"
  using MergeAgentMetrics_total [OF assms(1), of ops] MergeAgentMetrics_lookup [OF assms(2)] by blast

theorem merge_is_pointwise_witness:
  "\<exists>job'. MergeAgentMetrics [(''a'', Some (no_metrics\<lparr>m_llm_calls := Some 2\<rparr>))] [(''a'', Some (no_metrics\<lparr>m_llm_calls := Some 3\<rparr>))] = Inr job' \<and>
     map_option (map_option m_llm_calls) (map_of job' ''a'') = Some (Some (Some 5))"
proof -
  let ?ops = "[(''a'', Some (no_metrics\<lparr>m_llm_calls := Some 2\<rparr>))]"
  let ?job = "[(''a'', Some (no_metrics\<lparr>m_llm_calls := Some 3\<rparr>))]"
  obtain job' where "MergeAgentMetrics ?ops ?job = Inr job'"
    "map_of job' ''a'' = Some (Some (merge_metric (no_metrics\<lparr>m_llm_calls := Some 3\<rparr>) (no_metrics\<lparr>m_llm_calls := Some 2\<rparr>)))"
    using merge_is_pointwise [of ?job ?ops] by (auto simp: no_nil_def)
  then show ?thesis by (simp add: merge_metric_def addI32_def no_metrics_def int32_id)
qed

text \<open>Merged counters are the 32-bit sums: for counters that are proto int32 values the merged
  value is the sum reduced to 32 bits, also for the per-tool maps, and costs and latencies add exactly.\<close>

theorem merged_counters_are_wrapped_sums:
  assumes "is_int32 (ival (m_llm_calls j))" "is_int32 (ival (m_llm_calls m))"
    and "is_int32 (ival (m_failures j))" "is_int32 (ival (m_failures m))"
    and "distinct (map fst (m_calls_per_tool m))"
    and "is_int32 (count_of (m_calls_per_tool j) t)" "is_int32 (count_of (m_calls_per_tool m) t)"
  shows "ival (m_llm_calls (merge_metric j m)) = int32 (ival (m_llm_calls j) + ival (m_llm_calls m)) \<and>
    ival (m_failures (merge_metric j m)) = int32 (ival (m_failures j) + ival (m_failures m)) \<and>
    count_of (m_calls_per_tool (merge_metric j m)) t = int32 (count_of (m_calls_per_tool j) t + count_of (m_calls_per_tool m) t) \<and>
    fval (m_cost_usd (merge_metric j m)) = fval (m_cost_usd j) + fval (m_cost_usd m)"
proof -
  have "count_of (add_counts32 (m_calls_per_tool j) (m_calls_per_tool m)) t =
      int32 (count_of (m_calls_per_tool j) t + count_of (m_calls_per_tool m) t)"
  proof (cases "map_of (m_calls_per_tool m) t")
    case None
    then have "count_of (m_calls_per_tool m) t = 0" by (simp add: count_of_def)
    then show ?thesis using None assms(6) by (simp add: count_of_add_counts32 [OF assms(5)] int32_of_is_int32)
  next
    case (Some n)
    then have "count_of (m_calls_per_tool m) t = n" by (simp add: count_of_def)
    then show ?thesis using Some by (simp add: count_of_add_counts32 [OF assms(5)])
  qed
  then show ?thesis using assms by (simp add: merge_metric_def ival_addI32)
qed

theorem merged_counters_are_wrapped_sums_witness:
  "ival (m_llm_calls (merge_metric (no_metrics\<lparr>m_llm_calls := Some 2147483647\<rparr>) (no_metrics\<lparr>m_llm_calls := Some 1\<rparr>))) = - 2147483648"
proof -
  have "ival (m_llm_calls (merge_metric (no_metrics\<lparr>m_llm_calls := Some 2147483647\<rparr>) (no_metrics\<lparr>m_llm_calls := Some 1\<rparr>))) =
      int32 (2147483647 + 1)"
    using merged_counters_are_wrapped_sums [of "no_metrics\<lparr>m_llm_calls := Some 2147483647\<rparr>" "no_metrics\<lparr>m_llm_calls := Some 1\<rparr>" "''t''"]
    by (simp add: no_metrics_def is_int32_def)
  also have "\<dots> = - 2147483648" by (simp add: int32_def)
  finally show ?thesis .
qed

text \<open>C34. The run snapshot and the version totals of a run agree: promoting a run's metrics raises each
  total of the version (cost, LLM calls, latency, failures, approval rejections and the failures of every tool) by exactly the
  amount the run's snapshot records, and the run count by one.\<close>

theorem totals_grow_by_run_snapshot:
  "case run_metrics rid im wm v0 sts now of (v, s, sts') \<Rightarrow>
     v_run_count v = v_run_count v0 + 1 \<and>
     v_total_cost v = v_total_cost v0 + fval (s_cost_usd s) \<and>
     v_total_llm_calls v = v_total_llm_calls v0 + ival (s_llm_calls s) \<and>
     v_total_latency_seconds v = v_total_latency_seconds v0 + fval (s_latency_seconds s) \<and>
     v_total_failures v = v_total_failures v0 + ival (s_failures s) \<and>
     v_total_approval_rejections v = v_total_approval_rejections v0 + ival (s_approval_rejections s) \<and>
     (\<forall>t. count_of (v_tool_failure_counts v) t = count_of (v_tool_failure_counts v0) t + count_of (s_tool_failure_counts s) t) \<and>
     s_failures s \<noteq> None \<and> s_request_id s = rid"
proof -
  obtain v1 s1 sts1 where f: "fold_agents rid im (v0\<lparr>v_run_count := v_run_count v0 + 1\<rparr>, fresh_snapshot rid now, sts) = (v1, s1, sts1)"
    by (cases "fold_agents rid im (v0\<lparr>v_run_count := v_run_count v0 + 1\<rparr>, fresh_snapshot rid now, sts)")
  have rid: "fold_agents rid ms (v, s, st) = (v', s', st') \<Longrightarrow> s_request_id s' = s_request_id s" for ms v s st v' s' st'
    by (induction rid ms "(v, s, st)" arbitrary: v s st rule: fold_agents.induct) (auto simp: fold_snapshot_def)
  have tools: "count_of (v_tool_failure_counts v1) t = count_of (v_tool_failure_counts v0) t + count_of (s_tool_failure_counts s1) t" for t
    using fold_agents_totals [OF f, of t] by (simp add: fresh_snapshot_def)
  show ?thesis using fold_agents_totals [OF f] rid [OF f] f tools
    by (auto simp: run_metrics_def fold_workflow_metrics_def fresh_snapshot_def ival_def [of "wm_approval_rejections wm"] accInt_def)
qed

lemma HandleAgentMetrics_emit:
  "HandleAgentMetrics flt rid im wm i w now d = (d', Inr (v, w')) \<Longrightarrow>
   \<exists>agents. d' = fst (EmitMetrics i (w_current_version w) (w_invocation_metrics w') v agents d) \<and>
     (\<exists>s. w' = w\<lparr>w_invocation_metrics := push_history (w_invocation_metrics w) s\<rparr>) \<and>
     (bounded_histories d \<longrightarrow> rows_all (\<lambda>ms. length ms \<le> 100) agents)"
proof -
  let ?v0 = "case GetCurrentVersionMetrics i (w_current_workflow_version w) d of
      None \<Rightarrow> zero_version_metrics i (w_current_workflow_version w) 1 | Some v \<Rightarrow> v"
  assume h: "HandleAgentMetrics flt rid im wm i w now d = (d', Inr (v, w'))"
  obtain v1 s sts where r: "run_metrics rid im wm ?v0 (GetAllForWorkflow i d) now = (v1, s, sts)"
    by (cases "run_metrics rid im wm ?v0 (GetAllForWorkflow i d) now")
  have short: "bounded_histories d \<Longrightarrow> short_histories sts"
    using r short_GetAllForWorkflow [of d i] short_fold_agents
    by (fastforce simp: run_metrics_def fold_workflow_metrics_def split: prod.splits)
  obtain agents where t: "touched sts (map fst im) = Inr agents"
    using h r by (auto simp: HandleAgentMetrics_def Let_def split: if_splits sum.splits)
  then show ?thesis using h r short touched_short [OF t]
    by (auto simp: HandleAgentMetrics_def Let_def split: if_splits)
qed

lemma HandleAgentMetrics_error: "HandleAgentMetrics flt rid im wm i w now d = (d', Inl e) \<Longrightarrow> d' = d"
  by (auto simp: HandleAgentMetrics_def Let_def split: if_splits sum.splits prod.splits)

text \<open>C35. Histories stay bounded: promoting a run's metrics keeps every stored run history and every
  agent history at 100 entries or fewer, whatever the run reported and whether or not it was emitted.\<close>

theorem histories_stay_bounded:
  assumes "bounded_histories d"
  shows "bounded_histories (fst (HandleAgentMetrics flt rid im wm i w now d))"
proof (cases "HandleAgentMetrics flt rid im wm i w now d")
  case (Pair d' r)
  show ?thesis
  proof (cases r)
    case (Inl e)
    then show ?thesis using Pair HandleAgentMetrics_error assms by fastforce
  next
    case (Inr x)
    obtain v w' where "x = (v, w')" by (cases x)
    with Pair Inr HandleAgentMetrics_emit [of flt rid im wm i w now d d' v w'] assms show ?thesis
      by (auto simp: length_push_history intro!: bounded_EmitMetrics)
  qed
qed

theorem histories_stay_bounded_witness:
  "bounded_histories (fst (HandleAgentMetrics (\<lambda>_. False) ''r1'' [] one_failure ''w'' sample_wf 5 (sample_db RInProgress (sample_job JCompleted None None))))"
  by (rule histories_stay_bounded) (simp add: bounded_histories_def sample_row_defs)

text \<open>Promoting the metrics of a run twice stores them once: when the workflow's metrics were already
  emitted for its current run, the call changes nothing in the database.\<close>

theorem promoting_metrics_again_stores_nothing:
  assumes "wf_of d i = Some row" "w_current_version w \<le> w_metrics_emitted_at row"
  shows "fst (HandleAgentMetrics flt rid im wm i w now d) = d"
proof (cases "HandleAgentMetrics flt rid im wm i w now d")
  case (Pair d' r)
  have stale: "fst (EmitMetrics i (w_current_version w) ro v ag d) = d" for ro v ag
    using assms by (intro EmitMetrics_miss) (auto simp: EmitMetrics_hit)
  show ?thesis
  proof (cases r)
    case (Inl e)
    then show ?thesis using Pair HandleAgentMetrics_error by fastforce
  next
    case (Inr x)
    obtain v w' where "x = (v, w')" by (cases x)
    with Pair Inr HandleAgentMetrics_emit [of flt rid im wm i w now d d' v w'] stale show ?thesis by auto
  qed
qed

theorem promoting_metrics_again_stores_nothing_witness:
  "fst (HandleAgentMetrics (\<lambda>_. False) ''r1'' [] one_failure ''w'' sample_wf 5 (sample_db RInProgress (sample_job JCompleted None None))) =
     sample_db RInProgress (sample_job JCompleted None None)"
  by (rule promoting_metrics_again_stores_nothing [where row = sample_wf]) (simp_all add: sample_row_defs)

end
