(* ===== verification/Leases.thy ===== *)
theory Leases
  imports Prelude
begin

text \<open>
  The lease discipline that job rows and scheduler partitions share: a resource has at most one
  holder with an expiry, the holder renews, everyone else makes attempts that only succeed once the
  lease has run out. The contract is a locale; the jobs and the partition repositories interpret it on
  their own statements, and mutual exclusion is proved here once.
\<close>

text \<open>What may happen to a leased resource: a renewal by its holder, or any operation of someone else.\<close>

datatype 'a lease_event =
    Renewal timestamp int
  | Attempt 'a string timestamp int

fun event_time :: "'a lease_event \<Rightarrow> timestamp" where
  "event_time (Renewal now l) = now"
| "event_time (Attempt a ow now l) = now"

definition run_event ::
  "(timestamp \<Rightarrow> int \<Rightarrow> 's \<Rightarrow> 's) \<Rightarrow> ('a \<Rightarrow> string \<Rightarrow> timestamp \<Rightarrow> int \<Rightarrow> 's \<Rightarrow> 's) \<Rightarrow> 'a lease_event \<Rightarrow> 's \<Rightarrow> 's" where
  "run_event ren att ev s = (case ev of Renewal now l \<Rightarrow> ren now l s | Attempt a ow now l \<Rightarrow> att a ow now l s)"

text \<open>
  \<open>within_lease\<close>: every event comes before the expiry the holder has at that moment, and no attempt is
  the holder's own.
\<close>

fun within_lease ::
  "('s \<Rightarrow> (string \<times> timestamp) option) \<Rightarrow> (timestamp \<Rightarrow> int \<Rightarrow> 's \<Rightarrow> 's) \<Rightarrow>
   ('a \<Rightarrow> string \<Rightarrow> timestamp \<Rightarrow> int \<Rightarrow> 's \<Rightarrow> 's) \<Rightarrow> string \<Rightarrow> 'a lease_event list \<Rightarrow> 's \<Rightarrow> bool" where
  "within_lease h ren att me [] s = True"
| "within_lease h ren att me (ev # evs) s =
     ((case h s of None \<Rightarrow> False | Some (ow, e) \<Rightarrow> event_time ev \<le> e) \<and>
      (case ev of Renewal _ _ \<Rightarrow> True | Attempt a ow _ _ \<Rightarrow> ow \<noteq> me) \<and>
      within_lease h ren att me evs (run_event ren att ev s))"

locale lease_contract =
  fixes holder :: "'s \<Rightarrow> 'r \<Rightarrow> (string \<times> timestamp) option"
    and renew :: "'r \<Rightarrow> string \<Rightarrow> timestamp \<Rightarrow> int \<Rightarrow> 's \<Rightarrow> 's"
    and attempt :: "'a \<Rightarrow> string \<Rightarrow> timestamp \<Rightarrow> int \<Rightarrow> 's \<Rightarrow> 's"
  assumes renew_own: "holder s r = Some (ow, e) \<Longrightarrow> holder (renew r ow now l s) r = Some (ow, now + l)"
    and attempt_blocked:
      "holder s r = Some (ow, e) \<Longrightarrow> ow' \<noteq> ow \<Longrightarrow> now \<le> e \<Longrightarrow> holder (attempt a ow' now l s) r = Some (ow, e)"
begin

lemma event_keeps_holder:
  assumes "holder s r = Some (me, e)" "event_time ev \<le> e"
    and "case ev of Renewal _ _ \<Rightarrow> True | Attempt a ow _ _ \<Rightarrow> ow \<noteq> me"
  shows "\<exists>e'. holder (run_event (renew r me) attempt ev s) r = Some (me, e')"
  using assms renew_own attempt_blocked by (cases ev) (auto simp: run_event_def)

lemma exclusive:
  "holder s r = Some (me, e) \<Longrightarrow> within_lease (\<lambda>s. holder s r) (renew r me) attempt me evs s \<Longrightarrow>
   \<exists>e'. holder (fold (run_event (renew r me) attempt) evs s) r = Some (me, e')"
proof (induction evs arbitrary: s e)
  case (Cons ev evs)
  then have "\<exists>e'. holder (run_event (renew r me) attempt ev s) r = Some (me, e')"
    by (intro event_keeps_holder) auto
  with Cons show ?case by auto
qed auto

end

end
