(* ===== verification/JobRepo.thy ===== *)
theory JobRepo
  imports Database Leases
begin

text \<open>
  The jobs repository, \<open>src/internal/storage/postgres/job.go\<close>: one function per method, each one
  atomic SQL statement on the database. \<open>now\<close> is the database clock; lease durations and intervals are
  in microseconds (\<open>secs\<close> converts \<open>make_interval(secs => n)\<close>). A method that reports rows affected
  returns the new database and a boolean; failures of the database itself are injected by the callers.
  Marshalling the metrics and contexts to JSONB and back is the identity.
\<close>

section \<open>Guards and column groups\<close>

text \<open>\<open>status IN ('pending', 'awaiting_next', 'approved', 'rejected', 'answered', 'input_timed_out')\<close>.\<close>

definition dispatchable :: "job_status \<Rightarrow> bool" where
  "dispatchable s = (s \<in> {JPending, JAwaitingNext, JApproved, JRejected, JAnswered, JInputTimedOut})"

definition unowned :: "timestamp \<Rightarrow> job \<Rightarrow> bool" where
  "unowned now j = (j_owner j = None \<or> ts_before (j_lease_expires_at j) now)"

definition dispatch_due :: "timestamp \<Rightarrow> job \<Rightarrow> bool" where
  "dispatch_due now j = (j_dispatch_at j = None \<or> ts_upto (j_dispatch_at j) now)"

definition no_job_metadata :: job_metadata where
  "no_job_metadata = \<lparr>jm_approval_gate = None, jm_input_gate = None\<rparr>"

text \<open>
  The gate columns the advancing writes reset. \<open>approval_opened_at\<close> and \<open>input_opened_at\<close> are not in
  the SET lists and keep their value.
\<close>

definition clear_gates :: "job \<Rightarrow> job" where
  "clear_gates j = j\<lparr>
     j_approval := (j_approval j)\<lparr>ap_id := None, ap_timeout_at := None, ap_justification := [],
       ap_metadata := None, ap_reason := []\<rparr>,
     j_input := (j_input j)\<lparr>in_id := None, in_timeout_at := None, in_prompt := [],
       in_metadata := None, in_answer := None\<rparr>,
     j_job_metadata := no_job_metadata\<rparr>"

section \<open>Claiming\<close>

text \<open>\<open>SELECT .. LIMIT 1\<close> without an order: the first matching row of the table.\<close>

definition GetAvailableJob :: "string \<Rightarrow> (string \<times> int) list \<Rightarrow> timestamp \<Rightarrow> db \<Rightarrow> string option" where
  "GetAvailableJob tg caps now d =
     (case sel_keys (\<lambda>_ j. dispatchable (j_status j) \<and> unowned now j \<and> dispatch_due now j \<and>
             j_tenant_group_id j = tg \<and> (j_workflow_type j, j_workflow_version j) \<in> set caps) (db_jobs d) of
        [] \<Rightarrow> None
      | w # _ \<Rightarrow> Some w)"

definition AcquireJob :: "string \<Rightarrow> string \<Rightarrow> int \<Rightarrow> string \<Rightarrow> timestamp \<Rightarrow> db \<Rightarrow> db \<times> job option" where
  "AcquireJob w owner lease tg now d =
     (case upd_job w
             (\<lambda>j. dispatchable (j_status j) \<and> unowned now j \<and> dispatch_due now j \<and> j_tenant_group_id j = tg)
             (\<lambda>j. j\<lparr>j_owner := Some owner, j_lease_expires_at := Some (now + lease)\<rparr>) d of
        (d', hit) \<Rightarrow> (d', if hit then job_of d' w else None))"

text \<open>Renewal also reports whether the run was asked to stop.\<close>

definition RenewJobLease :: "string \<Rightarrow> string \<Rightarrow> int \<Rightarrow> timestamp \<Rightarrow> db \<Rightarrow> db \<times> bool \<times> bool" where
  "RenewJobLease w owner lease now d =
     (case upd_job w (\<lambda>j. j_owner j = Some owner) (\<lambda>j. j\<lparr>j_lease_expires_at := Some (now + lease)\<rparr>) d of
        (d', hit) \<Rightarrow>
          (d', hit, hit \<and> (case job_of d w of None \<Rightarrow> False | Some j \<Rightarrow> j_abandon_requested_at j \<noteq> None)))"

definition ReleaseJob :: "string \<Rightarrow> string \<Rightarrow> db \<Rightarrow> db \<times> bool" where
  "ReleaseJob w owner d =
     upd_job w (\<lambda>j. j_owner j = Some owner) (\<lambda>j. j\<lparr>j_owner := None, j_lease_expires_at := None\<rparr>) d"

section \<open>Writes fenced on the owner\<close>

definition UpdateJobStatus :: "string \<Rightarrow> string \<Rightarrow> job_status \<Rightarrow> db \<Rightarrow> db \<times> bool" where
  "UpdateJobStatus w owner s d = upd_job w (\<lambda>j. j_owner j = Some owner) (\<lambda>j. j\<lparr>j_status := s\<rparr>) d"

definition FailJobWithMetrics ::
  "string \<Rightarrow> string \<Rightarrow> string \<Rightarrow> agent_metrics \<Rightarrow> workflow_job_metrics \<Rightarrow> db \<Rightarrow> db \<times> bool" where
  "FailJobWithMetrics w owner reason am wm d =
     upd_job w (\<lambda>j. j_owner j = Some owner)
       (\<lambda>j. j\<lparr>j_status := JFailed, j_failure_reason := reason, j_agent_metrics := am, j_workflow_metrics := wm\<rparr>) d"

definition UpdateJobStatusWithMetrics ::
  "string \<Rightarrow> string \<Rightarrow> job_status \<Rightarrow> run_outcome \<Rightarrow> string \<Rightarrow> json_map option \<Rightarrow> agent_metrics \<Rightarrow>
   workflow_job_metrics \<Rightarrow> db \<Rightarrow> db \<times> bool" where
  "UpdateJobStatusWithMetrics w owner s oc reason res am wm d =
     upd_job w (\<lambda>j. j_owner j = Some owner)
       (\<lambda>j. j\<lparr>j_status := s, j_result_type := Some oc, j_failure_reason := reason, j_result := res,
              j_agent_metrics := am, j_workflow_metrics := wm\<rparr>) d"

definition UpdateJobMetrics :: "string \<Rightarrow> string \<Rightarrow> agent_metrics \<Rightarrow> db \<Rightarrow> db \<times> bool" where
  "UpdateJobMetrics w owner am d = upd_job w (\<lambda>j. j_owner j = Some owner) (\<lambda>j. j\<lparr>j_agent_metrics := am\<rparr>) d"

definition UpdateJob ::
  "string \<Rightarrow> string \<Rightarrow> job_status \<Rightarrow> string \<Rightarrow> int \<Rightarrow> json_map \<Rightarrow> db \<Rightarrow> db \<times> bool" where
  "UpdateJob w owner s op tmo ctx d =
     upd_job w (\<lambda>j. j_owner j = Some owner)
       (\<lambda>j. clear_gates (j\<lparr>j_status := s, j_current_atomic_operation := op, j_timeout_seconds := tmo,
              j_context := ctx\<rparr>)) d"

definition UpdateJobWithMetrics ::
  "string \<Rightarrow> string \<Rightarrow> job_status \<Rightarrow> string \<Rightarrow> int \<Rightarrow> int \<Rightarrow> json_map \<Rightarrow> agent_metrics \<Rightarrow>
   workflow_job_metrics \<Rightarrow> timestamp \<Rightarrow> db \<Rightarrow> db \<times> bool" where
  "UpdateJobWithMetrics w owner s op tmo delay ctx am wm now d =
     upd_job w (\<lambda>j. j_owner j = Some owner)
       (\<lambda>j. clear_gates (j\<lparr>j_status := s, j_current_atomic_operation := op, j_timeout_seconds := tmo,
              j_context := ctx, j_agent_metrics := am, j_workflow_metrics := wm,
              j_dispatch_at := (if delay > 0 then Some (now + secs delay) else None)\<rparr>)) d"

definition DispatchJob ::
  "string \<Rightarrow> string \<Rightarrow> string \<Rightarrow> int \<Rightarrow> json_map \<Rightarrow> agent_metrics \<Rightarrow> workflow_job_metrics \<Rightarrow> db \<Rightarrow> db \<times> bool" where
  "DispatchJob w owner op tmo ctx am wm d =
     upd_job w (\<lambda>j. j_owner j = Some owner \<and> j_status j \<noteq> JDispatched)
       (\<lambda>j. clear_gates (j\<lparr>j_status := JDispatched, j_current_atomic_operation := op, j_timeout_seconds := tmo,
              j_context := ctx, j_agent_metrics := am, j_workflow_metrics := wm\<rparr>)) d"

definition ParkForApproval ::
  "string \<Rightarrow> string \<Rightarrow> string \<Rightarrow> int \<Rightarrow> string \<Rightarrow> json_map option \<Rightarrow> job_metadata \<Rightarrow> agent_metrics \<Rightarrow>
   workflow_job_metrics \<Rightarrow> timestamp \<Rightarrow> db \<Rightarrow> db \<times> bool" where
  "ParkForApproval w owner gid tmo just meta jm am wm now d =
     upd_job w (\<lambda>j. j_owner j = Some owner)
       (\<lambda>j. j\<lparr>j_status := JAwaitingApproval,
              j_approval := (j_approval j)\<lparr>ap_id := Some gid, ap_opened_at := Some now,
                ap_timeout_at := Some (now + secs tmo), ap_justification := just, ap_metadata := meta\<rparr>,
              j_job_metadata := jm, j_agent_metrics := am, j_workflow_metrics := wm,
              j_context := [], j_timeout_seconds := 0, j_current_atomic_operation := []\<rparr>) d"

definition ParkForInput ::
  "string \<Rightarrow> string \<Rightarrow> string \<Rightarrow> int \<Rightarrow> string \<Rightarrow> json_map option \<Rightarrow> job_metadata \<Rightarrow> agent_metrics \<Rightarrow>
   workflow_job_metrics \<Rightarrow> timestamp \<Rightarrow> db \<Rightarrow> db \<times> bool" where
  "ParkForInput w owner gid tmo prompt meta jm am wm now d =
     upd_job w (\<lambda>j. j_owner j = Some owner)
       (\<lambda>j. j\<lparr>j_status := JAwaitingInput,
              j_input := (j_input j)\<lparr>in_id := Some gid, in_opened_at := Some now,
                in_timeout_at := Some (now + secs tmo), in_prompt := prompt, in_metadata := meta\<rparr>,
              j_job_metadata := jm, j_agent_metrics := am, j_workflow_metrics := wm,
              j_context := [], j_timeout_seconds := 0, j_current_atomic_operation := []\<rparr>) d"

section \<open>Gates\<close>

text \<open>
  The two data-modifying CTEs of a gate resolution are one statement: the job leaves the awaiting
  status and its workflow becomes invoking, or neither happens.
\<close>

definition ResolveApproval ::
  "string \<Rightarrow> string \<Rightarrow> job_status \<Rightarrow> string \<Rightarrow> db \<Rightarrow> db \<times> resolved_gate option" where
  "ResolveApproval w gid s reason d =
     (case job_of d w of
        None \<Rightarrow> (d, None)
      | Some j \<Rightarrow>
          if ap_id (j_approval j) = Some gid \<and> j_status j = JAwaitingApproval
          then (fst (upd_wf w (\<lambda>_. True) (set_lifecycle_state LInvoking)
                  (fst (upd_job w (\<lambda>_. True)
                     (\<lambda>j. j\<lparr>j_status := s, j_approval := (j_approval j)\<lparr>ap_reason := reason\<rparr>\<rparr>) d))),
                Some \<lparr>rg_request_id = j_request_id j, rg_tenant_group_id = j_tenant_group_id j,
                  rg_opened_at = ap_opened_at (j_approval j), rg_detail = ap_justification (j_approval j)\<rparr>)
          else (d, None))"

definition ResolveInput ::
  "string \<Rightarrow> string \<Rightarrow> json_map option \<Rightarrow> db \<Rightarrow> db \<times> resolved_gate option" where
  "ResolveInput w gid answer d =
     (case job_of d w of
        None \<Rightarrow> (d, None)
      | Some j \<Rightarrow>
          if in_id (j_input j) = Some gid \<and> j_status j = JAwaitingInput
          then (fst (upd_wf w (\<lambda>_. True) (set_lifecycle_state LInvoking)
                  (fst (upd_job w (\<lambda>_. True)
                     (\<lambda>j. j\<lparr>j_status := JAnswered, j_input := (j_input j)\<lparr>in_answer := answer\<rparr>\<rparr>) d))),
                Some \<lparr>rg_request_id = j_request_id j, rg_tenant_group_id = j_tenant_group_id j,
                  rg_opened_at = in_opened_at (j_input j), rg_detail = in_prompt (j_input j)\<rparr>)
          else (d, None))"

text \<open>
  The timeout sweeps. Scanning a NULL gate id into a Go string fails after the statement has taken
  effect, hence the error result next to the updated database.
\<close>

definition approval_expired :: "string \<Rightarrow> timestamp \<Rightarrow> db \<Rightarrow> string \<Rightarrow> job \<Rightarrow> bool" where
  "approval_expired p now d w j = (in_partition d p w \<and> j_status j = JAwaitingApproval \<and>
     ts_upto (ap_timeout_at (j_approval j)) now)"

definition input_expired :: "string \<Rightarrow> timestamp \<Rightarrow> db \<Rightarrow> string \<Rightarrow> job \<Rightarrow> bool" where
  "input_expired p now d w j = (in_partition d p w \<and> j_status j = JAwaitingInput \<and>
     ts_upto (in_timeout_at (j_input j)) now)"

definition mk_expired ::
  "string \<Rightarrow> job \<Rightarrow> string option \<Rightarrow> timestamp option \<Rightarrow> timestamp option \<Rightarrow> string \<Rightarrow> expired_gate option" where
  "mk_expired w j gid tmo opened detail =
     (case (gid, tmo) of
        (Some g, Some t) \<Rightarrow> Some \<lparr>eg_workflow_id = w, eg_request_id = j_request_id j,
           eg_tenant_group_id = j_tenant_group_id j, eg_gate_id = g, eg_opened_at = opened,
           eg_timed_out_at = t, eg_detail = detail\<rparr>
      | _ \<Rightarrow> None)"

fun scan_all :: "'a option list \<Rightarrow> 'a list result" where
  "scan_all [] = Inr []"
| "scan_all (None # xs) = Inl (ErrOther ''scan'')"
| "scan_all (Some x # xs) = (case scan_all xs of Inl e \<Rightarrow> Inl e | Inr ys \<Rightarrow> Inr (x # ys))"

definition SweepExpiredApprovals :: "string \<Rightarrow> timestamp \<Rightarrow> db \<Rightarrow> db \<times> expired_gate list result" where
  "SweepExpiredApprovals p now d =
     (let hit = approval_expired p now d;
          ws = sel_keys hit (db_jobs d);
          d1 = upd_jobs hit (\<lambda>j. j\<lparr>j_status := JRejected\<rparr>) d;
          d2 = upd_wfs (\<lambda>w _. w \<in> set ws) (set_lifecycle_state LInvoking) d1
      in (d2, scan_all (map (\<lambda>(w, j). mk_expired w j (ap_id (j_approval j)) (ap_timeout_at (j_approval j))
                 (ap_opened_at (j_approval j)) (ap_justification (j_approval j)))
               (sel_where hit (db_jobs d)))))"

definition SweepExpiredInputs :: "string \<Rightarrow> timestamp \<Rightarrow> db \<Rightarrow> db \<times> expired_gate list result" where
  "SweepExpiredInputs p now d =
     (let hit = input_expired p now d;
          ws = sel_keys hit (db_jobs d);
          d1 = upd_jobs hit (\<lambda>j. j\<lparr>j_status := JInputTimedOut\<rparr>) d;
          d2 = upd_wfs (\<lambda>w _. w \<in> set ws) (set_lifecycle_state LInvoking) d1
      in (d2, scan_all (map (\<lambda>(w, j). mk_expired w j (in_id (j_input j)) (in_timeout_at (j_input j))
                 (in_opened_at (j_input j)) (in_prompt (j_input j)))
               (sel_where hit (db_jobs d)))))"

section \<open>Stopping, orphans, retries\<close>

definition SweepAbandonedJobs :: "string \<Rightarrow> timestamp \<Rightarrow> db \<Rightarrow> db \<times> string list" where
  "SweepAbandonedJobs p now d =
     (let hit = (\<lambda>w j. in_partition d p w \<and> j_abandon_requested_at j \<noteq> None \<and>
            j_status j \<notin> {JCompleted, JFailed, JDispatched, JRunning} \<and> unowned now j)
      in (upd_jobs hit (\<lambda>j. j\<lparr>j_status := JCompleted, j_result_type := Some Suspended,
            j_failure_reason := ''stopped by workflow suspension''\<rparr>) d,
          sel_keys hit (db_jobs d)))"

definition MarkAbandonRequested :: "string \<Rightarrow> string \<Rightarrow> timestamp \<Rightarrow> db \<Rightarrow> db \<times> bool" where
  "MarkAbandonRequested w sid now d =
     upd_job w (\<lambda>j. j_abandon_requested_at j = None \<and> j_status j \<notin> {JCompleted, JFailed} \<and>
         (case wf_of d w of None \<Rightarrow> False | Some r \<Rightarrow> su_id (w_suspension r) = Some sid))
       (\<lambda>j. j\<lparr>j_abandon_requested_at := Some now\<rparr>) d"

definition MarkOrphanedJobsFailed :: "string \<Rightarrow> int \<Rightarrow> timestamp \<Rightarrow> db \<Rightarrow> db \<times> int" where
  "MarkOrphanedJobsFailed p grace now d =
     (let hit = (\<lambda>w j. in_partition d p w \<and> j_status j \<in> {JDispatched, JRunning} \<and>
            (j_owner j = None \<or> ts_before (j_lease_expires_at j) (now - secs grace)))
      in (upd_jobs hit (\<lambda>j. j\<lparr>j_status := JFailed\<rparr>) d, int (length (sel_keys hit (db_jobs d)))))"

definition RequeueJob :: "string \<Rightarrow> string \<Rightarrow> int \<Rightarrow> db \<Rightarrow> db \<times> bool" where
  "RequeueJob w rid expected d =
     upd_job w (\<lambda>j. j_request_id j = rid \<and> j_status j = JFailed \<and> j_attempts j = expected)
       (\<lambda>j. j\<lparr>j_status := JPending, j_owner := None, j_lease_expires_at := None,
              j_attempts := j_attempts j + 1\<rparr>) d"

definition ClaimFailedJob :: "string \<Rightarrow> string \<Rightarrow> int \<Rightarrow> db \<Rightarrow> db \<times> bool" where
  "ClaimFailedJob w rid expected d =
     upd_job w (\<lambda>j. j_request_id j = rid \<and> j_status j \<in> {JFailed, JTerminalFailed} \<and> j_attempts j = expected)
       (\<lambda>j. j\<lparr>j_status := JTerminalFailed\<rparr>) d"

definition GetJobMetrics :: "string \<Rightarrow> string \<Rightarrow> db \<Rightarrow> agent_metrics \<times> workflow_job_metrics" where
  "GetJobMetrics w rid d =
     (case job_of d w of
        None \<Rightarrow> ([], \<lparr>wm_failures = 0, wm_approval_rejections = None\<rparr>)
      | Some j \<Rightarrow> if j_request_id j = rid then (j_agent_metrics j, j_workflow_metrics j)
                  else ([], \<lparr>wm_failures = 0, wm_approval_rejections = None\<rparr>))"

lemmas fenced_defs = UpdateJobStatus_def FailJobWithMetrics_def UpdateJobStatusWithMetrics_def
  UpdateJobMetrics_def UpdateJob_def UpdateJobWithMetrics_def DispatchJob_def ParkForApproval_def
  ParkForInput_def ReleaseJob_def

declare fenced_defs [sql_defs] AcquireJob_def [sql_defs] RenewJobLease_def [sql_defs]
  SweepAbandonedJobs_def [sql_defs] MarkAbandonRequested_def [sql_defs] MarkOrphanedJobsFailed_def [sql_defs]
  RequeueJob_def [sql_defs] ClaimFailedJob_def [sql_defs]

section \<open>The fence: a write needs the owner of the row\<close>

text \<open>The columns that say which run the row belongs to.\<close>

definition same_run :: "job \<Rightarrow> job \<Rightarrow> bool" where
  "same_run j j' = (j_request_id j' = j_request_id j \<and> j_version j' = j_version j \<and>
     j_attempts j' = j_attempts j \<and> j_job_type j' = j_job_type j \<and> j_workflow_type j' = j_workflow_type j \<and>
     j_workflow_version j' = j_workflow_version j \<and> j_tenant_group_id j' = j_tenant_group_id j \<and>
     j_abandon_requested_at j' = j_abandon_requested_at j \<and> j_created_at j' = j_created_at j)"

locale owner_fenced =
  fixes put :: "string \<Rightarrow> string \<Rightarrow> db \<Rightarrow> db \<times> bool"
  assumes fence: "(\<And>j. job_of d w = Some j \<Longrightarrow> j_owner j \<noteq> Some ow) \<Longrightarrow> put w ow d = (d, False)"
    and frame: "w' \<noteq> w \<Longrightarrow> job_of (fst (put w ow d)) w' = job_of d w'"
    and tables: "db_workflows (fst (put w ow d)) = db_workflows d" "db_requests (fst (put w ow d)) = db_requests d"
    and keeps_run: "job_of d w = Some j \<Longrightarrow> \<exists>j'. job_of (fst (put w ow d)) w = Some j' \<and> same_run j j'"
begin

lemma fenced_after_acquire:
  assumes "AcquireJob w ow' lease tg now d = (d', Some j)" "ow \<noteq> ow'"
  shows "put w ow d' = (d', False)"
proof (rule fence)
  fix k assume "job_of d' w = Some k"
  moreover have "snd (upd_job w (\<lambda>j. dispatchable (j_status j) \<and> unowned now j \<and> dispatch_due now j \<and> j_tenant_group_id j = tg)
      (\<lambda>j. j\<lparr>j_owner := Some ow', j_lease_expires_at := Some (now + lease)\<rparr>) d)"
    using assms(1) by (simp add: AcquireJob_def case_prod_unfold split: if_splits)
  ultimately show "j_owner k \<noteq> Some ow"
    using assms by (auto simp: AcquireJob_def case_prod_unfold row_simps)
qed

lemma fenced_after_requeue:
  assumes "RequeueJob w rid n d = (d', True)"
  shows "put w ow d' = (d', False)"
proof (rule fence)
  fix k assume k: "job_of d' w = Some k"
  have hit: "snd (RequeueJob w rid n d)" and d': "d' = fst (RequeueJob w rid n d)" using assms by simp_all
  show "j_owner k \<noteq> Some ow" using k hit unfolding d' by (auto simp: RequeueJob_def row_simps)
qed

end

text \<open>Every write a worker performs on the row it holds, as data.\<close>

datatype worker_write =
    WStatus job_status
  | WFail string agent_metrics workflow_job_metrics
  | WStatusMetrics job_status run_outcome string "json_map option" agent_metrics workflow_job_metrics
  | WMetrics agent_metrics
  | WUpdate job_status string int json_map
  | WUpdateMetrics job_status string int int json_map agent_metrics workflow_job_metrics timestamp
  | WDispatch string int json_map agent_metrics workflow_job_metrics
  | WParkApproval string int string "json_map option" job_metadata agent_metrics workflow_job_metrics timestamp
  | WParkInput string int string "json_map option" job_metadata agent_metrics workflow_job_metrics timestamp
  | WRenew int timestamp
  | WRelease

fun do_write :: "worker_write \<Rightarrow> string \<Rightarrow> string \<Rightarrow> db \<Rightarrow> db \<times> bool" where
  "do_write (WStatus s) w ow d = UpdateJobStatus w ow s d"
| "do_write (WFail r am wm) w ow d = FailJobWithMetrics w ow r am wm d"
| "do_write (WStatusMetrics s oc r res am wm) w ow d = UpdateJobStatusWithMetrics w ow s oc r res am wm d"
| "do_write (WMetrics am) w ow d = UpdateJobMetrics w ow am d"
| "do_write (WUpdate s op t c) w ow d = UpdateJob w ow s op t c d"
| "do_write (WUpdateMetrics s op t dl c am wm now) w ow d = UpdateJobWithMetrics w ow s op t dl c am wm now d"
| "do_write (WDispatch op t c am wm) w ow d = DispatchJob w ow op t c am wm d"
| "do_write (WParkApproval g t ju me jm am wm now) w ow d = ParkForApproval w ow g t ju me jm am wm now d"
| "do_write (WParkInput g t pr me jm am wm now) w ow d = ParkForInput w ow g t pr me jm am wm now d"
| "do_write (WRenew l now) w ow d = (case RenewJobLease w ow l now d of (d', ok, _) \<Rightarrow> (d', ok))"
| "do_write WRelease w ow d = ReleaseJob w ow d"

lemma same_run_clear_gates [simp]: "same_run j (clear_gates k) = same_run j k"
  by (simp add: clear_gates_def same_run_def)

lemmas write_defs = fenced_defs RenewJobLease_def

lemma do_write_fenced: "(\<And>j. job_of d w = Some j \<Longrightarrow> j_owner j \<noteq> Some ow) \<Longrightarrow> do_write x w ow d = (d, False)"
  by (cases x) (simp_all add: write_defs upd_job_blocked)

lemma do_write_keeps_run:
  "job_of d w = Some j \<Longrightarrow> \<exists>j'. job_of (fst (do_write x w ow d)) w = Some j' \<and> same_run j j'"
  by (cases x) (auto simp: write_defs case_prod_unfold row_simps, auto simp: same_run_def)

interpretation wr: owner_fenced "do_write x" for x
proof
  show "(\<And>j. job_of d w = Some j \<Longrightarrow> j_owner j \<noteq> Some ow) \<Longrightarrow> do_write x w ow d = (d, False)" for d w ow
    by (rule do_write_fenced)
  show "job_of d w = Some j \<Longrightarrow> \<exists>j'. job_of (fst (do_write x w ow d)) w = Some j' \<and> same_run j j'" for d w j ow
    by (rule do_write_keeps_run)
qed (cases x; simp add: write_defs case_prod_unfold row_simps)+

section \<open>Leases on jobs\<close>

definition job_holder :: "db \<Rightarrow> string \<Rightarrow> (string \<times> timestamp) option" where
  "job_holder d w = (case job_of d w of None \<Rightarrow> None | Some j \<Rightarrow>
     (case (j_owner j, j_lease_expires_at j) of (Some ow, Some e) \<Rightarrow> Some (ow, e) | _ \<Rightarrow> None))"

text \<open>What other workers may try on any job: to acquire it, or any write of their own.\<close>

datatype job_attempt = TryAcquire string string | TryWrite string worker_write

fun do_attempt :: "job_attempt \<Rightarrow> string \<Rightarrow> timestamp \<Rightarrow> int \<Rightarrow> db \<Rightarrow> db" where
  "do_attempt (TryAcquire w tg) ow now l d = fst (AcquireJob w ow l tg now d)"
| "do_attempt (TryWrite w x) ow now l d = fst (do_write x w ow d)"

definition renew_job :: "string \<Rightarrow> string \<Rightarrow> timestamp \<Rightarrow> int \<Rightarrow> db \<Rightarrow> db" where
  "renew_job w ow now l d = fst (RenewJobLease w ow l now d)"

lemma job_holder_Some:
  "job_holder d w = Some (ow, e) \<longleftrightarrow>
     (\<exists>j. job_of d w = Some j \<and> j_owner j = Some ow \<and> j_lease_expires_at j = Some e)"
  by (auto simp: job_holder_def split: option.splits)

interpretation job_lease: lease_contract job_holder renew_job do_attempt
proof
  fix d w ow e now l
  assume "job_holder d w = Some (ow, e)"
  then show "job_holder (renew_job w ow now l d) w = Some (ow, now + l)"
    by (auto simp: job_holder_Some renew_job_def RenewJobLease_def case_prod_unfold row_simps)
next
  fix d w ow e ow' now a l
  assume h: "job_holder d w = Some (ow, e)" and o: "ow' \<noteq> ow" and n: "now \<le> e"
  show "job_holder (do_attempt a ow' now l d) w = Some (ow, e)"
  proof (cases a)
    case (TryAcquire w' tg)
    then show ?thesis using h n
      by (auto simp: job_holder_def AcquireJob_def case_prod_unfold row_simps unowned_def split: option.splits)
  next
    case (TryWrite w' x)
    show ?thesis
    proof (cases "w' = w")
      case True
      then have "do_write x w' ow' d = (d, False)" using h o by (auto simp: job_holder_Some intro!: do_write_fenced)
      then show ?thesis using TryWrite h by simp
    next
      case False
      then show ?thesis using TryWrite h wr.frame [of w w'] by (auto simp: job_holder_def)
    qed
  qed
qed

section \<open>Gates resolve at most once\<close>

locale gate_resolution =
  fixes resolve :: "string \<Rightarrow> string \<Rightarrow> db \<Rightarrow> db \<times> resolved_gate option"
    and gate :: "job \<Rightarrow> string option"
    and awaiting :: job_status
  assumes closed: "\<not> (\<exists>j. job_of d w = Some j \<and> gate j = Some g \<and> j_status j = awaiting) \<Longrightarrow> resolve w g d = (d, None)"
    and resolves: "resolve w g d = (d', Some i) \<Longrightarrow> \<exists>j. job_of d' w = Some j \<and> j_status j \<noteq> awaiting"
begin

lemma resolve_once: "resolve w g d = (d', Some i) \<Longrightarrow> resolve w g' d' = (d', None)"
  by (rule closed) (auto dest: resolves)

end

interpretation approve: gate_resolution "\<lambda>w g. ResolveApproval w g JApproved reason" "\<lambda>j. ap_id (j_approval j)" JAwaitingApproval for reason
  by unfold_locales (auto simp: ResolveApproval_def row_simps split: option.splits if_splits)

interpretation reject: gate_resolution "\<lambda>w g. ResolveApproval w g JRejected reason" "\<lambda>j. ap_id (j_approval j)" JAwaitingApproval for reason
  by unfold_locales (auto simp: ResolveApproval_def row_simps split: option.splits if_splits)

interpretation answer: gate_resolution "\<lambda>w g. ResolveInput w g ans" "\<lambda>j. in_id (j_input j)" JAwaitingInput for ans
  by unfold_locales (auto simp: ResolveInput_def row_simps split: option.splits if_splits)

text \<open>
  An approval gate can be decided by an approve call, a reject call, or the timeout sweep. The count of
  decisions over any interleaving of these attempts.
\<close>

datatype gate_attempt = Approve string | Reject string | TimeoutSweep string timestamp

text \<open>Whether the job of \<open>w\<close> is parked at approval gate \<open>g\<close>.\<close>

definition at_approval :: "string \<Rightarrow> string \<Rightarrow> db \<Rightarrow> bool" where
  "at_approval w g d = (case job_of d w of None \<Rightarrow> False
     | Some j \<Rightarrow> ap_id (j_approval j) = Some g \<and> j_status j = JAwaitingApproval)"

text \<open>One attempt, and whether it decided gate \<open>g\<close> of workflow \<open>w\<close>.\<close>

fun try_gate :: "string \<Rightarrow> string \<Rightarrow> gate_attempt \<Rightarrow> db \<Rightarrow> db \<times> bool" where
  "try_gate w g (Approve r) d = (case ResolveApproval w g JApproved r d of (d', i) \<Rightarrow> (d', i \<noteq> None))"
| "try_gate w g (Reject r) d = (case ResolveApproval w g JRejected r d of (d', i) \<Rightarrow> (d', i \<noteq> None))"
| "try_gate w g (TimeoutSweep p now) d =
     (fst (SweepExpiredApprovals p now d),
      at_approval w g d \<and> \<not> at_approval w g (fst (SweepExpiredApprovals p now d)))"

fun decisions :: "string \<Rightarrow> string \<Rightarrow> gate_attempt list \<Rightarrow> db \<Rightarrow> nat" where
  "decisions w g [] d = 0"
| "decisions w g (a # as) d =
     (case try_gate w g a d of (d', hit) \<Rightarrow> (if hit then 1 else 0) + decisions w g as d')"

lemma SweepExpiredApprovals_job:
  "job_of (fst (SweepExpiredApprovals p now d)) w =
     map_option (\<lambda>j. if approval_expired p now d w j then j\<lparr>j_status := JRejected\<rparr> else j) (job_of d w)"
  by (simp add: SweepExpiredApprovals_def Let_def row_simps)

lemma try_gate_closed:
  "\<not> at_approval w g d \<Longrightarrow> \<not> snd (try_gate w g a d) \<and> \<not> at_approval w g (fst (try_gate w g a d))"
  by (cases a) (auto simp: at_approval_def ResolveApproval_def SweepExpiredApprovals_job split: option.splits)

lemma try_gate_hit: "snd (try_gate w g a d) \<Longrightarrow> \<not> at_approval w g (fst (try_gate w g a d))"
  by (cases a) (auto simp: at_approval_def ResolveApproval_def row_simps split: option.splits if_splits)

lemma decisions_closed: "\<not> at_approval w g d \<Longrightarrow> decisions w g as d = 0"
  by (induction as arbitrary: d) (auto simp: case_prod_unfold dest: try_gate_closed)

section \<open>The attempt token: who acts on a failure\<close>

text \<open>Schedulers that read the same failure (request, attempt number) race to requeue or to claim it.\<close>

datatype failure_act = Requeue | Claim

definition act_on_failure :: "string \<Rightarrow> string \<Rightarrow> int \<Rightarrow> failure_act \<Rightarrow> db \<Rightarrow> db \<times> bool" where
  "act_on_failure w rid n a d = (case a of Requeue \<Rightarrow> RequeueJob w rid n d | Claim \<Rightarrow> ClaimFailedJob w rid n d)"

fun run_acts :: "string \<Rightarrow> string \<Rightarrow> int \<Rightarrow> failure_act list \<Rightarrow> db \<Rightarrow> (failure_act \<times> bool) list" where
  "run_acts w rid n [] d = []"
| "run_acts w rid n (a # as) d = (case act_on_failure w rid n a d of (d', ok) \<Rightarrow> (a, ok) # run_acts w rid n as d')"

definition claimable :: "string \<Rightarrow> string \<Rightarrow> int \<Rightarrow> db \<Rightarrow> bool" where
  "claimable w rid n d = (case job_of d w of None \<Rightarrow> False
     | Some j \<Rightarrow> j_request_id j = rid \<and> j_status j \<in> {JFailed, JTerminalFailed} \<and> j_attempts j = n)"

lemma run_acts_stale:
  "\<not> claimable w rid n d \<Longrightarrow> run_acts w rid n as d = map (\<lambda>a. (a, False)) as"
proof (induction as arbitrary: d)
  case (Cons a as)
  then have "act_on_failure w rid n a d = (d, False)"
    by (cases a) (auto simp: act_on_failure_def RequeueJob_def ClaimFailedJob_def claimable_def intro!: upd_job_blocked)
  with Cons show ?case by simp
qed simp

lemma requeue_consumes:
  "RequeueJob w rid n d = (d', True) \<Longrightarrow> \<not> claimable w rid n d'"
proof -
  assume "RequeueJob w rid n d = (d', True)"
  then have "snd (RequeueJob w rid n d)" "d' = fst (RequeueJob w rid n d)" by simp_all
  then show ?thesis by (auto simp: RequeueJob_def claimable_def row_simps split: option.splits)
qed

lemma claim_blocks_requeue:
  "ClaimFailedJob w rid n d = (d', True) \<Longrightarrow> (Requeue, True) \<notin> set (run_acts w rid n as d')"
proof -
  define terminal where "terminal = (\<lambda>d. \<exists>j. job_of d w = Some j \<and> j_status j = JTerminalFailed)"
  have "terminal d \<Longrightarrow> (Requeue, True) \<notin> set (run_acts w rid n as d)" for d
  proof (induction as arbitrary: d)
    case (Cons a as)
    then obtain j where j: "job_of d w = Some j" "j_status j = JTerminalFailed" by (auto simp: terminal_def)
    then have "RequeueJob w rid n d = (d, False)" by (auto simp: RequeueJob_def intro!: upd_job_blocked)
    moreover have "terminal (fst (ClaimFailedJob w rid n d))" using j by (auto simp: terminal_def ClaimFailedJob_def row_simps)
    ultimately show ?case using Cons by (cases a) (auto simp: act_on_failure_def case_prod_unfold)
  qed simp
  moreover assume "ClaimFailedJob w rid n d = (d', True)"
  then have "snd (ClaimFailedJob w rid n d)" "d' = fst (ClaimFailedJob w rid n d)" by simp_all
  then have "terminal d'" by (auto simp: terminal_def ClaimFailedJob_def row_simps)
  ultimately show ?thesis by blast
qed

section \<open>Properties\<close>

fun run_writes :: "string \<Rightarrow> (string \<times> worker_write) list \<Rightarrow> db \<Rightarrow> db \<times> bool list" where
  "run_writes w [] d = (d, [])"
| "run_writes w ((ow, x) # xs) d =
     (case do_write x w ow d of (d', ok) \<Rightarrow> (case run_writes w xs d' of (d'', oks) \<Rightarrow> (d'', ok # oks)))"

text \<open>C16. Fencing: after a worker has acquired a job, no sequence of writes by other workers (status,
  failure, completion, metrics, dispatch, parking at a gate, lease renewal, release), however delayed,
  changes anything, and every one of them is told so.\<close>

theorem stale_workers_write_nothing:
  assumes "AcquireJob w me lease tg now d = (d', Some j)" "\<forall>(ow, x)\<in>set ws. ow \<noteq> me"
  shows "run_writes w ws d' = (d', replicate (length ws) False)"
  using assms(2)
proof (induction ws)
  case (Cons a ws)
  obtain ow x where a: "a = (ow, x)" by (cases a)
  then have "do_write x w ow d' = (d', False)" using Cons.prems wr.fenced_after_acquire [OF assms(1)] by auto
  with Cons a show ?case by simp
qed simp

theorem stale_workers_write_nothing_witness:
  "run_writes ''w'' [(''old'', WStatus JCompleted), (''old'', WRelease)]
     (fst (AcquireJob ''w'' ''new'' 30 ''g'' 5 (sample_db RScheduled (sample_job JPending (Some ''old'') (Some 0))))) =
   (fst (AcquireJob ''w'' ''new'' 30 ''g'' 5 (sample_db RScheduled (sample_job JPending (Some ''old'') (Some 0)))),
    [False, False])"
proof -
  have "AcquireJob ''w'' ''new'' 30 ''g'' 5 (sample_db RScheduled (sample_job JPending (Some ''old'') (Some 0))) =
    (fst (AcquireJob ''w'' ''new'' 30 ''g'' 5 (sample_db RScheduled (sample_job JPending (Some ''old'') (Some 0)))),
     Some (sample_job JPending (Some ''new'') (Some 35)))"
    by (simp add: AcquireJob_def upd_job_def upd_row_def sample_row_defs dispatchable_def unowned_def dispatch_due_def)
  from stale_workers_write_nothing [OF this, of "[(''old'', WStatus JCompleted), (''old'', WRelease)]"]
  show ?thesis by (simp del: run_writes.simps)
qed

text \<open>C15. Mutual exclusion of job leases: from the moment a worker acquires a job, as long as each
  event happens before the lease it then holds runs out, any interleaving of its own renewals with
  acquisition attempts and writes of other workers, on this job or any other, leaves it the owner.\<close>

theorem job_lease_is_exclusive:
  assumes "AcquireJob w me lease tg now d = (d', Some j)"
    and "within_lease (\<lambda>s. job_holder s w) (renew_job w me) do_attempt me evs d'"
  shows "\<exists>e. job_holder (fold (run_event (renew_job w me) do_attempt) evs d') w = Some (me, e)"
proof (rule job_lease.exclusive [OF _ assms(2)])
  have "snd (upd_job w (\<lambda>j. dispatchable (j_status j) \<and> unowned now j \<and> dispatch_due now j \<and> j_tenant_group_id j = tg)
      (\<lambda>j. j\<lparr>j_owner := Some me, j_lease_expires_at := Some (now + lease)\<rparr>) d)"
    using assms(1) by (simp add: AcquireJob_def case_prod_unfold split: if_splits)
  then show "job_holder d' w = Some (me, now + lease)"
    using assms(1) by (auto simp: job_holder_Some AcquireJob_def case_prod_unfold row_simps)
qed

theorem job_lease_is_exclusive_witness:
  "\<exists>e. job_holder (fold (run_event (renew_job ''w'' ''a'') do_attempt)
       [Attempt (TryAcquire ''w'' ''g'') ''b'' 6 30, Renewal 7 30, Attempt (TryAcquire ''w'' ''g'') ''b'' 36 30]
     (fst (AcquireJob ''w'' ''a'' 30 ''g'' 5 (sample_db RScheduled (sample_job JPending None None))))) ''w'' = Some (''a'', e)"
  by (rule job_lease_is_exclusive [where lease = 30 and tg = "''g''" and now = 5
        and d = "sample_db RScheduled (sample_job JPending None None)"
        and j = "sample_job JPending (Some ''a'') (Some 35)"])
    (simp_all add: AcquireJob_def RenewJobLease_def renew_job_def run_event_def job_holder_def upd_job_def upd_row_def
      sample_row_defs dispatchable_def unowned_def dispatch_due_def)

text \<open>C26. A gate is decided at most once: over any sequence of approve calls, reject calls and timeout
  sweeps, at most one decides a given approval gate.\<close>

theorem approval_gate_decided_at_most_once: "decisions w g as d \<le> 1"
proof (induction as arbitrary: d)
  case (Cons a as)
  then show ?case using try_gate_hit [of w g a d] decisions_closed [of w g _ as]
    by (cases "snd (try_gate w g a d)") (auto simp: case_prod_unfold)
qed simp

text \<open>The attempt number is a token for one failure: among schedulers that read the same failure,
  at most one requeues it, and if one does then no other requeues or claims it, before or after.\<close>

theorem failure_is_requeued_or_claimed:
  "count_list (run_acts w rid n as d) (Requeue, True) \<le> 1 \<and>
   \<not> ((Requeue, True) \<in> set (run_acts w rid n as d) \<and> (Claim, True) \<in> set (run_acts w rid n as d))"
proof (induction as arbitrary: d)
  case (Cons a as)
  obtain d' ok where step: "act_on_failure w rid n a d = (d', ok)" by (cases "act_on_failure w rid n a d")
  have stale: "run_acts w rid n as d' = map (\<lambda>a. (a, False)) as" if "a = Requeue" "ok"
    using step that requeue_consumes [of w rid n d d'] by (simp add: act_on_failure_def run_acts_stale)
  have none: "count_list (map (\<lambda>a. (a, False)) as) (Requeue, True) = 0"
    by (auto simp: count_list_0_iff)
  have "(Requeue, True) \<notin> set (run_acts w rid n as d')" if "a = Claim" "ok"
    using step that claim_blocks_requeue [of w rid n d d' as] by (simp add: act_on_failure_def)
  then show ?case using Cons [of d'] step stale none by (cases a; cases ok) auto
qed simp

text \<open>The sweep of stopped runs never finishes a run that a worker holds or that is being executed:
  such a job row is left exactly as it is.\<close>

theorem abandon_sweep_spares_held_jobs:
  assumes "job_of d w = Some j"
    and "j_owner j = Some ow \<and> j_lease_expires_at j = Some e \<and> now \<le> e \<or> j_status j = JDispatched \<or> j_status j = JRunning"
  shows "job_of (fst (SweepAbandonedJobs p now d)) w = Some j"
  using assms by (auto simp: SweepAbandonedJobs_def Let_def row_simps unowned_def)

theorem abandon_sweep_spares_held_jobs_witness:
  "job_of (fst (SweepAbandonedJobs ''0'' 5 (sample_db RScheduled (sample_job JPending (Some ''a'') (Some 9))))) ''w'' =
     Some (sample_job JPending (Some ''a'') (Some 9))"
  by (rule abandon_sweep_spares_held_jobs [where ow = "''a''" and e = 9]) (simp_all add: sample_row_defs)

text \<open>A failure that a scheduler has claimed for teardown is still open to the sweep of stopped
  runs, which turns it into a completed, suspended run: \<open>terminal_failed\<close> is missing from its status list.\<close>

theorem abandon_sweep_overwrites_claimed_failure:
  "map_option (\<lambda>j. (j_status j, j_result_type j))
     (job_of (fst (SweepAbandonedJobs ''0'' 5 (sample_db RInProgress
        ((sample_job JTerminalFailed (Some ''a'') (Some 0))\<lparr>j_abandon_requested_at := Some 0\<rparr>)))) ''w'') =
   Some (JCompleted, Some Suspended)"
  by (simp add: SweepAbandonedJobs_def Let_def row_simps unowned_def in_partition_def sample_row_defs)

end
