(* ===== verification/SchedulerRepo.thy ===== *)
theory SchedulerRepo
  imports JobRepo
begin

text \<open>
  The scheduler's queries, \<open>src/internal/storage/postgres/scheduler.go\<close>: which requests to schedule,
  the guarded upsert of the one job row a workflow has, the reads of the completion and failure sweeps,
  and the statements that project a job's status onto its workflow and request.
\<close>

section \<open>Reads\<close>

text \<open>The columns the query does not select stay at their Go zero value.\<close>

definition periodic_view :: "workflow \<Rightarrow> workflow" where
  "periodic_view w = w\<lparr>
     w_config := (w_config w)\<lparr>wc_invoke_mode := ModeUnset, wc_max_queue_depth := 0, wc_resumable := False\<rparr>,
     w_lifecycle := (w_lifecycle w)\<lparr>li_last_interrupted_request_id := [], li_last_gate_id := None,
       li_last_gate_detail := [], li_last_gate_metadata := None, li_last_gate_opened_at := None,
       li_last_gate_timeout_at := None\<rparr>,
     w_invocation_metrics := sort_key s_ran_at (w_invocation_metrics w),
     w_last_policy_decision_request_id := [], w_metrics_emitted_at := 0,
     w_deletion_requested_at := None, w_deletion_finalized_at := None, w_suspension := no_suspension\<rparr>"

definition periodic_due :: "string \<Rightarrow> timestamp \<Rightarrow> workflow \<Rightarrow> bool" where
  "periodic_due p now w = (w_scheduler_partition_id w = p \<and> wc_repeat_every_seconds (w_config w) > 0 \<and>
     w_state w = WActive \<and>
     (case li_last_completed_request_at (w_lifecycle w) of None \<Rightarrow> w_created_at w | Some t \<Rightarrow> t) +
       secs (wc_repeat_every_seconds (w_config w)) < now)"

definition GetDuePeriodicWorkflows :: "string \<Rightarrow> timestamp \<Rightarrow> db \<Rightarrow> (string \<times> workflow) list" where
  "GetDuePeriodicWorkflows p now d =
     map (\<lambda>(i, w). (i, periodic_view w)) (sel_where (\<lambda>_. periodic_due p now) (db_workflows d))"

text \<open>
  \<open>SELECT DISTINCT ON (workflow_id) .. ORDER BY workflow_id, CASE WHEN queue THEN version ELSE -version\<close>:
  the request of least key per workflow. The order of the workflows among each other depends on the
  collation and is left as the order of the table.
\<close>

definition sched_key :: "db \<Rightarrow> customer_request \<Rightarrow> int" where
  "sched_key d r = (case wf_of d (r_workflow_id r) of
       Some w \<Rightarrow> if wc_invoke_mode (w_config w) = Queue then r_version r else - r_version r
     | None \<Rightarrow> 0)"

fun least_by :: "('a \<Rightarrow> int) \<Rightarrow> 'a \<Rightarrow> 'a list \<Rightarrow> 'a" where
  "least_by f x [] = x"
| "least_by f x (y # ys) = (if f y < f x then least_by f y ys else least_by f x ys)"

definition unscheduled_in :: "string \<Rightarrow> db \<Rightarrow> (string, customer_request) table" where
  "unscheduled_in p d = sel_where (\<lambda>_ r. r_status r = RUnscheduled \<and> in_partition d p (r_workflow_id r)) (db_requests d)"

definition top_request :: "db \<Rightarrow> (string \<times> customer_request) list \<Rightarrow> string \<Rightarrow> string list" where
  "top_request d cs w = (case filter (\<lambda>x. r_workflow_id (snd x) = w) cs of
       [] \<Rightarrow> [] | x # xs \<Rightarrow> [fst (least_by (\<lambda>x. sched_key d (snd x)) x xs)])"

definition GetTopUnscheduledRequests :: "string \<Rightarrow> db \<Rightarrow> string list" where
  "GetTopUnscheduledRequests p d =
     (let cs = unscheduled_in p d
      in concat (map (top_request d cs) (remdups (map (\<lambda>x. r_workflow_id (snd x)) cs))))"

text \<open>A NULL result_type does not scan into the Go string type: the whole read fails.\<close>

definition GetCompletedJobs :: "string \<Rightarrow> db \<Rightarrow> completed_job list result" where
  "GetCompletedJobs p d =
     scan_all (map (\<lambda>(w, j). map_option (\<lambda>oc. \<lparr>cj_request_id = j_request_id j, cj_workflow_id = w,
         cj_version = j_version j, cj_request_type = j_job_type j, cj_result_type = oc,
         cj_failure_reason = j_failure_reason j, cj_result = j_result j\<rparr>) (j_result_type j))
       (sel_where (\<lambda>w j. in_partition d p w \<and> j_status j = JCompleted) (db_jobs d)))"

definition GetFailedJobs :: "string \<Rightarrow> db \<Rightarrow> failed_job list" where
  "GetFailedJobs p d =
     map (\<lambda>(w, j). \<lparr>fj_request_id = j_request_id j, fj_workflow_id = w, fj_version = j_version j,
         fj_failure_reason = j_failure_reason j, fj_attempts = j_attempts j\<rparr>)
       (sel_where (\<lambda>w j. in_partition d p w \<and> j_status j \<in> {JFailed, JTerminalFailed}) (db_jobs d))"

section \<open>The upsert of a workflow's job row\<close>

definition fresh_job ::
  "string \<Rightarrow> customer_request \<Rightarrow> workflow \<Rightarrow> string \<Rightarrow> json_map \<Rightarrow> string \<Rightarrow> int \<Rightarrow> int \<Rightarrow> timestamp \<Rightarrow> job" where
  "fresh_job rid r w tg ctx op tmo wfver now = \<lparr>j_request_id = rid, j_version = r_version r,
     j_current_atomic_operation = op, j_context = ctx, j_status = JPending, j_job_type = r_type r,
     j_workflow_type = w_workflow_type w, j_timeout_seconds = tmo, j_workflow_version = wfver,
     j_agent_metrics = [], j_workflow_metrics = \<lparr>wm_failures = 0, wm_approval_rejections = None\<rparr>,
     j_result_type = None, j_failure_reason = [], j_result = None, j_attempts = 0, j_owner = None,
     j_lease_expires_at = None, j_abandon_requested_at = None, j_created_at = now,
     j_job_metadata = no_job_metadata,
     j_approval = \<lparr>ap_id = None, ap_opened_at = None, ap_timeout_at = None, ap_justification = [],
       ap_metadata = None, ap_reason = []\<rparr>,
     j_input = \<lparr>in_id = None, in_opened_at = None, in_timeout_at = None, in_prompt = [], in_metadata = None,
       in_answer = None\<rparr>,
     j_tenant_group_id = tg, j_dispatch_at = None\<rparr>"

text \<open>\<open>ON CONFLICT DO UPDATE SET\<close>: exactly the listed columns, the others keep the old run's values.\<close>

definition overwrite_job ::
  "string \<Rightarrow> customer_request \<Rightarrow> workflow \<Rightarrow> string \<Rightarrow> json_map \<Rightarrow> string \<Rightarrow> int \<Rightarrow> int \<Rightarrow> job \<Rightarrow> job" where
  "overwrite_job rid r w tg ctx op tmo wfver j = j\<lparr>j_request_id := rid, j_version := r_version r,
     j_current_atomic_operation := op, j_context := ctx, j_job_type := r_type r,
     j_workflow_type := w_workflow_type w, j_timeout_seconds := tmo, j_workflow_version := wfver,
     j_status := JPending, j_owner := None, j_lease_expires_at := None, j_attempts := 0,
     j_abandon_requested_at := None, j_tenant_group_id := tg\<rparr>"

definition slot_free :: "int \<Rightarrow> invoke_mode \<Rightarrow> job \<Rightarrow> bool" where
  "slot_free v mode j = (j_version j < v \<and> j_status j = JPending \<and> j_attempts j = 0 \<and> mode \<noteq> Queue)"

definition mark_scheduled :: "string \<Rightarrow> db \<Rightarrow> db" where
  "mark_scheduled rid d = fst (upd_req rid (\<lambda>r. r_status r = RUnscheduled) (\<lambda>r. r\<lparr>r_status := RScheduled\<rparr>) d)"

definition UpsertJobAndSchedule ::
  "string \<Rightarrow> json_map \<Rightarrow> string \<Rightarrow> int \<Rightarrow> int \<Rightarrow> int \<Rightarrow> invoke_mode \<Rightarrow> timestamp \<Rightarrow> db \<Rightarrow> db \<times> (string \<times> int) option" where
  "UpsertJobAndSchedule rid ctx op tmo wfver expected mode now d =
     (case req_of d rid of
        None \<Rightarrow> (d, None)
      | Some r \<Rightarrow>
          (case wf_of d (r_workflow_id r) of
             None \<Rightarrow> (d, None)
           | Some w \<Rightarrow>
               (case map_of (db_tenants d) (w_tenant_id w) of
                  None \<Rightarrow> (d, None)
                | Some t \<Rightarrow>
                    if r_status r \<noteq> RUnscheduled \<or> w_current_version w \<noteq> expected then (d, None)
                    else let k = r_workflow_id r; tg = t_tenant_group_id t in
                      (case job_of d k of
                         None \<Rightarrow>
                           (mark_scheduled rid (d\<lparr>db_jobs := db_jobs d @ [(k, fresh_job rid r w tg ctx op tmo wfver now)]\<rparr>),
                            Some (k, r_version r))
                       | Some j \<Rightarrow>
                           if slot_free (r_version r) mode j
                           then (mark_scheduled rid (d\<lparr>db_jobs := AList.update k (overwrite_job rid r w tg ctx op tmo wfver j) (db_jobs d)\<rparr>),
                                 Some (k, r_version r))
                           else (d, None)))))"

section \<open>Job, workflow and request bookkeeping\<close>

definition DeleteTerminalJob :: "string \<Rightarrow> string \<Rightarrow> db \<Rightarrow> db \<times> bool" where
  "DeleteTerminalJob w rid d =
     (let hit = (\<lambda>k j. k = w \<and> j_request_id j = rid \<and> j_status j \<in> {JCompleted, JFailed, JTerminalFailed})
      in (d\<lparr>db_jobs := del_where hit (db_jobs d)\<rparr>, exists_row hit (db_jobs d)))"

definition protected_state :: "lifecycle_state \<Rightarrow> bool" where
  "protected_state s = (s \<in> {LCreating, LDeleted, LInterrupted, LHalted})"

definition MarkWorkflowScheduled :: "string \<Rightarrow> db \<Rightarrow> db" where
  "MarkWorkflowScheduled w d =
     (if job_of d w = None then d
      else fst (upd_wf w (\<lambda>r. \<not> protected_state (w_lifecycle_state r)) (set_lifecycle_state LScheduled) d))"

definition MarkWorkflowInvoking :: "string \<Rightarrow> db \<Rightarrow> db" where
  "MarkWorkflowInvoking w d =
     (if job_of d w = None then d
      else fst (upd_wf w (\<lambda>r. \<not> protected_state (w_lifecycle_state r)) (set_lifecycle_state LInvoking) d))"

text \<open>The gate log a workflow keeps about the gate its job is parked at.\<close>

definition log_approval_gate :: "job \<Rightarrow> lifecycle_info \<Rightarrow> lifecycle_info" where
  "log_approval_gate j l = l\<lparr>li_state := LAwaitingApproval, li_last_gate_id := ap_id (j_approval j),
     li_last_gate_detail := ap_justification (j_approval j), li_last_gate_metadata := ap_metadata (j_approval j),
     li_last_gate_opened_at := ap_opened_at (j_approval j), li_last_gate_timeout_at := ap_timeout_at (j_approval j)\<rparr>"

definition log_input_gate :: "job \<Rightarrow> lifecycle_info \<Rightarrow> lifecycle_info" where
  "log_input_gate j l = l\<lparr>li_state := LAwaitingInput, li_last_gate_id := in_id (j_input j),
     li_last_gate_detail := in_prompt (j_input j), li_last_gate_metadata := in_metadata (j_input j),
     li_last_gate_opened_at := in_opened_at (j_input j), li_last_gate_timeout_at := in_timeout_at (j_input j)\<rparr>"

definition MarkWorkflowAwaitingApproval :: "string \<Rightarrow> db \<Rightarrow> db" where
  "MarkWorkflowAwaitingApproval w d =
     (case job_of d w of None \<Rightarrow> d
      | Some j \<Rightarrow> if j_status j = JAwaitingApproval
                  then fst (upd_wf w (\<lambda>_. True) (\<lambda>r. r\<lparr>w_lifecycle := log_approval_gate j (w_lifecycle r)\<rparr>) d) else d)"

definition MarkWorkflowAwaitingInput :: "string \<Rightarrow> db \<Rightarrow> db" where
  "MarkWorkflowAwaitingInput w d =
     (case job_of d w of None \<Rightarrow> d
      | Some j \<Rightarrow> if j_status j = JAwaitingInput
                  then fst (upd_wf w (\<lambda>_. True) (\<lambda>r. r\<lparr>w_lifecycle := log_input_gate j (w_lifecycle r)\<rparr>) d) else d)"

text \<open>The CASE of the reconciliation; no branch is NULL, and NULL never differs from the current state.\<close>

definition projected_state :: "int \<Rightarrow> timestamp \<Rightarrow> job \<Rightarrow> lifecycle_state option" where
  "projected_state blocked_after now j =
     (if j_status j \<in> {JDispatched, JRunning} then Some LInvoking
      else if j_status j = JAwaitingApproval then Some LAwaitingApproval
      else if j_status j = JAwaitingInput then Some LAwaitingInput
      else if dispatchable (j_status j) \<and> j_owner j = None \<and> dispatch_due now j \<and>
              now - j_created_at j > secs blocked_after then Some LBlocked
      else if j_status j = JPending then Some LScheduled
      else None)"

definition apply_projection :: "job \<Rightarrow> lifecycle_state \<Rightarrow> workflow \<Rightarrow> workflow" where
  "apply_projection j s w = w\<lparr>w_lifecycle :=
     (if s = LAwaitingApproval then log_approval_gate j (w_lifecycle w)
      else if s = LAwaitingInput then log_input_gate j (w_lifecycle w)
      else (w_lifecycle w)\<lparr>li_state := s\<rparr>)\<rparr>"

definition reconcile_target :: "string \<Rightarrow> int \<Rightarrow> timestamp \<Rightarrow> db \<Rightarrow> string \<Rightarrow> workflow \<Rightarrow> (job \<times> lifecycle_state) option" where
  "reconcile_target p blocked_after now d k w =
     (case job_of d k of
        None \<Rightarrow> None
      | Some j \<Rightarrow>
          (case projected_state blocked_after now j of
             None \<Rightarrow> None
           | Some s \<Rightarrow> if w_scheduler_partition_id w = p \<and> \<not> protected_state (w_lifecycle_state w) \<and> s \<noteq> w_lifecycle_state w
                       then Some (j, s) else None))"

definition ReconcileWorkflowLifecycles :: "string \<Rightarrow> int \<Rightarrow> timestamp \<Rightarrow> db \<Rightarrow> db \<times> string list" where
  "ReconcileWorkflowLifecycles p blocked_after now d =
     (d\<lparr>db_workflows := upd_where (\<lambda>_ _. True)
          (\<lambda>k w. case reconcile_target p blocked_after now d k w of None \<Rightarrow> w | Some (j, s) \<Rightarrow> apply_projection j s w)
          (db_workflows d)\<rparr>,
      sel_keys (\<lambda>k w. reconcile_target p blocked_after now d k w \<noteq> None) (db_workflows d))"

definition MarkRequestInProgress :: "string \<Rightarrow> db \<Rightarrow> db" where
  "MarkRequestInProgress rid d =
     fst (upd_req rid (\<lambda>r. r_status r = RScheduled) (\<lambda>r. r\<lparr>r_status := RInProgress\<rparr>) d)"

definition job_started :: "job \<Rightarrow> bool" where
  "job_started j = (j_status j \<notin> {JCompleted, JFailed} \<and> (j_status j \<noteq> JPending \<or> j_attempts j > 0))"

definition SweepRequestsInProgress :: "string \<Rightarrow> db \<Rightarrow> db \<times> string list" where
  "SweepRequestsInProgress p d =
     (let hit = (\<lambda>rid r. r_status r = RScheduled \<and>
            exists_row (\<lambda>w j. j_request_id j = rid \<and> job_started j \<and> in_partition d p w) (db_jobs d))
      in (upd_reqs hit (\<lambda>r. r\<lparr>r_status := RInProgress\<rparr>) d, sel_keys hit (db_requests d)))"

definition SupercedeOlderRequests :: "string \<Rightarrow> int \<Rightarrow> db \<Rightarrow> db" where
  "SupercedeOlderRequests w v d =
     upd_reqs (\<lambda>_ r. r_workflow_id r = w \<and> r_status r \<in> {RUnscheduled, RScheduled} \<and> r_version r < v)
       (\<lambda>r. r\<lparr>r_status := RSuperceded\<rparr>) d"

declare DeleteTerminalJob_def [sql_defs] MarkWorkflowScheduled_def [sql_defs] MarkWorkflowInvoking_def [sql_defs]
  MarkWorkflowAwaitingApproval_def [sql_defs] MarkWorkflowAwaitingInput_def [sql_defs]
  MarkRequestInProgress_def [sql_defs] SweepRequestsInProgress_def [sql_defs] SupercedeOlderRequests_def [sql_defs]

section \<open>The choice of the next request\<close>

lemma least_by_in: "least_by f x xs \<in> insert x (set xs)"
  by (induction f x xs rule: least_by.induct) auto

lemma least_by_le: "y \<in> insert x (set xs) \<Longrightarrow> f (least_by f x xs) \<le> f y"
proof (induction f x xs arbitrary: y rule: least_by.induct)
  case (2 f x z zs)
  show ?case
  proof (cases "f z < f x")
    case lt: True
    then have le: "f (least_by f z zs) \<le> f z" using 2(1) by simp
    have "f (least_by f z zs) \<le> f y"
    proof (cases "y = x")
      case True
      then show ?thesis using le lt by simp
    qed (use 2 lt in auto)
    then show ?thesis using lt by simp
  next
    case ge: False
    then have le: "f (least_by f x zs) \<le> f x" using 2(2) by simp
    have "f (least_by f x zs) \<le> f y"
    proof (cases "y = z")
      case True
      then show ?thesis using le ge by simp
    qed (use 2 ge in auto)
    then show ?thesis using ge by simp
  qed
qed simp

lemma unscheduled_in_iff:
  "pk (db_requests d) \<Longrightarrow> x \<in> set (unscheduled_in p d) \<longleftrightarrow>
     req_of d (fst x) = Some (snd x) \<and> r_status (snd x) = RUnscheduled \<and> in_partition d p (r_workflow_id (snd x))"
  by (cases x) (auto simp: unscheduled_in_def sel_where_def pk_def keys_def)

lemma top_request_Some:
  assumes "w \<in> (\<lambda>x. r_workflow_id (snd x)) ` set cs"
  obtains x where "top_request d cs w = [fst x]" "x \<in> set cs" "r_workflow_id (snd x) = w"
    "\<And>y. y \<in> set cs \<Longrightarrow> r_workflow_id (snd y) = w \<Longrightarrow> sched_key d (snd x) \<le> sched_key d (snd y)"
proof -
  let ?fs = "filter (\<lambda>x. r_workflow_id (snd x) = w) cs"
  let ?f = "\<lambda>x. sched_key d (snd x)"
  obtain z zs where fs: "?fs = z # zs" using assms by (cases ?fs) (auto simp: filter_empty_conv)
  then have set: "set ?fs = insert z (set zs)" by simp
  let ?y = "least_by ?f z zs"
  have "?y \<in> set ?fs" using least_by_in [of ?f z zs] set by simp
  moreover have "?f ?y \<le> ?f y" if "y \<in> set ?fs" for y
    using that unfolding set by (rule least_by_le [of y z zs ?f])
  moreover have "top_request d cs w = [fst ?y]" using fs by (simp add: top_request_def)
  ultimately show thesis using that by simp
qed

lemma top_request_spec:
  assumes "pk (db_requests d)" "rid \<in> set (GetTopUnscheduledRequests p d)"
  obtains r where "req_of d rid = Some r" "r_status r = RUnscheduled" "in_partition d p (r_workflow_id r)"
    "\<And>rid' r'. req_of d rid' = Some r' \<Longrightarrow> r_status r' = RUnscheduled \<Longrightarrow> r_workflow_id r' = r_workflow_id r \<Longrightarrow>
       sched_key d r \<le> sched_key d r'"
proof -
  let ?cs = "unscheduled_in p d"
  obtain w where w: "w \<in> (\<lambda>x. r_workflow_id (snd x)) ` set ?cs" "rid \<in> set (top_request d ?cs w)"
    using assms(2) by (auto simp: GetTopUnscheduledRequests_def Let_def)
  from top_request_Some [OF w(1), of d] obtain x where x: "top_request d ?cs w = [fst x]" "x \<in> set ?cs" "r_workflow_id (snd x) = w"
    and le: "\<And>y. y \<in> set ?cs \<Longrightarrow> r_workflow_id (snd y) = w \<Longrightarrow> sched_key d (snd x) \<le> sched_key d (snd y)" by blast
  have row: "req_of d rid = Some (snd x)" "r_status (snd x) = RUnscheduled" "in_partition d p (r_workflow_id (snd x))"
    using w(2) x unscheduled_in_iff [OF assms(1)] by auto
  show thesis
  proof (rule that [OF row])
    fix rid' r' assume "req_of d rid' = Some r'" "r_status r' = RUnscheduled" "r_workflow_id r' = r_workflow_id (snd x)"
    then show "sched_key d (snd x) \<le> sched_key d r'"
      using le [of "(rid', r')"] row(3) x(3) by (simp add: unscheduled_in_iff [OF assms(1)])
  qed
qed

text \<open>The workflow a request belongs to.\<close>

definition workflow_of :: "db \<Rightarrow> string \<Rightarrow> string option" where
  "workflow_of d rid = map_option r_workflow_id (req_of d rid)"

lemma top_requests_workflows:
  assumes "pk (db_requests d)"
  shows "map (workflow_of d) (GetTopUnscheduledRequests p d) =
    map Some (remdups (map (\<lambda>x. r_workflow_id (snd x)) (unscheduled_in p d)))"
proof -
  let ?cs = "unscheduled_in p d"
  have "map (workflow_of d) (concat (map (top_request d ?cs) ws)) = map Some ws"
    if "set ws \<subseteq> (\<lambda>x. r_workflow_id (snd x)) ` set ?cs" for ws
    using that
  proof (induction ws)
    case (Cons w ws)
    then have "w \<in> (\<lambda>x. r_workflow_id (snd x)) ` set ?cs" by simp
    from top_request_Some [OF this, of d] obtain x where
      "top_request d ?cs w = [fst x]" "x \<in> set ?cs" "r_workflow_id (snd x) = w" by blast
    then show ?case using Cons unscheduled_in_iff [OF assms] by (auto simp: workflow_of_def)
  qed simp
  then show ?thesis by (simp add: GetTopUnscheduledRequests_def Let_def)
qed

section \<open>The upsert\<close>

lemma mark_scheduled_other [simp]:
  "db_jobs (mark_scheduled rid d) = db_jobs d" "db_workflows (mark_scheduled rid d) = db_workflows d"
  "db_tenants (mark_scheduled rid d) = db_tenants d"
  by (simp_all add: mark_scheduled_def)

lemma req_mark_scheduled:
  "req_of (mark_scheduled rid d) k = (if k = rid
     then map_option (\<lambda>r. if r_status r = RUnscheduled then r\<lparr>r_status := RScheduled\<rparr> else r) (req_of d rid) else req_of d k)"
  by (simp add: mark_scheduled_def row_simps)

lemma upsert_None: "snd (UpsertJobAndSchedule rid ctx op tmo wfver expected mode now d) = None \<Longrightarrow>
  fst (UpsertJobAndSchedule rid ctx op tmo wfver expected mode now d) = d"
  by (auto simp: UpsertJobAndSchedule_def Let_def split: option.splits if_splits)

lemma upsert_Some:
  assumes "UpsertJobAndSchedule rid ctx op tmo wfver expected mode now d = (d', Some (k, v))"
  obtains r w t where "req_of d rid = Some r" "r_status r = RUnscheduled" "k = r_workflow_id r" "v = r_version r"
    "wf_of d k = Some w" "w_current_version w = expected" "map_of (db_tenants d) (w_tenant_id w) = Some t"
    "d' = mark_scheduled rid (d\<lparr>db_jobs :=
       (case job_of d k of None \<Rightarrow> db_jobs d @ [(k, fresh_job rid r w (t_tenant_group_id t) ctx op tmo wfver now)]
        | Some j \<Rightarrow> AList.update k (overwrite_job rid r w (t_tenant_group_id t) ctx op tmo wfver j) (db_jobs d))\<rparr>)"
    "case job_of d k of None \<Rightarrow> True | Some j \<Rightarrow> slot_free v mode j"
  using assms by (auto simp: UpsertJobAndSchedule_def Let_def split: option.splits if_splits)

lemma upsert_job_row:
  assumes "UpsertJobAndSchedule rid ctx op tmo wfver expected mode now d = (d', Some (k, v))"
  shows "\<exists>j. job_of d' k = Some j \<and> j_request_id j = rid \<and> j_version j = v \<and> j_status j = JPending \<and>
    j_owner j = None \<and> j_attempts j = 0 \<and> j_abandon_requested_at j = None \<and> j_current_atomic_operation j = op \<and>
    j_context j = ctx \<and> j_timeout_seconds j = tmo \<and> j_workflow_version j = wfver"
    and "k' \<noteq> k \<Longrightarrow> job_of d' k' = job_of d k'"
  using assms by (auto elim!: upsert_Some simp: map_add_def update_conv overwrite_job_def fresh_job_def split: option.splits)

section \<open>Properties\<close>

text \<open>C17. Who gets the one job slot of a workflow: the upsert writes exactly when the request is unscheduled, its workflow is still at
  the version the scheduler validated and the slot is empty or holds an older, pending run that was never attempted, of a workflow
  that does not queue. Otherwise nothing changes at all. When it writes, the request is scheduled, the slot holds a
  pending, unowned first attempt of it, and no workflow row and no other job or request moved.\<close>

theorem upsert_hands_slot_to_request:
  assumes "UpsertJobAndSchedule rid ctx op tmo wfver expected mode now d = (d', x)"
  shows "(x \<noteq> None) = (\<exists>r w t. req_of d rid = Some r \<and> r_status r = RUnscheduled \<and> wf_of d (r_workflow_id r) = Some w \<and>
      w_current_version w = expected \<and> map_of (db_tenants d) (w_tenant_id w) = Some t \<and>
      (\<forall>j. job_of d (r_workflow_id r) = Some j \<longrightarrow> j_version j < r_version r \<and> j_status j = JPending \<and> j_attempts j = 0 \<and> mode \<noteq> Queue)) \<and>
    (case x of None \<Rightarrow> d' = d
     | Some (k, v) \<Rightarrow> \<exists>r j. req_of d rid = Some r \<and> r_workflow_id r = k \<and> r_version r = v \<and>
        req_of d' rid = Some (r\<lparr>r_status := RScheduled\<rparr>) \<and>
        job_of d' k = Some j \<and> j_request_id j = rid \<and> j_version j = v \<and> j_status j = JPending \<and>
        j_owner j = None \<and> j_attempts j = 0 \<and> j_abandon_requested_at j = None \<and> j_current_atomic_operation j = op \<and>
        j_context j = ctx \<and> j_timeout_seconds j = tmo \<and> j_workflow_version j = wfver \<and>
        db_workflows d' = db_workflows d \<and> (\<forall>q. q = rid \<or> req_of d' q = req_of d q) \<and> (\<forall>i. i = k \<or> job_of d' i = job_of d i))"
proof -
  have "(x \<noteq> None) = (\<exists>r w t. req_of d rid = Some r \<and> r_status r = RUnscheduled \<and> wf_of d (r_workflow_id r) = Some w \<and>
      w_current_version w = expected \<and> map_of (db_tenants d) (w_tenant_id w) = Some t \<and>
      (\<forall>j. job_of d (r_workflow_id r) = Some j \<longrightarrow> j_version j < r_version r \<and> j_status j = JPending \<and> j_attempts j = 0 \<and> mode \<noteq> Queue))"
    using assms by (auto simp: UpsertJobAndSchedule_def Let_def slot_free_def split: option.splits if_splits)
  moreover have "d' = d" if "x = None" using upsert_None assms that by (metis fst_conv snd_conv)
  moreover have "\<exists>r j. req_of d rid = Some r \<and> r_workflow_id r = k \<and> r_version r = v \<and>
        req_of d' rid = Some (r\<lparr>r_status := RScheduled\<rparr>) \<and>
        job_of d' k = Some j \<and> j_request_id j = rid \<and> j_version j = v \<and> j_status j = JPending \<and>
        j_owner j = None \<and> j_attempts j = 0 \<and> j_abandon_requested_at j = None \<and> j_current_atomic_operation j = op \<and>
        j_context j = ctx \<and> j_timeout_seconds j = tmo \<and> j_workflow_version j = wfver \<and>
        db_workflows d' = db_workflows d \<and> (\<forall>q. q = rid \<or> req_of d' q = req_of d q) \<and> (\<forall>i. i = k \<or> job_of d' i = job_of d i)"
    if "x = Some (k, v)" for k v
  proof -
    note u = assms [unfolded that]
    obtain r where r: "req_of d rid = Some r" "r_workflow_id r = k" "r_version r = v"
      "req_of d' rid = Some (r\<lparr>r_status := RScheduled\<rparr>)" "db_workflows d' = db_workflows d" "\<forall>q. q = rid \<or> req_of d' q = req_of d q"
      using u by (rule upsert_Some) (auto simp: req_mark_scheduled)
    show ?thesis using r upsert_job_row(1) [OF u] upsert_job_row(2) [OF u] by blast
  qed
  ultimately show ?thesis by (auto split: option.split)
qed

definition sample_queue_db :: db where
  "sample_queue_db = empty_db\<lparr>db_tenants := [(''t'', sample_tenant)], db_workflows := [(''w'', sample_wf)],
     db_requests := [(''r1'', sample_req RUnscheduled 1), (''r2'', sample_req RUnscheduled 2)]\<rparr>"

theorem upsert_hands_slot_to_request_witness:
  "\<exists>d' r j. UpsertJobAndSchedule ''r2'' [] ''op'' 60 1 0 Coalesce 5 sample_queue_db = (d', Some (''w'', 2)) \<and>
      req_of d' ''r2'' = Some (r\<lparr>r_status := RScheduled\<rparr>) \<and> job_of d' ''w'' = Some j \<and> j_request_id j = ''r2'' \<and> j_status j = JPending"
proof -
  let ?u = "UpsertJobAndSchedule ''r2'' [] ''op'' 60 1 0 Coalesce 5 sample_queue_db"
  have u: "?u = (fst ?u, Some (''w'', 2))"
    by (simp add: UpsertJobAndSchedule_def sample_queue_db_def sample_row_defs Let_def)
  have "\<exists>r j. req_of (fst ?u) ''r2'' = Some (r\<lparr>r_status := RScheduled\<rparr>) \<and> job_of (fst ?u) ''w'' = Some j \<and> j_request_id j = ''r2'' \<and> j_status j = JPending"
    using upsert_hands_slot_to_request [OF u] by auto
  then show ?thesis using u by metis
qed

text \<open>C28. The scheduler's pick: exactly one request per workflow of the partition that has unscheduled
  work, and it is the oldest one in queue mode and the newest one otherwise.\<close>

theorem top_request_is_oldest_or_newest:
  assumes "pk (db_requests d)"
  shows "map (workflow_of d) (GetTopUnscheduledRequests p d) =
      map Some (remdups (map (\<lambda>x. r_workflow_id (snd x)) (unscheduled_in p d))) \<and>
    (\<forall>rid\<in>set (GetTopUnscheduledRequests p d). \<exists>r w. req_of d rid = Some r \<and> r_status r = RUnscheduled \<and>
       wf_of d (r_workflow_id r) = Some w \<and> w_scheduler_partition_id w = p \<and>
       (\<forall>rid' r'. req_of d rid' = Some r' \<and> r_status r' = RUnscheduled \<and> r_workflow_id r' = r_workflow_id r \<longrightarrow>
          (if wc_invoke_mode (w_config w) = Queue then r_version r \<le> r_version r' else r_version r' \<le> r_version r)))"
proof (intro conjI ballI)
  fix rid assume "rid \<in> set (GetTopUnscheduledRequests p d)"
  from top_request_spec [OF assms this] obtain r where
    r: "req_of d rid = Some r" "r_status r = RUnscheduled" "in_partition d p (r_workflow_id r)"
    and le: "\<And>rid' r'. req_of d rid' = Some r' \<Longrightarrow> r_status r' = RUnscheduled \<Longrightarrow> r_workflow_id r' = r_workflow_id r \<Longrightarrow>
       sched_key d r \<le> sched_key d r'" by blast
  then obtain w where w: "wf_of d (r_workflow_id r) = Some w" "w_scheduler_partition_id w = p"
    by (auto simp: in_partition_def split: option.splits)
  have "if wc_invoke_mode (w_config w) = Queue then r_version r \<le> r_version r' else r_version r' \<le> r_version r"
    if "req_of d rid' = Some r'" "r_status r' = RUnscheduled" "r_workflow_id r' = r_workflow_id r" for rid' r'
    using le [OF that] that w by (auto simp: sched_key_def)
  then show "\<exists>r w. req_of d rid = Some r \<and> r_status r = RUnscheduled \<and>
       wf_of d (r_workflow_id r) = Some w \<and> w_scheduler_partition_id w = p \<and>
       (\<forall>rid' r'. req_of d rid' = Some r' \<and> r_status r' = RUnscheduled \<and> r_workflow_id r' = r_workflow_id r \<longrightarrow>
          (if wc_invoke_mode (w_config w) = Queue then r_version r \<le> r_version r' else r_version r' \<le> r_version r))"
    using r w by blast
qed (rule top_requests_workflows [OF assms])

theorem top_request_is_oldest_or_newest_witness:
  "GetTopUnscheduledRequests ''0'' sample_queue_db = [''r2''] \<and>
   map (workflow_of sample_queue_db) (GetTopUnscheduledRequests ''0'' sample_queue_db) =
     map Some (remdups (map (\<lambda>x. r_workflow_id (snd x)) (unscheduled_in ''0'' sample_queue_db)))"
proof -
  have pk: "pk (db_requests sample_queue_db)" by (simp add: sample_queue_db_def pk_def keys_def)
  have "GetTopUnscheduledRequests ''0'' sample_queue_db = [''r2'']"
    by (simp add: GetTopUnscheduledRequests_def unscheduled_in_def top_request_def sel_where_def in_partition_def
        sched_key_def sample_queue_db_def sample_row_defs Let_def)
  then show ?thesis using top_request_is_oldest_or_newest [OF pk, of "''0''"] by blast
qed

end
