(* ===== verification/RequestRepo.thy ===== *)
theory RequestRepo
  imports Database
begin

text \<open>
  The requests repository, \<open>src/internal/storage/postgres/customer_request.go\<close>: a request is one run
  of a workflow. Creating one allocates the next version of its workflow in the same statement.
\<close>

text \<open>An insert fails on a duplicate id, or on the foreign key when the workflow does not exist.\<close>

definition insert_request :: "string \<Rightarrow> customer_request \<Rightarrow> db \<Rightarrow> db \<times> unit result" where
  "insert_request rid r d =
     (if req_of d rid \<noteq> None then (d, Inl ErrAlreadyExists)
      else if wf_of d (r_workflow_id r) = None then (d, Inl ForeignKeyViolation)
      else (d\<lparr>db_requests := db_requests d @ [(rid, r)]\<rparr>, Inr ()))"

definition request_Create :: "string \<Rightarrow> customer_request \<Rightarrow> db \<Rightarrow> db \<times> unit result" where
  "request_Create rid r d =
     insert_request rid (r\<lparr>r_run_outcome := None, r_failure_reason := [], r_completed_at := None, r_result := None\<rparr>) d"

text \<open>
  The bump of \<open>target_version\<close> and the insert of the request with that version are one statement: a
  failing insert leaves the version alone.
\<close>

definition new_request :: "customer_request \<Rightarrow> int \<Rightarrow> timestamp \<Rightarrow> customer_request" where
  "new_request r v now = r\<lparr>r_version := v, r_created_at := now, r_run_outcome := None, r_failure_reason := [],
     r_completed_at := None, r_result := None\<rparr>"

definition bump_and_insert :: "string \<Rightarrow> customer_request \<Rightarrow> workflow \<Rightarrow> timestamp \<Rightarrow> db \<Rightarrow> db \<times> int result" where
  "bump_and_insert rid r w now d =
     (let v = w_target_version w + 1;
          d1 = fst (upd_wf (r_workflow_id r) (\<lambda>_. True) (\<lambda>w. w\<lparr>w_target_version := v\<rparr>) d)
      in case insert_request rid (new_request r v now) d1 of
           (_, Inl e) \<Rightarrow> (d, Inl e)
         | (d2, Inr _) \<Rightarrow> (d2, Inr v))"

definition CreateInvocationRequest :: "string \<Rightarrow> customer_request \<Rightarrow> timestamp \<Rightarrow> db \<Rightarrow> db \<times> int result" where
  "CreateInvocationRequest rid r now d =
     (case wf_of d (r_workflow_id r) of
        None \<Rightarrow> (d, Inl ErrInvalidLifecycleState)
      | Some w \<Rightarrow> if w_state w = WActive then bump_and_insert rid r w now d
                  else (d, Inl ErrInvalidLifecycleState))"

definition terminal_request :: "request_status \<Rightarrow> bool" where
  "terminal_request s = (s \<in> {RCompleted, RFailed, RSuperceded, RAbandoned})"

text \<open>\<open>COALESCE(max(completed_at), 'epoch')\<close> over the workflow's requests.\<close>

definition last_completion :: "string \<Rightarrow> db \<Rightarrow> timestamp" where
  "last_completion w d = (case [t. (_, r) \<leftarrow> db_requests d, r_workflow_id r = w, t \<leftarrow> (case r_completed_at r of None \<Rightarrow> [] | Some t \<Rightarrow> [t])] of
     [] \<Rightarrow> 0 | t # ts \<Rightarrow> fold max ts t)"

definition CreateDuePeriodicRequest ::
  "string \<Rightarrow> customer_request \<Rightarrow> int \<Rightarrow> timestamp \<Rightarrow> db \<Rightarrow> db \<times> int option result" where
  "CreateDuePeriodicRequest rid r min_gap now d =
     (case wf_of d (r_workflow_id r) of
        None \<Rightarrow> (d, Inr None)
      | Some w \<Rightarrow>
          if w_state w = WActive \<and>
             \<not> exists_row (\<lambda>_ q. r_workflow_id q = r_workflow_id r \<and> \<not> terminal_request (r_status q)) (db_requests d) \<and>
             last_completion (r_workflow_id r) d + min_gap < now
          then (case bump_and_insert rid r w now d of (d', Inl e) \<Rightarrow> (d', Inl e) | (d', Inr v) \<Rightarrow> (d', Inr (Some v)))
          else (d, Inr None))"

definition request_DeleteForWorkflow :: "string \<Rightarrow> db \<Rightarrow> db" where
  "request_DeleteForWorkflow w d = d\<lparr>db_requests := del_where (\<lambda>_ r. r_workflow_id r = w) (db_requests d)\<rparr>"

text \<open>A nil id list means all of the workflow's queued requests.\<close>

definition abandonable :: "string \<Rightarrow> string list option \<Rightarrow> string \<Rightarrow> customer_request \<Rightarrow> bool" where
  "abandonable w ids rid r = (r_workflow_id r = w \<and> r_status r \<in> {RUnscheduled, RPaused} \<and>
     (case ids of None \<Rightarrow> True | Some is \<Rightarrow> rid \<in> set is))"

definition AbandonQueuedRequests :: "string \<Rightarrow> string list option \<Rightarrow> db \<Rightarrow> db \<times> string list" where
  "AbandonQueuedRequests w ids d =
     (upd_reqs (abandonable w ids) (\<lambda>r. r\<lparr>r_status := RAbandoned\<rparr>) d, sel_keys (abandonable w ids) (db_requests d))"

definition HasRunningRequest :: "string \<Rightarrow> db \<Rightarrow> bool" where
  "HasRunningRequest w d = exists_row (\<lambda>_ r. r_workflow_id r = w \<and> r_status r \<in> {RScheduled, RInProgress}) (db_requests d)"

definition CountUnscheduledRequests :: "string \<Rightarrow> db \<Rightarrow> int" where
  "CountUnscheduledRequests w d =
     int (length (sel_where (\<lambda>_ r. r_workflow_id r = w \<and> r_status r = RUnscheduled) (db_requests d)))"

definition request_Get :: "string \<Rightarrow> db \<Rightarrow> customer_request result" where
  "request_Get rid d = (case req_of d rid of None \<Rightarrow> Inl ErrNotFound | Some r \<Rightarrow> Inr r)"

text \<open>The two terminal writes are not guarded on the status.\<close>

definition request_CompleteRequest ::
  "string \<Rightarrow> run_outcome \<Rightarrow> string \<Rightarrow> json_map option \<Rightarrow> timestamp \<Rightarrow> db \<Rightarrow> db \<times> customer_request result" where
  "request_CompleteRequest rid oc reason res now d =
     (case upd_req rid (\<lambda>_. True) (\<lambda>r. r\<lparr>r_status := RCompleted, r_run_outcome := Some oc, r_failure_reason := reason,
             r_result := res, r_completed_at := Some now\<rparr>) d of
        (d', hit) \<Rightarrow> (d', case req_of d' rid of None \<Rightarrow> Inl ErrNotFound | Some r \<Rightarrow> Inr r))"

definition request_FailRequest :: "string \<Rightarrow> string \<Rightarrow> timestamp \<Rightarrow> db \<Rightarrow> db \<times> customer_request result" where
  "request_FailRequest rid reason now d =
     (case upd_req rid (\<lambda>_. True) (\<lambda>r. r\<lparr>r_status := RFailed, r_run_outcome := Some Interrupted, r_failure_reason := reason,
             r_completed_at := Some now\<rparr>) d of
        (d', hit) \<Rightarrow> (d', case req_of d' rid of None \<Rightarrow> Inl ErrNotFound | Some r \<Rightarrow> Inr r))"

definition request_ListForWorkflow :: "string \<Rightarrow> db \<Rightarrow> (string \<times> customer_request) list" where
  "request_ListForWorkflow w d =
     sort_key (\<lambda>x. - r_created_at (snd x)) (sel_where (\<lambda>_ r. r_workflow_id r = w) (db_requests d))"

definition UpdateStatus :: "string \<Rightarrow> string \<Rightarrow> request_status \<Rightarrow> db \<Rightarrow> db" where
  "UpdateStatus w rid s d = fst (upd_req rid (\<lambda>r. r_workflow_id r = w) (\<lambda>r. r\<lparr>r_status := s\<rparr>) d)"

section \<open>What a successful creation does\<close>

lemma bump_and_insert_cases:
  assumes "wf_of d (r_workflow_id r) = Some w"
  shows "req_of d rid \<noteq> None \<Longrightarrow> bump_and_insert rid r w now d = (d, Inl ErrAlreadyExists)"
    and "req_of d rid = None \<Longrightarrow> bump_and_insert rid r w now d =
      ((fst (upd_wf (r_workflow_id r) (\<lambda>_. True) (\<lambda>x. x\<lparr>w_target_version := w_target_version w + 1\<rparr>) d))
         \<lparr>db_requests := db_requests d @ [(rid, new_request r (w_target_version w + 1) now)]\<rparr>,
       Inr (w_target_version w + 1))"
  using assms by (auto simp: bump_and_insert_def insert_request_def Let_def new_request_def row_simps)

section \<open>Properties\<close>

text \<open>Creating an invocation allocates a fresh, strictly larger version: exactly when the workflow is
  active and the id is new, the request is stored with version target_version + 1 and the workflow's
  target_version becomes that version; in every other case nothing changes and an error is returned.\<close>

theorem invocation_allocates_next_version:
  assumes "wf_of d (r_workflow_id r) = Some w"
  shows "CreateInvocationRequest rid r now d =
    (if w_state w \<noteq> WActive then (d, Inl ErrInvalidLifecycleState)
     else if req_of d rid \<noteq> None then (d, Inl ErrAlreadyExists)
     else ((fst (upd_wf (r_workflow_id r) (\<lambda>_. True) (\<lambda>x. x\<lparr>w_target_version := w_target_version w + 1\<rparr>) d))
         \<lparr>db_requests := db_requests d @ [(rid, new_request r (w_target_version w + 1) now)]\<rparr>,
       Inr (w_target_version w + 1)))"
  using assms bump_and_insert_cases [OF assms] by (simp add: CreateInvocationRequest_def)

theorem invocation_allocates_next_version_witness:
  "snd (CreateInvocationRequest ''r9'' (sample_req RUnscheduled 0) 5 (sample_db RCompleted (sample_job JPending None None))) = Inr 2"
proof -
  let ?d = "sample_db RCompleted (sample_job JPending None None)"
  have w: "wf_of ?d (r_workflow_id (sample_req RUnscheduled 0)) = Some sample_wf" by (simp add: sample_row_defs)
  show ?thesis unfolding invocation_allocates_next_version [OF w] by (simp add: sample_row_defs)
qed

text \<open>Abandoning queued work never touches a run: a request that is scheduled, in progress or
  terminal keeps its row, and every request reported back was queued and is now abandoned.\<close>

theorem abandon_only_queued:
  assumes "pk (db_requests d)" "req_of d rid = Some r"
  shows "req_of (fst (AbandonQueuedRequests w ids d)) rid =
      Some (if rid \<in> set (snd (AbandonQueuedRequests w ids d)) then r\<lparr>r_status := RAbandoned\<rparr> else r) \<and>
    (rid \<in> set (snd (AbandonQueuedRequests w ids d))) =
      (r_workflow_id r = w \<and> (r_status r = RUnscheduled \<or> r_status r = RPaused) \<and> (\<forall>is. ids = Some is \<longrightarrow> rid \<in> set is))"
  using assms by (auto simp: AbandonQueuedRequests_def row_simps in_sel_keys abandonable_def split: option.splits)

theorem abandon_only_queued_witness:
  "req_of (fst (AbandonQueuedRequests ''w'' None (sample_db RInProgress (sample_job JRunning None None)))) ''r1'' =
     Some (sample_req RInProgress 1)"
  using abandon_only_queued [of "sample_db RInProgress (sample_job JRunning None None)" "''r1''" "sample_req RInProgress 1" "''w''" None]
  by (simp add: sample_row_defs pk_def keys_def)

end
