(* ===== verification/PartitionRepo.thy ===== *)
theory PartitionRepo
  imports Database Leases
begin

text \<open>
  Scheduler partitions, \<open>src/internal/storage/postgres/scheduler_partition.go\<close>: the leases that make
  one scheduler process responsible for a shard of the workflows, and the FNV-1a hash that assigns a
  tenant to a shard (\<open>src/internal/service/registration.go\<close>).
\<close>

text \<open>\<open>generate_series(0, n - 1)::text\<close>: decimal digits.\<close>

fun digits :: "nat \<Rightarrow> string" where
  "digits n = (if n < 10 then [char_of (48 + n)] else digits (n div 10) @ [char_of (48 + n mod 10)])"

declare digits.simps [simp del]

definition SeedPartitions :: "int \<Rightarrow> db \<Rightarrow> (db \<times> unit) result" where
  "SeedPartitions n d =
     (if n < 1 then Inl (ErrOther ''numPartitions must be >= 1'')
      else Inr (d\<lparr>db_partitions := fold (\<lambda>i t.
             if map_of t (digits i) = None
             then t @ [(digits i, \<lparr>p_workflow_count = 0, p_owner = None, p_lease_until = None\<rparr>)] else t)
           [0..<nat n] (db_partitions d)\<rparr>, ()))"

definition partition_free :: "timestamp \<Rightarrow> scheduler_partition \<Rightarrow> bool" where
  "partition_free now p = (p_owner p = None \<or> p_owner p = Some [] \<or> ts_before (p_lease_until p) now)"

definition take_partition :: "string \<Rightarrow> int \<Rightarrow> timestamp \<Rightarrow> scheduler_partition \<Rightarrow> scheduler_partition" where
  "take_partition owner lease now p = p\<lparr>p_owner := Some owner, p_lease_until := Some (now + lease)\<rparr>"

text \<open>The subselect takes one free row, without an order.\<close>

definition AcquireAvailable ::
  "string \<Rightarrow> int \<Rightarrow> timestamp \<Rightarrow> db \<Rightarrow> db \<times> (string \<times> scheduler_partition) option" where
  "AcquireAvailable owner lease now d =
     (case filter (\<lambda>p. case map_of (db_partitions d) p of None \<Rightarrow> False | Some r \<Rightarrow> partition_free now r)
             (keys (db_partitions d)) of
        [] \<Rightarrow> (d, None)
      | p # _ \<Rightarrow>
          (let t = fst (upd_row p (\<lambda>_. True) (take_partition owner lease now) (db_partitions d))
           in (d\<lparr>db_partitions := t\<rparr>, map_option (Pair p) (map_of t p))))"

definition Renew :: "string \<Rightarrow> string \<Rightarrow> int \<Rightarrow> timestamp \<Rightarrow> db \<Rightarrow> db \<times> bool" where
  "Renew p owner lease now d =
     (case upd_row p (\<lambda>r. p_owner r = Some owner \<or> partition_free now r) (take_partition owner lease now) (db_partitions d) of
        (t, hit) \<Rightarrow> (d\<lparr>db_partitions := t\<rparr>, hit))"

definition Release :: "string \<Rightarrow> string \<Rightarrow> db \<Rightarrow> db" where
  "Release p owner d =
     d\<lparr>db_partitions := fst (upd_row p (\<lambda>r. p_owner r = Some owner)
         (\<lambda>r. r\<lparr>p_owner := Some [], p_lease_until := None\<rparr>) (db_partitions d))\<rparr>"

section \<open>Leases on partitions\<close>

definition partition_holder :: "db \<Rightarrow> string \<Rightarrow> (string \<times> timestamp) option" where
  "partition_holder d p = (case map_of (db_partitions d) p of None \<Rightarrow> None | Some r \<Rightarrow>
     (case (p_owner r, p_lease_until r) of
        (Some ow, Some e) \<Rightarrow> if ow = [] then None else Some (ow, e) | _ \<Rightarrow> None))"

datatype partition_attempt = TryAcquireAny | TryRenew string | TryRelease string

fun partition_step :: "partition_attempt \<Rightarrow> string \<Rightarrow> timestamp \<Rightarrow> int \<Rightarrow> db \<Rightarrow> db" where
  "partition_step TryAcquireAny ow now l d = fst (AcquireAvailable ow l now d)"
| "partition_step (TryRenew p) ow now l d = fst (Renew p ow l now d)"
| "partition_step (TryRelease p) ow now l d = Release p ow d"

definition renew_partition :: "string \<Rightarrow> string \<Rightarrow> timestamp \<Rightarrow> int \<Rightarrow> db \<Rightarrow> db" where
  "renew_partition p ow now l d = fst (Renew p ow l now d)"

lemma AcquireAvailable_spares:
  assumes "map_of (db_partitions d) p = Some r" "\<not> partition_free now r"
  shows "map_of (db_partitions (fst (AcquireAvailable ow l now d))) p = Some r"
proof (cases "filter (\<lambda>p. case map_of (db_partitions d) p of None \<Rightarrow> False | Some r \<Rightarrow> partition_free now r)
    (keys (db_partitions d))")
  case (Cons q qs)
  then have "q \<noteq> p" using assms by (auto simp: filter_eq_Cons_iff)
  then show ?thesis using assms Cons by (simp add: AcquireAvailable_def Let_def map_of_upd_row)
qed (simp add: AcquireAvailable_def assms)

lemma partition_holder_Some:
  "partition_holder d p = Some (ow, e) \<longleftrightarrow>
     (\<exists>r. map_of (db_partitions d) p = Some r \<and> p_owner r = Some ow \<and> p_lease_until r = Some e \<and> ow \<noteq> [])"
  by (auto simp: partition_holder_def split: option.splits)

interpretation partition_lease: lease_contract partition_holder renew_partition partition_step
proof
  fix d p ow e now l
  assume "partition_holder d p = Some (ow, e)"
  then show "partition_holder (renew_partition p ow now l d) p = Some (ow, now + l)"
    by (auto simp: partition_holder_Some renew_partition_def Renew_def case_prod_unfold map_of_upd_row take_partition_def)
next
  fix d p ow e ow' now a l
  assume h: "partition_holder d p = Some (ow, e)" and o: "ow' \<noteq> ow" and n: "now \<le> e"
  then obtain r where r: "map_of (db_partitions d) p = Some r" "p_owner r = Some ow" "p_lease_until r = Some e" "ow \<noteq> []"
    by (auto simp: partition_holder_Some)
  then have "\<not> partition_free now r" using n by (simp add: partition_free_def)
  then have "map_of (db_partitions (partition_step a ow' now l d)) p = Some r"
    using r o AcquireAvailable_spares [OF r(1)]
    by (cases a) (auto simp: Renew_def Release_def case_prod_unfold map_of_upd_row)
  with r show "partition_holder (partition_step a ow' now l d) p = Some (ow, e)" by (auto simp: partition_holder_Some)
qed

section \<open>Assignment of tenants to partitions\<close>

text \<open>Go's \<open>hash/fnv\<close> New32a: 32-bit arithmetic that wraps.\<close>

definition fnv1a :: "string \<Rightarrow> 32 word" where
  "fnv1a s = fold (\<lambda>c h. (xor h (of_nat (of_char c))) * 16777619) s 2166136261"

text \<open>
  \<open>strconv.Itoa(int(h.Sum32()) % numPartitions)\<close>: the hash is a non-negative 64-bit int, so the
  remainder is non-negative whatever the sign of the divisor; a divisor of zero panics.
\<close>

definition partitionForID :: "string \<Rightarrow> int \<Rightarrow> string result" where
  "partitionForID i n = (if n = 0 then Inl Panic else Inr (digits (nat (uint (fnv1a i) mod \<bar>n\<bar>))))"

definition seed_one :: "nat \<Rightarrow> (string, scheduler_partition) table \<Rightarrow> (string, scheduler_partition) table" where
  "seed_one i t = (if map_of t (digits i) = None
     then t @ [(digits i, \<lparr>p_workflow_count = 0, p_owner = None, p_lease_until = None\<rparr>)] else t)"

lemma seed_one_keeps: "map_of t p = Some r \<Longrightarrow> map_of (seed_one i t) p = Some r"
  by (simp add: seed_one_def map_add_Some_iff)

lemma seed_one_adds: "map_of (seed_one i t) (digits i) \<noteq> None"
  by (simp add: seed_one_def map_add_Some_iff)

lemma fold_seed_keeps: "map_of t p = Some r \<Longrightarrow> map_of (fold seed_one is t) p = Some r"
  by (induction "is" arbitrary: t) (auto intro: seed_one_keeps)

lemma fold_seed_adds: "i \<in> set is \<Longrightarrow> map_of (fold seed_one is t) (digits i) \<noteq> None"
proof (induction "is" arbitrary: t)
  case (Cons k ks)
  then show ?case using fold_seed_keeps seed_one_adds by (cases "i = k") (fastforce, simp)
qed simp

lemma SeedPartitions_fold:
  "1 \<le> n \<Longrightarrow> SeedPartitions n d = Inr (d\<lparr>db_partitions := fold seed_one [0..<nat n] (db_partitions d)\<rparr>, ())"
  by (simp add: SeedPartitions_def seed_one_def [abs_def])

section \<open>Properties\<close>

text \<open>Every id is assigned to a partition that exists: with the same positive partition count,
  the rows seeded at migration contain the partition \<open>partitionForID\<close> computes, and seeding never
  changes the lease of an existing partition.\<close>

theorem assigned_partition_is_seeded:
  assumes "1 \<le> n" "SeedPartitions n d = Inr (d', ())" "map_of (db_partitions d) q = Some r"
  shows "\<exists>p row. partitionForID i n = Inr p \<and> map_of (db_partitions d') p = Some row \<and>
           map_of (db_partitions d') q = Some r"
proof -
  have "nat (uint (fnv1a i) mod \<bar>n\<bar>) \<in> set [0..<nat n]" using assms(1) by simp
  from fold_seed_adds [OF this, of "db_partitions d"] show ?thesis
    using assms fold_seed_keeps by (force simp: SeedPartitions_fold partitionForID_def)
qed

theorem assigned_partition_is_seeded_witness:
  "\<exists>p row. partitionForID ''tenant'' 2 = Inr p \<and>
     map_of (fold seed_one [0..<2] [(''0'', \<lparr>p_workflow_count = 0, p_owner = Some ''s'', p_lease_until = None\<rparr>)]) p = Some row \<and>
     map_of (fold seed_one [0..<2] [(''0'', \<lparr>p_workflow_count = 0, p_owner = Some ''s'', p_lease_until = None\<rparr>)]) ''0'' =
       Some \<lparr>p_workflow_count = 0, p_owner = Some ''s'', p_lease_until = None\<rparr>"
  using assigned_partition_is_seeded [of 2 "empty_db\<lparr>db_partitions := [(''0'', \<lparr>p_workflow_count = 0, p_owner = Some ''s'', p_lease_until = None\<rparr>)]\<rparr>"
      "empty_db\<lparr>db_partitions := fold seed_one [0..<2] [(''0'', \<lparr>p_workflow_count = 0, p_owner = Some ''s'', p_lease_until = None\<rparr>)]\<rparr>"
      "''0''" "\<lparr>p_workflow_count = 0, p_owner = Some ''s'', p_lease_until = None\<rparr>" "''tenant''"]
  by (simp add: SeedPartitions_fold)

text \<open>One scheduler per partition: while a holder keeps renewing before its lease runs out, no
  acquisition, renewal or release by another scheduler process takes the partition away from it.\<close>

theorem partition_lease_is_exclusive:
  assumes "partition_holder d p = Some (me, e)"
    and "within_lease (\<lambda>s. partition_holder s p) (renew_partition p me) partition_step me evs d"
  shows "\<exists>e'. partition_holder (fold (run_event (renew_partition p me) partition_step) evs d) p = Some (me, e')"
  by (rule partition_lease.exclusive [OF assms])

theorem partition_lease_is_exclusive_witness:
  "\<exists>e'. partition_holder (fold (run_event (renew_partition ''0'' ''a'') partition_step)
      [Attempt TryAcquireAny ''b'' 5 30, Renewal 9 30, Attempt (TryRenew ''0'') ''b'' 39 30]
      (empty_db\<lparr>db_partitions := [(''0'', \<lparr>p_workflow_count = 0, p_owner = Some ''a'', p_lease_until = Some 10\<rparr>)]\<rparr>)) ''0'' = Some (''a'', e')"
  by (rule partition_lease_is_exclusive [where e = 10])
    (simp_all add: empty_db_def partition_holder_def renew_partition_def Renew_def AcquireAvailable_def run_event_def
      upd_row_def partition_free_def take_partition_def keys_def)

end
