(* ===== verification/SchedulerCore.thy ===== *)
theory SchedulerCore
  imports MetricsModel SchedulerRepo RequestRepo PartitionRepo
begin

text \<open>
  The scheduler, \<open>src/internal/scheduler/scheduler.go\<close>, and the policy resolution it calls,
  \<open>src/internal/scheduler/lifecycleresolver.go\<close>. A handler is a sequence of repository calls; \<open>flt c\<close>
  makes the call named \<open>c\<close> fail (the statement has no effect and returns an error), so that every error
  path of the Go code is a branch here. The goroutines a sweep starts per job are run in the order of the
  list, each handler with its own faults.
\<close>

section \<open>Policy resolution\<close>

definition ResolveLifecyclePolicy ::
  "(string \<Rightarrow> bool) \<Rightarrow> string \<Rightarrow> workflow \<Rightarrow> workflow_version_metrics \<Rightarrow> string \<Rightarrow> timestamp \<Rightarrow> db \<Rightarrow>
   db \<times> policy_action_details option result" where
  "ResolveLifecyclePolicy flt i w vm rid now d =
     (case ResolvePolicy (w_invocation_metrics w) (w_lifecycle_policy w) vm of
        Inl e \<Rightarrow> (d, Inl e)
      | Inr (g, fired_rule, trigger) \<Rightarrow>
          (let prevVersion = w_current_workflow_version w;
               prevState = w_state w;
               version = (if fired_rule \<noteq> None \<and> gs_version_change g then gs_version g else prevVersion);
               state = (if fired_rule \<noteq> None \<and> \<not> gs_version_change g
                        then (case gs_state g of None \<Rightarrow> prevState | Some s \<Rightarrow> s) else prevState);
               cooldown = (if fired_rule \<noteq> None \<and> \<not> gs_version_change g \<and> state = WCooldown
                           then Some (now + secs (gs_cooldown g)) else w_cooldown_until w)
           in if flt ''TryApplyResolution'' then (d, Inl DbError)
              else case (if gs_version_change g
                         then TryApplyVersionResolution i (w_current_version w) prevVersion version rid d
                         else TryApplyStateResolution i (w_current_version w) state cooldown rid d) of
                (d', resolved) \<Rightarrow>
                  if \<not> resolved then (d', Inr None)
                  else (case fired_rule of
                          None \<Rightarrow> (d', Inr None)
                        | Some r \<Rightarrow>
                            if version = prevVersion \<and> state = prevState then (d', Inr None)
                            else (d', Inr (Some \<lparr>pd_rule = r, pd_trigger_value = trigger,
                                    pd_previous_version = prevVersion, pd_previous_state = prevState\<rparr>)))))"

text \<open>Best effort: every failure is only logged.\<close>

definition recordPolicyAction ::
  "(string \<Rightarrow> bool) \<Rightarrow> string \<Rightarrow> string \<Rightarrow> string \<Rightarrow> policy_action_details \<Rightarrow> timestamp \<Rightarrow> db \<Rightarrow> db" where
  "recordPolicyAction flt uid i rid act now d =
     (if flt ''TenantGroupIDForWorkflow'' then d
      else case TenantGroupIDForWorkflow i d of
        Inl _ \<Rightarrow> d
      | Inr g \<Rightarrow>
          if flt ''Append'' then d
          else Append uid \<lparr>ae_tenant_group_id = g, ae_workflow_id = i, ae_request_id = rid, ae_event_type = EvPolicyAction,
                 ae_actor = ''system'', ae_occurred_at = now, ae_details = DPolicy act\<rparr> d)"

section \<open>Completing a request\<close>

text \<open>The zero value of the Go string is not a lifecycle state the enum accepts.\<close>

fun completed_lifecycle :: "request_type \<Rightarrow> lifecycle_state option" where
  "completed_lifecycle TCreate = Some LActive"
| "completed_lifecycle TInvoke = Some LActive"
| "completed_lifecycle THealthCheck = None"

definition finish_completion ::
  "(string \<Rightarrow> bool) \<Rightarrow> string \<Rightarrow> string \<Rightarrow> run_outcome \<Rightarrow> string \<Rightarrow> json_map option \<Rightarrow> bool \<Rightarrow> timestamp \<Rightarrow> db \<Rightarrow> db \<times> bool result" where
  "finish_completion flt rid i oc reason res applied now d =
     (let d1 = (if flt ''DeleteTerminalJob'' then d else fst (DeleteTerminalJob i rid d))
      in if flt ''CompleteRequest'' then (d1, Inl DbError)
         else case request_CompleteRequest rid oc reason res now d1 of
           (d2, Inl e) \<Rightarrow> (d2, Inl e)
         | (d2, Inr _) \<Rightarrow> (d2, Inr applied))"

text \<open>Metrics first, then the policy decision they lead to, then its audit entry.\<close>

definition promote_and_resolve ::
  "(string \<Rightarrow> bool) \<Rightarrow> string \<Rightarrow> string \<Rightarrow> string \<Rightarrow> agent_metrics \<Rightarrow> workflow_job_metrics \<Rightarrow> workflow \<Rightarrow> timestamp \<Rightarrow> db \<Rightarrow>
   db \<times> unit result" where
  "promote_and_resolve flt uid rid i am wm w now d =
     (case HandleAgentMetrics flt rid am wm i w now d of
        (d1, Inl e) \<Rightarrow> (d1, Inl e)
      | (d1, Inr (vm, w')) \<Rightarrow>
          (case ResolveLifecyclePolicy flt i w' vm rid now d1 of
             (d2, Inl e) \<Rightarrow> (d2, Inl e)
           | (d2, Inr None) \<Rightarrow> (d2, Inr ())
           | (d2, Inr (Some act)) \<Rightarrow> (recordPolicyAction flt uid i rid act now d2, Inr ())))"

definition CompleteRequest ::
  "(string \<Rightarrow> bool) \<Rightarrow> string \<Rightarrow> string \<Rightarrow> string \<Rightarrow> int \<Rightarrow> request_type \<Rightarrow> run_outcome \<Rightarrow> string \<Rightarrow> json_map option \<Rightarrow>
   timestamp \<Rightarrow> db \<Rightarrow> db \<times> bool result" where
  "CompleteRequest flt uid rid i ver rtype oc reason res now d =
     (case completed_lifecycle rtype of
        None \<Rightarrow> (d, Inl DbError)
      | Some ls \<Rightarrow>
        if flt ''ApplyCompletedJob'' then (d, Inl DbError)
        else case ApplyCompletedJob i ls ver now d of (d1, applied) \<Rightarrow>
          if flt ''GetJobMetrics'' then (d1, Inl DbError)
          else case GetJobMetrics i rid d1 of (am, wm) \<Rightarrow>
            if flt ''Get'' then (d1, Inl DbError)
            else case workflow_Get i d1 of
              Inl e \<Rightarrow> (d1, Inl e)
            | Inr w \<Rightarrow>
                (case promote_and_resolve flt uid rid i am wm w now d1 of
                   (d2, Inl e) \<Rightarrow> (d2, Inl e)
                 | (d2, Inr _) \<Rightarrow> finish_completion flt rid i oc reason res applied now d2))"

section \<open>Failing a request\<close>

definition maxJobAttempts :: int where
  "maxJobAttempts = 20"

definition interruptedReason :: string where
  "interruptedReason = ''the run was interrupted before it could complete (platform failure)''"

definition recordInterruptedMetrics :: "(string \<Rightarrow> bool) \<Rightarrow> string \<Rightarrow> string \<Rightarrow> timestamp \<Rightarrow> db \<Rightarrow> db \<times> unit result" where
  "recordInterruptedMetrics flt rid i now d =
     (if flt ''GetJobMetrics'' then (d, Inr ())
      else case GetJobMetrics i rid d of (am, wm) \<Rightarrow>
        if am = [] \<and> IsZero wm then (d, Inr ())
        else if flt ''Get/metrics'' then (d, Inr ())
        else case workflow_Get i d of
          Inl _ \<Rightarrow> (d, Inr ())
        | Inr w \<Rightarrow>
            (case HandleAgentMetrics flt rid am wm i w now d of
               (d', Inl Panic) \<Rightarrow> (d', Inl Panic)
             | (d', _) \<Rightarrow> (d', Inr ())))"

definition finish_failure ::
  "(string \<Rightarrow> bool) \<Rightarrow> string \<Rightarrow> string \<Rightarrow> string \<Rightarrow> bool \<Rightarrow> timestamp \<Rightarrow> db \<Rightarrow> db \<times> bool result" where
  "finish_failure flt rid i reason applied now d =
     (let d1 = (if flt ''DeleteTerminalJob'' then d else fst (DeleteTerminalJob i rid d))
      in if flt ''FailRequest'' then (d1, Inl DbError)
         else case request_FailRequest rid reason now d1 of
           (d2, Inl e) \<Rightarrow> (d2, Inl e)
         | (d2, Inr _) \<Rightarrow> (d2, Inr applied))"

text \<open>The part after the failure has been claimed.\<close>

definition tear_down ::
  "(string \<Rightarrow> bool) \<Rightarrow> string \<Rightarrow> string \<Rightarrow> int \<Rightarrow> string \<Rightarrow> timestamp \<Rightarrow> db \<Rightarrow> db \<times> bool result" where
  "tear_down flt rid i ver reason now d =
     (if flt ''ApplyFailedJob'' then (d, Inl DbError)
      else case ApplyFailedJob i rid LInterrupted WDisabled ver now d of (d1, applied) \<Rightarrow>
        case (if applied then recordInterruptedMetrics flt rid i now d1 else (d1, Inr ())) of
          (d2, Inl e) \<Rightarrow> (d2, Inl e)
        | (d2, Inr _) \<Rightarrow> finish_failure flt rid i reason applied now d2)"

definition FailRequest ::
  "(string \<Rightarrow> bool) \<Rightarrow> string \<Rightarrow> string \<Rightarrow> int \<Rightarrow> string \<Rightarrow> int \<Rightarrow> timestamp \<Rightarrow> db \<Rightarrow> db \<times> bool result" where
  "FailRequest flt rid i ver reason attempts now d =
     (let reason' = (if reason = [] then interruptedReason else reason)
      in if flt ''Get'' then (d, Inr False)
         else case workflow_Get i d of
           Inl _ \<Rightarrow> (d, Inr False)
         | Inr w \<Rightarrow>
             (let retry = wc_resumable (w_config w) \<and> attempts < maxJobAttempts
              in if retry \<and> flt ''RequeueJob'' then (d, Inr False)
                 else case (if retry then RequeueJob i rid attempts d else (d, False)) of
                   (d1, True) \<Rightarrow> (d1, Inr False)
                 | (d1, False) \<Rightarrow>
                     if flt ''ClaimFailedJob'' then (d1, Inr False)
                     else case ClaimFailedJob i rid attempts d1 of
                       (d2, False) \<Rightarrow> (d2, Inr False)
                     | (d2, True) \<Rightarrow> tear_down flt rid i ver reason' now d2))"

section \<open>Scheduling a request\<close>

definition validateWorkflowState :: "workflow \<Rightarrow> bool" where
  "validateWorkflowState w = (w_state w = WActive \<and> w_lifecycle_last_resolved w = w_current_version w)"

text \<open>\<open>int(float64)\<close> truncates towards zero.\<close>

definition trunc :: "float64 \<Rightarrow> int" where
  "trunc x = (if 0 \<le> x then \<lfloor>x\<rfloor> else \<lceil>x\<rceil>)"

definition opt_field :: "string \<Rightarrow> ('a \<Rightarrow> json) \<Rightarrow> 'a option \<Rightarrow> json_map" where
  "opt_field k f x = (case x of None \<Rightarrow> [] | Some v \<Rightarrow> [(k, f v)])"

definition counts_field :: "string \<Rightarrow> (string \<times> int) list \<Rightarrow> json_map" where
  "counts_field k m = (if m = [] then [] else [(k, JObj (map (\<lambda>(t, n). (t, JNum (of_int n))) m))])"

text \<open>The JSON of an agent snapshot, with omitempty.\<close>

definition snapshot_json :: "agent_invocation_snapshot \<Rightarrow> json" where
  "snapshot_json a = JObj (
     opt_field ''cost_usd'' JNum (a_cost_usd a) @
     opt_field ''llm_calls'' (\<lambda>n. JNum (of_int n)) (a_llm_calls a) @
     opt_field ''tokens_used'' (\<lambda>n. JNum (of_int n)) (a_tokens_used a) @
     opt_field ''latency_seconds'' JNum (a_latency_seconds a) @
     opt_field ''failures'' (\<lambda>n. JNum (of_int n)) (a_failures a) @
     opt_field ''approval_rejections'' (\<lambda>n. JNum (of_int n)) (a_approval_rejections a) @
     counts_field ''tool_failure_counts'' (a_tool_failure_counts a) @
     counts_field ''calls_per_tool'' (a_calls_per_tool a) @
     [(''ran_at'', JNum (of_int (a_ran_at a)))] @
     (if a_request_id a = [] then [] else [(''request_id'', JStr (a_request_id a))]))"

definition agent_state_json :: "agent_state \<Rightarrow> json" where
  "agent_state_json st = JObj
     [(''lifecycle_policy'', case as_lifecycle_policy st of None \<Rightarrow> JNull | Some p \<Rightarrow> JObj p),
      (''invocation_metrics'', JArr (map snapshot_json (as_invocation_metrics st)))]"

definition job_context :: "json_map \<Rightarrow> (string \<times> agent_state) list \<Rightarrow> json_map" where
  "job_context info sts = (if sts = [] then info
     else AList.update ''agentStates'' (JObj (map (\<lambda>(n, st). (n, agent_state_json st)) sts)) info)"

fun request_type_name :: "request_type \<Rightarrow> string" where
  "request_type_name TCreate = ''create''"
| "request_type_name TInvoke = ''invoke''"
| "request_type_name THealthCheck = ''healthcheck''"

text \<open>A missing or non-numeric timeout fails the type assertion, which panics.\<close>

definition request_timeout :: "json_map \<Rightarrow> int result" where
  "request_timeout info = (case map_of info ''operationTimeoutSeconds'' of Some (JNum x) \<Rightarrow> Inr (trunc x) | _ \<Rightarrow> Inl Panic)"

text \<open>An unset invoke mode means coalesce.\<close>

definition effective_mode :: "workflow \<Rightarrow> invoke_mode" where
  "effective_mode w = (if wc_invoke_mode (w_config w) = ModeUnset then Coalesce else wc_invoke_mode (w_config w))"

text \<open>The upsert, then the statements that follow a written row.\<close>

definition write_job ::
  "(string \<Rightarrow> bool) \<Rightarrow> string \<Rightarrow> customer_request \<Rightarrow> workflow \<Rightarrow> int \<Rightarrow> timestamp \<Rightarrow> db \<Rightarrow> db \<times> unit result" where
  "write_job flt rid r w tmo now d =
     (let mode = effective_mode w
      in if flt ''UpsertJobAndSchedule'' then (d, Inl DbError)
         else case UpsertJobAndSchedule rid (job_context (r_info r) (GetAllForWorkflow (r_workflow_id r) d))
                (request_type_name (r_type r) @ ''_entry'') tmo (w_current_workflow_version w) (w_current_version w) mode now d of
           (d1, None) \<Rightarrow> (d1, Inr ())
         | (d1, Some (i, ver)) \<Rightarrow>
             if mode \<noteq> Queue \<and> flt ''SupercedeOlderRequests'' then (d1, Inl DbError)
             else let d2 = (if mode \<noteq> Queue then SupercedeOlderRequests i ver d1 else d1)
                  in (if flt ''MarkWorkflowScheduled'' then d2 else MarkWorkflowScheduled i d2, Inr ()))"

definition ScheduleRequest :: "(string \<Rightarrow> bool) \<Rightarrow> string \<Rightarrow> timestamp \<Rightarrow> db \<Rightarrow> db \<times> unit result" where
  "ScheduleRequest flt rid now d =
     (if flt ''requests.Get'' then (d, Inl DbError)
      else case request_Get rid d of
        Inl e \<Rightarrow> (d, Inl e)
      | Inr r \<Rightarrow>
        if flt ''workflow.Get'' then (d, Inl DbError)
        else case workflow_Get (r_workflow_id r) d of
          Inl e \<Rightarrow> (d, Inl e)
        | Inr w \<Rightarrow>
          if \<not> validateWorkflowState w then (d, Inl (ErrOther ''workflow validation failed''))
          else if flt ''GetAllForWorkflow'' then (d, Inl DbError)
          else case request_timeout (r_info r) of
            Inl e \<Rightarrow> (d, Inl e)
          | Inr tmo \<Rightarrow> write_job flt rid r w tmo now d)"

section \<open>What the scheduler does for the API and the workers\<close>

definition ApproveJob :: "string \<Rightarrow> string \<Rightarrow> string \<Rightarrow> db \<Rightarrow> db \<times> resolved_gate option" where
  [simp]: "ApproveJob i gid reason d = ResolveApproval i gid JApproved reason d"

definition RejectJob :: "string \<Rightarrow> string \<Rightarrow> string \<Rightarrow> db \<Rightarrow> db \<times> resolved_gate option" where
  [simp]: "RejectJob i gid reason d = ResolveApproval i gid JRejected reason d"

definition AbandonJob :: "string \<Rightarrow> string \<Rightarrow> timestamp \<Rightarrow> db \<Rightarrow> db \<times> bool" where
  [simp]: "AbandonJob i sid now d = MarkAbandonRequested i sid now d"

definition AnswerJob :: "string \<Rightarrow> string \<Rightarrow> json_map option \<Rightarrow> db \<Rightarrow> db \<times> resolved_gate option" where
  [simp]: "AnswerJob i gid answer d = ResolveInput i gid answer d"

definition MarkInvoking :: "string \<Rightarrow> db \<Rightarrow> db" where
  [simp]: "MarkInvoking i d = MarkWorkflowInvoking i d"

definition MarkAwaitingApproval :: "string \<Rightarrow> db \<Rightarrow> db" where
  [simp]: "MarkAwaitingApproval i d = MarkWorkflowAwaitingApproval i d"

definition MarkAwaitingInput :: "string \<Rightarrow> db \<Rightarrow> db" where
  [simp]: "MarkAwaitingInput i d = MarkWorkflowAwaitingInput i d"

section \<open>The sweeps and the tick of a partition\<close>

text \<open>\<open>flts k\<close> are the faults of the handler for the item with key \<open>k\<close>.\<close>

definition failJobs :: "(string \<Rightarrow> bool) \<Rightarrow> (string \<Rightarrow> string \<Rightarrow> bool) \<Rightarrow> string \<Rightarrow> timestamp \<Rightarrow> db \<Rightarrow> db" where
  "failJobs flt flts p now d =
     (if flt ''GetFailedJobs'' then d
      else fold (\<lambda>j d. fst (FailRequest (flts (fj_request_id j)) (fj_request_id j) (fj_workflow_id j) (fj_version j)
             (fj_failure_reason j) (fj_attempts j) now d)) (GetFailedJobs p d) d)"

definition completeJobs :: "(string \<Rightarrow> bool) \<Rightarrow> (string \<Rightarrow> string \<Rightarrow> bool) \<Rightarrow> string \<Rightarrow> string \<Rightarrow> timestamp \<Rightarrow> db \<Rightarrow> db" where
  "completeJobs flt flts uid p now d =
     (if flt ''GetCompletedJobs'' then d
      else case GetCompletedJobs p d of
        Inl _ \<Rightarrow> d
      | Inr js \<Rightarrow> fold (\<lambda>j d. fst (CompleteRequest (flts (cj_request_id j)) uid (cj_request_id j) (cj_workflow_id j)
             (cj_version j) (cj_request_type j) (cj_result_type j) (cj_failure_reason j) (cj_result j) now d)) js d)"

definition scheduleJobs :: "(string \<Rightarrow> bool) \<Rightarrow> (string \<Rightarrow> string \<Rightarrow> bool) \<Rightarrow> string \<Rightarrow> timestamp \<Rightarrow> db \<Rightarrow> db" where
  "scheduleJobs flt flts p now d =
     (if flt ''GetTopUnscheduledRequests'' then d
      else fold (\<lambda>rid d. fst (ScheduleRequest (flts rid) rid now d)) (GetTopUnscheduledRequests p d) d)"

definition blockedAfterSecs :: int where
  "blockedAfterSecs = 60"

definition reconcileWorkflowLifecycles :: "(string \<Rightarrow> bool) \<Rightarrow> string \<Rightarrow> timestamp \<Rightarrow> db \<Rightarrow> db" where
  [simp]: "reconcileWorkflowLifecycles flt p now d =
     (if flt ''ReconcileWorkflowLifecycles'' then d else fst (ReconcileWorkflowLifecycles p blockedAfterSecs now d))"

definition markOrphanedJobsFailed :: "(string \<Rightarrow> bool) \<Rightarrow> int \<Rightarrow> string \<Rightarrow> timestamp \<Rightarrow> db \<Rightarrow> db" where
  [simp]: "markOrphanedJobsFailed flt grace p now d =
     (if flt ''MarkOrphanedJobsFailed'' then d else fst (MarkOrphanedJobsFailed p grace now d))"

definition sweepRequestsInProgress :: "(string \<Rightarrow> bool) \<Rightarrow> string \<Rightarrow> db \<Rightarrow> db" where
  [simp]: "sweepRequestsInProgress flt p d =
     (if flt ''SweepRequestsInProgress'' then d else fst (SweepRequestsInProgress p d))"

datatype tick_task = TickFail | TickComplete | TickReconcile | TickOrphans | TickSweep

fun run_task :: "(string \<Rightarrow> bool) \<Rightarrow> (string \<Rightarrow> string \<Rightarrow> bool) \<Rightarrow> string \<Rightarrow> int \<Rightarrow> string \<Rightarrow> timestamp \<Rightarrow> tick_task \<Rightarrow> db \<Rightarrow> db" where
  "run_task flt flts uid grace p now TickFail d = failJobs flt flts p now d"
| "run_task flt flts uid grace p now TickComplete d = completeJobs flt flts uid p now d"
| "run_task flt flts uid grace p now TickReconcile d = reconcileWorkflowLifecycles flt p now d"
| "run_task flt flts uid grace p now TickOrphans d = markOrphanedJobsFailed flt grace p now d"
| "run_task flt flts uid grace p now TickSweep d = sweepRequestsInProgress flt p d"

text \<open>
  One tick of \<open>runPartition\<close>: the five sweeps in the order \<open>ts\<close> they happen to run, then scheduling,
  then the renewal of the partition lease. The result says whether the partition is kept.
\<close>

definition partition_tick ::
  "(string \<Rightarrow> bool) \<Rightarrow> (string \<Rightarrow> string \<Rightarrow> bool) \<Rightarrow> string \<Rightarrow> string \<Rightarrow> int \<Rightarrow> int \<Rightarrow> string \<Rightarrow> timestamp \<Rightarrow> tick_task list \<Rightarrow> db \<Rightarrow> db \<times> bool" where
  "partition_tick flt flts uid sid grace lease p now ts d =
     (let d1 = scheduleJobs flt flts p now (fold (run_task flt flts uid grace p now) ts d)
      in if flt ''Renew'' then (d1, False) else Renew p sid lease now d1)"

section \<open>What the steps of a completion leave alone\<close>

text \<open>Only the last step of a completion or a failure touches the request, and only the deletion the job row.\<close>

definition same_queue :: "db \<Rightarrow> db \<Rightarrow> bool" where
  "same_queue d d' = (db_requests d' = db_requests d \<and> db_jobs d' = db_jobs d)"

lemma same_queue_refl [simp]: "same_queue d d"
  by (simp add: same_queue_def)

lemma same_queue_trans: "same_queue d d1 \<Longrightarrow> same_queue d1 d2 \<Longrightarrow> same_queue d d2"
  by (simp add: same_queue_def)

lemma same_queue_epoch [simp]: "same_queue d (startNewMetricsEpoch i v d1) = same_queue d d1"
  by (simp add: same_queue_def startNewMetricsEpoch_def Let_def)

lemma same_queue_upd_wf [simp]: "same_queue d (fst (upd_wf k g f d))"
  by (simp add: same_queue_def)

lemma same_queue_emit [simp]: "same_queue d (fst (EmitMetrics i v rolling vm agents d))"
  by (auto simp: EmitMetrics_def same_queue_def case_prod_unfold split: bool.split)

lemma same_queue_metrics: "same_queue d (fst (HandleAgentMetrics flt rid im wm i w now d))"
  by (auto simp: HandleAgentMetrics_def Let_def split: prod.split sum.split)

lemma same_queue_resolution:
  "same_queue d (fst (TryApplyVersionResolution i v e t rid d))" "same_queue d (fst (TryApplyStateResolution i v s cd rid d))"
  by (auto simp: TryApplyVersionResolution_def TryApplyStateResolution_def case_prod_unfold)

lemma same_queue_policy: "same_queue d (fst (ResolveLifecyclePolicy flt i w vm rid now d))"
  by (auto simp: ResolveLifecyclePolicy_def Let_def case_prod_unfold same_queue_resolution split: sum.split option.split)

lemma same_queue_record: "same_queue d (recordPolicyAction flt uid i rid a now d)"
  by (auto simp: recordPolicyAction_def Append_def same_queue_def split: sum.split)

text \<open>
  The run is accounted for on the workflow: its version has been passed and its metrics are stored. It has landed when, besides,
  the lifecycle policy has been resolved for it; a workflow that is disabled or suspended is not resolved.
\<close>

definition accounted :: "string \<Rightarrow> int \<Rightarrow> db \<Rightarrow> bool" where
  "accounted i ver d = (case wf_of d i of None \<Rightarrow> False
     | Some w \<Rightarrow> ver \<le> w_current_version w \<and> w_current_version w \<le> w_metrics_emitted_at w)"

definition landed :: "string \<Rightarrow> int \<Rightarrow> db \<Rightarrow> bool" where
  "landed i ver d = (case wf_of d i of None \<Rightarrow> False
     | Some w \<Rightarrow> ver \<le> w_current_version w \<and> w_current_version w \<le> w_metrics_emitted_at w \<and>
        (w_current_version w \<le> w_lifecycle_last_resolved w \<or> w_state w \<in> {WDisabled, WSuspended}))"

lemma ApplyCompletedJob_version:
  "map_option w_current_version (wf_of (fst (ApplyCompletedJob i ls ver now d)) i) =
     map_option (\<lambda>w. max (w_current_version w) ver) (wf_of d i)"
  by (cases "wf_of d i") (simp_all add: ApplyCompletedJob_def row_simps)

lemma accounted_metrics:
  assumes "wf_of d i = Some w" "w_current_version v = w_current_version w" "ver \<le> w_current_version w"
    and "HandleAgentMetrics flt rid im wm i v now d = (d', Inr x)"
  shows "accounted i ver d'"
proof -
  obtain vm w' where x: "x = (vm, w')" by (cases x)
  obtain agents where "d' = fst (EmitMetrics i (w_current_version v) (w_invocation_metrics w') vm agents d)"
    using HandleAgentMetrics_emit [OF assms(4) [unfolded x]] by blast
  then show ?thesis using assms(1-3) by (simp add: accounted_def wf_EmitMetrics)
qed

text \<open>A resolution that returns has resolved the policy up to the version of the workflow it was given, if that is the row.\<close>

lemma landed_resolution:
  assumes "accounted i ver d" "wf_of d i = Some row"
  shows "e = w_current_workflow_version row \<Longrightarrow> landed i ver (fst (TryApplyVersionResolution i (w_current_version row) e t rid d))"
    and "landed i ver (fst (TryApplyStateResolution i (w_current_version row) s cd rid d))"
  using assms by (auto simp: landed_def accounted_def TryApplyVersionResolution_def TryApplyStateResolution_def case_prod_unfold
      startNewMetricsEpoch_def Let_def row_simps split: option.split)

lemma landed_policy:
  assumes "accounted i ver d" "wf_of d i = Some row" "w_current_version w = w_current_version row"
    and "w_current_workflow_version w = w_current_workflow_version row" "ResolveLifecyclePolicy flt i w vm rid now d = (d', Inr a)"
  shows "landed i ver d'"
  using assms(5) landed_resolution [OF assms(1,2)] assms(3,4)
  by (auto simp: ResolveLifecyclePolicy_def Let_def case_prod_unfold split: sum.splits option.splits if_splits)

lemma landed_record: "landed i ver (recordPolicyAction flt uid i rid a now d) = landed i ver d"
  by (auto simp: recordPolicyAction_def Append_def landed_def split: sum.split)

lemma landed_finish: "landed i ver (fst (finish_completion flt rid i oc reason res ap now d)) = landed i ver d"
  by (auto simp: finish_completion_def landed_def request_CompleteRequest_def DeleteTerminalJob_def Let_def case_prod_unfold
      split: sum.split option.split)

lemma promote_and_resolve_phases:
  assumes "promote_and_resolve flt uid rid i am wm v now d = (d', r)"
  shows "same_queue d d' \<and> (wf_of d i = Some w \<and> w_current_version v = w_current_version w \<and>
    w_current_workflow_version v = w_current_workflow_version w \<and> ver \<le> w_current_version w \<and> r = Inr () \<longrightarrow> landed i ver d')"
proof -
  obtain d1 x where hm: "HandleAgentMetrics flt rid am wm i v now d = (d1, x)" by fastforce
  then have q1: "same_queue d d1" using same_queue_metrics by (metis fst_conv)
  show ?thesis
  proof (cases x)
    case (Inl e)
    then show ?thesis using assms hm q1 by (auto simp: promote_and_resolve_def)
  next
    case (Inr vw)
    obtain vm w' where vw: "vw = (vm, w')" by (cases vw)
    obtain d2 y where rp: "ResolveLifecyclePolicy flt i w' vm rid now d1 = (d2, y)" by fastforce
    then have q2: "same_queue d d2" using same_queue_policy q1 same_queue_trans by (metis fst_conv)
    have rec: "same_queue d (recordPolicyAction flt uid i rid a now d2)" for a
      using q2 same_queue_record same_queue_trans by blast
    obtain agents where emit: "d1 = fst (EmitMetrics i (w_current_version v) (w_invocation_metrics w') vm agents d)"
      "w_current_version w' = w_current_version v" "w_current_workflow_version w' = w_current_workflow_version v"
      using HandleAgentMetrics_emit [OF hm [unfolded Inr vw]] by auto
    have l2: "landed i ver d2" if w: "wf_of d i = Some w" "w_current_version v = w_current_version w"
        "w_current_workflow_version v = w_current_workflow_version w" "ver \<le> w_current_version w" and y: "y = Inr a" for a
    proof -
      obtain row where row: "wf_of d1 i = Some row" "w_current_version row = w_current_version w"
        "w_current_workflow_version row = w_current_workflow_version w"
        using w(1) by (auto simp: emit(1) wf_EmitMetrics)
      show ?thesis using landed_policy [OF accounted_metrics [OF w(1,2,4) hm [unfolded Inr]] row(1)] rp y emit(2,3) w(2,3) row(2,3) by simp
    qed
    show ?thesis using assms hm Inr vw rp q2 l2 rec
      by (auto simp: promote_and_resolve_def landed_record split: sum.splits option.splits)
  qed
qed

lemma CompleteRequest_phases:
  assumes "CompleteRequest flt uid rid i ver rtype oc reason res now d = (d', r)"
  obtains (early) e where "r = Inl e" "same_queue d d'"
  | (finish) d2 ls where "completed_lifecycle rtype = Some ls" "same_queue d d2" "landed i ver d2"
      "finish_completion flt rid i oc reason res (snd (ApplyCompletedJob i ls ver now d)) now d2 = (d', r)"
proof (cases "completed_lifecycle rtype")
  case None
  then show thesis using assms early by (auto simp: CompleteRequest_def)
next
  case (Some ls)
  obtain d1 ap where a: "ApplyCompletedJob i ls ver now d = (d1, ap)" by fastforce
  have "same_queue d (fst (ApplyCompletedJob i ls ver now d))" by (simp add: ApplyCompletedJob_def)
  with a have q1: "same_queue d d1" by simp
  obtain am wm where m: "GetJobMetrics i rid d1 = (am, wm)" by fastforce
  note h = assms [unfolded CompleteRequest_def Some option.case a prod.case m]
  show thesis
  proof (cases "flt ''ApplyCompletedJob'' \<or> flt ''GetJobMetrics'' \<or> flt ''Get'' \<or> wf_of d1 i = None")
    case True
    then have "d' = d \<or> d' = d1" "\<exists>e. r = Inl e" using h by (auto simp: workflow_Get_def split: if_splits)
    then show thesis using q1 early by auto
  next
    case nf: False
    then obtain row where row: "wf_of d1 i = Some row" by auto
    then have ver: "ver \<le> w_current_version row"
      using ApplyCompletedJob_version [of i ls ver now d] a by (cases "wf_of d i") auto
    let ?w = "row\<lparr>w_invocation_metrics := sort_key s_ran_at (w_invocation_metrics row)\<rparr>"
    obtain d2 x where p: "promote_and_resolve flt uid rid i am wm ?w now d1 = (d2, x)" by fastforce
    note ph = promote_and_resolve_phases [OF p, of row ver]
    have q2: "same_queue d d2" using ph q1 same_queue_trans by blast
    show thesis
    proof (cases x)
      case (Inl e)
      then have "r = Inl e" "d' = d2" using h nf row p by (simp_all add: workflow_Get_def)
      then show thesis using q2 early by simp
    next
      case (Inr u)
      then show thesis using finish [OF Some q2] h nf row p ph ver by (simp add: workflow_Get_def a)
    qed
  qed
qed

lemma finish_completion_error:
  "finish_completion flt rid i oc reason res ap now d = (d', Inl e) \<Longrightarrow> req_of d' = req_of d"
  by (auto simp: finish_completion_def request_CompleteRequest_def DeleteTerminalJob_def Let_def case_prod_unfold
      row_simps fun_eq_iff split: if_splits option.splits sum.splits)

lemma finish_completion_success:
  assumes "finish_completion flt rid i oc reason res ap now d = (d', Inr b)"
  shows "\<exists>r. req_of d rid = Some r \<and> req_of d' = (req_of d)(rid \<mapsto> r\<lparr>r_status := RCompleted, r_run_outcome := Some oc,
      r_failure_reason := reason, r_result := res, r_completed_at := Some now\<rparr>) \<and> b = ap \<and>
    db_jobs d' = (if flt ''DeleteTerminalJob'' then db_jobs d else db_jobs (fst (DeleteTerminalJob i rid d)))"
  using assms
  by (auto simp: finish_completion_def request_CompleteRequest_def DeleteTerminalJob_def Let_def case_prod_unfold
      row_simps fun_eq_iff split: if_splits option.splits sum.splits)

section \<open>Properties\<close>

text \<open>C19. The request is marked terminal last: when completing a request reports success, the workflow has
  passed the run's version, the run's metrics are stored and the lifecycle policy is resolved for it (unless the workflow is
  disabled or suspended, which resolution skips), the request carries the run's outcome, and the terminal job row is gone
  unless its deletion, which is best effort, failed. No other process writes the workflow during the call.\<close>

theorem completion_lands_before_request:
  assumes "db_pk d" "CompleteRequest flt uid rid i ver rtype oc reason res now d = (d', Inr b)"
  shows "landed i ver d' \<and>
    (\<exists>r. req_of d' rid = Some r \<and> r_status r = RCompleted \<and> r_run_outcome r = Some oc \<and> r_result r = res) \<and>
    (flt ''DeleteTerminalJob'' \<or> (\<nexists>j. job_of d' i = Some j \<and> j_request_id j = rid \<and> j_status j = JCompleted))"
  using assms(2)
proof (cases rule: CompleteRequest_phases)
  case (finish d3 ls)
  have "landed i ver d'" using landed_finish finish(3,4) by (metis fst_conv)
  moreover have "pk (db_jobs d3)" using assms(1) finish(2) by (simp add: db_pk_def same_queue_def)
  ultimately show ?thesis using finish_completion_success [OF finish(4)]
    by (auto simp: DeleteTerminalJob_def Let_def map_of_del_where split: option.splits if_splits)
qed simp

text \<open>A completion that reports an error has not touched any request, whatever call failed: the run
  stays non-terminal for outside readers.\<close>

theorem failed_completion_keeps_requests:
  assumes "CompleteRequest flt uid rid i ver rtype oc reason res now d = (d', Inl e)"
  shows "req_of d' = req_of d"
  using assms
proof (cases rule: CompleteRequest_phases)
  case (finish d3 ls)
  then show ?thesis using finish_completion_error [OF finish(4)] by (simp add: same_queue_def)
qed (simp add: same_queue_def)

theorem completion_lands_before_request_witness:
  "landed ''w'' 1 (fst (CompleteRequest (\<lambda>_. False) ''u'' ''r1'' ''w'' 1 TInvoke Successful [] None 9
     (sample_db RInProgress (sample_job JCompleted None None))))"
proof -
  let ?d = "sample_db RInProgress (sample_job JCompleted None None)"
  let ?c = "CompleteRequest (\<lambda>_. False) ''u'' ''r1'' ''w'' 1 TInvoke Successful [] None 9 ?d"
  have "db_pk ?d" by (simp add: db_pk_def sample_row_defs pk_def keys_def)
  moreover have "snd ?c = Inr True" by code_simp
  then have "?c = (fst ?c, Inr True)" by (simp add: prod_eq_iff)
  ultimately show ?thesis using completion_lands_before_request by blast
qed

theorem failed_completion_keeps_requests_witness:
  "req_of (fst (CompleteRequest (\<lambda>c. c = ''CompleteRequest'') ''u'' ''r1'' ''w'' 1 TInvoke Successful [] None 9
     (sample_db RInProgress (sample_job JCompleted None None)))) = req_of (sample_db RInProgress (sample_job JCompleted None None))"
proof -
  let ?c = "CompleteRequest (\<lambda>c. c = ''CompleteRequest'') ''u'' ''r1'' ''w'' 1 TInvoke Successful [] None 9
     (sample_db RInProgress (sample_job JCompleted None None))"
  have "snd ?c = Inl DbError" by code_simp
  then have "?c = (fst ?c, Inl DbError)" by (simp add: prod_eq_iff)
  then show ?thesis by (rule failed_completion_keeps_requests)
qed

section \<open>The failure path\<close>

lemma RequeueJob_row:
  assumes "job_of d i = Some j" "j_request_id j = rid" "j_status j = JFailed" "j_attempts j = n"
  shows "RequeueJob i rid n d = (fst (RequeueJob i rid n d), True)"
    and "job_of (fst (RequeueJob i rid n d)) i =
      Some (j\<lparr>j_status := JPending, j_owner := None, j_lease_expires_at := None, j_attempts := n + 1\<rparr>)"
  using assms by (simp_all add: RequeueJob_def row_simps prod_eq_iff)

lemma ClaimFailedJob_row:
  assumes "job_of d i = Some j" "j_request_id j = rid" "j_status j = JFailed" "j_attempts j = n"
  shows "ClaimFailedJob i rid n d = (fst (ClaimFailedJob i rid n d), True)"
    and "job_of (fst (ClaimFailedJob i rid n d)) i = Some (j\<lparr>j_status := JTerminalFailed\<rparr>)"
  using assms by (simp_all add: ClaimFailedJob_def row_simps prod_eq_iff)

text \<open>A failure of a resumable workflow with attempts left is handed to another worker and nothing
  else: the job is pending, unowned and one attempt older, and neither the workflow nor any request changes.\<close>

lemma failure_requeues:
  assumes "wf_of d i = Some w" "wc_resumable (w_config w)"
    and "job_of d i = Some j" "j_request_id j = rid" "j_status j = JFailed" "j_attempts j < maxJobAttempts"
  shows "\<exists>d'. FailRequest (\<lambda>_. False) rid i ver reason (j_attempts j) now d = (d', Inr False) \<and> (db_pk d \<longrightarrow> db_pk d') \<and>
    job_of d' i = Some (j\<lparr>j_status := JPending, j_owner := None, j_lease_expires_at := None, j_attempts := j_attempts j + 1\<rparr>) \<and>
    db_workflows d' = db_workflows d \<and> db_requests d' = db_requests d"
proof -
  note q = RequeueJob_row [OF assms(3,4,5) refl]
  have "FailRequest (\<lambda>_. False) rid i ver reason (j_attempts j) now d = (fst (RequeueJob i rid (j_attempts j) d), Inr False)"
    unfolding FailRequest_def Let_def using assms(1,2,6) by (subst q(1)) (simp add: workflow_Get_def)
  then show ?thesis using q(2) by (simp add: RequeueJob_def)
qed

text \<open>A report without nil entries promotes without a panic.\<close>

lemma fold_agents_known:
  "fold_agents rid ms (v, s, sts) = (v', s', sts') \<Longrightarrow> no_nil ms \<Longrightarrow>
   a \<in> fst ` set ms \<or> map_of sts a \<noteq> None \<Longrightarrow> map_of sts' a \<noteq> None"
proof (induction rid ms "(v, s, sts)" arbitrary: v s sts rule: fold_agents.induct)
  case (3 rid b m ms v s sts)
  have "a \<in> fst ` set ms \<or> map_of (push_agent rid b m sts) a \<noteq> None"
    using 3(4) by (auto simp: push_agent_def update_conv)
  then show ?case using 3(1) 3(2,3) by (simp add: no_nil_def)
qed (auto simp: no_nil_def)

lemma touched_known: "(\<forall>a\<in>set as. map_of sts a \<noteq> None) \<Longrightarrow> \<exists>xs. touched sts as = Inr xs"
  by (induction as) (auto split: option.splits)

lemma HandleAgentMetrics_no_panic:
  assumes "no_nil im"
  shows "HandleAgentMetrics flt rid im wm i w now d \<noteq> (d', Inl Panic)"
proof -
  let ?v0 = "case GetCurrentVersionMetrics i (w_current_workflow_version w) d of
      None \<Rightarrow> zero_version_metrics i (w_current_workflow_version w) 1 | Some v \<Rightarrow> v"
  obtain v s sts where r: "run_metrics rid im wm ?v0 (GetAllForWorkflow i d) now = (v, s, sts)"
    by (cases "run_metrics rid im wm ?v0 (GetAllForWorkflow i d) now")
  have "\<exists>xs. touched sts (map fst im) = Inr xs"
    using r fold_agents_known [OF _ assms]
    by (intro touched_known) (fastforce simp: run_metrics_def fold_workflow_metrics_def split: prod.splits)
  then show ?thesis using r by (auto simp: HandleAgentMetrics_def Let_def split: if_splits)
qed

text \<open>Promoting the metrics of an interrupted run changes no other column of a workflow.\<close>

definition but_metrics :: "workflow \<Rightarrow> workflow" where
  "but_metrics w = w\<lparr>w_metrics_emitted_at := 0, w_invocation_metrics := []\<rparr>"

lemma but_metrics_HandleAgentMetrics:
  "map_option but_metrics (wf_of (fst (HandleAgentMetrics flt rid im wm i w now d)) k) = map_option but_metrics (wf_of d k)"
proof (cases "HandleAgentMetrics flt rid im wm i w now d")
  case (Pair d' x)
  show ?thesis
  proof (cases x)
    case (Inl e)
    then show ?thesis using Pair HandleAgentMetrics_error by fastforce
  next
    case (Inr vw)
    obtain vm w' where "vw = (vm, w')" by (cases vw)
    then obtain agents where "d' = fst (EmitMetrics i (w_current_version w) (w_invocation_metrics w') vm agents d)"
      using HandleAgentMetrics_emit Pair Inr by blast
    then show ?thesis using Pair by (cases "wf_of d i") (auto simp: wf_EmitMetrics but_metrics_def)
  qed
qed

lemma recordInterruptedMetrics_ok:
  assumes "no_nil (fst (GetJobMetrics i rid d))"
  shows "\<exists>d'. recordInterruptedMetrics flt rid i now d = (d', Inr ()) \<and> same_queue d d' \<and>
    map_option but_metrics (wf_of d' k) = map_option but_metrics (wf_of d k)"
proof -
  obtain am wm where m: "GetJobMetrics i rid d = (am, wm)" by fastforce
  have hm: "HandleAgentMetrics flt rid am wm i w now d = (d', x) \<Longrightarrow> x \<noteq> Inl Panic \<and> same_queue d d' \<and>
      map_option but_metrics (wf_of d' k) = map_option but_metrics (wf_of d k)" for w d' x
    using HandleAgentMetrics_no_panic [of am] same_queue_metrics [of d flt rid am wm i w now] assms m
      but_metrics_HandleAgentMetrics [of flt rid am wm i w now d k] by auto
  show ?thesis
    by (auto simp: recordInterruptedMetrics_def m dest!: hm split: sum.split prod.split error.split)
qed

lemma but_metrics_eqD:
  assumes "map_option but_metrics (Some w') = map_option but_metrics (Some w)"
  shows "w_state w' = w_state w" "w_lifecycle w' = w_lifecycle w" "w_current_version w' = w_current_version w"
    "w_suspension w' = w_suspension w"
proof -
  have eq: "but_metrics w' = but_metrics w" using assms by simp
  show "w_state w' = w_state w" using arg_cong [OF eq, of w_state] by (simp add: but_metrics_def)
  show "w_lifecycle w' = w_lifecycle w" using arg_cong [OF eq, of w_lifecycle] by (simp add: but_metrics_def)
  show "w_current_version w' = w_current_version w" using arg_cong [OF eq, of w_current_version] by (simp add: but_metrics_def)
  show "w_suspension w' = w_suspension w" using arg_cong [OF eq, of w_suspension] by (simp add: but_metrics_def)
qed

text \<open>The workflow, the job row and the request after an interruption.\<close>

definition interrupted_run :: "string \<Rightarrow> string \<Rightarrow> int \<Rightarrow> db \<Rightarrow> bool" where
  "interrupted_run rid i ver d = (job_of d i = None \<and>
     (case wf_of d i of None \<Rightarrow> False
      | Some w \<Rightarrow> w_state w = WDisabled \<and> w_current_version w = ver \<and> w_lifecycle_state w = LInterrupted \<and>
          li_last_interrupted_request_id (w_lifecycle w) = rid \<and> w_suspension w = no_suspension) \<and>
     (case req_of d rid of None \<Rightarrow> False
      | Some r \<Rightarrow> r_status r = RFailed \<and> r_run_outcome r = Some Interrupted))"

lemma tear_down_interrupts:
  assumes "db_pk d" "wf_of d i = Some w" "w_current_version w < ver" "req_of d rid = Some r"
    and "job_of d i = Some j" "j_request_id j = rid" "j_status j = JTerminalFailed" "no_nil (j_agent_metrics j)"
  shows "\<exists>d'. tear_down (\<lambda>_. False) rid i ver reason now d = (d', Inr True) \<and> interrupted_run rid i ver d'"
proof -
  obtain d1 ap where a: "ApplyFailedJob i rid LInterrupted WDisabled ver now d = (d1, ap)" by fastforce
  have ap: "ap" "wf_of d1 i = Some (interrupt_row rid LInterrupted WDisabled ver now w)" "db_jobs d1 = db_jobs d"
    "\<exists>r'. req_of d1 rid = Some r'"
    using a assms(2-4) by (auto simp: ApplyFailedJob_def case_prod_unfold row_simps unfreeze_requests_def split: if_splits)
  have "no_nil (fst (GetJobMetrics i rid d1))" using assms(5,6,8) ap(3) by (simp add: GetJobMetrics_def)
  from recordInterruptedMetrics_ok [OF this, of "\<lambda>_. False" now i] obtain d2 where
    r: "recordInterruptedMetrics (\<lambda>_. False) rid i now d1 = (d2, Inr ())" "same_queue d1 d2"
    "map_option but_metrics (wf_of d2 i) = map_option but_metrics (wf_of d1 i)" by blast
  then obtain w2 where w2: "wf_of d2 i = Some w2" using ap(2) by auto
  note w2s = but_metrics_eqD [of w2 "interrupt_row rid LInterrupted WDisabled ver now w"]
  have "pk (db_jobs d2)" "job_of d2 i = Some j" using assms(1,5) ap(3) r(2) by (simp_all add: same_queue_def db_pk_def)
  then have "map_of (del_where (\<lambda>k j. k = i \<and> j_request_id j = rid \<and> j_status j \<in> {JCompleted, JFailed, JTerminalFailed}) (db_jobs d2)) i = None"
    using assms(6,7) by (simp add: map_of_del_where)
  moreover obtain r2 where "req_of d2 rid = Some r2" using ap(4) r(2) by (auto simp: same_queue_def)
  ultimately show ?thesis using a ap(1,2) r w2 w2s
    by (simp add: tear_down_def finish_failure_def interrupted_run_def DeleteTerminalJob_def request_FailRequest_def Let_def row_simps
        case_prod_unfold interrupt_row_def)
qed

text \<open>A failure that cannot be retried (the workflow is not resumable, or the job has used its 20
  attempts) ends the run in one pass: the workflow is disabled and interrupted at the run's version with the
  request recorded and any suspension torn down, the job row is gone, and the request has failed with
  outcome interrupted.\<close>

lemma failure_interrupts:
  assumes "db_pk d" "wf_of d i = Some w" "w_current_version w < ver" "req_of d rid = Some r"
    and "job_of d i = Some j" "j_request_id j = rid" "j_status j = JFailed" "no_nil (j_agent_metrics j)"
    and "\<not> wc_resumable (w_config w) \<or> maxJobAttempts \<le> j_attempts j"
  shows "\<exists>d'. FailRequest (\<lambda>_. False) rid i ver reason (j_attempts j) now d = (d', Inr True) \<and> interrupted_run rid i ver d'"
proof -
  obtain d1 where c: "ClaimFailedJob i rid (j_attempts j) d = (d1, True)" "job_of d1 i = Some (j\<lparr>j_status := JTerminalFailed\<rparr>)"
    using ClaimFailedJob_row [OF assms(5,6,7) refl] by metis
  then have "d1 = fst (ClaimFailedJob i rid (j_attempts j) d)" by simp
  then have "db_pk d1" "wf_of d1 i = Some w" "req_of d1 rid = Some r" using assms(1,2,4) by (simp_all add: ClaimFailedJob_def)
  from tear_down_interrupts [OF this(1,2) assms(3) this(3) c(2)] assms(6,8) obtain d' where
    "tear_down (\<lambda>_. False) rid i ver (if reason = [] then interruptedReason else reason) now d1 = (d', Inr True)"
    "interrupted_run rid i ver d'" by auto
  moreover have "FailRequest (\<lambda>_. False) rid i ver reason (j_attempts j) now d =
      tear_down (\<lambda>_. False) rid i ver (if reason = [] then interruptedReason else reason) now d1"
    using assms(2,9) c(1) by (auto simp: FailRequest_def Let_def workflow_Get_def)
  ultimately show ?thesis by simp
qed

section \<open>Scheduling\<close>

lemma Upsert_row:
  assumes "UpsertJobAndSchedule rid ctx op tmo wfver expected mode now d = (d1, Some x)"
  obtains r j where "req_of d rid = Some r" "r_status r = RUnscheduled" "x = (r_workflow_id r, r_version r)"
    "job_of d1 (r_workflow_id r) = Some j" "j_request_id j = rid" "j_status j = JPending" "j_attempts j = 0"
    "j_version j = r_version r" "req_of d1 rid = Some (r\<lparr>r_status := RScheduled\<rparr>)" "db_workflows d1 = db_workflows d"
  using assms
  by (fastforce simp: UpsertJobAndSchedule_def mark_scheduled_def fresh_job_def overwrite_job_def Let_def row_simps
      map_add_def update_conv split: option.splits if_splits)

lemma Upsert_none: "UpsertJobAndSchedule rid ctx op tmo wfver expected mode now d = (d1, None) \<Longrightarrow> d1 = d"
  by (auto simp: UpsertJobAndSchedule_def Let_def split: option.splits if_splits)

lemma write_job_row:
  assumes "write_job flt rid r w tmo now d = (d', res)" "d' \<noteq> d"
  obtains q j where "req_of d rid = Some q" "r_status q = RUnscheduled" "job_of d' (r_workflow_id q) = Some j"
    "j_request_id j = rid" "j_status j = JPending" "j_attempts j = 0"
proof -
  obtain d1 x where u: "UpsertJobAndSchedule rid (job_context (r_info r) (GetAllForWorkflow (r_workflow_id r) d))
      (request_type_name (r_type r) @ ''_entry'') tmo (w_current_workflow_version w) (w_current_version w) (effective_mode w) now d = (d1, x)"
    by fastforce
  show thesis
  proof (cases x)
    case None
    then show thesis using assms u Upsert_none by (auto simp: write_job_def Let_def split: if_splits)
  next
    case (Some iv)
    obtain i ver where "iv = (i, ver)" by (cases iv)
    then have "db_jobs d' = db_jobs d1" using assms u Some
      by (auto simp: write_job_def Let_def SupercedeOlderRequests_def MarkWorkflowScheduled_def split: if_splits)
    with u Some show thesis using that by (auto elim!: Upsert_row)
  qed
qed

text \<open>C27. A run is scheduled only for a workflow that is active and whose last finished run has been
  resolved against its policy: if scheduling a request changes anything, the workflow passed that
  validation, the request was unscheduled, and its job row now holds this request, pending with no attempts.\<close>

theorem schedules_only_validated_workflows:
  assumes "ScheduleRequest flt rid now d = (d', res)" "d' \<noteq> d"
  shows "\<exists>r w j. req_of d rid = Some r \<and> r_status r = RUnscheduled \<and> wf_of d (r_workflow_id r) = Some w \<and>
    w_state w = WActive \<and> w_lifecycle_last_resolved w = w_current_version w \<and>
    job_of d' (r_workflow_id r) = Some j \<and> j_request_id j = rid \<and> j_status j = JPending \<and> j_attempts j = 0"
proof -
  obtain r w tmo where r: "req_of d rid = Some r" and w: "wf_of d (r_workflow_id r) = Some w"
    and v: "w_state w = WActive" "w_lifecycle_last_resolved w = w_current_version w"
    and x: "write_job flt rid r (w\<lparr>w_invocation_metrics := sort_key s_ran_at (w_invocation_metrics w)\<rparr>) tmo now d = (d', res)"
    using assms by (auto simp: ScheduleRequest_def request_Get_def workflow_Get_def validateWorkflowState_def
        split: if_splits option.splits sum.splits)
  then show ?thesis using write_job_row [OF x assms(2)] by (metis option.inject)
qed

theorem schedules_only_validated_workflows_witness:
  "let d = empty_db\<lparr>db_tenants := [(''t'', sample_tenant)], db_workflows := [(''w'', sample_wf)],
         db_requests := [(''r1'', (sample_req RUnscheduled 1)\<lparr>r_info := [(''operationTimeoutSeconds'', JNum 60)]\<rparr>)]\<rparr>
   in \<exists>j. job_of (fst (ScheduleRequest (\<lambda>_. False) ''r1'' 5 d)) ''w'' = Some j \<and> j_request_id j = ''r1'' \<and> j_status j = JPending"
proof -
  let ?r = "(sample_req RUnscheduled 1)\<lparr>r_info := [(''operationTimeoutSeconds'', JNum 60)]\<rparr>"
  let ?d = "empty_db\<lparr>db_tenants := [(''t'', sample_tenant)], db_workflows := [(''w'', sample_wf)], db_requests := [(''r1'', ?r)]\<rparr>"
  let ?s = "ScheduleRequest (\<lambda>_. False) ''r1'' 5 ?d"
  have "map_option r_status (req_of (fst ?s) ''r1'') = Some RScheduled" by code_simp
  then have "fst ?s \<noteq> ?d" by (auto simp: sample_req_def)
  from schedules_only_validated_workflows [OF prod.collapse [symmetric] this] show ?thesis
    by (auto simp: Let_def sample_req_def)
qed

section \<open>What a tick does to the rows\<close>

subsection \<open>Job rows\<close>

lemma rows_all_DeleteTerminalJob: "rows_all P (db_jobs d) \<Longrightarrow> rows_all P (db_jobs (fst (DeleteTerminalJob i rid d)))"
  by (simp add: DeleteTerminalJob_def Let_def rows_all_del_where)

lemma CompleteRequest_jobs:
  assumes "rows_all P (db_jobs d)"
  shows "rows_all P (db_jobs (fst (CompleteRequest flt uid rid i ver rtype oc reason res now d)))"
proof (cases "CompleteRequest flt uid rid i ver rtype oc reason res now d")
  case (Pair d' r)
  then show ?thesis
  proof (cases rule: CompleteRequest_phases)
    case (finish d2 ls)
    then have "db_jobs d' \<in> {db_jobs d2, db_jobs (fst (DeleteTerminalJob i rid d2))}"
      by (auto simp: finish_completion_def request_CompleteRequest_def Let_def case_prod_unfold split: if_splits sum.splits)
    then show ?thesis using Pair finish(2) assms by (auto simp: same_queue_def rows_all_DeleteTerminalJob)
  qed (use Pair assms in \<open>simp add: same_queue_def\<close>)
qed

lemma recordInterruptedMetrics_queue: "same_queue d (fst (recordInterruptedMetrics flt rid i now d))"
proof -
  have q: "HandleAgentMetrics flt rid am wm i w now d = (d', x) \<Longrightarrow> same_queue d d'" for am wm w d' x
    using same_queue_metrics [of d flt rid am wm i w now] by simp
  show ?thesis by (auto simp: recordInterruptedMetrics_def dest!: q split: sum.split prod.split error.split)
qed

lemma request_ends_jobs [simp]:
  "db_jobs (fst (request_FailRequest rid reason now d)) = db_jobs d"
  "db_jobs (fst (request_CompleteRequest rid oc reason res now d)) = db_jobs d"
  by (simp_all add: request_FailRequest_def request_CompleteRequest_def case_prod_unfold)

lemma finish_failure_jobs:
  "rows_all P (db_jobs d) \<Longrightarrow> rows_all P (db_jobs (fst (finish_failure flt rid i reason ap now d)))"
  by (auto simp: finish_failure_def Let_def case_prod_unfold rows_all_DeleteTerminalJob split: sum.split)

text \<open>What a failed run's teardown is, up to the final writes.\<close>

lemma tear_down_phases:
  obtains (early) e d' where "tear_down flt rid i ver reason now d = (d', Inl e)" "same_queue d d' \<or> same_queue (unfreeze_requests i d) d'"
  | (finish) d2 ap where "tear_down flt rid i ver reason now d = finish_failure flt rid i reason ap now d2"
      "same_queue d d2 \<or> same_queue (unfreeze_requests i d) d2"
proof -
  obtain d1 ap where a: "ApplyFailedJob i rid LInterrupted WDisabled ver now d = (d1, ap)" by fastforce
  have "same_queue (if ap then unfreeze_requests i d else d) d1"
    using a by (auto simp: ApplyFailedJob_def case_prod_unfold unfreeze_requests_def upd_reqs_def same_queue_def)
  obtain d2 x where r: "(if ap then recordInterruptedMetrics flt rid i now d1 else (d1, Inr ())) = (d2, x)" by fastforce
  then have "same_queue d1 d2" using recordInterruptedMetrics_queue [of d1 flt rid i now] by (auto split: if_splits)
  then have q: "same_queue d d2 \<or> same_queue (unfreeze_requests i d) d2"
    using \<open>same_queue (if ap then unfreeze_requests i d else d) d1\<close> by (auto simp: same_queue_def split: if_splits)
  show thesis
  proof (cases "flt ''ApplyFailedJob''")
    case True
    then show thesis using early [of d DbError] by (simp add: tear_down_def)
  next
    case False
    then show thesis using early [of d2] finish [of ap d2] q by (cases x) (simp_all add: tear_down_def a r)
  qed
qed

lemma tear_down_jobs:
  assumes "rows_all P (db_jobs d)"
  shows "rows_all P (db_jobs (fst (tear_down flt rid i ver reason now d)))"
proof -
  have u: "db_jobs (unfreeze_requests i d) = db_jobs d" by (simp add: unfreeze_requests_def)
  show ?thesis
  proof (cases rule: tear_down_phases [of flt rid i ver reason now d])
    case (early e d')
    then show ?thesis using assms u by (auto simp: same_queue_def)
  next
    case (finish d2 ap)
    then show ?thesis using assms u finish_failure_jobs [of P d2] by (auto simp: same_queue_def)
  qed
qed

lemma FailRequest_jobs:
  assumes "rows_all P (db_jobs d)"
    and "\<And>j. P j \<Longrightarrow> j_attempts j < maxJobAttempts \<Longrightarrow>
      P (j\<lparr>j_status := JPending, j_owner := None, j_lease_expires_at := None, j_attempts := j_attempts j + 1\<rparr>)"
    and "\<And>j. P j \<Longrightarrow> P (j\<lparr>j_status := JTerminalFailed\<rparr>)"
  shows "rows_all P (db_jobs (fst (FailRequest flt rid i ver reason n now d)))"
proof -
  have rq: "n < maxJobAttempts \<Longrightarrow> rows_all P (db_jobs (fst (RequeueJob i rid n d)))"
    using assms(1,2) by (auto simp: RequeueJob_def upd_job_def case_prod_unfold intro!: rows_all_upd_row)
  have rq': "\<not> snd (RequeueJob i rid n d) \<Longrightarrow> fst (RequeueJob i rid n d) = d"
    by (simp add: RequeueJob_def upd_job_miss)
  have cl: "rows_all P (db_jobs (fst (ClaimFailedJob i rid n d)))"
    using assms(1,3) by (auto simp: ClaimFailedJob_def upd_job_def case_prod_unfold intro!: rows_all_upd_row)
  show ?thesis
    using rq rq' cl assms(1) tear_down_jobs [OF cl]
    by (auto simp: FailRequest_def Let_def case_prod_unfold split: sum.split bool.split)
qed

end
