(* ===== verification/TenantRepo.thy ===== *)
theory TenantRepo
  imports WorkflowRepo PartitionRepo
begin

text \<open>
  Tenants, tenant groups, API keys and model prices: \<open>tenant.go\<close>, \<open>tenant_group.go\<close>, \<open>api_key.go\<close> and
  \<open>model_pricing.go\<close> of \<open>src/internal/storage/postgres\<close>, the price merge of \<open>src/internal/pricing\<close> and
  the registration service \<open>src/internal/service/registration.go\<close>. Fresh identifiers and clock readings
  are parameters; \<open>flt c\<close> says that the database call named \<open>c\<close> fails without effect.
\<close>

section \<open>Tenants\<close>

definition tenant_Create :: "string \<Rightarrow> tenant \<Rightarrow> db \<Rightarrow> db \<times> unit result" where
  "tenant_Create i t d =
     (if map_of (db_tenants d) i \<noteq> None then (d, Inl ErrAlreadyExists)
      else if map_of (db_groups d) (t_tenant_group_id t) = None then (d, Inl ForeignKeyViolation)
      else (d\<lparr>db_tenants := db_tenants d @ [(i, t\<lparr>t_deleted_at := None, t_workflow_count := 0\<rparr>)]\<rparr>, Inr ()))"

definition tenant_Get :: "string \<Rightarrow> db \<Rightarrow> tenant result" where
  "tenant_Get i d = (case map_of (db_tenants d) i of None \<Rightarrow> Inl ErrNotFound | Some t \<Rightarrow> Inr t)"

definition tenant_ListForTenantGroup :: "string \<Rightarrow> db \<Rightarrow> (string \<times> tenant) list" where
  "tenant_ListForTenantGroup g d =
     sort_key (\<lambda>x. - t_created_at (snd x)) (sel_where (\<lambda>_ t. t_tenant_group_id t = g) (db_tenants d))"

definition MarkDeleted :: "string \<Rightarrow> timestamp \<Rightarrow> db \<Rightarrow> db \<times> unit result" where
  "MarkDeleted i now d =
     (case upd_row i (\<lambda>t. t_deleted_at t = None \<and> t_workflow_count t = 0) (\<lambda>t. t\<lparr>t_deleted_at := Some now\<rparr>) (db_tenants d) of
        (ts, hit) \<Rightarrow> (d\<lparr>db_tenants := ts\<rparr>, if hit then Inr () else Inl ErrTenantHasWorkflows))"

definition PurgeIfEmpty :: "string \<Rightarrow> db \<Rightarrow> db \<times> bool" where
  "PurgeIfEmpty i d =
     (let hit = (\<lambda>k t. k = i \<and> t_deleted_at t \<noteq> None \<and> \<not> exists_row (\<lambda>_ w. w_tenant_id w = i) (db_workflows d))
      in (d\<lparr>db_tenants := del_where hit (db_tenants d)\<rparr>, exists_row hit (db_tenants d)))"

definition tenant_ListPurgeable :: "string \<Rightarrow> db \<Rightarrow> string list" where
  "tenant_ListPurgeable p d = sel_keys (\<lambda>_ t. t_scheduler_partition_id t = p \<and> t_deleted_at t \<noteq> None) (db_tenants d)"

section \<open>Tenant groups, API keys, prices\<close>

definition group_Create :: "string \<Rightarrow> tenant_group \<Rightarrow> db \<Rightarrow> db \<times> unit result" where
  "group_Create i g d =
     (if map_of (db_groups d) i \<noteq> None then (d, Inl ErrAlreadyExists)
      else (d\<lparr>db_groups := db_groups d @ [(i, g)]\<rparr>, Inr ()))"

definition group_Get :: "string \<Rightarrow> db \<Rightarrow> tenant_group result" where
  "group_Get i d = (case map_of (db_groups d) i of None \<Rightarrow> Inl ErrNotFound | Some g \<Rightarrow> Inr g)"

text \<open>Tenants and API keys reference their group.\<close>

definition group_Delete :: "string \<Rightarrow> db \<Rightarrow> db \<times> unit result" where
  "group_Delete i d =
     (if map_of (db_groups d) i \<noteq> None \<and>
         (exists_row (\<lambda>_ t. t_tenant_group_id t = i) (db_tenants d) \<or> exists_row (\<lambda>_ k. k_tenant_group_id k = i) (db_api_keys d))
      then (d, Inl ForeignKeyViolation)
      else (d\<lparr>db_groups := del_where (\<lambda>k _. k = i) (db_groups d)\<rparr>, Inr ()))"

definition key_Create :: "string \<Rightarrow> api_key \<Rightarrow> db \<Rightarrow> db \<times> unit result" where
  "key_Create i k d =
     (if map_of (db_api_keys d) i \<noteq> None \<or> exists_row (\<lambda>_ x. k_key_hash x = k_key_hash k) (db_api_keys d)
      then (d, Inl ErrAlreadyExists)
      else if map_of (db_groups d) (k_tenant_group_id k) = None then (d, Inl ForeignKeyViolation)
      else (d\<lparr>db_api_keys := db_api_keys d @ [(i, k\<lparr>k_revoked_at := None\<rparr>)]\<rparr>, Inr ()))"

definition GetByKeyHash :: "string \<Rightarrow> db \<Rightarrow> (string \<times> api_key) result" where
  "GetByKeyHash h d =
     (case sel_where (\<lambda>_ k. k_key_hash k = h \<and> k_revoked_at k = None) (db_api_keys d) of
        [] \<Rightarrow> Inl ErrNotFound | x # _ \<Rightarrow> Inr x)"

text \<open>When no row is affected the method returns \<open>handleError(nil)\<close>, which is nil.\<close>

definition Revoke :: "string \<Rightarrow> timestamp \<Rightarrow> db \<Rightarrow> db \<times> unit result" where
  "Revoke i now d =
     (d\<lparr>db_api_keys := fst (upd_row i (\<lambda>k. k_revoked_at k = None) (\<lambda>k. k\<lparr>k_revoked_at := Some now\<rparr>) (db_api_keys d))\<rparr>, Inr ())"

definition ListDefaults :: "db \<Rightarrow> model_pricing list" where
  "ListDefaults d = map snd (db_default_pricing d)"

definition pricing_Upsert :: "string \<Rightarrow> model_pricing \<Rightarrow> db \<Rightarrow> db" where
  "pricing_Upsert tg p d = d\<lparr>db_pricing := AList.update (tg, mp_model_id p) p (db_pricing d)\<rparr>"

definition pricing_ListForTenantGroup :: "string \<Rightarrow> db \<Rightarrow> model_pricing list" where
  "pricing_ListForTenantGroup tg d = [p. ((g, m), p) \<leftarrow> db_pricing d, g = tg]"

definition Effective :: "model_pricing list \<Rightarrow> model_pricing list \<Rightarrow> (string \<times> model_pricing) list" where
  "Effective defaults overrides = fold (\<lambda>p. AList.update (mp_model_id p) p) (defaults @ overrides) []"

section \<open>The registration service\<close>

definition DefaultTenantGroupID :: string where
  "DefaultTenantGroupID = ''default''"

definition SetModelPricing :: "(string \<Rightarrow> bool) \<Rightarrow> string \<Rightarrow> model_pricing \<Rightarrow> db \<Rightarrow> db \<times> unit result" where
  "SetModelPricing flt tg p d = (if flt ''Upsert'' then (d, Inl DbError) else (pricing_Upsert tg p d, Inr ()))"

definition ListEffectivePricing :: "(string \<Rightarrow> bool) \<Rightarrow> string \<Rightarrow> db \<Rightarrow> model_pricing list result" where
  "ListEffectivePricing flt tg d =
     (if flt ''ListDefaults'' \<or> flt ''ListForTenantGroup'' then Inl DbError
      else Inr (map snd (Effective (ListDefaults d) (pricing_ListForTenantGroup tg d))))"

definition CreateTenantGroup :: "(string \<Rightarrow> bool) \<Rightarrow> string \<Rightarrow> timestamp \<Rightarrow> tenant_group \<Rightarrow> db \<Rightarrow> db \<times> (string \<times> tenant_group) result" where
  "CreateTenantGroup flt uid now g d =
     (let g' = g\<lparr>tg_created_at := now\<rparr> in
      if flt ''Create'' then (d, Inl DbError)
      else case group_Create uid g' d of (d', Inl e) \<Rightarrow> (d', Inl e) | (d', Inr _) \<Rightarrow> (d', Inr (uid, g')))"

definition CreateTenant :: "(string \<Rightarrow> bool) \<Rightarrow> string \<Rightarrow> timestamp \<Rightarrow> int \<Rightarrow> tenant \<Rightarrow> db \<Rightarrow> db \<times> (string \<times> tenant) result" where
  "CreateTenant flt uid now n t d =
     (case partitionForID uid n of
        Inl e \<Rightarrow> (d, Inl e)
      | Inr p \<Rightarrow>
          (let t' = t\<lparr>t_created_at := now, t_scheduler_partition_id := p,
                 t_tenant_group_id := (if t_tenant_group_id t = [] then DefaultTenantGroupID else t_tenant_group_id t)\<rparr>
           in if flt ''Create'' then (d, Inl DbError)
              else case tenant_Create uid t' d of (d', Inl e) \<Rightarrow> (d', Inl e) | (d', Inr _) \<Rightarrow> (d', Inr (uid, t'))))"

text \<open>The purge is best effort: its failure does not fail the deletion.\<close>

definition DeleteTenant :: "(string \<Rightarrow> bool) \<Rightarrow> string \<Rightarrow> timestamp \<Rightarrow> db \<Rightarrow> db \<times> unit result" where
  "DeleteTenant flt i now d =
     (if flt ''MarkDeleted'' then (d, Inl DbError)
      else case MarkDeleted i now d of
        (d1, Inl e) \<Rightarrow> (d1, Inl e)
      | (d1, Inr _) \<Rightarrow> (if flt ''PurgeIfEmpty'' then d1 else fst (PurgeIfEmpty i d1), Inr ()))"

section \<open>A soft-deleted tenant has no live workflow\<close>

text \<open>The statements that touch the tenants table, as one step relation.\<close>

inductive tenant_step :: "db \<Rightarrow> db \<Rightarrow> bool" where
  create: "tenant_step d (fst (tenant_Create i t d))"
| new_workflow: "tenant_step d (fst (workflow_Create i w now d))"
| finalize: "tenant_step d (FinalizeDeleted i now d)"
| delete: "tenant_step d (fst (MarkDeleted i now d))"
| purge: "tenant_step d (fst (PurgeIfEmpty i d))"

definition tenant_inv :: "db \<Rightarrow> bool" where
  "tenant_inv d = rows_all (\<lambda>t. 0 \<le> t_workflow_count t \<and> (t_deleted_at t = None \<or> t_workflow_count t = 0)) (db_tenants d)"

lemma tenant_inv_at: "tenant_inv d \<Longrightarrow> map_of (db_tenants d) i = Some t \<Longrightarrow>
    0 \<le> t_workflow_count t \<and> (t_deleted_at t = None \<or> t_workflow_count t = 0)"
  unfolding tenant_inv_def by (rule rows_all_lookup)

lemma tenants_workflow_Create:
  "db_tenants (fst (workflow_Create i w now d)) =
     (case map_of (db_tenants d) (w_tenant_id w) of
        Some t \<Rightarrow> if t_deleted_at t = None \<and> wf_of d i = None
          then AList.update (w_tenant_id w) (t\<lparr>t_workflow_count := t_workflow_count t + 1\<rparr>) (db_tenants d) else db_tenants d
      | None \<Rightarrow> db_tenants d)"
  by (simp add: workflow_Create_def Let_def split: option.split)

lemma tenant_inv_step: "tenant_step d d' \<Longrightarrow> tenant_inv d \<Longrightarrow> tenant_inv d'"
proof (induction rule: tenant_step.induct)
  case (create d i t)
  then show ?case by (simp add: tenant_inv_def tenant_Create_def)
next
  case (new_workflow d i w now)
  show ?case
  proof (cases "map_of (db_tenants d) (w_tenant_id w)")
    case (Some t)
    then show ?thesis using new_workflow tenant_inv_at [OF new_workflow Some]
      by (simp add: tenant_inv_def tenants_workflow_Create rows_all_update)
  qed (use new_workflow in \<open>simp add: tenant_inv_def tenants_workflow_Create\<close>)
next
  case (finalize d i now)
  then show ?case
    by (auto simp: tenant_inv_def FinalizeDeleted_def Let_def split: option.split intro!: rows_all_upd_row)
next
  case (delete d i now)
  then show ?case
    by (cases "upd_row i (\<lambda>t. t_deleted_at t = None \<and> t_workflow_count t = 0) (\<lambda>t. t\<lparr>t_deleted_at := Some now\<rparr>) (db_tenants d)")
      (auto simp: tenant_inv_def MarkDeleted_def dest!: arg_cong [of _ _ fst] intro!: rows_all_upd_row)
next
  case (purge d i)
  then show ?case by (simp add: tenant_inv_def PurgeIfEmpty_def Let_def rows_all_del_where)
qed

lemma tenant_inv_reachable: "tenant_step\<^sup>*\<^sup>* d d' \<Longrightarrow> tenant_inv d \<Longrightarrow> tenant_inv d'"
  by (induction rule: rtranclp_induct) (auto intro: tenant_inv_step)

section \<open>Properties\<close>

text \<open>In every state that the tenant and workflow statements can reach from one that satisfies it,
  workflow counts are never negative and a soft-deleted tenant has none: creating a workflow under it is
  refused and changes nothing.\<close>

theorem deleted_tenant_stays_empty:
  assumes "tenant_step\<^sup>*\<^sup>* d d'" "tenant_inv d" "map_of (db_tenants d') i = Some t" "t_deleted_at t \<noteq> None" "w_tenant_id w = i"
  shows "t_workflow_count t = 0 \<and> workflow_Create k w now d' = (d', Inl ErrTenantDeleted)"
  using tenant_inv_at [OF tenant_inv_reachable [OF assms(1,2)] assms(3)] assms(3-5)
  by (auto simp: workflow_Create_def)

theorem deleted_tenant_stays_empty_witness:
  "workflow_Create ''x'' sample_wf 9 (fst (MarkDeleted ''t'' 5 (empty_db\<lparr>db_tenants := [(''t'', sample_tenant\<lparr>t_workflow_count := 0\<rparr>)]\<rparr>))) =
   (fst (MarkDeleted ''t'' 5 (empty_db\<lparr>db_tenants := [(''t'', sample_tenant\<lparr>t_workflow_count := 0\<rparr>)]\<rparr>)), Inl ErrTenantDeleted)"
proof -
  let ?d = "empty_db\<lparr>db_tenants := [(''t'', sample_tenant\<lparr>t_workflow_count := 0\<rparr>)]\<rparr>"
  have "tenant_step\<^sup>*\<^sup>* ?d (fst (MarkDeleted ''t'' 5 ?d))" by (auto intro: tenant_step.delete)
  from deleted_tenant_stays_empty [OF this, of "''t''" "sample_tenant\<lparr>t_workflow_count := 0, t_deleted_at := Some 5\<rparr>" sample_wf]
  show ?thesis by (simp add: tenant_inv_def MarkDeleted_def upd_row_def sample_row_defs)
qed

lemma map_of_fold_update:
  "map_of (fold (\<lambda>p. AList.update (mp_model_id p) p) ps acc) m =
     (case find (\<lambda>p. mp_model_id p = m) (rev ps) of None \<Rightarrow> map_of acc m | Some p \<Rightarrow> Some p)"
proof (induction ps rule: rev_induct)
  case (snoc p ps)
  then show ?case by (simp add: update_conv)
qed simp

lemma find_append: "find P (xs @ ys) = (case find P xs of None \<Rightarrow> find P ys | Some x \<Rightarrow> Some x)"
  by (induction xs) auto

text \<open>The effective price of a model is the tenant group's override when there is one, and the global
  default otherwise (the last entry for a model id wins within each list).\<close>

theorem effective_price_prefers_override:
  "map_of (Effective defaults overrides) m =
     (case find (\<lambda>p. mp_model_id p = m) (rev overrides) of
        Some p \<Rightarrow> Some p
      | None \<Rightarrow> find (\<lambda>p. mp_model_id p = m) (rev defaults))"
  by (auto simp: Effective_def map_of_fold_update find_append split: option.splits)

end
