(* ===== verification/LifecycleService.thy ===== *)
theory LifecycleService
  imports SchedulerCore TenantRepo "HOL-Library.List_Lexorder" "HOL-Library.Char_ord"
begin

text \<open>
  The lifecycle service, \<open>src/internal/service/lifecycle.go\<close>: creating, configuring, invoking, suspending,
  resuming and deleting workflows, deciding gates, and the reads. The scheduler is called through
  \<open>ScheduleRequest\<close>; \<open>flt\<close> makes the named repository calls fail, \<open>sflt\<close> those inside the scheduler.
  Identifiers drawn from the uuid generator and the clock are parameters.
\<close>

section \<open>Resolving the parameters of a run\<close>

text \<open>\<open>requestInfo[k] = v\<close>.\<close>

definition set_info :: "string \<Rightarrow> json \<Rightarrow> json_map \<Rightarrow> json_map" where
  "set_info k v info = AList.update k v info"

definition price_json :: "model_pricing \<Rightarrow> json" where
  "price_json p = JObj [(''input_per_1m'', JNum (mp_input_per_1m p)), (''output_per_1m'', JNum (mp_output_per_1m p))]"

definition ResolveModelPricing :: "(string \<Rightarrow> bool) \<Rightarrow> string \<Rightarrow> json_map \<Rightarrow> db \<Rightarrow> json_map result" where
  "ResolveModelPricing flt i info d =
     (if flt ''TenantGroupIDForWorkflow'' then Inl DbError
      else case TenantGroupIDForWorkflow i d of
        Inl e \<Rightarrow> Inl e
      | Inr g \<Rightarrow>
          if flt ''ListDefaults'' \<or> flt ''ListForTenantGroup'' then Inl DbError
          else Inr (set_info ''modelPricing''
            (JObj (map (\<lambda>(m, p). (m, price_json p)) (Effective (ListDefaults d) (pricing_ListForTenantGroup g d)))) info))"

definition ResolveRuntimeParams :: "int \<Rightarrow> workflow \<Rightarrow> bool \<Rightarrow> json_map \<Rightarrow> json_map result" where
  "ResolveRuntimeParams tmo w userTriggered info =
     (if \<not> wc_triggerable (w_config w) \<and> userTriggered then Inl (ErrOther ''workflow is not triggerable'')
      else if w_current_workflow_version w = 0 then Inl (ErrOther ''no workflow version specified'')
      else let timeout = (if tmo = 0 then wc_invoke_timeout_seconds (w_config w) else tmo)
           in if timeout = 0 then Inl (ErrOther ''no invoke timeout specified'')
              else Inr (set_info ''operationTimeoutSeconds'' (JNum (of_int timeout)) info))"

definition ResolveAgentRuntimeParams :: "(string \<Rightarrow> bool) \<Rightarrow> string \<Rightarrow> json_map \<Rightarrow> db \<Rightarrow> json_map result" where
  "ResolveAgentRuntimeParams flt i info d =
     (if flt ''GetAllForWorkflow'' then Inl DbError
      else Inr (set_info ''agentRuntimePolicies''
        (JObj (map (\<lambda>(a, st). (a, case as_runtime_policy st of None \<Rightarrow> JNull | Some p \<Rightarrow> JObj p)) (GetAllForWorkflow i d))) info))"

definition resolve_params :: "(string \<Rightarrow> bool) \<Rightarrow> int \<Rightarrow> string \<Rightarrow> workflow \<Rightarrow> bool \<Rightarrow> json_map \<Rightarrow> db \<Rightarrow> json_map result" where
  "resolve_params flt tmo i w userTriggered info d =
     (case ResolveRuntimeParams tmo w userTriggered info of
        Inl e \<Rightarrow> Inl e
      | Inr info1 \<Rightarrow>
          (case ResolveAgentRuntimeParams flt i info1 d of
             Inl e \<Rightarrow> Inl e
           | Inr info2 \<Rightarrow> ResolveModelPricing flt i info2 d))"

section \<open>Creating, configuring, invoking\<close>

definition bad_repeat :: "int \<Rightarrow> workflow_config \<Rightarrow> bool" where
  "bad_repeat minRepeat cfg = (0 < wc_repeat_every_seconds cfg \<and> wc_repeat_every_seconds cfg < minRepeat)"

definition new_workflow :: "string \<Rightarrow> string \<Rightarrow> workflow_config \<Rightarrow> int \<Rightarrow> string \<Rightarrow> workflow" where
  "new_workflow workflowType tenantID cfg version p = \<lparr>w_tenant_id = tenantID, w_workflow_type = workflowType, w_config = cfg,
     w_lifecycle = \<lparr>li_state = LActive, li_last_completed_request_at = None, li_last_interrupted_request_id = [],
       li_last_gate_id = None, li_last_gate_detail = [], li_last_gate_metadata = None,
       li_last_gate_opened_at = None, li_last_gate_timeout_at = None\<rparr>,
     w_state = WPaused, w_lifecycle_policy = \<lparr>lp_rules = []\<rparr>, w_invocation_metrics = [], w_cooldown_until = None,
     w_last_policy_decision_request_id = [], w_lifecycle_last_resolved = 0, w_current_workflow_version = version,
     w_scheduler_partition_id = p, w_target_version = 0, w_current_version = 0, w_metrics_emitted_at = 0,
     w_created_at = 0, w_deletion_requested_at = None, w_deletion_finalized_at = None, w_suspension = no_suspension\<rparr>"

definition CreateWorkflow ::
  "(string \<Rightarrow> bool) \<Rightarrow> int \<Rightarrow> int \<Rightarrow> string \<Rightarrow> string \<Rightarrow> string \<Rightarrow> workflow_config \<Rightarrow> int \<Rightarrow> timestamp \<Rightarrow> db \<Rightarrow> db \<times> workflow result" where
  "CreateWorkflow flt minRepeat n uid workflowType tenantID cfg version now d =
     (if bad_repeat minRepeat cfg then (d, Inl ErrInvalidRepeatInterval)
      else case partitionForID uid n of
        Inl e \<Rightarrow> (d, Inl e)
      | Inr p \<Rightarrow> if flt ''Create'' then (d, Inl DbError)
                 else workflow_Create uid (new_workflow workflowType tenantID cfg version p) now d)"

definition SetWorkflowConfig :: "(string \<Rightarrow> bool) \<Rightarrow> int \<Rightarrow> string \<Rightarrow> workflow_config \<Rightarrow> int \<Rightarrow> db \<Rightarrow> db \<times> unit result" where
  "SetWorkflowConfig flt minRepeat i cfg version d =
     (if bad_repeat minRepeat cfg then (d, Inl ErrInvalidRepeatInterval)
      else if flt ''UpdateConfig'' then (d, Inl DbError)
      else UpdateConfig i cfg version d)"

text \<open>Admission control of a queue-mode workflow; the depth is narrowed to 32 bits before the comparison.\<close>

definition queue_full :: "string \<Rightarrow> workflow \<Rightarrow> db \<Rightarrow> bool" where
  "queue_full i w d =
     (let cap = (if wc_max_queue_depth (w_config w) \<le> 0 then DefaultMaxQueueDepth else wc_max_queue_depth (w_config w))
      in cap \<le> int32 (CountUnscheduledRequests i d))"

definition run_request :: "string \<Rightarrow> json_map \<Rightarrow> customer_request" where
  "run_request i info = \<lparr>r_workflow_id = i, r_status = RUnscheduled, r_type = TInvoke, r_info = info, r_version = 0,
     r_run_outcome = None, r_failure_reason = [], r_created_at = 0, r_completed_at = None, r_result = None\<rparr>"

definition submit_invocation ::
  "(string \<Rightarrow> bool) \<Rightarrow> (string \<Rightarrow> bool) \<Rightarrow> string \<Rightarrow> string \<Rightarrow> json_map \<Rightarrow> timestamp \<Rightarrow> db \<Rightarrow> db \<times> string result" where
  "submit_invocation flt sflt uid i info now d =
     (if flt ''CreateInvocationRequest'' then (d, Inl DbError)
      else case CreateInvocationRequest uid (run_request i info) now d of
        (d1, Inl e) \<Rightarrow> (d1, Inl e)
      | (d1, Inr ver) \<Rightarrow>
          (case ScheduleRequest sflt uid now d1 of
             (d2, Inl Panic) \<Rightarrow> (d2, Inl Panic)
           | (d2, _) \<Rightarrow> (d2, Inr uid)))"

text \<open>
  \<open>InvokeWorkflow\<close> reads and checks first and inserts in a later statement. The two parts are separate definitions, since calls of
  different clients interleave between them (theory \<open>Admission\<close>).
\<close>

definition admit_invocation ::
  "(string \<Rightarrow> bool) \<Rightarrow> string \<Rightarrow> string \<Rightarrow> int \<Rightarrow> json_map \<Rightarrow> db \<Rightarrow> json_map result" where
  "admit_invocation flt correlationID i tmo initialContext d =
     (if flt ''Get'' then Inl DbError
      else case workflow_Get i d of
        Inl e \<Rightarrow> Inl e
      | Inr w \<Rightarrow>
        if w_state w \<noteq> WActive then Inl ErrInvalidWorkflowState
        else if wc_invoke_mode (w_config w) = Queue \<and> flt ''CountUnscheduledRequests'' then Inl DbError
        else if wc_invoke_mode (w_config w) = Queue \<and> queue_full i w d then Inl ErrQueueFull
        else case resolve_params flt tmo i w True [(''correlationId'', JStr correlationID)] d of
          Inl e \<Rightarrow> Inl e
        | Inr info \<Rightarrow> Inr (if initialContext = [] then info else set_info ''input'' (JObj initialContext) info))"

definition InvokeWorkflow ::
  "(string \<Rightarrow> bool) \<Rightarrow> (string \<Rightarrow> bool) \<Rightarrow> string \<Rightarrow> string \<Rightarrow> string \<Rightarrow> int \<Rightarrow> json_map \<Rightarrow> timestamp \<Rightarrow> db \<Rightarrow> db \<times> string result" where
  "InvokeWorkflow flt sflt uid correlationID i tmo initialContext now d =
     (case admit_invocation flt correlationID i tmo initialContext d of
        Inl e \<Rightarrow> (d, Inl e)
      | Inr info \<Rightarrow> submit_invocation flt sflt uid i info now d)"

section \<open>Suspending, resuming, deleting\<close>

definition SuspendWorkflow ::
  "(string \<Rightarrow> bool) \<Rightarrow> string \<Rightarrow> string \<Rightarrow> bool \<Rightarrow> string \<Rightarrow> timestamp \<Rightarrow> db \<Rightarrow> db \<times> unit result" where
  "SuspendWorkflow flt sid i stop reason now d =
     (if flt ''MarkSuspensionRequested'' then (d, Inl DbError)
      else case MarkSuspensionRequested i sid reason stop now d of
        (d1, Inl e) \<Rightarrow> (d1, Inl e)
      | (d1, Inr _) \<Rightarrow>
          (let d2 = (if stop \<and> \<not> flt ''AbandonJob'' then fst (AbandonJob i sid now d1) else d1)
           in if flt ''HasRunningRequest'' \<or> HasRunningRequest i d2 \<or> flt ''FinalizeSuspended'' then (d2, Inr ())
              else (FinalizeSuspended i sid now d2, Inr ())))"

definition service_AbandonQueuedRequests ::
  "(string \<Rightarrow> bool) \<Rightarrow> string \<Rightarrow> string list option \<Rightarrow> db \<Rightarrow> db \<times> string list result" where
  "service_AbandonQueuedRequests flt i ids d =
     (if flt ''AbandonQueuedRequests'' then (d, Inl DbError)
      else case AbandonQueuedRequests i ids d of (d', xs) \<Rightarrow> (d', Inr xs))"

definition resolveResumeState ::
  "(string \<Rightarrow> bool) \<Rightarrow> string \<Rightarrow> workflow \<Rightarrow> timestamp \<Rightarrow> db \<Rightarrow> (workflow_state option \<times> int \<times> timestamp option) result" where
  "resolveResumeState flt i w now d =
     (if flt ''GetCurrentVersionMetrics'' then Inl DbError
      else let version = w_current_workflow_version w;
               vm = (case GetCurrentVersionMetrics i version d of None \<Rightarrow> zero_version_metrics [] 0 0 | Some v \<Rightarrow> v)
           in case ResolvePolicy (w_invocation_metrics w) (w_lifecycle_policy w) vm of
                Inl e \<Rightarrow> Inl e
              | Inr (g, firedRule, _) \<Rightarrow>
                  if firedRule = None then Inr (Some WActive, version, None)
                  else if gs_version_change g then Inr (Some WActive, gs_version g, None)
                  else if gs_state g \<noteq> Some WCooldown then Inr (gs_state g, version, None)
                  else let remaining = (case (w_cooldown_until w, su_requested_at (w_suspension w)) of
                             (Some c, Some r) \<Rightarrow> max (c - r) 0 | _ \<Rightarrow> 0)
                       in Inr (Some WCooldown, version, Some (now + remaining)))"

text \<open>The empty state is not a value of the enum column, so storing it fails.\<close>

definition ResumeWorkflow :: "(string \<Rightarrow> bool) \<Rightarrow> string \<Rightarrow> string \<Rightarrow> timestamp \<Rightarrow> db \<Rightarrow> db \<times> unit result" where
  "ResumeWorkflow flt i sid now d =
     (if flt ''Get'' then (d, Inl DbError)
      else case workflow_Get i d of
        Inl e \<Rightarrow> (d, Inl e)
      | Inr w \<Rightarrow>
          (case resolveResumeState flt i w now d of
             Inl e \<Rightarrow> (d, Inl e)
           | Inr (s, version, cd) \<Rightarrow>
               if flt ''RestoreFromSuspension'' then (d, Inl DbError)
               else case s of
                 None \<Rightarrow> (d, Inl DbError)
               | Some st \<Rightarrow>
                   (case RestoreFromSuspension i sid st (w_current_workflow_version w) version cd d of
                      (d', restored) \<Rightarrow> (d', if restored then Inr () else Inl ErrInvalidLifecycleState))))"

definition DeleteWorkflow :: "(string \<Rightarrow> bool) \<Rightarrow> string \<Rightarrow> timestamp \<Rightarrow> db \<Rightarrow> db \<times> unit result" where
  "DeleteWorkflow flt i now d =
     (if flt ''Get'' then (d, Inl DbError)
      else case workflow_Get i d of
        Inl e \<Rightarrow> (d, Inl e)
      | Inr _ \<Rightarrow>
        if flt ''MarkDeletionRequested'' then (d, Inl DbError)
        else case MarkDeletionRequested i now d of
          (d1, Inl e) \<Rightarrow> (d1, Inl e)
        | (d1, Inr _) \<Rightarrow>
            if flt ''AbandonQueuedRequests'' then (d1, Inl DbError)
            else let d2 = fst (AbandonQueuedRequests i None d1)
                 in if flt ''HasRunningRequest'' then (d2, Inl DbError)
                    else if HasRunningRequest i d2 then (d2, Inr ())
                    else if flt ''FinalizeDeleted'' then (d2, Inl DbError)
                    else (FinalizeDeleted i now d2, Inr ()))"

section \<open>Acknowledging and activating\<close>

definition ActivateWorkflow :: "(string \<Rightarrow> bool) \<Rightarrow> string \<Rightarrow> string \<Rightarrow> db \<Rightarrow> db \<times> unit result" where
  "ActivateWorkflow flt i rid d =
     (if flt ''TryActivateWorkflow'' then (d, Inl DbError)
      else case TryActivateWorkflow i rid d of (d', resolved) \<Rightarrow> (d', if resolved then Inr () else Inl ErrActivateMismatch))"

definition service_ResolveInterruptedWorkflow :: "(string \<Rightarrow> bool) \<Rightarrow> string \<Rightarrow> string \<Rightarrow> db \<Rightarrow> db \<times> unit result" where
  "service_ResolveInterruptedWorkflow flt i rid d =
     (if flt ''ResolveInterruptedWorkflow'' then (d, Inl DbError)
      else case ResolveInterruptedWorkflow i rid d of (d', resolved) \<Rightarrow> (d', if resolved then Inr () else Inl ErrNotInterrupted))"

section \<open>Deciding gates\<close>

text \<open>The audit rows of explicit decisions; a failed append is only logged.\<close>

definition recordApprovalDecision ::
  "(string \<Rightarrow> bool) \<Rightarrow> string \<Rightarrow> string \<Rightarrow> string \<Rightarrow> string \<Rightarrow> string \<Rightarrow> approval_decision \<Rightarrow> resolved_gate \<Rightarrow> timestamp \<Rightarrow> db \<Rightarrow> db" where
  "recordApprovalDecision flt uid i gid actor reason dec gate now d =
     (if flt ''Append'' then d
      else Append uid \<lparr>ae_tenant_group_id = rg_tenant_group_id gate, ae_workflow_id = i, ae_request_id = rg_request_id gate,
             ae_event_type = EvApproval, ae_actor = actor, ae_occurred_at = now,
             ae_details = DApproval \<lparr>ad_approval_id = gid, ad_opened_at = rg_opened_at gate, ad_decided_at = Some now,
               ad_decision = dec, ad_justification = rg_detail gate, ad_reason = reason\<rparr>\<rparr> d)"

definition recordInputDecision ::
  "(string \<Rightarrow> bool) \<Rightarrow> string \<Rightarrow> string \<Rightarrow> string \<Rightarrow> string \<Rightarrow> input_decision \<Rightarrow> json_map option \<Rightarrow> resolved_gate \<Rightarrow> timestamp \<Rightarrow> db \<Rightarrow> db" where
  "recordInputDecision flt uid i gid actor dec answer gate now d =
     (if flt ''Append'' then d
      else Append uid \<lparr>ae_tenant_group_id = rg_tenant_group_id gate, ae_workflow_id = i, ae_request_id = rg_request_id gate,
             ae_event_type = EvInput, ae_actor = actor, ae_occurred_at = now,
             ae_details = DInput \<lparr>id_input_id = gid, id_opened_at = rg_opened_at gate, id_decided_at = Some now,
               id_decision = dec, id_answer = answer, id_prompt = rg_detail gate\<rparr>\<rparr> d)"

definition ApproveWorkflow ::
  "(string \<Rightarrow> bool) \<Rightarrow> string \<Rightarrow> string \<Rightarrow> string \<Rightarrow> string \<Rightarrow> string \<Rightarrow> timestamp \<Rightarrow> db \<Rightarrow> db \<times> unit result" where
  "ApproveWorkflow flt uid i gid actor reason now d =
     (if flt ''ApproveJob'' then (d, Inl DbError)
      else case ApproveJob i gid reason d of
        (d1, None) \<Rightarrow> (d1, Inl ErrInvalidWorkflowState)
      | (d1, Some gate) \<Rightarrow> (recordApprovalDecision flt uid i gid actor reason Approved gate now d1, Inr ()))"

definition RejectWorkflow ::
  "(string \<Rightarrow> bool) \<Rightarrow> string \<Rightarrow> string \<Rightarrow> string \<Rightarrow> string \<Rightarrow> string \<Rightarrow> timestamp \<Rightarrow> db \<Rightarrow> db \<times> unit result" where
  "RejectWorkflow flt uid i gid actor reason now d =
     (if flt ''RejectJob'' then (d, Inl DbError)
      else case RejectJob i gid reason d of
        (d1, None) \<Rightarrow> (d1, Inl ErrInvalidWorkflowState)
      | (d1, Some gate) \<Rightarrow> (recordApprovalDecision flt uid i gid actor reason Rejected gate now d1, Inr ()))"

definition SubmitInput ::
  "(string \<Rightarrow> bool) \<Rightarrow> string \<Rightarrow> string \<Rightarrow> string \<Rightarrow> json_map option \<Rightarrow> string \<Rightarrow> timestamp \<Rightarrow> db \<Rightarrow> db \<times> unit result" where
  "SubmitInput flt uid i gid answer actor now d =
     (if flt ''AnswerJob'' then (d, Inl DbError)
      else case AnswerJob i gid answer d of
        (d1, None) \<Rightarrow> (d1, Inl ErrInvalidWorkflowState)
      | (d1, Some gate) \<Rightarrow> (recordInputDecision flt uid i gid actor Answered answer gate now d1, Inr ()))"

section \<open>Policies, agents and reads\<close>

definition SetAgentRuntimePolicy :: "(string \<Rightarrow> bool) \<Rightarrow> string \<Rightarrow> string \<Rightarrow> json_map \<Rightarrow> db \<Rightarrow> db \<times> unit result" where
  "SetAgentRuntimePolicy flt i a p d = (if flt ''UpsertRuntimePolicy'' then (d, Inl DbError) else UpsertRuntimePolicy i a p d)"

definition SetAgentLifecyclePolicy :: "(string \<Rightarrow> bool) \<Rightarrow> string \<Rightarrow> string \<Rightarrow> json_map \<Rightarrow> db \<Rightarrow> db \<times> unit result" where
  "SetAgentLifecyclePolicy flt i a p d = (if flt ''UpsertLifecyclePolicy'' then (d, Inl DbError) else UpsertLifecyclePolicy i a p d)"

definition DeleteAgent :: "(string \<Rightarrow> bool) \<Rightarrow> string \<Rightarrow> string \<Rightarrow> db \<Rightarrow> db \<times> unit result" where
  "DeleteAgent flt i a d = (if flt ''Delete'' then (d, Inl DbError) else (agent_Delete i a d, Inr ()))"

definition SetWorkflowLifecyclePolicy :: "(string \<Rightarrow> bool) \<Rightarrow> string \<Rightarrow> lifecycle_policy \<Rightarrow> db \<Rightarrow> db \<times> unit result" where
  "SetWorkflowLifecyclePolicy flt i p d = (if flt ''UpdateLifecyclePolicy'' then (d, Inl DbError) else (UpdateLifecyclePolicy i p d, Inr ()))"

definition GetWorkflowLifecyclePolicy :: "(string \<Rightarrow> bool) \<Rightarrow> string \<Rightarrow> db \<Rightarrow> lifecycle_policy result" where
  "GetWorkflowLifecyclePolicy flt i d =
     (if flt ''Get'' then Inl DbError else case workflow_Get i d of Inl e \<Rightarrow> Inl e | Inr w \<Rightarrow> Inr (w_lifecycle_policy w))"

definition GetWorkflowMetrics :: "(string \<Rightarrow> bool) \<Rightarrow> string \<Rightarrow> db \<Rightarrow> workflow_version_metrics result" where
  "GetWorkflowMetrics flt i d =
     (if flt ''Get'' then Inl DbError
      else case workflow_Get i d of
        Inl e \<Rightarrow> Inl e
      | Inr w \<Rightarrow>
          if flt ''GetCurrentVersionMetrics'' then Inl DbError
          else Inr (case GetCurrentVersionMetrics i (w_current_workflow_version w) d of
                      None \<Rightarrow> zero_version_metrics i (w_current_workflow_version w) 0 | Some v \<Rightarrow> v))"

text \<open>Sorted by name, byte by byte.\<close>

definition ListAgents :: "(string \<Rightarrow> bool) \<Rightarrow> string \<Rightarrow> db \<Rightarrow> (string \<times> agent_state) list result" where
  "ListAgents flt i d = (if flt ''GetAllForWorkflow'' then Inl DbError else Inr (sort_key fst (GetAllForWorkflow i d)))"

definition GetAgentRuntimePolicy :: "(string \<Rightarrow> bool) \<Rightarrow> string \<Rightarrow> string \<Rightarrow> db \<Rightarrow> json_map option result" where
  "GetAgentRuntimePolicy flt i a d =
     (if flt ''GetAllForWorkflow'' then Inl DbError
      else Inr (case map_of (GetAllForWorkflow i d) a of None \<Rightarrow> None | Some st \<Rightarrow> as_runtime_policy st))"

definition GetAgentLifecyclePolicy :: "(string \<Rightarrow> bool) \<Rightarrow> string \<Rightarrow> string \<Rightarrow> db \<Rightarrow> json_map option result" where
  "GetAgentLifecyclePolicy flt i a d =
     (if flt ''GetAllForWorkflow'' then Inl DbError
      else Inr (case map_of (GetAllForWorkflow i d) a of None \<Rightarrow> None | Some st \<Rightarrow> as_lifecycle_policy st))"

definition GetRequestInfo :: "(string \<Rightarrow> bool) \<Rightarrow> string \<Rightarrow> db \<Rightarrow> customer_request result" where
  "GetRequestInfo flt rid d = (if flt ''Get'' then Inl DbError else request_Get rid d)"

definition ListWorkflowRuns :: "(string \<Rightarrow> bool) \<Rightarrow> string \<Rightarrow> db \<Rightarrow> (string \<times> customer_request) list result" where
  "ListWorkflowRuns flt i d = (if flt ''ListForWorkflow'' then Inl DbError else Inr (request_ListForWorkflow i d))"

definition TenantGroupIDForTenant :: "(string \<Rightarrow> bool) \<Rightarrow> string \<Rightarrow> db \<Rightarrow> string result" where
  "TenantGroupIDForTenant flt t d =
     (if flt ''tenants.Get'' then Inl DbError else case tenant_Get t d of Inl e \<Rightarrow> Inl e | Inr x \<Rightarrow> Inr (t_tenant_group_id x))"

text \<open>The audit reads are filters of one listing.\<close>

definition GetApprovalAudit :: "string \<Rightarrow> string \<Rightarrow> db \<Rightarrow> (string \<times> audit_event) list" where
  "GetApprovalAudit tg i d = ListAuditEvents tg i [] [EvApproval] d"

definition GetInputAudit :: "string \<Rightarrow> string \<Rightarrow> db \<Rightarrow> (string \<times> audit_event) list" where
  "GetInputAudit tg i d = ListAuditEvents tg i [] [EvInput] d"

definition GetWorkflowPolicyAudit :: "string \<Rightarrow> string \<Rightarrow> db \<Rightarrow> (string \<times> audit_event) list" where
  "GetWorkflowPolicyAudit tg i d = ListAuditEvents tg i [] [EvPolicyAction] d"

definition GetAgentPolicyAudit :: "string \<Rightarrow> string \<Rightarrow> string \<Rightarrow> db \<Rightarrow> (string \<times> audit_event) list" where
  "GetAgentPolicyAudit tg i a d = ListAuditEvents tg i a [EvAgentPolicyAction] d"

definition GetAuditLog :: "string \<Rightarrow> string \<Rightarrow> db \<Rightarrow> (string \<times> audit_event) list" where
  "GetAuditLog tg i d = ListAuditEvents tg i [] [] d"

section \<open>Scheduling the request just created\<close>

lemma set_info_lookup: "map_of (set_info k v info) k' = (if k' = k then Some v else map_of info k')"
  by (simp add: set_info_def update_conv)

lemma resolve_params_timeout:
  assumes "resolve_params flt tmo i w u info d = Inr info'"
  shows "\<exists>n. request_timeout info' = Inr n"
  using assms
  by (auto simp: resolve_params_def ResolveRuntimeParams_def ResolveAgentRuntimeParams_def ResolveModelPricing_def
      request_timeout_def set_info_lookup Let_def split: if_splits sum.splits)

lemma ScheduleRequest_no_panic:
  assumes "req_of d rid = Some r" "request_timeout (r_info r) = Inr n"
  shows "snd (ScheduleRequest flt rid now d) \<noteq> Inl Panic"
proof -
  have "snd (write_job flt rid r w n now d) \<noteq> Inl Panic" for w
    by (simp add: write_job_def Let_def split: prod.split option.split)
  then show ?thesis using assms by (simp add: ScheduleRequest_def request_Get_def workflow_Get_def split: option.split)
qed

lemma write_job_own:
  assumes "req_of d rid = Some r" "r_status r = RUnscheduled"
  shows "\<exists>s\<in>{RUnscheduled, RScheduled}. req_of (fst (write_job flt rid x w tmo now d)) rid = Some (r\<lparr>r_status := s\<rparr>)"
proof -
  let ?u = "UpsertJobAndSchedule rid (job_context (r_info x) (GetAllForWorkflow (r_workflow_id x) d))
      (request_type_name (r_type x) @ ''_entry'') tmo (w_current_workflow_version w) (w_current_version w) (effective_mode w) now d"
  have same: "r\<lparr>r_status := RUnscheduled\<rparr> = r" using assms(2) by (cases r) simp
  obtain d1 y where u: "?u = (d1, y)" by fastforce
  show ?thesis
  proof (cases y)
    case None
    then have "fst (write_job flt rid x w tmo now d) = d" using u Upsert_none by (auto simp: write_job_def Let_def)
    then show ?thesis using assms(1) same by auto
  next
    case (Some iv)
    then obtain j where "iv = (r_workflow_id r, r_version r)" "req_of d1 rid = Some (r\<lparr>r_status := RScheduled\<rparr>)"
      using u assms(1) by (auto elim!: Upsert_row)
    then show ?thesis using u Some assms(1) same
      by (auto simp: write_job_def Let_def SupercedeOlderRequests_def MarkWorkflowScheduled_def row_simps)
  qed
qed

lemma ScheduleRequest_own:
  assumes "req_of d rid = Some r" "r_status r = RUnscheduled"
  shows "\<exists>s\<in>{RUnscheduled, RScheduled}. req_of (fst (ScheduleRequest flt rid now d)) rid = Some (r\<lparr>r_status := s\<rparr>)"
proof -
  have "r\<lparr>r_status := RUnscheduled\<rparr> = r" using assms(2) by (cases r) simp
  then have stay: "\<exists>s\<in>{RUnscheduled, RScheduled}. req_of d rid = Some (r\<lparr>r_status := s\<rparr>)" using assms(1) by auto
  show ?thesis using write_job_own [OF assms, of flt r] stay assms(1)
    by (auto simp: ScheduleRequest_def request_Get_def workflow_Get_def split: option.split sum.split)
qed

lemma submit_invocation_spec:
  assumes "wf_of d i = Some w" "w_state w = WActive" "request_timeout info = Inr n"
    and "submit_invocation flt sflt uid i info now d = (d', r)"
  shows "case r of
      Inl e \<Rightarrow> d' = d \<and> e \<noteq> Panic
    | Inr rid \<Rightarrow> rid = uid \<and> req_of d uid = None \<and> (\<exists>q. req_of d' uid = Some q \<and>
        r_version q = w_target_version w + 1 \<and> (r_status q = RUnscheduled \<or> r_status q = RScheduled))"
proof (cases "flt ''CreateInvocationRequest'' \<or> req_of d uid \<noteq> None")
  case True
  then show ?thesis using assms
    by (auto simp: submit_invocation_def CreateInvocationRequest_def run_request_def bump_and_insert_cases split: if_splits)
next
  case False
  let ?q = "new_request (run_request i info) (w_target_version w + 1) now"
  let ?d1 = "(fst (upd_wf i (\<lambda>_. True) (\<lambda>x. x\<lparr>w_target_version := w_target_version w + 1\<rparr>) d))\<lparr>db_requests := db_requests d @ [(uid, ?q)]\<rparr>"
  have c: "CreateInvocationRequest uid (run_request i info) now d = (?d1, Inr (w_target_version w + 1))"
    using False assms(1,2) bump_and_insert_cases(2) [of d "run_request i info" w uid now]
    by (simp add: CreateInvocationRequest_def run_request_def)
  have q: "req_of ?d1 uid = Some ?q" "r_status ?q = RUnscheduled" "r_info ?q = info" "r_version ?q = w_target_version w + 1"
    using False by (simp_all add: map_add_def new_request_def run_request_def)
  have "snd (ScheduleRequest sflt uid now ?d1) \<noteq> Inl Panic" using ScheduleRequest_no_panic [OF q(1)] q(3) assms(3) by simp
  then have "d' = fst (ScheduleRequest sflt uid now ?d1) \<and> r = Inr uid"
    using assms(4) False c by (auto simp: submit_invocation_def split: prod.splits sum.splits error.splits)
  then show ?thesis using ScheduleRequest_own [OF q(1,2), of sflt now] False q(4) by auto
qed

lemma invoke_phases:
  assumes "InvokeWorkflow flt sflt uid cid i tmo ctx now d = (d', r)"
  obtains (refused) e where "r = Inl e" "d' = d" "e \<noteq> Panic"
  | (submitted) w info n where "wf_of d i = Some w" "w_state w = WActive" "request_timeout info = Inr n"
      "wc_invoke_mode (w_config w) = Queue \<Longrightarrow> \<not> queue_full i w d"
      "submit_invocation flt sflt uid i info now d = (d', r)"
proof (cases "wf_of d i")
  case None
  then show thesis using assms refused by (auto simp: InvokeWorkflow_def admit_invocation_def workflow_Get_def split: if_splits)
next
  case (Some w)
  let ?w = "w\<lparr>w_invocation_metrics := sort_key s_ran_at (w_invocation_metrics w)\<rparr>"
  let ?p = "resolve_params flt tmo i ?w True [(''correlationId'', JStr cid)] d"
  have qf: "queue_full i ?w d = queue_full i w d" by (simp add: queue_full_def)
  show thesis
  proof (cases "flt ''Get'' \<or> w_state w \<noteq> WActive \<or> wc_invoke_mode (w_config w) = Queue \<and> (flt ''CountUnscheduledRequests'' \<or> queue_full i w d)")
    case True
    then show thesis using assms Some refused qf by (auto simp: InvokeWorkflow_def admit_invocation_def workflow_Get_def split: if_splits)
  next
    case ok: False
    show thesis
    proof (cases ?p)
      case (Inl e)
      then have "r = Inl e" "d' = d" using assms Some ok qf by (auto simp: InvokeWorkflow_def admit_invocation_def workflow_Get_def split: if_splits)
      moreover have "e \<noteq> Panic" using Inl
        by (auto simp: resolve_params_def ResolveRuntimeParams_def ResolveAgentRuntimeParams_def ResolveModelPricing_def
            TenantGroupIDForWorkflow_def Let_def split: if_splits sum.splits option.splits)
      ultimately show thesis using refused by blast
    next
      case (Inr info)
      let ?info = "if ctx = [] then info else set_info ''input'' (JObj ctx) info"
      have "\<exists>n. request_timeout ?info = Inr n" using resolve_params_timeout [OF Inr] by (simp add: request_timeout_def set_info_lookup)
      then show thesis using submitted [of w ?info] assms Some ok qf Inr
        by (auto simp: InvokeWorkflow_def admit_invocation_def workflow_Get_def split: if_splits)
    qed
  qed
qed

section \<open>Properties\<close>

text \<open>C30. An invocation is all or nothing: whatever calls fail, an invocation that returns an error has
  changed nothing (and never panics), and one that succeeds returns the id of a new request with the next
  version of an active workflow, which is unscheduled or scheduled, never lost and never superseded by its own
  scheduling.\<close>

theorem invocation_is_all_or_nothing:
  assumes "InvokeWorkflow flt sflt uid cid i tmo ctx now d = (d', r)"
  shows "case r of
      Inl e \<Rightarrow> d' = d \<and> e \<noteq> Panic
    | Inr rid \<Rightarrow> rid = uid \<and> (\<exists>w q. wf_of d i = Some w \<and> w_state w = WActive \<and> req_of d uid = None \<and> req_of d' uid = Some q \<and>
        r_version q = w_target_version w + 1 \<and> (r_status q = RUnscheduled \<or> r_status q = RScheduled))"
  using assms
proof (cases rule: invoke_phases)
  case (submitted w info n)
  then show ?thesis using submit_invocation_spec [OF submitted(1-3,5)] by (auto split: sum.splits)
qed simp

theorem invocation_is_all_or_nothing_witness:
  "req_of (fst (InvokeWorkflow (\<lambda>_. False) (\<lambda>_. False) ''r9'' ''c'' ''w'' 0 [] 5 (sample_db RCompleted (sample_job JPending None None)))) ''r9'' \<noteq> None"
proof -
  let ?d = "sample_db RCompleted (sample_job JPending None None)"
  let ?x = "InvokeWorkflow (\<lambda>_. False) (\<lambda>_. False) ''r9'' ''c'' ''w'' 0 [] 5 ?d"
  have "snd ?x = Inr ''r9''" by code_simp
  then have "?x = (fst ?x, Inr ''r9'')" by (simp add: prod_eq_iff)
  from invocation_is_all_or_nothing [OF this] show ?thesis by auto
qed

section \<open>The backlog of a queue-mode workflow\<close>

text \<open>Scheduling never adds to the unscheduled requests of a workflow.\<close>

lemma filter_upd_row_le:
  assumes "\<And>r. g r \<Longrightarrow> Q k (f r) \<Longrightarrow> Q k r"
  shows "length (sel_where Q (fst (upd_row k g f t))) \<le> length (sel_where Q t)"
proof -
  have "map_of t k = Some r \<Longrightarrow> (Q k v \<Longrightarrow> Q k r) \<Longrightarrow> length (sel_where Q (AList.update k v t)) \<le> length (sel_where Q t)" for r v
    by (induction t) (auto simp: sel_where_def split: if_splits)
  then show ?thesis using assms by (auto simp: upd_row_def split: option.split)
qed

lemma filter_upd_where_le:
  assumes "\<And>k r. g k r \<Longrightarrow> Q k (f k r) \<Longrightarrow> Q k r"
  shows "length (sel_where Q (upd_where g f t)) \<le> length (sel_where Q t)"
proof (induction t)
  case (Cons x t)
  obtain k r where x: "x = (k, r)" by (cases x)
  show ?case using Cons assms [of k r] x by (cases "g k r") (auto simp: sel_where_def upd_where_def)
qed (simp add: sel_where_def upd_where_def)

lemma count_mark_scheduled: "CountUnscheduledRequests i (mark_scheduled rid d) \<le> CountUnscheduledRequests i d"
  by (auto simp: CountUnscheduledRequests_def mark_scheduled_def upd_req_def case_prod_unfold intro!: filter_upd_row_le)

lemma count_supercede: "CountUnscheduledRequests i (SupercedeOlderRequests k v d) \<le> CountUnscheduledRequests i d"
  by (auto simp: CountUnscheduledRequests_def SupercedeOlderRequests_def upd_reqs_def intro!: filter_upd_where_le)

lemma count_same_requests: "db_requests d' = db_requests d \<Longrightarrow> CountUnscheduledRequests i d' = CountUnscheduledRequests i d"
  by (simp add: CountUnscheduledRequests_def)

lemma count_upsert:
  "CountUnscheduledRequests i (fst (UpsertJobAndSchedule rid ctx op tmo wfver expected mode now d)) \<le> CountUnscheduledRequests i d"
proof -
  have "CountUnscheduledRequests i (mark_scheduled rid (d\<lparr>db_jobs := js\<rparr>)) \<le> CountUnscheduledRequests i d" for js
    using count_mark_scheduled [of i rid "d\<lparr>db_jobs := js\<rparr>"] count_same_requests [of "d\<lparr>db_jobs := js\<rparr>" d i] by simp
  then show ?thesis by (simp add: UpsertJobAndSchedule_def Let_def split: option.split)
qed

lemma count_write_job: "CountUnscheduledRequests i (fst (write_job flt rid x w tmo now d)) \<le> CountUnscheduledRequests i d"
proof -
  let ?u = "UpsertJobAndSchedule rid (job_context (r_info x) (GetAllForWorkflow (r_workflow_id x) d))
      (request_type_name (r_type x) @ ''_entry'') tmo (w_current_workflow_version w) (w_current_version w) (effective_mode w) now d"
  obtain d1 y where u: "?u = (d1, y)" by fastforce
  then have 1: "CountUnscheduledRequests i d1 \<le> CountUnscheduledRequests i d" by (metis count_upsert fst_conv)
  have 2: "CountUnscheduledRequests i (MarkWorkflowScheduled k d2) = CountUnscheduledRequests i d2" for k d2
    by (rule count_same_requests) (simp add: MarkWorkflowScheduled_def)
  have 3: "CountUnscheduledRequests i (SupercedeOlderRequests k v d1) \<le> CountUnscheduledRequests i d" for k v
    using 1 count_supercede [of i k v d1] by linarith
  show ?thesis using 1 3 u by (auto simp: write_job_def Let_def 2 split: option.split)
qed

lemma count_schedule: "CountUnscheduledRequests i (fst (ScheduleRequest flt rid now d)) \<le> CountUnscheduledRequests i d"
  using count_write_job by (auto simp: ScheduleRequest_def split: sum.split)

end
