(* ===== verification/Admission.thy ===== *)
theory Admission
  imports LifecycleService
begin

text \<open>
  Concurrent invocations of one queue-mode workflow. \<open>InvokeWorkflow\<close> of \<open>src/internal/service/lifecycle.go\<close> counts the backlog
  and inserts the request in two statements, so invocations admitted at the same time do not see each other: the backlog can
  pass the cap, by at most the number of invocations in flight less one.
\<close>

section \<open>Invocations in two steps\<close>

text \<open>The cap on the backlog of a queue-mode workflow.\<close>

definition queue_cap :: "workflow_config \<Rightarrow> int" where
  "queue_cap c = (if wc_max_queue_depth c \<le> 0 then DefaultMaxQueueDepth else wc_max_queue_depth c)"

text \<open>
  The database and the invocations of workflow \<open>i\<close> that were admitted and have not inserted their request yet. Between the statements
  of one invocation come those of others, the scheduling of requests, and whatever else neither adds to the backlog
  nor changes the configuration of the workflow.
\<close>

inductive invoke_step :: "string \<Rightarrow> db \<times> json_map list \<Rightarrow> db \<times> json_map list \<Rightarrow> bool" for i where
  admitted: "admit_invocation flt cid i tmo ic d = Inr info \<Longrightarrow> invoke_step i (d, ps) (d, info # ps)"
| inserted: "info \<in> set ps \<Longrightarrow> CreateInvocationRequest uid (run_request i info) now d = (d', r) \<Longrightarrow> invoke_step i (d, ps) (d', remove1 info ps)"
| given_up: "invoke_step i (d, ps) (d, remove1 info ps)"
| scheduled: "invoke_step i (d, ps) (fst (ScheduleRequest flt rid now d), ps)"
| elsewhere: "CountUnscheduledRequests i d' \<le> CountUnscheduledRequests i d \<Longrightarrow>
    map_option w_config (wf_of d' i) = map_option w_config (wf_of d i) \<Longrightarrow> invoke_step i (d, ps) (d', ps)"

lemma insert_step: "info \<in> set ps \<Longrightarrow> invoke_step i (d, ps) (fst (CreateInvocationRequest uid (run_request i info) now d), remove1 info ps)"
  by (rule invoke_step.inserted [OF _ prod.collapse [symmetric]])

text \<open>An invocation that no other overlaps takes an admission, an insertion and a scheduling step.\<close>

lemma invocation_steps:
  assumes "InvokeWorkflow flt sflt uid cid i tmo ic now d = (d', Inr rid)"
  shows "(invoke_step i)\<^sup>*\<^sup>* (d, []) (d', [])"
proof -
  obtain info where a: "admit_invocation flt cid i tmo ic d = Inr info" and s: "submit_invocation flt sflt uid i info now d = (d', Inr rid)"
    using assms by (auto simp: InvokeWorkflow_def split: sum.splits)
  obtain d1 v where c: "CreateInvocationRequest uid (run_request i info) now d = (d1, Inr v)" "d' = fst (ScheduleRequest sflt uid now d1)"
    using s by (auto simp: submit_invocation_def split: if_splits prod.splits sum.splits error.splits)
  have "invoke_step i (d, []) (d, [info])" by (rule invoke_step.admitted [OF a])
  moreover have "invoke_step i (d, [info]) (d1, [])" using invoke_step.inserted [OF _ c(1), of "[info]"] by simp
  moreover have "invoke_step i (d1, []) (d', [])" unfolding c(2) by (rule invoke_step.scheduled)
  ultimately show ?thesis by (meson converse_rtranclp_into_rtranclp r_into_rtranclp)
qed

section \<open>What one step adds to the backlog\<close>

lemma inserted_row:
  "(\<exists>q. db_requests (fst (CreateInvocationRequest uid r now d)) = db_requests d @ [(uid, q)]) \<or>
   fst (CreateInvocationRequest uid r now d) = d"
proof (cases "wf_of d (r_workflow_id r)")
  case (Some w)
  then show ?thesis using bump_and_insert_cases [OF Some, of uid now] by (cases "req_of d uid") (auto simp: CreateInvocationRequest_def)
qed (simp add: CreateInvocationRequest_def)

lemma count_insert: "CountUnscheduledRequests i (fst (CreateInvocationRequest uid r now d)) \<le> CountUnscheduledRequests i d + 1"
  using inserted_row [of uid r now d] by (auto simp: CountUnscheduledRequests_def sel_where_def)

lemma config_insert:
  "map_option w_config (wf_of (fst (CreateInvocationRequest uid r now d)) i) = map_option w_config (wf_of d i)"
proof (cases "wf_of d (r_workflow_id r)")
  case (Some w)
  then show ?thesis using bump_and_insert_cases [OF Some, of uid now]
    by (cases "req_of d uid") (auto simp: CreateInvocationRequest_def row_simps option.map_comp comp_def)
qed (simp add: CreateInvocationRequest_def)

lemma config_schedule: "map_option w_config (wf_of (fst (ScheduleRequest flt rid now d)) i) = map_option w_config (wf_of d i)"
proof -
  have mark: "map_option w_config (wf_of (MarkWorkflowScheduled k e) i) = map_option w_config (wf_of e i)" for k e
    by (auto simp: MarkWorkflowScheduled_def set_lifecycle_state_def row_simps option.map_comp comp_def if_distrib cong: if_cong)
  have super: "wf_of (SupercedeOlderRequests k v e) = wf_of e" for k v e by (simp add: SupercedeOlderRequests_def)
  have upsert: "wf_of (fst (UpsertJobAndSchedule q ctx op tmo wv ex m now e)) = wf_of e" for q ctx op tmo wv ex m e
    by (simp add: UpsertJobAndSchedule_def Let_def split: option.split)
  have "map_option w_config (wf_of (fst (write_job flt rid x w tmo now e)) i) = map_option w_config (wf_of e i)" for x w tmo e
    using upsert [of rid "job_context (r_info x) (GetAllForWorkflow (r_workflow_id x) e)" "request_type_name (r_type x) @ ''_entry''" tmo
        "w_current_workflow_version w" "w_current_version w" "effective_mode w" e]
    by (auto simp: write_job_def Let_def mark super split: prod.split option.split)
  then show ?thesis by (auto simp: ScheduleRequest_def split: sum.split)
qed

lemma admitted_below_cap:
  assumes "admit_invocation flt cid i tmo ic d = Inr info" "map_option w_config (wf_of d i) = Some c" "wc_invoke_mode c = Queue"
    and "CountUnscheduledRequests i d < 2147483648"
  shows "CountUnscheduledRequests i d < queue_cap c"
proof -
  have "int32 (CountUnscheduledRequests i d) = CountUnscheduledRequests i d"
    using assms(4) by (intro int32_id) (simp_all add: CountUnscheduledRequests_def)
  then show ?thesis using assms(1-3)
    by (auto simp: admit_invocation_def workflow_Get_def queue_full_def queue_cap_def Let_def split: if_splits option.splits)
qed

text \<open>The backlog, counted with what is about to be added to it.\<close>

definition demand :: "string \<Rightarrow> db \<times> json_map list \<Rightarrow> int" where
  "demand i x = CountUnscheduledRequests i (fst x) + int (length (snd x))"

lemma backlog_nonneg: "0 \<le> CountUnscheduledRequests i d"
  by (simp add: CountUnscheduledRequests_def)

lemma step_demand:
  assumes "invoke_step i x y" "length (snd y) \<le> n" "map_option w_config (wf_of (fst x) i) = Some c" "wc_invoke_mode c = Queue"
    and "queue_cap c + int n \<le> 2147483648" "demand i x < queue_cap c + int n"
  shows "map_option w_config (wf_of (fst y) i) = Some c \<and> demand i y < queue_cap c + int n"
  using assms
proof (induction rule: invoke_step.induct)
  case (admitted flt cid tmo ic d info ps)
  then have "CountUnscheduledRequests i d < queue_cap c" using admitted_below_cap [OF admitted(1)] by (simp add: demand_def)
  then show ?case using admitted by (simp add: demand_def)
next
  case (inserted info ps uid now d d' r)
  then have "d' = fst (CreateInvocationRequest uid (run_request i info) now d)" by simp
  moreover obtain m where "length ps = Suc m" using inserted(1) by (cases ps) auto
  then have "int (length (remove1 info ps)) = int (length ps) - 1" using inserted(1) by (simp add: length_remove1)
  ultimately show ?case using inserted count_insert [of i uid "run_request i info" now d] config_insert [of uid "run_request i info" now d i]
    by (simp add: demand_def)
next
  case (given_up d ps info)
  then show ?case by (auto simp: demand_def length_remove1)
next
  case (scheduled d ps flt rid now)
  then show ?case using count_schedule [of i flt rid now d] config_schedule [of flt rid now d i] by (simp add: demand_def)
next
  case (elsewhere d' d ps)
  then show ?case by (simp add: demand_def)
qed

section \<open>Properties\<close>

text \<open>C31. How far the backlog of a queue-mode workflow can grow: over any interleaving of invocations with each other, with the scheduling
  of requests and with steps that do not add to the queue, in which at most \<open>n\<close> invocations are between their check and their insertion
  at once, the backlog stays below \<open>max_queue_depth + n\<close> (1000 for the cap when none is configured). So invocations that do
  not overlap keep the cap. The bound is below the range of the 32-bit comparison.\<close>

theorem queue_backlog_is_bounded:
  assumes "(\<lambda>a b. invoke_step i a b \<and> length (snd b) \<le> n)\<^sup>*\<^sup>* (d0, []) (d, ps)"
    and "wf_of d0 i = Some w" "wc_invoke_mode (w_config w) = Queue"
    and "CountUnscheduledRequests i d0 < (if wc_max_queue_depth (w_config w) \<le> 0 then 1000 else wc_max_queue_depth (w_config w)) + int n"
    and "(if wc_max_queue_depth (w_config w) \<le> 0 then 1000 else wc_max_queue_depth (w_config w)) + int n \<le> 2147483648"
  shows "CountUnscheduledRequests i d + int (length ps) < (if wc_max_queue_depth (w_config w) \<le> 0 then 1000 else wc_max_queue_depth (w_config w)) + int n"
proof -
  have cap: "(if wc_max_queue_depth (w_config w) \<le> 0 then 1000 else wc_max_queue_depth (w_config w)) = queue_cap (w_config w)"
    by (simp add: queue_cap_def DefaultMaxQueueDepth_def)
  have "map_option w_config (wf_of (fst x) i) = Some (w_config w) \<and> demand i x < queue_cap (w_config w) + int n"
    if "(\<lambda>a b. invoke_step i a b \<and> length (snd b) \<le> n)\<^sup>*\<^sup>* (d0, []) x" for x
    using that
  proof (induction rule: rtranclp_induct)
    case base
    then show ?case using assms(2,4) by (simp add: demand_def cap)
  next
    case (step y z)
    then show ?case using step_demand [of i y z n "w_config w"] assms(3,5) by (simp only: cap)
  qed
  from this [OF assms(1)] show ?thesis by (simp add: demand_def cap)
qed

text \<open>A workflow with a cap of two and one request waiting, and two invocations that are admitted before either inserts.\<close>

definition almost_full :: db where
  "almost_full = (sample_db RUnscheduled (sample_job JRunning (Some ''s'') (Some 9)))\<lparr>db_workflows :=
     [(''w'', sample_wf\<lparr>w_config := (w_config sample_wf)\<lparr>wc_invoke_mode := Queue, wc_max_queue_depth := 2\<rparr>\<rparr>)]\<rparr>"

definition admitted_info :: json_map where
  "admitted_info = (case admit_invocation (\<lambda>_. False) ''c'' ''w'' 0 [] almost_full of Inl _ \<Rightarrow> [] | Inr info \<Rightarrow> info)"

definition both_inserted :: db where
  "both_inserted = fst (CreateInvocationRequest ''r9'' (run_request ''w'' admitted_info) 6
     (fst (CreateInvocationRequest ''r8'' (run_request ''w'' admitted_info) 5 almost_full)))"

lemma almost_full_admits: "admit_invocation (\<lambda>_. False) ''c'' ''w'' 0 [] almost_full = Inr admitted_info"
proof -
  have "\<not> isl (admit_invocation (\<lambda>_. False) ''c'' ''w'' 0 [] almost_full)" by code_simp
  then show ?thesis by (auto simp: admitted_info_def split: sum.split)
qed

lemma both_steps: "(\<lambda>a b. invoke_step ''w'' a b \<and> length (snd b) \<le> 2)\<^sup>*\<^sup>* (almost_full, []) (both_inserted, [])"
proof -
  let ?s = "\<lambda>a b. invoke_step ''w'' a b \<and> length (snd b) \<le> 2"
  let ?d1 = "fst (CreateInvocationRequest ''r8'' (run_request ''w'' admitted_info) 5 almost_full)"
  have 1: "?s\<^sup>*\<^sup>* (almost_full, []) (almost_full, [admitted_info])"
    using invoke_step.admitted [OF almost_full_admits] by (intro r_into_rtranclp) simp
  have 2: "?s\<^sup>*\<^sup>* (almost_full, []) (almost_full, [admitted_info, admitted_info])"
    using invoke_step.admitted [OF almost_full_admits] by (intro rtranclp.rtrancl_into_rtrancl [OF 1]) simp
  have 3: "?s\<^sup>*\<^sup>* (almost_full, []) (?d1, [admitted_info])"
    using insert_step [of admitted_info "[admitted_info, admitted_info]" "''w''" almost_full "''r8''" 5]
    by (intro rtranclp.rtrancl_into_rtrancl [OF 2]) simp
  show ?thesis
    using insert_step [of admitted_info "[admitted_info]" "''w''" ?d1 "''r9''" 6]
    by (intro rtranclp.rtrancl_into_rtrancl [OF 3]) (simp add: both_inserted_def)
qed

theorem queue_backlog_is_bounded_witness:
  "CountUnscheduledRequests ''w'' both_inserted < 2 + int 2"
proof -
  have w: "wf_of almost_full ''w'' = Some (sample_wf\<lparr>w_config := (w_config sample_wf)\<lparr>wc_invoke_mode := Queue, wc_max_queue_depth := 2\<rparr>\<rparr>)"
    by (simp add: almost_full_def)
  have "CountUnscheduledRequests ''w'' almost_full < 2 + int 2" by code_simp
  then show ?thesis using queue_backlog_is_bounded [OF both_steps w] by simp
qed

text \<open>The bound is attained: both invocations are accepted and the backlog is one past the cap.\<close>

theorem concurrent_invocations_pass_the_cap:
  "wc_max_queue_depth (w_config (the (wf_of almost_full ''w''))) = 2 \<and> CountUnscheduledRequests ''w'' almost_full = 1 \<and>
   (invoke_step ''w'')\<^sup>*\<^sup>* (almost_full, []) (both_inserted, []) \<and> CountUnscheduledRequests ''w'' both_inserted = 3"
proof -
  have "(invoke_step ''w'')\<^sup>*\<^sup>* (almost_full, []) (both_inserted, [])" using both_steps by (rule rtranclp_mono [THEN predicate2D, rotated]) auto
  moreover have "wc_max_queue_depth (w_config (the (wf_of almost_full ''w''))) = 2" by code_simp
  moreover have "CountUnscheduledRequests ''w'' almost_full = 1" "CountUnscheduledRequests ''w'' both_inserted = 3" by code_simp+
  ultimately show ?thesis by simp
qed

end
