(* ===== verification/Convert.thy ===== *)
theory Convert
  imports MetricsModel
begin

text \<open>
  Conversions between the wire messages and the domain types, \<open>src/internal/convert\<close>: agent policies,
  workflow lifecycle policies, workflow configurations and prices. The generated message types are records with the
  fields the conversions use; an enum is a datatype with one extra constructor for the numbers a newer peer
  may send; a nil message is \<open>None\<close>. Go's conversion of an int to int32 wraps.
\<close>

section \<open>Agent policies (agent\_policy.go)\<close>

datatype pb_agent_metric = AmUnspecified | AmTokensUsed | AmCostUsd | AmLlmCalls | AmCallsPerTool | AmUnknown int
datatype pb_agent_op = AoUnspecified | AoLt | AoLte | AoGt | AoGte | AoEq | AoUnknown int
datatype pb_action_field = AfUnspecified | AfSetModel | AfSetMaxLlmCalls | AfSetMaxCostUsd | AfSetMaxTokensPerCall | AfUnknown int

record pb_agent_runtime_policy =
  prp_model :: string
  prp_max_llm_calls :: int
  prp_max_cost_usd :: float64
  prp_max_tokens_per_call :: int
  prp_max_call_seconds :: float64
  prp_tool_call_limits :: "(string \<times> int) list"

record pb_agent_rule_action =
  pra_field :: pb_action_field
  pra_model :: string
  pra_max_llm_calls :: int
  pra_max_cost_usd :: float64
  pra_max_tokens_per_call :: int

record pb_agent_rule =
  par_metric :: pb_agent_metric
  par_op :: pb_agent_op
  par_threshold :: float64
  par_window :: int
  par_tool :: string
  par_action :: "pb_agent_rule_action option"

record pb_agent_policy_action =
  ppa_base_policy :: "pb_agent_runtime_policy option"
  ppa_effective_policy :: "pb_agent_runtime_policy option"
  ppa_fired_rules :: "(pb_agent_rule option \<times> float64) list"

fun agentMetricFromProto :: "pb_agent_metric \<Rightarrow> string" where
  "agentMetricFromProto AmTokensUsed = ''tokens_used''"
| "agentMetricFromProto AmCostUsd = ''cost_usd''"
| "agentMetricFromProto AmLlmCalls = ''llm_calls''"
| "agentMetricFromProto AmCallsPerTool = ''calls_per_tool''"
| "agentMetricFromProto _ = []"

definition agentMetricToProto :: "string \<Rightarrow> pb_agent_metric" where
  "agentMetricToProto m = (if m = ''tokens_used'' then AmTokensUsed else if m = ''cost_usd'' then AmCostUsd
     else if m = ''llm_calls'' then AmLlmCalls else if m = ''calls_per_tool'' then AmCallsPerTool else AmUnspecified)"

fun agentOpFromProto :: "pb_agent_op \<Rightarrow> string" where
  "agentOpFromProto AoLt = ''less_than''"
| "agentOpFromProto AoLte = ''less_than_or_equal''"
| "agentOpFromProto AoGt = ''greater_than''"
| "agentOpFromProto AoGte = ''greater_than_or_equal''"
| "agentOpFromProto AoEq = ''equal''"
| "agentOpFromProto _ = []"

definition agentOpToProto :: "string \<Rightarrow> pb_agent_op" where
  "agentOpToProto o' = (if o' = ''less_than'' then AoLt else if o' = ''less_than_or_equal'' then AoLte
     else if o' = ''greater_than'' then AoGt else if o' = ''greater_than_or_equal'' then AoGte
     else if o' = ''equal'' then AoEq else AoUnspecified)"

definition no_runtime_policy :: agent_runtime_policy where
  "no_runtime_policy = \<lparr>rp_model = [], rp_max_llm_calls = 0, rp_max_cost_usd = 0, rp_max_tokens_per_call = 0,
     rp_max_call_seconds = 0, rp_tool_call_limits = []\<rparr>"

definition agentRuntimePolicyFromProto :: "pb_agent_runtime_policy option \<Rightarrow> agent_runtime_policy" where
  "agentRuntimePolicyFromProto x = (case x of None \<Rightarrow> no_runtime_policy
     | Some p \<Rightarrow> \<lparr>rp_model = prp_model p, rp_max_llm_calls = prp_max_llm_calls p, rp_max_cost_usd = prp_max_cost_usd p,
         rp_max_tokens_per_call = prp_max_tokens_per_call p, rp_max_call_seconds = prp_max_call_seconds p,
         rp_tool_call_limits = prp_tool_call_limits p\<rparr>)"

definition agentRuntimePolicyToProto :: "agent_runtime_policy \<Rightarrow> pb_agent_runtime_policy" where
  "agentRuntimePolicyToProto p = \<lparr>prp_model = rp_model p, prp_max_llm_calls = int32 (rp_max_llm_calls p),
     prp_max_cost_usd = rp_max_cost_usd p, prp_max_tokens_per_call = int32 (rp_max_tokens_per_call p),
     prp_max_call_seconds = rp_max_call_seconds p,
     prp_tool_call_limits = map (\<lambda>(t, n). (t, int32 n)) (rp_tool_call_limits p)\<rparr>"

definition no_rule_action :: agent_rule_action where
  "no_rule_action = \<lparr>ra_field = [], ra_model = [], ra_max_llm_calls = 0, ra_max_cost_usd = 0, ra_max_tokens_per_call = 0\<rparr>"

definition no_pb_action :: pb_agent_rule_action where
  "no_pb_action = \<lparr>pra_field = AfUnspecified, pra_model = [], pra_max_llm_calls = 0, pra_max_cost_usd = 0, pra_max_tokens_per_call = 0\<rparr>"

definition agentRuleActionFromProto :: "pb_agent_rule_action option \<Rightarrow> agent_rule_action" where
  "agentRuleActionFromProto x = (case x of None \<Rightarrow> no_rule_action
     | Some a \<Rightarrow> (case pra_field a of
           AfSetModel \<Rightarrow> no_rule_action\<lparr>ra_field := ''model'', ra_model := pra_model a\<rparr>
         | AfSetMaxLlmCalls \<Rightarrow> no_rule_action\<lparr>ra_field := ''max_llm_calls'', ra_max_llm_calls := pra_max_llm_calls a\<rparr>
         | AfSetMaxCostUsd \<Rightarrow> no_rule_action\<lparr>ra_field := ''max_cost_usd'', ra_max_cost_usd := pra_max_cost_usd a\<rparr>
         | AfSetMaxTokensPerCall \<Rightarrow> no_rule_action\<lparr>ra_field := ''max_tokens_per_call'', ra_max_tokens_per_call := pra_max_tokens_per_call a\<rparr>
         | _ \<Rightarrow> no_rule_action))"

definition agentRuleActionToProto :: "agent_rule_action \<Rightarrow> pb_agent_rule_action" where
  "agentRuleActionToProto a =
     (if ra_field a = ''model'' then no_pb_action\<lparr>pra_field := AfSetModel, pra_model := ra_model a\<rparr>
      else if ra_field a = ''max_llm_calls'' then no_pb_action\<lparr>pra_field := AfSetMaxLlmCalls, pra_max_llm_calls := int32 (ra_max_llm_calls a)\<rparr>
      else if ra_field a = ''max_cost_usd'' then no_pb_action\<lparr>pra_field := AfSetMaxCostUsd, pra_max_cost_usd := ra_max_cost_usd a\<rparr>
      else if ra_field a = ''max_tokens_per_call'' then no_pb_action\<lparr>pra_field := AfSetMaxTokensPerCall, pra_max_tokens_per_call := int32 (ra_max_tokens_per_call a)\<rparr>
      else no_pb_action)"

definition agentRuleFromProto :: "pb_agent_rule option \<Rightarrow> agent_rule" where
  "agentRuleFromProto x = (case x of
       None \<Rightarrow> \<lparr>ar_metric = [], ar_op = [], ar_threshold = 0, ar_window = 0, ar_tool = [], ar_action = no_rule_action\<rparr>
     | Some r \<Rightarrow> \<lparr>ar_metric = agentMetricFromProto (par_metric r), ar_op = agentOpFromProto (par_op r),
         ar_threshold = par_threshold r, ar_window = par_window r, ar_tool = par_tool r,
         ar_action = agentRuleActionFromProto (par_action r)\<rparr>)"

definition agentRuleToProto :: "agent_rule \<Rightarrow> pb_agent_rule" where
  "agentRuleToProto r = \<lparr>par_metric = agentMetricToProto (ar_metric r), par_op = agentOpToProto (ar_op r),
     par_threshold = ar_threshold r, par_window = int32 (ar_window r), par_tool = ar_tool r,
     par_action = Some (agentRuleActionToProto (ar_action r))\<rparr>"

text \<open>\<open>AgentPolicyActionFromProto\<close> reads the fields of the action, so a nil action panics at the caller.\<close>

definition AgentPolicyActionFromProto :: "string \<Rightarrow> pb_agent_policy_action \<Rightarrow> agent_policy_action_details" where
  "AgentPolicyActionFromProto agent pa = \<lparr>apd_agent = agent,
     apd_base_policy = agentRuntimePolicyFromProto (ppa_base_policy pa),
     apd_effective_policy = agentRuntimePolicyFromProto (ppa_effective_policy pa),
     apd_fired_rules = map (\<lambda>(r, v). (agentRuleFromProto r, v)) (ppa_fired_rules pa)\<rparr>"

definition AgentPolicyActionToProto :: "agent_policy_action_details \<Rightarrow> pb_agent_policy_action" where
  "AgentPolicyActionToProto x = \<lparr>ppa_base_policy = Some (agentRuntimePolicyToProto (apd_base_policy x)),
     ppa_effective_policy = Some (agentRuntimePolicyToProto (apd_effective_policy x)),
     ppa_fired_rules = map (\<lambda>(r, v). (Some (agentRuleToProto r), v)) (apd_fired_rules x)\<rparr>"

section \<open>Workflow policies and configurations (workflow.go)\<close>

datatype pb_workflow_metric = PmNumFailures | PmCost | PmNumLlmCalls | PmLatency | PmApprovalRejections | PmToolFailureRate | PmOther int
datatype pb_policy_action_type = PaPause | PaCooldown | PaSetVersion | PaOther int

record pb_policy_action =
  pba_type :: pb_policy_action_type
  pba_cooldown_seconds :: int
  pba_target_version :: int

record pb_policy_rule =
  pbr_metric :: pb_workflow_metric
  pbr_threshold :: float64
  pbr_window :: int
  pbr_tool_name :: string
  pbr_action :: "pb_policy_action option"

fun metric_from_proto :: "pb_workflow_metric \<Rightarrow> workflow_metric" where
  "metric_from_proto PmCost = Cost"
| "metric_from_proto PmNumLlmCalls = NumLLMCalls"
| "metric_from_proto PmLatency = Latency"
| "metric_from_proto PmApprovalRejections = ApprovalRejections"
| "metric_from_proto PmToolFailureRate = ToolFailureRate"
| "metric_from_proto _ = NumFailures"

fun metric_to_proto :: "workflow_metric \<Rightarrow> pb_workflow_metric" where
  "metric_to_proto Cost = PmCost"
| "metric_to_proto NumLLMCalls = PmNumLlmCalls"
| "metric_to_proto Latency = PmLatency"
| "metric_to_proto ApprovalRejections = PmApprovalRejections"
| "metric_to_proto ToolFailureRate = PmToolFailureRate"
| "metric_to_proto _ = PmNumFailures"

definition action_from_proto :: "pb_policy_action option \<Rightarrow> policy_action" where
  "action_from_proto x = (case x of
       None \<Rightarrow> \<lparr>pa_type = OtherAction [], pa_cooldown_seconds = 0, pa_target_version = 0\<rparr>
     | Some a \<Rightarrow> (case pba_type a of
           PaCooldown \<Rightarrow> \<lparr>pa_type = Cooldown, pa_cooldown_seconds = pba_cooldown_seconds a, pa_target_version = 0\<rparr>
         | PaSetVersion \<Rightarrow> \<lparr>pa_type = SetVersion, pa_cooldown_seconds = 0, pa_target_version = pba_target_version a\<rparr>
         | _ \<Rightarrow> \<lparr>pa_type = Pause, pa_cooldown_seconds = 0, pa_target_version = 0\<rparr>))"

fun action_type_to_proto :: "policy_action_type \<Rightarrow> pb_policy_action_type" where
  "action_type_to_proto Cooldown = PaCooldown"
| "action_type_to_proto SetVersion = PaSetVersion"
| "action_type_to_proto _ = PaPause"

definition workflowRuleFromProto :: "pb_policy_rule \<Rightarrow> policy_rule" where
  "workflowRuleFromProto r = \<lparr>pr_metric = metric_from_proto (pbr_metric r), pr_threshold = pbr_threshold r,
     pr_window = pbr_window r, pr_tool_name = pbr_tool_name r, pr_action = action_from_proto (pbr_action r)\<rparr>"

definition WorkflowRuleToProto :: "policy_rule \<Rightarrow> pb_policy_rule" where
  "WorkflowRuleToProto r = \<lparr>pbr_metric = metric_to_proto (pr_metric r), pbr_threshold = pr_threshold r,
     pbr_window = int32 (pr_window r), pbr_tool_name = pr_tool_name r,
     pbr_action = Some \<lparr>pba_type = action_type_to_proto (pa_type (pr_action r)),
       pba_cooldown_seconds = int32 (pa_cooldown_seconds (pr_action r)),
       pba_target_version = int32 (pa_target_version (pr_action r))\<rparr>\<rparr>"

definition WorkflowLifecyclePolicyFromProto :: "pb_policy_rule option list option \<Rightarrow> lifecycle_policy" where
  "WorkflowLifecyclePolicyFromProto p = \<lparr>lp_rules = (case p of None \<Rightarrow> []
     | Some rs \<Rightarrow> map workflowRuleFromProto (List.map_filter id rs))\<rparr>"

definition WorkflowLifecyclePolicyToProto :: "lifecycle_policy \<Rightarrow> pb_policy_rule option list option" where
  "WorkflowLifecyclePolicyToProto p = Some (map (\<lambda>r. Some (WorkflowRuleToProto r)) (lp_rules p))"

datatype pb_invoke_mode = ImUnspecified | ImCoalesce | ImQueue | ImOther int

record pb_workflow_config =
  pbc_version :: int
  pbc_invoke_timeout_seconds :: int
  pbc_repeat_every_seconds :: int
  pbc_triggerable :: bool
  pbc_invoke_mode :: pb_invoke_mode
  pbc_max_queue_depth :: int
  pbc_resumable :: bool

definition invokeModeFromProto :: "pb_invoke_mode \<Rightarrow> invoke_mode" where
  "invokeModeFromProto m = (if m = ImQueue then Queue else Coalesce)"

definition invokeModeToProto :: "invoke_mode \<Rightarrow> pb_invoke_mode" where
  "invokeModeToProto m = (if m = Queue then ImQueue else ImCoalesce)"

definition WorkflowConfigFromProto :: "pb_workflow_config option \<Rightarrow> workflow_config" where
  "WorkflowConfigFromProto x = (case x of
       None \<Rightarrow> \<lparr>wc_invoke_timeout_seconds = 0, wc_repeat_every_seconds = 0, wc_triggerable = True, wc_invoke_mode = Coalesce,
                wc_max_queue_depth = 0, wc_resumable = False\<rparr>
     | Some p \<Rightarrow> \<lparr>wc_invoke_timeout_seconds = pbc_invoke_timeout_seconds p, wc_repeat_every_seconds = pbc_repeat_every_seconds p,
                wc_triggerable = pbc_triggerable p, wc_invoke_mode = invokeModeFromProto (pbc_invoke_mode p),
                wc_max_queue_depth = pbc_max_queue_depth p, wc_resumable = pbc_resumable p\<rparr>)"

text \<open>The configuration part of \<open>WorkflowToProto\<close>.\<close>

definition config_to_proto :: "workflow \<Rightarrow> pb_workflow_config" where
  "config_to_proto w = \<lparr>pbc_version = int32 (w_current_workflow_version w),
     pbc_invoke_timeout_seconds = wc_invoke_timeout_seconds (w_config w), pbc_repeat_every_seconds = wc_repeat_every_seconds (w_config w),
     pbc_triggerable = wc_triggerable (w_config w), pbc_invoke_mode = invokeModeToProto (wc_invoke_mode (w_config w)),
     pbc_max_queue_depth = wc_max_queue_depth (w_config w), pbc_resumable = wc_resumable (w_config w)\<rparr>"

section \<open>Prices (pricing.go)\<close>

definition ModelPricingFromProto :: "model_pricing option \<Rightarrow> model_pricing result" where
  "ModelPricingFromProto x = (case x of
       None \<Rightarrow> Inl (ErrOther ''pricing is required'')
     | Some p \<Rightarrow> if mp_model_id p = [] then Inl (ErrOther ''model_id is required'')
         else if mp_input_per_1m p < 0 \<or> mp_output_per_1m p < 0 then Inl (ErrOther ''rates must be non-negative'')
         else Inr p)"

section \<open>Round trips\<close>

lemma int32_wire [simp]: "is_int32 x \<Longrightarrow> int32 x = x"
  by (rule int32_of_is_int32)

lemma agentMetric_round_trip: "agentMetricFromProto (agentMetricToProto (agentMetricFromProto m)) = agentMetricFromProto m"
  by (cases m) (simp_all add: agentMetricToProto_def)

lemma agentOp_round_trip: "agentOpFromProto (agentOpToProto (agentOpFromProto x)) = agentOpFromProto x"
  by (cases x) (simp_all add: agentOpToProto_def)

lemma metric_round_trip: "metric_from_proto (metric_to_proto (metric_from_proto m)) = metric_from_proto m"
  by (cases m) simp_all

text \<open>The integers of a message are 32 bits wide on the wire.\<close>

definition wire_runtime_policy :: "pb_agent_runtime_policy option \<Rightarrow> bool" where
  "wire_runtime_policy x = (case x of None \<Rightarrow> True
     | Some p \<Rightarrow> is_int32 (prp_max_llm_calls p) \<and> is_int32 (prp_max_tokens_per_call p) \<and>
         list_all (\<lambda>l. is_int32 (snd l)) (prp_tool_call_limits p))"

definition wire_agent_rule :: "pb_agent_rule option \<Rightarrow> bool" where
  "wire_agent_rule x = (case x of None \<Rightarrow> True
     | Some r \<Rightarrow> is_int32 (par_window r) \<and>
         (case par_action r of None \<Rightarrow> True | Some a \<Rightarrow> is_int32 (pra_max_llm_calls a) \<and> is_int32 (pra_max_tokens_per_call a)))"

definition wire_agent_action :: "pb_agent_policy_action \<Rightarrow> bool" where
  "wire_agent_action pa = (wire_runtime_policy (ppa_base_policy pa) \<and> wire_runtime_policy (ppa_effective_policy pa) \<and>
     list_all (\<lambda>f. wire_agent_rule (fst f)) (ppa_fired_rules pa))"

lemma is_int32_0 [simp]: "is_int32 0"
  by (simp add: is_int32_def)

lemma runtime_policy_round_trip:
  assumes "wire_runtime_policy x"
  shows "agentRuntimePolicyFromProto (Some (agentRuntimePolicyToProto (agentRuntimePolicyFromProto x))) = agentRuntimePolicyFromProto x"
proof (cases x)
  case None
  then show ?thesis by (simp add: agentRuntimePolicyFromProto_def agentRuntimePolicyToProto_def no_runtime_policy_def)
next
  case (Some p)
  have "list_all (\<lambda>l. is_int32 (snd l)) ls \<Longrightarrow> map (\<lambda>(t, n). (t, int32 n)) ls = ls" for ls :: "(string \<times> int) list"
    by (induction ls) auto
  then show ?thesis using assms Some
    by (simp add: agentRuntimePolicyFromProto_def agentRuntimePolicyToProto_def wire_runtime_policy_def)
qed

lemma rule_action_round_trip:
  assumes "case x of None \<Rightarrow> True | Some a \<Rightarrow> is_int32 (pra_max_llm_calls a) \<and> is_int32 (pra_max_tokens_per_call a)"
  shows "agentRuleActionFromProto (Some (agentRuleActionToProto (agentRuleActionFromProto x))) = agentRuleActionFromProto x"
proof (cases x)
  case (Some a)
  then show ?thesis using assms
    by (cases "pra_field a") (simp_all add: agentRuleActionFromProto_def agentRuleActionToProto_def no_rule_action_def no_pb_action_def)
qed (simp add: agentRuleActionFromProto_def agentRuleActionToProto_def no_rule_action_def no_pb_action_def)

lemma agent_rule_round_trip:
  assumes "wire_agent_rule x"
  shows "agentRuleFromProto (Some (agentRuleToProto (agentRuleFromProto x))) = agentRuleFromProto x"
proof (cases x)
  case None
  then show ?thesis
    by (simp add: agentRuleFromProto_def agentRuleToProto_def agentMetricToProto_def agentOpToProto_def
        agentRuleActionFromProto_def agentRuleActionToProto_def no_rule_action_def no_pb_action_def)
next
  case (Some r)
  then show ?thesis using assms rule_action_round_trip [of "par_action r"]
    by (simp add: agentRuleFromProto_def agentRuleToProto_def wire_agent_rule_def agentMetric_round_trip agentOp_round_trip)
qed

section \<open>Properties\<close>

text \<open>The audit of an agent policy action is lossless: the detail stored from what the SDK reports, sent
  out through the audit read path and read back, is the same detail, for every message the wire can carry,
  including missing policies, rules and actions and enum numbers of newer clients.\<close>

theorem agent_action_audit_round_trip:
  assumes "wire_agent_action pa"
  shows "AgentPolicyActionFromProto agent (AgentPolicyActionToProto (AgentPolicyActionFromProto agent pa)) =
    AgentPolicyActionFromProto agent pa"
proof -
  have "agentRuleFromProto (Some (agentRuleToProto (agentRuleFromProto r))) = agentRuleFromProto r"
    if "(r, v) \<in> set (ppa_fired_rules pa)" for r v
    using assms that by (force simp: wire_agent_action_def list_all_iff intro: agent_rule_round_trip)
  then show ?thesis using assms
    by (auto simp: AgentPolicyActionFromProto_def AgentPolicyActionToProto_def wire_agent_action_def runtime_policy_round_trip)
qed

theorem agent_action_audit_round_trip_witness:
  "let pa = \<lparr>ppa_base_policy = None, ppa_effective_policy = None,
        ppa_fired_rules = [(Some \<lparr>par_metric = AmCostUsd, par_op = AoUnknown 9, par_threshold = 2, par_window = 5, par_tool = [], par_action = None\<rparr>, 3)]\<rparr>
   in AgentPolicyActionFromProto ''a'' (AgentPolicyActionToProto (AgentPolicyActionFromProto ''a'' pa)) = AgentPolicyActionFromProto ''a'' pa"
  unfolding Let_def
  by (rule agent_action_audit_round_trip) (simp add: wire_agent_action_def wire_runtime_policy_def wire_agent_rule_def is_int32_def)

definition wire_rule :: "pb_policy_rule option \<Rightarrow> bool" where
  "wire_rule x = (case x of None \<Rightarrow> True
     | Some r \<Rightarrow> is_int32 (pbr_window r) \<and>
         (case pbr_action r of None \<Rightarrow> False | Some a \<Rightarrow> is_int32 (pba_cooldown_seconds a) \<and> is_int32 (pba_target_version a)))"

lemma workflow_rule_round_trip:
  assumes "wire_rule (Some r)"
  shows "workflowRuleFromProto (WorkflowRuleToProto (workflowRuleFromProto r)) = workflowRuleFromProto r"
proof -
  obtain a where a: "pbr_action r = Some a" using assms by (auto simp: wire_rule_def split: option.splits)
  then show ?thesis using assms
    by (cases "pba_type a") (simp_all add: workflowRuleFromProto_def WorkflowRuleToProto_def action_from_proto_def wire_rule_def metric_round_trip)
qed

text \<open>C39. A lifecycle policy survives being read and set again: the armed policy a client reads back and
  submits unchanged arms the same rules, for every policy whose rules carry an action.\<close>

theorem armed_policy_round_trip:
  assumes "list_all wire_rule rs"
  shows "WorkflowLifecyclePolicyFromProto (WorkflowLifecyclePolicyToProto (WorkflowLifecyclePolicyFromProto (Some rs))) =
    WorkflowLifecyclePolicyFromProto (Some rs)"
proof -
  have "list_all wire_rule rs \<Longrightarrow>
      map workflowRuleFromProto (List.map_filter id (map (\<lambda>r. Some (WorkflowRuleToProto r)) (map workflowRuleFromProto (List.map_filter id rs)))) =
      map workflowRuleFromProto (List.map_filter id rs)"
    by (induction rs) (auto simp: List.map_filter_simps workflow_rule_round_trip split: option.splits)
  then show ?thesis using assms by (simp add: WorkflowLifecyclePolicyFromProto_def WorkflowLifecyclePolicyToProto_def)
qed

theorem armed_policy_round_trip_witness:
  "let rs = [Some \<lparr>pbr_metric = PmOther 7, pbr_threshold = 3, pbr_window = 5, pbr_tool_name = [],
       pbr_action = Some \<lparr>pba_type = PaCooldown, pba_cooldown_seconds = 60, pba_target_version = 4\<rparr>\<rparr>, None]
   in WorkflowLifecyclePolicyFromProto (WorkflowLifecyclePolicyToProto (WorkflowLifecyclePolicyFromProto (Some rs))) =
    WorkflowLifecyclePolicyFromProto (Some rs)"
  unfolding Let_def by (rule armed_policy_round_trip) (simp add: wire_rule_def is_int32_def)

lemma config_round_trip:
  "wc_invoke_mode (w_config w) \<noteq> ModeUnset \<Longrightarrow> WorkflowConfigFromProto (Some (config_to_proto w)) = w_config w"
  by (cases "wc_invoke_mode (w_config w)") (simp_all add: WorkflowConfigFromProto_def config_to_proto_def
      invokeModeFromProto_def invokeModeToProto_def)

end
