(* ===== verification/Views.thy ===== *)
theory Views
  imports Convert SchedulerCore
begin

text \<open>
  The conversions that build answers for clients: \<open>WorkflowToProto\<close>, \<open>RunToProto\<close>, \<open>RequestInfoToProto\<close> and
  \<open>AgentStateToProto\<close> of \<open>src/internal/convert/workflow.go\<close>, the audit records of \<open>audit.go\<close>, and the policy
  sets, tenants and tenant groups of \<open>policy.go\<close>, \<open>tenant.go\<close> and \<open>tenant_group.go\<close>. A Timestamp, Duration or
  Struct field holds the Go value it stands for, \<open>None\<close> when it is unset. Rows do not hold their own id, which is an
  argument. The column agent_state.updated_at is not modelled.
\<close>

section \<open>Names of states\<close>

fun lifecycle_state_name :: "lifecycle_state \<Rightarrow> string" where
  "lifecycle_state_name LCreating = ''creating''"
| "lifecycle_state_name LActive = ''active''"
| "lifecycle_state_name LScheduled = ''scheduled''"
| "lifecycle_state_name LBlocked = ''blocked''"
| "lifecycle_state_name LInvoking = ''invoking''"
| "lifecycle_state_name LAwaitingApproval = ''awaiting_approval''"
| "lifecycle_state_name LAwaitingInput = ''awaiting_input''"
| "lifecycle_state_name LDeleted = ''deleted''"
| "lifecycle_state_name LInterrupted = ''interrupted''"
| "lifecycle_state_name LHalted = ''halted''"

fun workflow_state_name :: "workflow_state \<Rightarrow> string" where
  "workflow_state_name WActive = ''active''"
| "workflow_state_name WPaused = ''paused''"
| "workflow_state_name WCooldown = ''cooldown''"
| "workflow_state_name WDisabled = ''disabled''"
| "workflow_state_name WSuspended = ''suspended''"

fun request_status_name :: "request_status \<Rightarrow> string" where
  "request_status_name RUnscheduled = ''unscheduled''"
| "request_status_name RScheduled = ''scheduled''"
| "request_status_name RInProgress = ''in_progress''"
| "request_status_name RFailed = ''failed''"
| "request_status_name RCompleted = ''completed''"
| "request_status_name RSuperceded = ''superceded''"
| "request_status_name RAbandoned = ''abandoned''"
| "request_status_name RPaused = ''paused''"

fun run_outcome_name :: "run_outcome option \<Rightarrow> string" where
  "run_outcome_name None = []"
| "run_outcome_name (Some Successful) = ''successful''"
| "run_outcome_name (Some CustomerMarked) = ''customer_marked_failure''"
| "run_outcome_name (Some UncaughtException) = ''uncaught_operation_exception''"
| "run_outcome_name (Some OperationTimeout) = ''operation_timeout''"
| "run_outcome_name (Some Interrupted) = ''interrupted''"
| "run_outcome_name (Some Suspended) = ''suspended''"

section \<open>Workflows\<close>

datatype pb_workflow_state = PsUnspecified | PsActive | PsPaused | PsCooldown | PsDisabled | PsSuspended

fun workflowStateToProto :: "workflow_state \<Rightarrow> pb_workflow_state" where
  "workflowStateToProto WActive = PsActive"
| "workflowStateToProto WPaused = PsPaused"
| "workflowStateToProto WCooldown = PsCooldown"
| "workflowStateToProto WDisabled = PsDisabled"
| "workflowStateToProto WSuspended = PsSuspended"

record pb_suspension =
  pbs_suspension_id :: string
  pbs_reason :: string
  pbs_stop_current :: bool
  pbs_requested_at :: "timestamp option"
  pbs_finalized_at :: "timestamp option"

text \<open>\<open>PendingApproval\<close> and \<open>PendingInput\<close> of the answer have the fields of the domain's pending gate.\<close>

record pb_workflow =
  pbw_id :: string
  pbw_workflow_type :: string
  pbw_tenant_id :: string
  pbw_created_at :: timestamp
  pbw_config :: pb_workflow_config
  pbw_lifecycle_state :: string
  pbw_workflow_state :: pb_workflow_state
  pbw_last_interrupted_request_id :: string
  pbw_pending_approval :: "pending_gate option"
  pbw_pending_input :: "pending_gate option"
  pbw_deletion_requested_at :: "timestamp option"
  pbw_last_policy_decision_request_id :: string
  pbw_suspension :: "pb_suspension option"
  pbw_cooldown_until :: "timestamp option"

text \<open>A NULL suspension id is read as the empty string.\<close>

definition suspensionToProto :: "suspension \<Rightarrow> pb_suspension" where
  "suspensionToProto s = \<lparr>pbs_suspension_id = (case su_id s of None \<Rightarrow> [] | Some i \<Rightarrow> i), pbs_reason = su_reason s,
     pbs_stop_current = su_stop_current s, pbs_requested_at = su_requested_at s, pbs_finalized_at = su_finalized_at s\<rparr>"

definition pendingApprovalToProto :: "pending_gate \<Rightarrow> pending_gate" where
  "pendingApprovalToProto p = \<lparr>pg_id = pg_id p, pg_detail = pg_detail p, pg_metadata = pg_metadata p,
     pg_opened_at = pg_opened_at p, pg_timeout_at = pg_timeout_at p\<rparr>"

definition pendingInputToProto :: "pending_gate \<Rightarrow> pending_gate" where
  "pendingInputToProto p = \<lparr>pg_id = pg_id p, pg_detail = pg_detail p, pg_metadata = pg_metadata p,
     pg_opened_at = pg_opened_at p, pg_timeout_at = pg_timeout_at p\<rparr>"

definition WorkflowToProto :: "string \<Rightarrow> workflow \<Rightarrow> pb_workflow" where
  "WorkflowToProto i w = \<lparr>pbw_id = i, pbw_workflow_type = w_workflow_type w, pbw_tenant_id = w_tenant_id w,
     pbw_created_at = w_created_at w, pbw_config = config_to_proto w,
     pbw_lifecycle_state = lifecycle_state_name (w_lifecycle_state w),
     pbw_workflow_state = workflowStateToProto (w_state w),
     pbw_last_interrupted_request_id = li_last_interrupted_request_id (w_lifecycle w),
     pbw_pending_approval = map_option pendingApprovalToProto (PendingApproval (w_lifecycle w)),
     pbw_pending_input = map_option pendingInputToProto (PendingInput (w_lifecycle w)),
     pbw_deletion_requested_at = w_deletion_requested_at w,
     pbw_last_policy_decision_request_id = w_last_policy_decision_request_id w,
     pbw_suspension = (if su_requested_at (w_suspension w) = None then None else Some (suspensionToProto (w_suspension w))),
     pbw_cooldown_until = w_cooldown_until w\<rparr>"

section \<open>Runs\<close>

record pb_run =
  pbn_request_id :: string
  pbn_request_type :: string
  pbn_status :: string
  pbn_run_outcome :: string
  pbn_failure_reason :: string
  pbn_created_at :: timestamp
  pbn_completed_at :: "timestamp option"

definition RunToProto :: "string \<Rightarrow> customer_request \<Rightarrow> pb_run" where
  "RunToProto q r = \<lparr>pbn_request_id = q, pbn_request_type = request_type_name (r_type r),
     pbn_status = request_status_name (r_status r), pbn_run_outcome = run_outcome_name (r_run_outcome r),
     pbn_failure_reason = r_failure_reason r, pbn_created_at = r_created_at r, pbn_completed_at = r_completed_at r\<rparr>"

record pb_request_info =
  pbi_request_id :: string
  pbi_workflow_id :: string
  pbi_request_type :: string
  pbi_status :: string
  pbi_run_outcome :: string
  pbi_failure_reason :: string
  pbi_version :: int
  pbi_created_at :: timestamp
  pbi_completed_at :: "timestamp option"
  pbi_result :: "json_map option"
  pbi_invoke_context :: "json_map option"
  pbi_operation_timeout_seconds :: int
  pbi_agent_runtime_policies :: "json_map option"

text \<open>A checked type assertion to a map: anything else leaves the field unset.\<close>

definition obj_field :: "string \<Rightarrow> json_map \<Rightarrow> json_map option" where
  "obj_field k info = (case map_of info k of Some (JObj m) \<Rightarrow> Some m | _ \<Rightarrow> None)"

definition RequestInfoToProto :: "string \<Rightarrow> customer_request \<Rightarrow> pb_request_info" where
  "RequestInfoToProto q r = \<lparr>pbi_request_id = q, pbi_workflow_id = r_workflow_id r, pbi_request_type = request_type_name (r_type r),
     pbi_status = request_status_name (r_status r), pbi_run_outcome = run_outcome_name (r_run_outcome r),
     pbi_failure_reason = r_failure_reason r, pbi_version = r_version r, pbi_created_at = r_created_at r,
     pbi_completed_at = r_completed_at r, pbi_result = r_result r, pbi_invoke_context = obj_field ''input'' (r_info r),
     pbi_operation_timeout_seconds =
       (case map_of (r_info r) ''operationTimeoutSeconds'' of Some (JNum x) \<Rightarrow> int32 (trunc x) | _ \<Rightarrow> 0),
     pbi_agent_runtime_policies = obj_field ''agentRuntimePolicies'' (r_info r)\<rparr>"

text \<open>\<open>structpb.NewStruct\<close> of a nil map is an empty struct.\<close>

record pb_agent =
  pbg_agent_name :: string
  pbg_runtime_policy :: json_map
  pbg_lifecycle_policy :: json_map

definition new_struct :: "json_map option \<Rightarrow> json_map" where
  "new_struct m = (case m of None \<Rightarrow> [] | Some x \<Rightarrow> x)"

definition AgentStateToProto :: "string \<Rightarrow> agent_state \<Rightarrow> pb_agent" where
  "AgentStateToProto a st = \<lparr>pbg_agent_name = a, pbg_runtime_policy = new_struct (as_runtime_policy st),
     pbg_lifecycle_policy = new_struct (as_lifecycle_policy st)\<rparr>"

section \<open>Audit records (audit.go)\<close>

datatype pb_approval_decision = PdUnspecified | PdApproved | PdRejected | PdTimedOut
datatype pb_input_decision = PiUnspecified | PiAnswered | PiTimedOut

fun approvalDecisionToProto :: "approval_decision \<Rightarrow> pb_approval_decision" where
  "approvalDecisionToProto Approved = PdApproved"
| "approvalDecisionToProto Rejected = PdRejected"
| "approvalDecisionToProto ApprovalTimedOut = PdTimedOut"

fun inputDecisionToProto :: "input_decision \<Rightarrow> pb_input_decision" where
  "inputDecisionToProto Answered = PiAnswered"
| "inputDecisionToProto InputTimedOut = PiTimedOut"

record pb_approval_audit =
  paa_approval_id :: string
  paa_workflow_id :: string
  paa_request_id :: string
  paa_decision :: pb_approval_decision
  paa_opened_at :: "timestamp option"
  paa_decided_at :: "timestamp option"
  paa_actor :: string
  paa_occurred_at :: timestamp
  paa_justification :: string
  paa_reason :: string

record pb_input_audit =
  pia_input_id :: string
  pia_workflow_id :: string
  pia_request_id :: string
  pia_decision :: pb_input_decision
  pia_opened_at :: "timestamp option"
  pia_decided_at :: "timestamp option"
  pia_actor :: string
  pia_occurred_at :: timestamp
  pia_answer :: "json_map option"
  pia_prompt :: string

record pb_policy_audit =
  ppo_workflow_id :: string
  ppo_request_id :: string
  ppo_actor :: string
  ppo_occurred_at :: timestamp
  ppo_rule :: pb_policy_rule
  ppo_trigger_value :: float64
  ppo_previous_version :: int
  ppo_previous_state :: string

record pb_agent_policy_audit =
  pap_workflow_id :: string
  pap_request_id :: string
  pap_actor :: string
  pap_occurred_at :: timestamp
  pap_agent_name :: string
  pap_action :: pb_agent_policy_action

datatype pb_audit_entry =
    EntryApproval pb_approval_audit
  | EntryWorkflowPolicy pb_policy_audit
  | EntryAgentPolicy pb_agent_policy_audit
  | EntryInput pb_input_audit

definition ApprovalAuditRecord :: "audit_event \<Rightarrow> pb_approval_audit result" where
  "ApprovalAuditRecord e = (case ApprovalDetails e of
       Inl err \<Rightarrow> Inl err
     | Inr x \<Rightarrow> Inr \<lparr>paa_approval_id = ad_approval_id x, paa_workflow_id = ae_workflow_id e, paa_request_id = ae_request_id e,
         paa_decision = approvalDecisionToProto (ad_decision x), paa_opened_at = ad_opened_at x, paa_decided_at = ad_decided_at x,
         paa_actor = ae_actor e, paa_occurred_at = ae_occurred_at e, paa_justification = ad_justification x, paa_reason = ad_reason x\<rparr>)"

definition WorkflowPolicyAuditRecord :: "audit_event \<Rightarrow> pb_policy_audit result" where
  "WorkflowPolicyAuditRecord e = (case PolicyDetails e of
       Inl err \<Rightarrow> Inl err
     | Inr x \<Rightarrow> Inr \<lparr>ppo_workflow_id = ae_workflow_id e, ppo_request_id = ae_request_id e, ppo_actor = ae_actor e,
         ppo_occurred_at = ae_occurred_at e, ppo_rule = WorkflowRuleToProto (pd_rule x), ppo_trigger_value = pd_trigger_value x,
         ppo_previous_version = int32 (pd_previous_version x), ppo_previous_state = workflow_state_name (pd_previous_state x)\<rparr>)"

definition AgentPolicyAuditRecord :: "audit_event \<Rightarrow> pb_agent_policy_audit result" where
  "AgentPolicyAuditRecord e = (case AgentPolicyDetails e of
       Inl err \<Rightarrow> Inl err
     | Inr x \<Rightarrow> Inr \<lparr>pap_workflow_id = ae_workflow_id e, pap_request_id = ae_request_id e, pap_actor = ae_actor e,
         pap_occurred_at = ae_occurred_at e, pap_agent_name = apd_agent x, pap_action = AgentPolicyActionToProto x\<rparr>)"

definition InputAuditRecord :: "audit_event \<Rightarrow> pb_input_audit result" where
  "InputAuditRecord e = (case InputDetails e of
       Inl err \<Rightarrow> Inl err
     | Inr x \<Rightarrow> Inr \<lparr>pia_input_id = id_input_id x, pia_workflow_id = ae_workflow_id e, pia_request_id = ae_request_id e,
         pia_decision = inputDecisionToProto (id_decision x), pia_opened_at = id_opened_at x, pia_decided_at = id_decided_at x,
         pia_actor = ae_actor e, pia_occurred_at = ae_occurred_at e, pia_answer = id_answer x, pia_prompt = id_prompt x\<rparr>)"

definition AuditEntry :: "audit_event \<Rightarrow> pb_audit_entry result" where
  "AuditEntry e = (case ae_event_type e of
       EvApproval \<Rightarrow> map_sum id EntryApproval (ApprovalAuditRecord e)
     | EvPolicyAction \<Rightarrow> map_sum id EntryWorkflowPolicy (WorkflowPolicyAuditRecord e)
     | EvAgentPolicyAction \<Rightarrow> map_sum id EntryAgentPolicy (AgentPolicyAuditRecord e)
     | EvInput \<Rightarrow> map_sum id EntryInput (InputAuditRecord e))"

section \<open>Policy sets, tenants, tenant groups (policy.go, tenant.go, tenant\_group.go)\<close>

record pb_retry =
  pbt_max_retries :: int
  pbt_initial_backoff :: "int option"
  pbt_max_backoff :: "int option"
  pbt_backoff_multiplier :: float64

record pb_failure =
  pbf_enable_rollback :: bool
  pbf_retry :: "pb_retry option"

record pb_upgrade =
  pbu_auto_pause :: bool
  pbu_bake_time :: "int option"

record pb_policy_set =
  pbp_concurrency :: "int option"
  pbp_failure :: "pb_failure option"
  pbp_windows :: "(string \<times> int option) list option"
  pbp_upgrade :: "pb_upgrade option"
  pbp_operation_timeout_seconds :: int

definition no_policies :: policy_set where
  "no_policies = \<lparr>ps_max_concurrent_operations = 0, ps_enable_rollback = False, ps_max_retries = 0,
     ps_initial_backoff = 0, ps_max_backoff = 0, ps_backoff_multiplier = 0, ps_windows = [],
     ps_auto_pause = False, ps_bake_time = 0, ps_operation_timeout_seconds = 0\<rparr>"

text \<open>A nil duration leaves the zero value.\<close>

definition duration_or_zero :: "int option \<Rightarrow> int" where
  "duration_or_zero x = (case x of None \<Rightarrow> 0 | Some n \<Rightarrow> n)"

definition retry_from_proto :: "pb_retry option \<Rightarrow> policy_set \<Rightarrow> policy_set" where
  "retry_from_proto x ps = (case x of None \<Rightarrow> ps | Some r \<Rightarrow>
     ps\<lparr>ps_max_retries := pbt_max_retries r, ps_backoff_multiplier := pbt_backoff_multiplier r,
        ps_initial_backoff := duration_or_zero (pbt_initial_backoff r), ps_max_backoff := duration_or_zero (pbt_max_backoff r)\<rparr>)"

text \<open>The operation timeout of the message is not read.\<close>

definition PolicySetFromProto :: "pb_policy_set option \<Rightarrow> policy_set" where
  "PolicySetFromProto pb = (case pb of None \<Rightarrow> no_policies | Some p \<Rightarrow>
     (let a = (case pbp_concurrency p of None \<Rightarrow> no_policies | Some n \<Rightarrow> no_policies\<lparr>ps_max_concurrent_operations := n\<rparr>);
          b = (case pbp_failure p of None \<Rightarrow> a | Some f \<Rightarrow> retry_from_proto (pbf_retry f) (a\<lparr>ps_enable_rollback := pbf_enable_rollback f\<rparr>));
          c = (case pbp_windows p of None \<Rightarrow> b | Some ws \<Rightarrow> b\<lparr>ps_windows := map (\<lambda>(e, l). (e, duration_or_zero l)) ws\<rparr>)
      in case pbp_upgrade p of None \<Rightarrow> c
         | Some u \<Rightarrow> c\<lparr>ps_auto_pause := pbu_auto_pause u, ps_bake_time := duration_or_zero (pbu_bake_time u)\<rparr>))"

definition PolicySetToProto :: "policy_set \<Rightarrow> pb_policy_set" where
  "PolicySetToProto ps = \<lparr>pbp_concurrency = Some (ps_max_concurrent_operations ps),
     pbp_failure = Some \<lparr>pbf_enable_rollback = ps_enable_rollback ps,
       pbf_retry = Some \<lparr>pbt_max_retries = ps_max_retries ps, pbt_initial_backoff = Some (ps_initial_backoff ps),
         pbt_max_backoff = Some (ps_max_backoff ps), pbt_backoff_multiplier = ps_backoff_multiplier ps\<rparr>\<rparr>,
     pbp_windows = Some (map (\<lambda>(e, l). (e, Some l)) (ps_windows ps)),
     pbp_upgrade = Some \<lparr>pbu_auto_pause = ps_auto_pause ps, pbu_bake_time = Some (ps_bake_time ps)\<rparr>,
     pbp_operation_timeout_seconds = 0\<rparr>"

record pb_tenant =
  ptn_id :: string
  ptn_name :: string
  ptn_tenant_group_id :: "string option"
  ptn_policy_overrides :: "pb_policy_set option"
  ptn_created_at :: "timestamp option"
  ptn_deleted_at :: "timestamp option"

definition TenantFromProto :: "pb_tenant option \<Rightarrow> tenant result" where
  "TenantFromProto pb = (case pb of
       None \<Rightarrow> Inl (ErrOther ''tenant is required'')
     | Some p \<Rightarrow> if ptn_name p = [] then Inl (ErrOther ''name is required'')
         else Inr \<lparr>t_name = ptn_name p, t_tenant_group_id = (case ptn_tenant_group_id p of None \<Rightarrow> [] | Some g \<Rightarrow> g),
           t_policy_overrides = map_option (\<lambda>x. PolicySetFromProto (Some x)) (ptn_policy_overrides p),
           t_created_at = 0, t_deleted_at = None, t_workflow_count = 0, t_scheduler_partition_id = []\<rparr>)"

definition TenantToProto :: "string \<Rightarrow> tenant \<Rightarrow> pb_tenant" where
  "TenantToProto i t = \<lparr>ptn_id = i, ptn_name = t_name t,
     ptn_tenant_group_id = (if t_tenant_group_id t = [] then None else Some (t_tenant_group_id t)),
     ptn_policy_overrides = map_option PolicySetToProto (t_policy_overrides t), ptn_created_at = Some (t_created_at t),
     ptn_deleted_at = t_deleted_at t\<rparr>"

record pb_tenant_group =
  ptg_id :: string
  ptg_name :: string
  ptg_policies :: "pb_policy_set option"
  ptg_created_at :: "timestamp option"

definition TenantGroupFromProto :: "pb_tenant_group option \<Rightarrow> tenant_group result" where
  "TenantGroupFromProto pb = (case pb of
       None \<Rightarrow> Inl (ErrOther ''tenant_group is required'')
     | Some p \<Rightarrow> if ptg_name p = [] then Inl (ErrOther ''name is required'')
         else Inr \<lparr>tg_name = ptg_name p, tg_policies = PolicySetFromProto (ptg_policies p), tg_created_at = 0\<rparr>)"

definition TenantGroupToProto :: "string \<Rightarrow> tenant_group \<Rightarrow> pb_tenant_group" where
  "TenantGroupToProto i g = \<lparr>ptg_id = i, ptg_name = tg_name g, ptg_policies = Some (PolicySetToProto (tg_policies g)),
     ptg_created_at = Some (tg_created_at g)\<rparr>"

definition ModelPricingToProto :: "model_pricing \<Rightarrow> model_pricing" where
  "ModelPricingToProto p = \<lparr>mp_model_id = mp_model_id p, mp_input_per_1m = mp_input_per_1m p, mp_output_per_1m = mp_output_per_1m p\<rparr>"

section \<open>What survives a round trip\<close>

lemma policy_set_round_trip: "PolicySetFromProto (Some (PolicySetToProto ps)) = ps\<lparr>ps_operation_timeout_seconds := 0\<rparr>"
  by (cases ps) (simp add: PolicySetFromProto_def PolicySetToProto_def Let_def retry_from_proto_def duration_or_zero_def
      no_policies_def case_prod_unfold comp_def)

lemma state_names_injective:
  "inj lifecycle_state_name" "inj workflow_state_name" "inj request_status_name" "inj run_outcome_name" "inj workflowStateToProto"
proof -
  show "inj lifecycle_state_name" unfolding inj_def by (intro allI, case_tac x; case_tac y; simp)
  show "inj workflow_state_name" unfolding inj_def by (intro allI, case_tac x; case_tac y; simp)
  show "inj request_status_name" unfolding inj_def by (intro allI, case_tac x; case_tac y; simp)
  show "inj workflowStateToProto" unfolding inj_def by (intro allI, case_tac x; case_tac y; simp)
  have "run_outcome_name x = run_outcome_name y \<Longrightarrow> x = y" for x y
    by (cases x rule: run_outcome_name.cases; cases y rule: run_outcome_name.cases) simp_all
  then show "inj run_outcome_name" unfolding inj_def by blast
qed

section \<open>Properties\<close>

text \<open>C40. A tenant the server sends to a client and receives back in a create call (server to client to server) keeps its name, its
  group and its policy overrides, present or absent, except that the default operation timeout of the overrides is lost:
  neither conversion carries it. The id and the timestamps are the server's to draw and are not part of the round trip.\<close>

theorem tenant_round_trip_loses_timeout:
  assumes "t_name t \<noteq> []"
  shows "\<exists>t'. TenantFromProto (Some (TenantToProto i t)) = Inr t' \<and> t_name t' = t_name t \<and>
    t_tenant_group_id t' = t_tenant_group_id t \<and>
    t_policy_overrides t' = map_option (\<lambda>ps. ps\<lparr>ps_operation_timeout_seconds := 0\<rparr>) (t_policy_overrides t)"
  using assms by (simp add: TenantFromProto_def TenantToProto_def option.map_comp comp_def policy_set_round_trip)

theorem tenant_round_trip_loses_timeout_witness:
  "\<exists>t'. TenantFromProto (Some (TenantToProto ''t'' (sample_tenant\<lparr>t_policy_overrides := Some (sample_policies\<lparr>ps_operation_timeout_seconds := 30\<rparr>)\<rparr>))) = Inr t' \<and>
     t_policy_overrides t' = Some sample_policies"
proof -
  let ?t = "sample_tenant\<lparr>t_policy_overrides := Some (sample_policies\<lparr>ps_operation_timeout_seconds := 30\<rparr>)\<rparr>"
  have "t_name ?t \<noteq> []" by (simp add: sample_tenant_def)
  from tenant_round_trip_loses_timeout [OF this, of "''t''"] show ?thesis by (auto simp: sample_policies_def)
qed

end
