(* ===== verification/Auth.thy ===== *)
theory Auth
  imports TenantRepo Views
begin

text \<open>
  API keys: \<open>src/internal/auth\<close> and the provisioning command of \<open>src/cmd/boundflow/main.go\<close>. A key is 30
  random bytes in the URL alphabet of base64, of which only the hexadecimal SHA-256 digest is stored; the
  interceptors hash the header of a call and put the group of the matching key into the context. SHA-256 and
  base64 are Go's standard library and are modelled as functions on bytes; the random bytes are a parameter.
\<close>

unbundle bit_operations_syntax

section \<open>SHA-256\<close>

type_synonym w32 = "32 word"

text \<open>
  The constants are the first 32 bits of the fractional parts of roots of primes: cube roots of the first 64
  for the rounds, square roots of the first eight for the initial state. \<open>root_search\<close> finds the integer root bit by bit.
\<close>

fun root_search :: "nat \<Rightarrow> int \<Rightarrow> nat \<Rightarrow> int \<Rightarrow> int" where
  "root_search k n 0 r = r"
| "root_search k n (Suc b) r = root_search k n b (if (r + 2 ^ b) ^ k \<le> n then r + 2 ^ b else r)"

definition root_bits :: "nat \<Rightarrow> int \<Rightarrow> w32" where
  "root_bits k p = word_of_int (root_search k (p * 2 ^ (32 * k)) 36 0)"

definition first_primes :: "int list" where
  "first_primes = filter (\<lambda>n. list_all (\<lambda>d. n mod d \<noteq> 0) [2..n - 1]) [2..311]"

definition sha256_k :: "w32 list" where
  "sha256_k = map (root_bits 3) first_primes"

record sha_state =
  sa :: w32
  sb :: w32
  sc :: w32
  sd :: w32
  se :: w32
  sf :: w32
  sg :: w32
  sh :: w32

definition sha256_init :: sha_state where
  "sha256_init = \<lparr>sa = root_bits 2 2, sb = root_bits 2 3, sc = root_bits 2 5, sd = root_bits 2 7,
     se = root_bits 2 11, sf = root_bits 2 13, sg = root_bits 2 17, sh = root_bits 2 19\<rparr>"

definition rotr :: "nat \<Rightarrow> w32 \<Rightarrow> w32" where
  "rotr n x = drop_bit n x OR push_bit (32 - n) x"

text \<open>A 1 bit, zeros, and the length in bits as 64 bits fill up the last block of 64 bytes.\<close>

definition byte_of :: "int \<Rightarrow> nat \<Rightarrow> int" where
  "byte_of n i = (n div 256 ^ i) mod 256"

definition sha256_pad :: "int list \<Rightarrow> int list" where
  "sha256_pad bs = bs @ [128] @ replicate ((119 - length bs mod 64) mod 64) 0 @ map (byte_of (8 * int (length bs))) [7, 6, 5, 4, 3, 2, 1, 0]"

fun be_words :: "int list \<Rightarrow> w32 list" where
  "be_words (a # b # c # d # bs) = word_of_int (((a * 256 + b) * 256 + c) * 256 + d) # be_words bs"
| "be_words _ = []"

text \<open>The message schedule, newest word first: each of the 48 further words comes from four earlier ones.\<close>

fun sha256_extend :: "nat \<Rightarrow> w32 list \<Rightarrow> w32 list" where
  "sha256_extend 0 ws = ws"
| "sha256_extend (Suc n) ws =
     (let v2 = ws ! 1; v15 = ws ! 14;
          s0 = rotr 7 v15 XOR rotr 18 v15 XOR drop_bit 3 v15;
          s1 = rotr 17 v2 XOR rotr 19 v2 XOR drop_bit 10 v2
      in sha256_extend n ((s1 + ws ! 6 + s0 + ws ! 15) # ws))"

definition sha256_round :: "w32 \<times> w32 \<Rightarrow> sha_state \<Rightarrow> sha_state" where
  "sha256_round kw s =
     (let s1 = rotr 6 (se s) XOR rotr 11 (se s) XOR rotr 25 (se s);
          ch = (se s AND sf s) XOR (NOT (se s) AND sg s);
          t1 = sh s + s1 + ch + fst kw + snd kw;
          s0 = rotr 2 (sa s) XOR rotr 13 (sa s) XOR rotr 22 (sa s);
          maj = (sa s AND sb s) XOR (sa s AND sc s) XOR (sb s AND sc s)
      in \<lparr>sa = t1 + (s0 + maj), sb = sa s, sc = sb s, sd = sc s, se = sd s + t1, sf = se s, sg = sf s, sh = sg s\<rparr>)"

definition sha256_block :: "w32 list \<Rightarrow> sha_state \<Rightarrow> sha_state" where
  "sha256_block ws s =
     (let t = fold sha256_round (zip sha256_k (rev (sha256_extend 48 (rev ws)))) s
      in \<lparr>sa = sa s + sa t, sb = sb s + sb t, sc = sc s + sc t, sd = sd s + sd t,
          se = se s + se t, sf = sf s + sf t, sg = sg s + sg t, sh = sh s + sh t\<rparr>)"

fun sha256_blocks :: "nat \<Rightarrow> w32 list \<Rightarrow> sha_state \<Rightarrow> sha_state" where
  "sha256_blocks 0 ws s = s"
| "sha256_blocks (Suc n) ws s = sha256_blocks n (drop 16 ws) (sha256_block (take 16 ws) s)"

definition sha256 :: "int list \<Rightarrow> int list" where
  "sha256 bs =
     (let ws = be_words (sha256_pad bs); s = sha256_blocks (length ws div 16) ws sha256_init
      in concat (map (\<lambda>w. map (byte_of (uint w)) [3, 2, 1, 0]) [sa s, sb s, sc s, sd s, se s, sf s, sg s, sh s]))"

section \<open>Hexadecimal and base64\<close>

definition hex_digits :: string where
  "hex_digits = ''0123456789abcdef''"

definition hex_encode :: "int list \<Rightarrow> string" where
  "hex_encode bs = concat (map (\<lambda>b. [hex_digits ! nat (b div 16), hex_digits ! nat (b mod 16)]) bs)"

definition base64_alphabet :: string where
  "base64_alphabet = ''ABCDEFGHIJKLMNOPQRSTUVWXYZabcdefghijklmnopqrstuvwxyz0123456789-_''"

text \<open>\<open>RawURLEncoding\<close>: three bytes make four characters, a shorter rest two or three, without padding.\<close>

fun base64_url :: "int list \<Rightarrow> string" where
  "base64_url (a # b # c # bs) =
     (let n = (a * 256 + b) * 256 + c
      in map (\<lambda>k. base64_alphabet ! nat ((n div 64 ^ k) mod 64)) [3, 2, 1, 0] @ base64_url bs)"
| "base64_url [a, b] = (let n = (a * 256 + b) * 4 in map (\<lambda>k. base64_alphabet ! nat ((n div 64 ^ k) mod 64)) [2, 1, 0])"
| "base64_url [a] = (let n = a * 16 in map (\<lambda>k. base64_alphabet ! nat ((n div 64 ^ k) mod 64)) [1, 0])"
| "base64_url [] = []"

definition HashKey :: "string \<Rightarrow> string" where
  "HashKey raw = hex_encode (sha256 (map of_char raw))"


section \<open>Status codes and the caller's context\<close>

datatype code = InvalidArgument | NotFound | AlreadyExists | FailedPrecondition | ResourceExhausted | Unauthenticated | Unimplemented | Internal

text \<open>
  The text of a status: a constant, an error printed behind a prefix (\<open>%v\<close>), or a constant about the rule
  at an index. A panic in a handler is not recovered: \<open>Crashed\<close>.
\<close>

datatype message = Text string | Fmt string error | RuleText int string
datatype rpc_error = Status code message | Crashed

type_synonym 'a reply = "rpc_error + 'a"

text \<open>The context carries the tenant group put there by the interceptor, if any (context.go).\<close>

type_synonym caller = "string option"

definition WithTenantGroup :: "caller \<Rightarrow> string \<Rightarrow> caller" where
  "WithTenantGroup ctx g = Some g"

definition TenantGroupFromContext :: "caller \<Rightarrow> string option" where
  "TenantGroupFromContext ctx = (case ctx of None \<Rightarrow> None | Some g \<Rightarrow> if g = [] then None else Some g)"

section \<open>The interceptors\<close>

text \<open>Incoming metadata: lower-case header names with their values.\<close>

type_synonym metadata = "(string \<times> string list) list"

definition apiKeyHeader :: string where
  "apiKeyHeader = ''x-api-key''"

definition md_get :: "string \<Rightarrow> metadata \<Rightarrow> string list" where
  "md_get k md = (case map_of md k of None \<Rightarrow> [] | Some vs \<Rightarrow> vs)"

definition auth_resolve :: "(string \<Rightarrow> bool) \<Rightarrow> metadata option \<Rightarrow> caller \<Rightarrow> db \<Rightarrow> caller reply" where
  "auth_resolve flt md ctx d =
     (case md of
        None \<Rightarrow> Inl (Status Unauthenticated (Text ''missing metadata''))
      | Some m \<Rightarrow>
          (case md_get apiKeyHeader m of
             [] \<Rightarrow> Inl (Status Unauthenticated (Text ''missing x-api-key header''))
           | v # _ \<Rightarrow>
               if v = [] then Inl (Status Unauthenticated (Text ''missing x-api-key header''))
               else if flt ''GetByKeyHash'' then Inl (Status Unauthenticated (Text ''invalid api key''))
               else case GetByKeyHash (HashKey v) d of
                 Inl _ \<Rightarrow> Inl (Status Unauthenticated (Text ''invalid api key''))
               | Inr (_, k) \<Rightarrow> Inr (WithTenantGroup ctx (k_tenant_group_id k))))"

definition UnaryInterceptor ::
  "(string \<Rightarrow> bool) \<Rightarrow> metadata option \<Rightarrow> (caller \<Rightarrow> db \<Rightarrow> db \<times> 'a reply) \<Rightarrow> db \<Rightarrow> db \<times> 'a reply" where
  "UnaryInterceptor flt md handler d =
     (case auth_resolve flt md None d of Inl e \<Rightarrow> (d, Inl e) | Inr ctx \<Rightarrow> handler ctx d)"

text \<open>The handler of a stream gets the stream with its context replaced.\<close>

definition StreamInterceptor ::
  "(string \<Rightarrow> bool) \<Rightarrow> metadata option \<Rightarrow> (caller \<Rightarrow> 's \<Rightarrow> 's \<times> 'a reply) \<Rightarrow> db \<Rightarrow> 's \<Rightarrow> 's \<times> 'a reply" where
  "StreamInterceptor flt md handler d s =
     (case auth_resolve flt md None d of Inl e \<Rightarrow> (s, Inl e) | Inr ctx \<Rightarrow> handler ctx s)"

section \<open>Provisioning (main.go)\<close>

text \<open>\<open>rand\<close> is what \<open>crypto/rand.Read\<close> put into the 30 bytes, \<open>None\<close> when it failed.\<close>

definition generateKey :: "int list option \<Rightarrow> string result" where
  "generateKey rand = (case rand of None \<Rightarrow> Inl (ErrOther ''rand'') | Some bs \<Rightarrow> Inr (base64_url bs))"

text \<open>
  The group and the key are two statements, not one transaction: a failure in between leaves a group
  without a key. The result is what the command prints: group id, key id and the raw key.
\<close>

definition runProvision ::
  "(string \<Rightarrow> bool) \<Rightarrow> string \<Rightarrow> string \<Rightarrow> string \<Rightarrow> int list option \<Rightarrow> timestamp \<Rightarrow> timestamp \<Rightarrow> db \<Rightarrow> db \<times> (string \<times> string \<times> string) result" where
  "runProvision flt name gid kid rand now now' d =
     (if name = [] then (d, Inl (ErrOther ''usage: boundflow -mode=provision -name=<customer-name>''))
      else if flt ''tenant_groups.Create'' then (d, Inl DbError)
      else case group_Create gid \<lparr>tg_name = name, tg_policies = no_policies, tg_created_at = now\<rparr> d of
        (d1, Inl e) \<Rightarrow> (d1, Inl e)
      | (d1, Inr _) \<Rightarrow>
          (case generateKey rand of
             Inl e \<Rightarrow> (d1, Inl e)
           | Inr raw \<Rightarrow>
               if flt ''api_keys.Create'' then (d1, Inl DbError)
               else case key_Create kid \<lparr>k_key_hash = HashKey raw, k_tenant_group_id = gid, k_created_at = now', k_revoked_at = None\<rparr> d1 of
                 (d2, Inl e) \<Rightarrow> (d2, Inl e)
               | (d2, Inr _) \<Rightarrow> (d2, Inr (gid, kid, raw))))"

lemma runProvision_ok:
  assumes "runProvision flt name gid kid rand now now' d = (d', Inr (g, k, raw))"
  obtains bs r where "rand = Some bs" "raw = base64_url bs" "g = gid" "k = kid"
    "map_of (db_api_keys d) kid = None" "\<not> exists_row (\<lambda>_ x. k_key_hash x = HashKey raw) (db_api_keys d)"
    "db_api_keys d' = db_api_keys d @ [(kid, r)]" "k_key_hash r = HashKey raw" "k_tenant_group_id r = gid" "k_revoked_at r = None"
proof -
  have "name \<noteq> []" "\<not> flt ''tenant_groups.Create''" "map_of (db_groups d) gid = None"
    using assms by (auto simp: runProvision_def group_Create_def split: if_splits)
  moreover obtain bs where bs: "rand = Some bs" using assms calculation
    by (cases rand) (auto simp: runProvision_def group_Create_def generateKey_def)
  ultimately show thesis using assms that
    by (auto simp: runProvision_def group_Create_def generateKey_def key_Create_def split: if_splits)
qed

lemma length_base64_url: "length (base64_url bs) = (length bs * 4 + 2) div 3"
  by (induction bs rule: base64_url.induct) (simp_all add: Let_def)

lemma update_last: "k \<notin> set (map fst t) \<Longrightarrow> AList.update k v (t @ [(k, x)]) = t @ [(k, v)]"
  by (induction t) auto

lemma sel_none: "\<not> exists_row (\<lambda>_ x. P x) t \<Longrightarrow> sel_where (\<lambda>_ x. P x \<and> Q x) t = []"
  by (induction t) (auto simp: sel_where_def exists_row_def)

section \<open>Properties\<close>

text \<open>C14. A provisioned key authenticates until it is revoked: after a provisioning that succeeded, a call with the
  printed key runs as the printed group, revoking the printed key id makes the same call unauthenticated, and
  calls with any key of another digest are answered as before in both states.\<close>

theorem provisioned_key_authenticates_until_revoked:
  assumes "runProvision flt name gid kid (Some bs) now now' d = (d', Inr (g, k, raw))" "length bs = 30"
    and "d'' = fst (Revoke k t d')"
  defines "call \<equiv> \<lambda>v. auth_resolve (\<lambda>_. False) (Some [(''x-api-key'', [v])]) None"
  shows "call raw d' = Inr (Some g) \<and> call raw d'' = Inl (Status Unauthenticated (Text ''invalid api key'')) \<and>
    (HashKey other = HashKey raw \<or> call other d' = call other d \<and> call other d'' = call other d)"
proof -
  obtain r where r: "raw = base64_url bs" "g = gid" "k = kid" "map_of (db_api_keys d) kid = None"
    "\<not> exists_row (\<lambda>_ x. k_key_hash x = HashKey raw) (db_api_keys d)" "db_api_keys d' = db_api_keys d @ [(kid, r)]"
    "k_key_hash r = HashKey raw" "k_tenant_group_id r = gid" "k_revoked_at r = None"
    using assms(1) by (rule runProvision_ok) auto
  have "length raw = 40" using r(1) assms(2) by (simp add: length_base64_url)
  then have ne: "raw \<noteq> []" by auto
  have "map_of (db_api_keys d') kid = Some r" using r(4,6) by (simp add: map_add_def)
  then have d'': "db_api_keys d'' = db_api_keys d @ [(kid, r\<lparr>k_revoked_at := Some t\<rparr>)]"
    using r(3,4,6,9) assms(3) by (simp add: Revoke_def upd_row_Some update_last map_of_eq_None_iff)
  have none: "sel_where (\<lambda>_ x. k_key_hash x = HashKey raw \<and> k_revoked_at x = None) (db_api_keys d) = []"
    using sel_none [OF r(5)] .
  have sel_snoc: "sel_where P (xs @ [y]) = sel_where P xs @ sel_where P [y]" for P and xs :: "(string \<times> api_key) list" and y
    by (simp add: sel_where_def)
  show ?thesis using r ne none
    by (auto simp: call_def auth_resolve_def md_get_def apiKeyHeader_def GetByKeyHash_def d'' sel_snoc WithTenantGroup_def)
      (simp_all add: sel_where_def WithTenantGroup_def)
qed

theorem provisioned_key_authenticates_until_revoked_witness:
  "case runProvision (\<lambda>_. False) ''me'' ''g1'' ''k1'' (Some (replicate 30 0)) 1 2 empty_db of
     (d', Inr (g, k, raw)) \<Rightarrow> auth_resolve (\<lambda>_. False) (Some [(''x-api-key'', [raw])]) None d' = Inr (Some ''g1'') \<and>
       auth_resolve (\<lambda>_. False) (Some [(''x-api-key'', [raw])]) None (fst (Revoke k 3 d')) =
         Inl (Status Unauthenticated (Text ''invalid api key''))
   | (d', Inl _) \<Rightarrow> False"
proof -
  let ?x = "runProvision (\<lambda>_. False) ''me'' ''g1'' ''k1'' (Some (replicate 30 0)) 1 2 empty_db"
  have "snd ?x = Inr (''g1'', ''k1'', base64_url (replicate 30 0))"
    by (simp add: runProvision_def group_Create_def generateKey_def key_Create_def exists_row_def empty_db_def
        del: replicate.simps base64_url.simps)
  then have x: "?x = (fst ?x, Inr (''g1'', ''k1'', base64_url (replicate 30 0)))" by (simp add: prod_eq_iff)
  show ?thesis using provisioned_key_authenticates_until_revoked [OF x _ refl, of 3] by (subst x) simp
qed

end
