(* ===== verification/Reconcilers.thy ===== *)
theory Reconcilers
  imports LifecycleService
begin

text \<open>
  The workers that run beside the scheduler tick of a partition (\<open>src/internal/scheduler/*resolver.go\<close>,
  \<open>*reconciler.go\<close>, \<open>periodicworkflowhandler.go\<close>): each one is a ticker that runs one sweep. A sweep lists the
  rows of its partition and handles each of them; the goroutines of a sweep are run in the order of the
  list, with their own faults \<open>flts\<close>.
\<close>

section \<open>Gates that timed out, abandoned jobs, cooldowns\<close>

definition expired_approval_event :: "expired_gate \<Rightarrow> audit_event" where
  "expired_approval_event e = \<lparr>ae_tenant_group_id = eg_tenant_group_id e, ae_workflow_id = eg_workflow_id e,
     ae_request_id = eg_request_id e, ae_event_type = EvApproval, ae_actor = [], ae_occurred_at = eg_timed_out_at e,
     ae_details = DApproval \<lparr>ad_approval_id = eg_gate_id e, ad_opened_at = eg_opened_at e,
       ad_decided_at = Some (eg_timed_out_at e), ad_decision = ApprovalTimedOut, ad_justification = eg_detail e, ad_reason = []\<rparr>\<rparr>"

definition expired_input_event :: "expired_gate \<Rightarrow> audit_event" where
  "expired_input_event e = \<lparr>ae_tenant_group_id = eg_tenant_group_id e, ae_workflow_id = eg_workflow_id e,
     ae_request_id = eg_request_id e, ae_event_type = EvInput, ae_actor = [], ae_occurred_at = eg_timed_out_at e,
     ae_details = DInput \<lparr>id_input_id = eg_gate_id e, id_opened_at = eg_opened_at e,
       id_decided_at = Some (eg_timed_out_at e), id_decision = InputTimedOut, id_answer = None, id_prompt = eg_detail e\<rparr>\<rparr>"

text \<open>\<open>uid e\<close> is the id the database draws for the audit row of \<open>e\<close>.\<close>

definition approval_sweep ::
  "(string \<Rightarrow> bool) \<Rightarrow> (string \<Rightarrow> bool) \<Rightarrow> (expired_gate \<Rightarrow> string) \<Rightarrow> string \<Rightarrow> timestamp \<Rightarrow> db \<Rightarrow> db" where
  "approval_sweep flt append_fails uid p now d =
     (if flt ''SweepExpiredApprovals'' then d
      else case SweepExpiredApprovals p now d of
        (d1, Inl _) \<Rightarrow> d1
      | (d1, Inr es) \<Rightarrow> fold (\<lambda>e d. if append_fails (eg_gate_id e) then d else Append (uid e) (expired_approval_event e) d) es d1)"

definition input_sweep ::
  "(string \<Rightarrow> bool) \<Rightarrow> (string \<Rightarrow> bool) \<Rightarrow> (expired_gate \<Rightarrow> string) \<Rightarrow> string \<Rightarrow> timestamp \<Rightarrow> db \<Rightarrow> db" where
  "input_sweep flt append_fails uid p now d =
     (if flt ''SweepExpiredInputs'' then d
      else case SweepExpiredInputs p now d of
        (d1, Inl _) \<Rightarrow> d1
      | (d1, Inr es) \<Rightarrow> fold (\<lambda>e d. if append_fails (eg_gate_id e) then d else Append (uid e) (expired_input_event e) d) es d1)"

definition abandoned_sweep :: "(string \<Rightarrow> bool) \<Rightarrow> string \<Rightarrow> timestamp \<Rightarrow> db \<Rightarrow> db" where
  "abandoned_sweep flt p now d = (if flt ''SweepAbandonedJobs'' then d else fst (SweepAbandonedJobs p now d))"

definition cooldown_sweep :: "(string \<Rightarrow> bool) \<Rightarrow> string \<Rightarrow> timestamp \<Rightarrow> db \<Rightarrow> db" where
  "cooldown_sweep flt p now d = (if flt ''ExpireCooldowns'' then d else fst (ExpireCooldowns p now d))"

section \<open>Deletion and suspension\<close>

definition deletion_reconcileOne :: "(string \<Rightarrow> bool) \<Rightarrow> timestamp \<Rightarrow> string \<Rightarrow> db \<Rightarrow> db" where
  "deletion_reconcileOne flt now i d =
     (if flt ''AbandonQueuedRequests'' then d
      else let d1 = fst (AbandonQueuedRequests i None d)
           in if flt ''HasRunningRequest'' \<or> HasRunningRequest i d1 \<or> flt ''FinalizeDeleted'' then d1
              else FinalizeDeleted i now d1)"

definition deletion_sweep :: "(string \<Rightarrow> bool) \<Rightarrow> (string \<Rightarrow> string \<Rightarrow> bool) \<Rightarrow> string \<Rightarrow> timestamp \<Rightarrow> db \<Rightarrow> db" where
  "deletion_sweep flt flts p now d =
     (if flt ''ListPendingDeletion'' then d
      else fold (\<lambda>i. deletion_reconcileOne (flts i) now i) (ListPendingDeletion p d) d)"

text \<open>The workflow is the row the listing read; a NULL suspension id scans as the empty string.\<close>

definition suspension_id :: "workflow \<Rightarrow> string" where
  "suspension_id w = (case su_id (w_suspension w) of None \<Rightarrow> [] | Some s \<Rightarrow> s)"

definition suspension_reconcileOne :: "(string \<Rightarrow> bool) \<Rightarrow> timestamp \<Rightarrow> string \<Rightarrow> workflow \<Rightarrow> db \<Rightarrow> db" where
  "suspension_reconcileOne flt now i w d =
     (let sid = suspension_id w
      in if w_state w \<noteq> WSuspended then (if flt ''AbortSuspension'' then d else AbortSuspension i sid d)
         else if su_stop_current (w_suspension w) \<and> flt ''MarkAbandonRequested'' then d
         else let d1 = (if su_stop_current (w_suspension w) then fst (MarkAbandonRequested i sid now d) else d)
              in if flt ''HasRunningRequest'' \<or> HasRunningRequest i d1 \<or> flt ''FinalizeSuspended'' then d1
                 else FinalizeSuspended i sid now d1)"

definition suspension_sweep :: "(string \<Rightarrow> bool) \<Rightarrow> (string \<Rightarrow> string \<Rightarrow> bool) \<Rightarrow> string \<Rightarrow> timestamp \<Rightarrow> db \<Rightarrow> db" where
  "suspension_sweep flt flts p now d =
     (if flt ''ListPendingSuspension'' then d
      else fold (\<lambda>x. suspension_reconcileOne (flts (fst x)) now (fst x) (snd x)) (ListPendingSuspension p d) d)"

section \<open>Purges\<close>

definition purge_reconcileOne :: "(string \<Rightarrow> bool) \<Rightarrow> string \<Rightarrow> db \<Rightarrow> db" where
  "purge_reconcileOne flt i d =
     (if flt ''requests.DeleteForWorkflow'' then d
      else let d1 = request_DeleteForWorkflow i d
           in if flt ''versionMetrics.DeleteForWorkflow'' then d1
              else let d2 = version_DeleteForWorkflow i d1
                   in if flt ''PurgeDeleted'' then d2 else fst (PurgeDeleted i d2))"

definition purge_sweep :: "(string \<Rightarrow> bool) \<Rightarrow> (string \<Rightarrow> string \<Rightarrow> bool) \<Rightarrow> string \<Rightarrow> int \<Rightarrow> timestamp \<Rightarrow> db \<Rightarrow> db" where
  "purge_sweep flt flts p purgeAge now d =
     (if flt ''ListPurgeable'' then d
      else fold (\<lambda>i. purge_reconcileOne (flts i) i) (workflow_ListPurgeable p purgeAge now d) d)"

definition tenant_purge_sweep :: "(string \<Rightarrow> bool) \<Rightarrow> (string \<Rightarrow> bool) \<Rightarrow> string \<Rightarrow> db \<Rightarrow> db" where
  "tenant_purge_sweep flt purge_fails p d =
     (if flt ''ListPurgeable'' then d
      else fold (\<lambda>i d. if purge_fails i then d else fst (PurgeIfEmpty i d)) (tenant_ListPurgeable p d) d)"

section \<open>Periodic workflows\<close>

definition createPeriodicRequest ::
  "(string \<Rightarrow> bool) \<Rightarrow> (string \<Rightarrow> bool) \<Rightarrow> string \<Rightarrow> string \<Rightarrow> timestamp \<Rightarrow> string \<Rightarrow> workflow \<Rightarrow> db \<Rightarrow> db \<times> unit result" where
  "createPeriodicRequest flt sflt correlationID rid now i w d =
     (case resolve_params flt 0 i w False [(''correlationId'', JStr correlationID)] d of
        Inl e \<Rightarrow> (d, Inl e)
      | Inr info \<Rightarrow>
          if flt ''CreateDuePeriodicRequest'' then (d, Inl DbError)
          else case CreateDuePeriodicRequest rid (run_request i info) (secs (wc_repeat_every_seconds (w_config w))) now d of
            (d1, Inl e) \<Rightarrow> (d1, Inl e)
          | (d1, Inr None) \<Rightarrow> (d1, Inr ())
          | (d1, Inr (Some ver)) \<Rightarrow>
              (case ScheduleRequest sflt rid now d1 of
                 (d2, Inl Panic) \<Rightarrow> (d2, Inl Panic)
               | (d2, _) \<Rightarrow> (d2, Inr ())))"

definition periodic_sweep ::
  "(string \<Rightarrow> bool) \<Rightarrow> (string \<Rightarrow> string \<Rightarrow> bool) \<Rightarrow> (string \<Rightarrow> string) \<Rightarrow> (string \<Rightarrow> string) \<Rightarrow> string \<Rightarrow> timestamp \<Rightarrow> db \<Rightarrow> db" where
  "periodic_sweep flt flts corr rids p now d =
     (if flt ''GetDuePeriodicWorkflows'' then d
      else fold (\<lambda>x d. fst (createPeriodicRequest (flts (fst x)) (flts (fst x)) (corr (fst x)) (rids (fst x)) now (fst x) (snd x) d))
             (GetDuePeriodicWorkflows p now d) d)"

section \<open>A sweep handles each workflow by itself\<close>

text \<open>What the deletion of a workflow looks at: its row and its requests.\<close>

definition wf_view :: "string \<Rightarrow> db \<Rightarrow> workflow option \<times> (string, customer_request) table" where
  "wf_view i d = (wf_of d i, filter (\<lambda>x. r_workflow_id (snd x) = i) (db_requests d))"

lemma HasRunningRequest_view:
  "HasRunningRequest i d = list_ex (\<lambda>x. r_status (snd x) \<in> {RScheduled, RInProgress}) (snd (wf_view i d))"
  by (auto simp: HasRunningRequest_def exists_row_def wf_view_def list_ex_iff)

lemma abandoned_rows:
  "filter (\<lambda>x. r_workflow_id (snd x) = i) (db_requests (fst (AbandonQueuedRequests k None d))) =
     map (\<lambda>x. if k = i \<and> r_status (snd x) \<in> {RUnscheduled, RPaused} then (fst x, (snd x)\<lparr>r_status := RAbandoned\<rparr>) else x)
       (filter (\<lambda>x. r_workflow_id (snd x) = i) (db_requests d))"
proof -
  have "filter (\<lambda>x. r_workflow_id (snd x) = i) (upd_where (abandonable k None) (\<lambda>_ r. r\<lparr>r_status := RAbandoned\<rparr>) t) =
      map (\<lambda>x. if k = i \<and> r_status (snd x) \<in> {RUnscheduled, RPaused} then (fst x, (snd x)\<lparr>r_status := RAbandoned\<rparr>) else x)
        (filter (\<lambda>x. r_workflow_id (snd x) = i) t)" for t
  proof (induction t)
    case (Cons x t)
    obtain q r where x: "x = (q, r)" by (cases x)
    show ?case using Cons
      by (cases "r_workflow_id r = i"; cases "k = i") (simp_all add: x upd_where_def abandonable_def)
  qed (simp add: upd_where_def)
  then show ?thesis by (simp add: AbandonQueuedRequests_def upd_reqs_def)
qed

lemma wf_FinalizeDeleted:
  "wf_of (FinalizeDeleted k now d) i =
     (if i = k then map_option (\<lambda>w. if w_lifecycle_state w = LDeleted then w
        else (set_lifecycle_state LDeleted w)\<lparr>w_deletion_finalized_at := Some now\<rparr>) (wf_of d k) else wf_of d i)"
  by (auto simp: FinalizeDeleted_def Let_def row_simps split: option.split)

lemma requests_FinalizeDeleted [simp]: "db_requests (FinalizeDeleted k now d) = db_requests d"
  by (simp add: FinalizeDeleted_def Let_def split: option.split)

lemma abandon_workflows [simp]: "db_workflows (fst (AbandonQueuedRequests k ids d)) = db_workflows d"
  by (simp add: AbandonQueuedRequests_def)

lemma view_deletion_other: "k \<noteq> i \<Longrightarrow> wf_view i (deletion_reconcileOne flt now k d) = wf_view i d"
  by (simp add: deletion_reconcileOne_def Let_def wf_view_def wf_FinalizeDeleted abandoned_rows)

lemma running_after_abandon: "HasRunningRequest i (fst (AbandonQueuedRequests i None d)) = HasRunningRequest i d"
proof -
  have "list_ex (\<lambda>x. r_status (snd x) \<in> {RScheduled, RInProgress})
      (map (\<lambda>x. if r_status (snd x) \<in> {RUnscheduled, RPaused} then (fst x, (snd x)\<lparr>r_status := RAbandoned\<rparr>) else x) xs) =
    list_ex (\<lambda>x. r_status (snd x) \<in> {RScheduled, RInProgress}) xs" for xs :: "(string \<times> customer_request) list"
    by (induction xs) auto
  then show ?thesis by (simp add: HasRunningRequest_view wf_view_def abandoned_rows)
qed

text \<open>A fold over distinct keys whose steps leave the others' views alone acts on each view once.\<close>

lemma fold_view:
  assumes "\<And>k d. k \<noteq> i \<Longrightarrow> V (f k d) = V d" "distinct ks"
  shows "if i \<in> set ks then \<exists>d1. V d1 = V d \<and> V (fold f ks d) = V (f i d1) else V (fold f ks d) = V d"
  using assms(2)
proof (induction ks arbitrary: d)
  case (Cons k ks)
  show ?case
  proof (cases "k = i")
    case True
    then show ?thesis using Cons by auto
  next
    case False
    then show ?thesis using Cons.IH [of "f k d"] Cons.prems assms(1) [of k d] by auto
  qed
qed simp

lemma distinct_sel_keys: "pk t \<Longrightarrow> distinct (sel_keys g t)"
  by (simp add: pk_def sel_keys_def sel_where_def keys_def distinct_map_filter)

text \<open>What the purge of a workflow may touch: its row, requests, version metrics, agent states and job.\<close>

definition purge_view where
  "purge_view i d = (wf_of d i, filter (\<lambda>x. r_workflow_id (snd x) = i) (db_requests d),
     filter (\<lambda>x. fst (fst x) = i) (db_version_metrics d), filter (\<lambda>x. fst (fst x) = i) (db_agent_state d), job_of d i)"

lemma del_others: "k \<noteq> i \<Longrightarrow> filter (\<lambda>x. f x = i) (filter (\<lambda>x. f x \<noteq> k) t) = filter (\<lambda>x. f x = i) t"
  unfolding filter_filter by (rule filter_cong) auto

lemma map_of_del_key: "map_of (del_where (\<lambda>k' _. k' = k) t) i = (if i = k then None else map_of t i)"
  by (induction t) (auto simp: del_where_def)

lemma del_where_alt:
  "del_where (\<lambda>_ r. r_workflow_id r = i) t = filter (\<lambda>x. r_workflow_id (snd x) \<noteq> i) t"
  "del_where (\<lambda>(w, v, e) _. w = i) t1 = filter (\<lambda>x. fst (fst x) \<noteq> i) t1"
  "del_where (\<lambda>(w, a) _. w = i) t2 = filter (\<lambda>x. fst (fst x) \<noteq> i) t2"
  by (auto simp: del_where_def intro!: filter_cong)

lemmas purge_defs = purge_view_def request_DeleteForWorkflow_def version_DeleteForWorkflow_def

lemma purge_steps_other:
  assumes "k \<noteq> i"
  shows "purge_view i (request_DeleteForWorkflow k d) = purge_view i d"
    "purge_view i (version_DeleteForWorkflow k d) = purge_view i d"
    "purge_view i (fst (PurgeDeleted k d)) = purge_view i d"
  using assms
  by (simp_all add: purge_defs PurgeDeleted_def del_where_alt del_others map_of_del_key
      del: filter_filter split: option.split)

lemma purge_other: "k \<noteq> i \<Longrightarrow> purge_view i (purge_reconcileOne flt k d) = purge_view i d"
  by (simp add: purge_reconcileOne_def Let_def purge_steps_other)

lemma purge_own:
  assumes "wf_of d i = Some w" "w_lifecycle_state w = LDeleted" "job_of d i = None"
  shows "purge_view i (purge_reconcileOne (\<lambda>_. False) i d) = (None, [], [], [], None)"
proof -
  let ?d = "version_DeleteForWorkflow i (request_DeleteForWorkflow i d)"
  have "\<not> exists_row (\<lambda>_ r. r_workflow_id r = i) (db_requests ?d)" "\<not> exists_row (\<lambda>(w, v, e) _. w = i) (db_version_metrics ?d)"
    by (auto simp: purge_defs del_where_alt exists_row_def list_ex_iff)
  then have "fst (PurgeDeleted i ?d) = ?d\<lparr>db_workflows := del_where (\<lambda>k _. k = i) (db_workflows ?d),
      db_agent_state := del_where (\<lambda>(w, a) _. w = i) (db_agent_state ?d)\<rparr>"
    using assms by (simp add: PurgeDeleted_def purge_defs)
  then show ?thesis using assms(3)
    by (simp add: purge_reconcileOne_def Let_def purge_defs del_where_alt map_of_del_key)
qed

section \<open>Properties\<close>

text \<open>C37. Deletion waits for the run and then completes: for a workflow whose deletion is pending, one
  fault-free sweep abandons its queued requests and finalises the deletion exactly when no request of the
  workflow is running; while one runs, the workflow's row is left as it is.\<close>

theorem deletion_waits_for_run_then_completes:
  assumes "db_pk d" "wf_of d i = Some w" "w_scheduler_partition_id w = p" "w_deletion_requested_at w \<noteq> None"
    and "w_lifecycle_state w \<noteq> LDeleted" "d' = deletion_sweep (\<lambda>_. False) (\<lambda>_ _. False) p now d"
  shows "wf_of d' i = Some (if HasRunningRequest i d then w else (set_lifecycle_state LDeleted w)\<lparr>w_deletion_finalized_at := Some now\<rparr>) \<and>
    (\<nexists>q r. req_of d' q = Some r \<and> r_workflow_id r = i \<and> (r_status r = RUnscheduled \<or> r_status r = RPaused))"
proof -
  let ?f = "\<lambda>i. deletion_reconcileOne (\<lambda>_. False) now i"
  have pk: "pk (db_workflows d)" using assms(1) by (simp add: db_pk_def)
  then have "i \<in> set (ListPendingDeletion p d)" using assms(2-5) by (simp add: ListPendingDeletion_def in_sel_keys)
  then obtain d1 where v: "wf_view i d1 = wf_view i d" "wf_view i d' = wf_view i (?f i d1)"
    using fold_view [of i "wf_view i" ?f "ListPendingDeletion p d" d] view_deletion_other distinct_sel_keys [OF pk] assms(6)
    by (auto simp: deletion_sweep_def ListPendingDeletion_def)
  have run: "HasRunningRequest i d1 = HasRunningRequest i d" using v(1) by (simp add: HasRunningRequest_view)
  have "fst (wf_view i (?f i d1)) = Some (if HasRunningRequest i d then w else (set_lifecycle_state LDeleted w)\<lparr>w_deletion_finalized_at := Some now\<rparr>)"
    using v(1) assms(2,5) run
    by (simp add: deletion_reconcileOne_def Let_def wf_view_def wf_FinalizeDeleted running_after_abandon)
  moreover have "snd (wf_view i (?f i d1)) = map (\<lambda>x. if r_status (snd x) \<in> {RUnscheduled, RPaused} then (fst x, (snd x)\<lparr>r_status := RAbandoned\<rparr>) else x)
      (snd (wf_view i d1))"
    by (simp add: deletion_reconcileOne_def Let_def wf_view_def abandoned_rows)
  then have "\<forall>x\<in>set (snd (wf_view i d')). r_status (snd x) \<notin> {RUnscheduled, RPaused}" using v(2) by auto
  ultimately show ?thesis using v(2) by (fastforce simp: wf_view_def dest: map_of_SomeD)
qed

theorem deletion_waits_for_run_then_completes_witness:
  "let d = (sample_db RPaused (sample_job JRunning None None))\<lparr>db_workflows := [(''w'', sample_wf\<lparr>w_deletion_requested_at := Some 3\<rparr>)]\<rparr>
   in map_option w_lifecycle_state (wf_of (deletion_sweep (\<lambda>_. False) (\<lambda>_ _. False) ''0'' 9 d) ''w'') = Some LDeleted"
proof -
  let ?w = "sample_wf\<lparr>w_deletion_requested_at := Some 3\<rparr>"
  let ?d = "(sample_db RPaused (sample_job JRunning None None))\<lparr>db_workflows := [(''w'', ?w)]\<rparr>"
  have pk: "db_pk ?d" by (simp add: db_pk_def sample_row_defs pk_def keys_def)
  have row: "wf_of ?d ''w'' = Some ?w" by simp
  have norun: "\<not> HasRunningRequest ''w'' ?d" by code_simp
  have part: "w_scheduler_partition_id ?w = ''0''" by (simp add: sample_wf_def)
  have req: "w_deletion_requested_at ?w \<noteq> None" by simp
  have state: "w_lifecycle_state ?w \<noteq> LDeleted" by (simp add: sample_wf_def)
  have "wf_of (deletion_sweep (\<lambda>_. False) (\<lambda>_ _. False) ''0'' 9 ?d) ''w'' =
      Some ((set_lifecycle_state LDeleted ?w)\<lparr>w_deletion_finalized_at := Some 9\<rparr>)"
    using deletion_waits_for_run_then_completes [OF pk row part req state refl, of 9] norun by simp
  then show ?thesis by (simp add: Let_def set_lifecycle_state_def)
qed

text \<open>C38. The purge removes exactly the workflows whose deletion was finalised longer ago than the purge
  age: whatever calls fail, a sweep leaves the row, the requests, the version metrics, the agent states and the
  job of every other workflow as they were; and a workflow past the age that has no job row loses all of them
  when none of its calls fails.\<close>

theorem purge_removes_exactly_expired_deletions:
  assumes "db_pk d" "wf_of d i = Some w"
    and "expired \<longleftrightarrow> w_scheduler_partition_id w = p \<and> w_lifecycle_state w = LDeleted \<and>
           ts_before (w_deletion_finalized_at w) (now - age)"
    and "d' = purge_sweep flt flts p age now d"
  shows "(\<not> expired \<longrightarrow> purge_view i d' = purge_view i d) \<and>
    (expired \<and> job_of d i = None \<and> flt = (\<lambda>_. False) \<and> flts i = (\<lambda>_. False) \<longrightarrow> purge_view i d' = (None, [], [], [], None))"
proof -
  let ?f = "\<lambda>i. purge_reconcileOne (flts i) i" and ?ks = "workflow_ListPurgeable p age now d"
  have pk: "pk (db_workflows d)" using assms(1) by (simp add: db_pk_def)
  then have mem: "i \<in> set ?ks \<longleftrightarrow> expired" using assms(2,3) by (simp add: workflow_ListPurgeable_def in_sel_keys)
  have fold: "if i \<in> set ?ks then \<exists>d1. purge_view i d1 = purge_view i d \<and> purge_view i (fold ?f ?ks d) = purge_view i (?f i d1)
      else purge_view i (fold ?f ?ks d) = purge_view i d"
    using fold_view [of i "purge_view i" ?f ?ks d] purge_other distinct_sel_keys [OF pk] by (auto simp: workflow_ListPurgeable_def)
  show ?thesis
  proof (intro conjI impI)
    assume "\<not> expired"
    then show "purge_view i d' = purge_view i d" using fold mem assms(4) by (simp add: purge_sweep_def)
  next
    assume a: "expired \<and> job_of d i = None \<and> flt = (\<lambda>_. False) \<and> flts i = (\<lambda>_. False)"
    then obtain d1 where v: "purge_view i d1 = purge_view i d" "purge_view i d' = purge_view i (?f i d1)"
      using fold mem assms(4) by (auto simp: purge_sweep_def)
    have "wf_of d1 i = Some w" "job_of d1 i = None" using v(1) a assms(2) by (simp_all add: purge_view_def)
    then show "purge_view i d' = (None, [], [], [], None)" using purge_own [of d1 i w] v(2) a assms(3) by simp
  qed
qed

theorem purge_removes_exactly_expired_deletions_witness:
  "let d = (sample_db RPaused (sample_job JRunning None None))\<lparr>
       db_workflows := [(''w'', (set_lifecycle_state LDeleted sample_wf)\<lparr>w_deletion_finalized_at := Some 3\<rparr>)], db_jobs := []\<rparr>
   in wf_of (purge_sweep (\<lambda>_. False) (\<lambda>_ _. False) ''0'' 5 9 d) ''w'' = None \<and>
      wf_of (purge_sweep (\<lambda>_. False) (\<lambda>_ _. False) ''0'' 7 9 d) ''w'' \<noteq> None"
proof -
  let ?w = "(set_lifecycle_state LDeleted sample_wf)\<lparr>w_deletion_finalized_at := Some 3\<rparr>"
  let ?d = "(sample_db RPaused (sample_job JRunning None None))\<lparr>db_workflows := [(''w'', ?w)], db_jobs := []\<rparr>"
  have pk: "db_pk ?d" by (simp add: db_pk_def sample_row_defs pk_def keys_def)
  have row: "wf_of ?d ''w'' = Some ?w" by simp
  have "purge_view ''w'' (purge_sweep (\<lambda>_. False) (\<lambda>_ _. False) ''0'' 5 9 ?d) = (None, [], [], [], None)"
    using purge_removes_exactly_expired_deletions [OF pk row refl refl, of "''0''" 9 5 "\<lambda>_. False" "\<lambda>_ _. False"]
    by (simp add: sample_wf_def ts_before_def set_lifecycle_state_def)
  moreover have "purge_view ''w'' (purge_sweep (\<lambda>_. False) (\<lambda>_ _. False) ''0'' 7 9 ?d) = purge_view ''w'' ?d"
    using purge_removes_exactly_expired_deletions [OF pk row refl refl, of "''0''" 9 7 "\<lambda>_. False" "\<lambda>_ _. False"]
    by (simp add: sample_wf_def ts_before_def set_lifecycle_state_def)
  ultimately show ?thesis by (simp add: Let_def purge_view_def)
qed

end
