(* ===== verification/Handlers.thy ===== *)
theory Handlers
  imports Views Auth LifecycleService Reconcilers
begin

text \<open>
  The gRPC handlers, \<open>src/internal/server/handlers\<close>: argument checks, ownership checks, the call of the service,
  and the mapping of errors to status codes, for every RPC of the workflow and registration services; and the
  dispatch behind the authenticating interceptor that \<open>src/internal/server/server.go\<close> registers. The fields of a
  request message are arguments; the environment of a call holds the injected faults, the fresh identifier, the
  clock and the configuration of the services.
\<close>

record rpc_env =
  ev_flt :: "string \<Rightarrow> bool"
  ev_sflt :: "string \<Rightarrow> bool"
  ev_uid :: string
  ev_now :: timestamp
  ev_min_repeat :: int
  ev_partitions :: int

record pb_metrics =
  pbm_version :: int
  pbm_total_cost :: float64
  pbm_run_count :: int
  pbm_total_failures :: int
  pbm_total_llm_calls :: int
  pbm_total_latency_seconds :: float64
  pbm_total_approval_rejections :: int
  pbm_tool_failure_counts :: "(string \<times> int) list"

datatype response =
    REmpty
  | RWorkflow pb_workflow
  | RWorkflows "pb_workflow list"
  | RRequestId string
  | RSuspensionId string
  | RRequestIds "string list"
  | RPolicy "pb_policy_rule option list option"
  | RAgents "pb_agent list"
  | RStruct json_map
  | RRuns "pb_run list"
  | RRequest pb_request_info
  | RMetrics pb_metrics
  | RApprovals "pb_approval_audit list"
  | RApproval "pb_approval_audit option"
  | RInputs "pb_input_audit list"
  | RPolicyAudits "pb_policy_audit list"
  | RAgentAudits "pb_agent_policy_audit list"
  | RAuditLog "pb_audit_entry list"
  | RPricing model_pricing
  | RPricings "model_pricing list"
  | RGroup pb_tenant_group
  | RTenant pb_tenant
  | RTenants "pb_tenant list"

type_synonym answer = "db \<times> response reply"

section \<open>Forwarding methods of the services\<close>

definition GetWorkflow :: "(string \<Rightarrow> bool) \<Rightarrow> string \<Rightarrow> db \<Rightarrow> workflow result" where
  "GetWorkflow flt i d = (if flt ''Get'' then Inl DbError else workflow_Get i d)"

definition ListWorkflows :: "(string \<Rightarrow> bool) \<Rightarrow> string \<Rightarrow> db \<Rightarrow> (string \<times> workflow) list result" where
  "ListWorkflows flt g d = (if flt ''ListForTenantGroup'' then Inl DbError else Inr (workflow_ListForTenantGroup g d))"

definition service_TenantGroupIDForWorkflow :: "(string \<Rightarrow> bool) \<Rightarrow> string \<Rightarrow> db \<Rightarrow> string result" where
  "service_TenantGroupIDForWorkflow flt i d = (if flt ''owner'' then Inl DbError else TenantGroupIDForWorkflow i d)"

definition GetApprovalAuditByID :: "(string \<Rightarrow> bool) \<Rightarrow> string \<Rightarrow> string \<Rightarrow> db \<Rightarrow> (string \<times> audit_event) option result" where
  "GetApprovalAuditByID flt g gid d = (if flt ''GetApprovalByID'' then Inl DbError else Inr (GetApprovalByID g gid d))"

definition GetTenantGroup :: "(string \<Rightarrow> bool) \<Rightarrow> string \<Rightarrow> db \<Rightarrow> tenant_group result" where
  "GetTenantGroup flt i d = (if flt ''Get'' then Inl DbError else group_Get i d)"

definition DeleteTenantGroup :: "(string \<Rightarrow> bool) \<Rightarrow> string \<Rightarrow> db \<Rightarrow> db \<times> unit result" where
  "DeleteTenantGroup flt i d = (if flt ''Delete'' then (d, Inl DbError) else group_Delete i d)"

definition GetTenant :: "(string \<Rightarrow> bool) \<Rightarrow> string \<Rightarrow> db \<Rightarrow> tenant result" where
  "GetTenant flt i d = (if flt ''tenants.Get'' then Inl DbError else tenant_Get i d)"

definition ListTenants :: "(string \<Rightarrow> bool) \<Rightarrow> string \<Rightarrow> db \<Rightarrow> (string \<times> tenant) list result" where
  "ListTenants flt g d = (if flt ''ListForTenantGroup'' then Inl DbError else Inr (tenant_ListForTenantGroup g d))"

section \<open>Errors as status codes\<close>

text \<open>
  A handler compares the error with sentinels (\<open>errors.Is\<close>), each with a code and a text (\<open>None\<close>: the error
  itself is printed), and falls back to Internal. A panic of the service is not an error value.
\<close>

definition status_of :: "(error \<times> code \<times> string option) list \<Rightarrow> string \<Rightarrow> error \<Rightarrow> rpc_error" where
  "status_of cases op e =
     (if e = Panic then Crashed
      else case map_of cases e of
        Some (c, Some t) \<Rightarrow> Status c (Text t)
      | Some (c, None) \<Rightarrow> Status c (Fmt [] e)
      | None \<Rightarrow> Status Internal (Fmt op e))"

definition answer_with :: "(error \<times> code \<times> string option) list \<Rightarrow> string \<Rightarrow> ('a \<Rightarrow> response) \<Rightarrow> db \<times> 'a result \<Rightarrow> answer" where
  "answer_with cases op f x = (fst x, case snd x of Inl e \<Rightarrow> Inl (status_of cases op e) | Inr v \<Rightarrow> Inr (f v))"

definition invalid :: "string \<Rightarrow> db \<Rightarrow> answer" where
  "invalid t d = (d, Inl (Status InvalidArgument (Text t)))"

abbreviation wf_missing :: "error \<times> code \<times> string option" where
  "wf_missing \<equiv> (ErrNotFound, NotFound, Some ''workflow instance not found'')"

abbreviation tenant_missing :: "error \<times> code \<times> string option" where
  "tenant_missing \<equiv> (ErrNotFound, NotFound, Some ''tenant not found'')"

section \<open>Ownership\<close>

definition checkWorkflowOwner :: "rpc_env \<Rightarrow> caller \<Rightarrow> string \<Rightarrow> db \<Rightarrow> unit reply" where
  "checkWorkflowOwner ev ctx i d =
     (case TenantGroupFromContext ctx of
        None \<Rightarrow> Inl (Status Unauthenticated (Text ''missing auth''))
      | Some g \<Rightarrow>
          (case service_TenantGroupIDForWorkflow (ev_flt ev) i d of
             Inl e \<Rightarrow> Inl (status_of [wf_missing] ''check workflow owner: '' e)
           | Inr owner \<Rightarrow> if owner \<noteq> g then Inl (Status NotFound (Text ''workflow instance not found'')) else Inr ()))"

definition checkTenantOwner :: "rpc_env \<Rightarrow> caller \<Rightarrow> string \<Rightarrow> db \<Rightarrow> unit reply" where
  "checkTenantOwner ev ctx t d =
     (case TenantGroupFromContext ctx of
        None \<Rightarrow> Inl (Status Unauthenticated (Text ''missing auth''))
      | Some g \<Rightarrow>
          (case TenantGroupIDForTenant (ev_flt ev) t d of
             Inl e \<Rightarrow> Inl (status_of [tenant_missing] ''check tenant owner: '' e)
           | Inr owner \<Rightarrow> if owner \<noteq> g then Inl (Status NotFound (Text ''tenant not found'')) else Inr ()))"

definition callerTenantGroup :: "caller \<Rightarrow> string reply" where
  "callerTenantGroup ctx =
     (case TenantGroupFromContext ctx of None \<Rightarrow> Inl (Status Unauthenticated (Text ''missing auth'')) | Some g \<Rightarrow> Inr g)"

text \<open>The shape of the handlers that act on one workflow, and of those scoped by the caller's group.\<close>

definition as_owner :: "rpc_env \<Rightarrow> caller \<Rightarrow> string \<Rightarrow> db \<Rightarrow> answer \<Rightarrow> answer" where
  "as_owner ev ctx i d k = (case checkWorkflowOwner ev ctx i d of Inl e \<Rightarrow> (d, Inl e) | Inr _ \<Rightarrow> k)"

definition as_group :: "caller \<Rightarrow> db \<Rightarrow> (string \<Rightarrow> answer) \<Rightarrow> answer" where
  "as_group ctx d k = (case callerTenantGroup ctx of Inl e \<Rightarrow> (d, Inl e) | Inr g \<Rightarrow> k g)"

section \<open>The workflow service: changing state\<close>

definition rpc_CreateWorkflow ::
  "rpc_env \<Rightarrow> caller \<Rightarrow> string \<Rightarrow> string \<Rightarrow> pb_workflow_config option \<Rightarrow> db \<Rightarrow> answer" where
  "rpc_CreateWorkflow ev ctx typ tid cfg d =
     (if typ = [] then invalid ''workflow_type is required'' d
      else if tid = [] then invalid ''tenant_id is required'' d
      else case checkTenantOwner ev ctx tid d of
        Inl e \<Rightarrow> (d, Inl e)
      | Inr _ \<Rightarrow>
          answer_with [(ErrAlreadyExists, AlreadyExists, Some ''workflow instance already exists''),
              (ErrTenantDeleted, FailedPrecondition, Some ''tenant has been deleted''), tenant_missing,
              (ErrInvalidRepeatInterval, InvalidArgument, None)]
            ''create workflow: '' (\<lambda>w. RWorkflow (WorkflowToProto (ev_uid ev) w))
            (CreateWorkflow (ev_flt ev) (ev_min_repeat ev) (ev_partitions ev) (ev_uid ev) typ tid (WorkflowConfigFromProto cfg)
               (case cfg of None \<Rightarrow> 0 | Some p \<Rightarrow> pbc_version p) (ev_now ev) d))"

definition rpc_SetWorkflowConfig :: "rpc_env \<Rightarrow> caller \<Rightarrow> string \<Rightarrow> pb_workflow_config option \<Rightarrow> db \<Rightarrow> answer" where
  "rpc_SetWorkflowConfig ev ctx i cfg d =
     (if i = [] then invalid ''workflow_id is required'' d
      else as_owner ev ctx i d
        (case SetWorkflowConfig (ev_flt ev) (ev_min_repeat ev) i (WorkflowConfigFromProto cfg)
                (case cfg of None \<Rightarrow> 0 | Some p \<Rightarrow> pbc_version p) d of
           (d1, Inl e) \<Rightarrow> (d1, Inl (status_of [(ErrInvalidRepeatInterval, InvalidArgument, None)] ''set workflow config: '' e))
         | (d1, Inr _) \<Rightarrow>
             answer_with [] ''get workflow after config update: '' (\<lambda>w. RWorkflow (WorkflowToProto i w)) (d1, GetWorkflow (ev_flt ev) i d1)))"

definition rpc_InvokeWorkflow ::
  "rpc_env \<Rightarrow> caller \<Rightarrow> string \<Rightarrow> string \<Rightarrow> int option \<Rightarrow> json_map option \<Rightarrow> db \<Rightarrow> answer" where
  "rpc_InvokeWorkflow ev ctx cid i overrides initial d =
     (if i = [] then invalid ''workflow_id is required'' d
      else as_owner ev ctx i d
        (answer_with [wf_missing, (ErrInvalidLifecycleState, FailedPrecondition, None),
             (ErrMissingRuntimeParams, InvalidArgument, None), (ErrInvalidWorkflowState, FailedPrecondition, None),
             (ErrQueueFull, ResourceExhausted, None)]
           ''invoke workflow: '' RRequestId
           (InvokeWorkflow (ev_flt ev) (ev_sflt ev) (ev_uid ev) cid i (case overrides of None \<Rightarrow> 0 | Some t \<Rightarrow> t)
              (case initial of None \<Rightarrow> [] | Some m \<Rightarrow> m) (ev_now ev) d)))"

definition rpc_DeleteWorkflow :: "rpc_env \<Rightarrow> caller \<Rightarrow> string \<Rightarrow> db \<Rightarrow> answer" where
  "rpc_DeleteWorkflow ev ctx i d =
     (if i = [] then invalid ''workflow_id is required'' d
      else as_owner ev ctx i d
        (answer_with [wf_missing, (ErrDeletionAlreadyRequested, FailedPrecondition, None)] ''delete workflow: '' (\<lambda>_. REmpty)
           (DeleteWorkflow (ev_flt ev) i (ev_now ev) d)))"

text \<open>Without an id of the caller's own, the hold gets a fresh one.\<close>

definition rpc_SuspendWorkflow :: "rpc_env \<Rightarrow> caller \<Rightarrow> string \<Rightarrow> string \<Rightarrow> bool \<Rightarrow> string \<Rightarrow> db \<Rightarrow> answer" where
  "rpc_SuspendWorkflow ev ctx i sid stop reason d =
     (if i = [] then invalid ''workflow_id is required'' d
      else as_owner ev ctx i d
        (let suspensionID = (if sid = [] then ev_uid ev else sid)
         in answer_with [wf_missing, (ErrSuspensionAlreadyRequested, FailedPrecondition, None)] ''suspend workflow: ''
              (\<lambda>_. RSuspensionId suspensionID) (SuspendWorkflow (ev_flt ev) suspensionID i stop reason (ev_now ev) d)))"

definition rpc_AbandonQueuedRequests :: "rpc_env \<Rightarrow> caller \<Rightarrow> string \<Rightarrow> string list \<Rightarrow> bool \<Rightarrow> db \<Rightarrow> answer" where
  "rpc_AbandonQueuedRequests ev ctx i ids all d =
     (if i = [] then invalid ''workflow_id is required'' d
      else if all = (ids \<noteq> []) then invalid ''exactly one of request_ids or all is required'' d
      else as_owner ev ctx i d
        (answer_with [wf_missing] ''abandon queued requests: '' RRequestIds
           (service_AbandonQueuedRequests (ev_flt ev) i (if ids = [] then None else Some ids) d)))"

definition rpc_ResumeWorkflow :: "rpc_env \<Rightarrow> caller \<Rightarrow> string \<Rightarrow> string \<Rightarrow> db \<Rightarrow> answer" where
  "rpc_ResumeWorkflow ev ctx i sid d =
     (if i = [] then invalid ''workflow_id is required'' d
      else if sid = [] then invalid ''suspension_id is required'' d
      else as_owner ev ctx i d
        (answer_with [wf_missing, (ErrInvalidLifecycleState, FailedPrecondition, Some ''workflow is not resumable for that suspension id'')]
           ''resume workflow: '' (\<lambda>_. REmpty) (ResumeWorkflow (ev_flt ev) i sid (ev_now ev) d)))"

definition rpc_ActivateWorkflow :: "rpc_env \<Rightarrow> caller \<Rightarrow> string \<Rightarrow> string \<Rightarrow> db \<Rightarrow> answer" where
  "rpc_ActivateWorkflow ev ctx i rid d =
     (if i = [] then invalid ''workflow_id is required'' d
      else as_owner ev ctx i d
        (answer_with [(ErrActivateMismatch, FailedPrecondition, None)] ''activate workflow: '' (\<lambda>_. REmpty)
           (ActivateWorkflow (ev_flt ev) i rid d)))"

definition rpc_ResolveInterruptedWorkflow :: "rpc_env \<Rightarrow> caller \<Rightarrow> string \<Rightarrow> string \<Rightarrow> db \<Rightarrow> answer" where
  "rpc_ResolveInterruptedWorkflow ev ctx i rid d =
     (if i = [] then invalid ''workflow_id is required'' d
      else if rid = [] then invalid ''request_id is required'' d
      else as_owner ev ctx i d
        (answer_with [(ErrNotInterrupted, FailedPrecondition, None)] ''resolve interrupted workflow: '' (\<lambda>_. REmpty)
           (service_ResolveInterruptedWorkflow (ev_flt ev) i rid d)))"

definition rpc_ApproveWorkflow :: "rpc_env \<Rightarrow> caller \<Rightarrow> string \<Rightarrow> string \<Rightarrow> string \<Rightarrow> string \<Rightarrow> db \<Rightarrow> answer" where
  "rpc_ApproveWorkflow ev ctx i gid actor reason d =
     (if i = [] then invalid ''workflow_id is required'' d
      else if gid = [] then invalid ''approval_id is required'' d
      else as_owner ev ctx i d
        (answer_with [(ErrInvalidWorkflowState, FailedPrecondition, None)] ''approve workflow: '' (\<lambda>_. REmpty)
           (ApproveWorkflow (ev_flt ev) (ev_uid ev) i gid actor reason (ev_now ev) d)))"

definition rpc_RejectWorkflow :: "rpc_env \<Rightarrow> caller \<Rightarrow> string \<Rightarrow> string \<Rightarrow> string \<Rightarrow> string \<Rightarrow> db \<Rightarrow> answer" where
  "rpc_RejectWorkflow ev ctx i gid actor reason d =
     (if i = [] then invalid ''workflow_id is required'' d
      else if gid = [] then invalid ''approval_id is required'' d
      else as_owner ev ctx i d
        (answer_with [(ErrInvalidWorkflowState, FailedPrecondition, None)] ''reject workflow: '' (\<lambda>_. REmpty)
           (RejectWorkflow (ev_flt ev) (ev_uid ev) i gid actor reason (ev_now ev) d)))"

definition rpc_SubmitInput :: "rpc_env \<Rightarrow> caller \<Rightarrow> string \<Rightarrow> string \<Rightarrow> json_map option \<Rightarrow> string \<Rightarrow> db \<Rightarrow> answer" where
  "rpc_SubmitInput ev ctx i gid reply actor d =
     (if i = [] then invalid ''workflow_id is required'' d
      else if gid = [] then invalid ''input_id is required'' d
      else as_owner ev ctx i d
        (answer_with [(ErrInvalidWorkflowState, FailedPrecondition, None)] ''submit input: '' (\<lambda>_. REmpty)
           (SubmitInput (ev_flt ev) (ev_uid ev) i gid reply actor (ev_now ev) d)))"

section \<open>Policies\<close>

definition rpc_SetAgentRuntimePolicy :: "rpc_env \<Rightarrow> caller \<Rightarrow> string \<Rightarrow> string \<Rightarrow> json_map option \<Rightarrow> db \<Rightarrow> answer" where
  "rpc_SetAgentRuntimePolicy ev ctx i a p d =
     (if i = [] then invalid ''workflow_id is required'' d
      else if a = [] then invalid ''agent_name is required'' d
      else as_owner ev ctx i d
        (answer_with [] ''set agent runtime policy: '' (\<lambda>_. REmpty)
           (SetAgentRuntimePolicy (ev_flt ev) i a (case p of None \<Rightarrow> [] | Some m \<Rightarrow> m) d)))"

text \<open>The rules of an agent policy: every one needs a window in (0, MaxLifecycleWindow].\<close>

definition validate_agent_rule :: "json \<Rightarrow> string option" where
  "validate_agent_rule r = (case r of
       JObj rule \<Rightarrow>
         (case map_of rule ''window'' of
            None \<Rightarrow> Some ''window is required''
          | Some (JNum w) \<Rightarrow> if w \<le> 0 then Some ''window must be > 0''
              else if w > of_int MaxLifecycleWindow then Some ''window must be <= 100'' else None
          | Some _ \<Rightarrow> Some ''window must be a number'')
     | _ \<Rightarrow> Some ''must be an object'')"

fun validate_agent_rules :: "int \<Rightarrow> json list \<Rightarrow> message option" where
  "validate_agent_rules n [] = None"
| "validate_agent_rules n (r # rs) = (case validate_agent_rule r of
       Some t \<Rightarrow> Some (RuleText n t) | None \<Rightarrow> validate_agent_rules (n + 1) rs)"

definition ValidateAgentLifecycleRules :: "json_map \<Rightarrow> message option" where
  "ValidateAgentLifecycleRules policy = (case map_of policy ''rules'' of
       None \<Rightarrow> None
     | Some (JArr rules) \<Rightarrow> validate_agent_rules 0 rules
     | Some _ \<Rightarrow> Some (Text ''rules must be an array''))"

definition rpc_SetAgentLifecyclePolicy :: "rpc_env \<Rightarrow> caller \<Rightarrow> string \<Rightarrow> string \<Rightarrow> json_map option \<Rightarrow> db \<Rightarrow> answer" where
  "rpc_SetAgentLifecyclePolicy ev ctx i a p d =
     (if i = [] then invalid ''workflow_id is required'' d
      else if a = [] then invalid ''agent_name is required'' d
      else as_owner ev ctx i d
        (let policy = (case p of None \<Rightarrow> [] | Some m \<Rightarrow> m)
         in case ValidateAgentLifecycleRules policy of
              Some m \<Rightarrow> (d, Inl (Status InvalidArgument m))
            | None \<Rightarrow> answer_with [] ''set agent lifecycle policy: '' (\<lambda>_. REmpty) (SetAgentLifecyclePolicy (ev_flt ev) i a policy d)))"

definition rpc_DeleteAgent :: "rpc_env \<Rightarrow> caller \<Rightarrow> string \<Rightarrow> string \<Rightarrow> db \<Rightarrow> answer" where
  "rpc_DeleteAgent ev ctx i a d =
     (if i = [] then invalid ''workflow_id is required'' d
      else if a = [] then invalid ''agent_name is required'' d
      else as_owner ev ctx i d (answer_with [] ''delete agent: '' (\<lambda>_. REmpty) (DeleteAgent (ev_flt ev) i a d)))"

text \<open>A windowed rule of a workflow policy needs a window in 1..MaxLifecycleWindow; a nil rule would be dereferenced.\<close>

fun validate_workflow_rules :: "int \<Rightarrow> pb_policy_rule option list \<Rightarrow> rpc_error option" where
  "validate_workflow_rules n [] = None"
| "validate_workflow_rules n (None # rs) = Some Crashed"
| "validate_workflow_rules n (Some r # rs) = (case pbr_action r of
       None \<Rightarrow> Some (Status InvalidArgument (RuleText n ''action is required''))
     | Some a \<Rightarrow>
         if pba_type a \<noteq> PaSetVersion \<and> pbr_window r \<le> 0 then Some (Status InvalidArgument (RuleText n ''window must be > 0 for %s actions''))
         else if pba_type a \<noteq> PaSetVersion \<and> pbr_window r > MaxLifecycleWindow then Some (Status InvalidArgument (RuleText n ''window must be <= 100''))
         else validate_workflow_rules (n + 1) rs)"

definition rpc_SetWorkflowLifecyclePolicy :: "rpc_env \<Rightarrow> caller \<Rightarrow> string \<Rightarrow> pb_policy_rule option list option \<Rightarrow> db \<Rightarrow> answer" where
  "rpc_SetWorkflowLifecyclePolicy ev ctx i p d =
     (if i = [] then invalid ''workflow_id is required'' d
      else case validate_workflow_rules 0 (case p of None \<Rightarrow> [] | Some rs \<Rightarrow> rs) of
        Some e \<Rightarrow> (d, Inl e)
      | None \<Rightarrow> as_owner ev ctx i d
          (answer_with [wf_missing] ''set workflow lifecycle policy: '' (\<lambda>_. REmpty)
             (SetWorkflowLifecyclePolicy (ev_flt ev) i (WorkflowLifecyclePolicyFromProto p) d)))"
section \<open>Reads of one workflow\<close>

definition rpc_GetWorkflow :: "rpc_env \<Rightarrow> caller \<Rightarrow> string \<Rightarrow> db \<Rightarrow> answer" where
  "rpc_GetWorkflow ev ctx i d =
     (if i = [] then invalid ''workflow_id is required'' d
      else as_owner ev ctx i d
        (answer_with [wf_missing] ''get workflow state: '' (\<lambda>w. RWorkflow (WorkflowToProto i w)) (d, GetWorkflow (ev_flt ev) i d)))"

definition rpc_GetWorkflowLifecyclePolicy :: "rpc_env \<Rightarrow> caller \<Rightarrow> string \<Rightarrow> db \<Rightarrow> answer" where
  "rpc_GetWorkflowLifecyclePolicy ev ctx i d =
     (if i = [] then invalid ''workflow_id is required'' d
      else as_owner ev ctx i d
        (answer_with [wf_missing] ''get workflow lifecycle policy: '' (\<lambda>p. RPolicy (WorkflowLifecyclePolicyToProto p))
           (d, GetWorkflowLifecyclePolicy (ev_flt ev) i d)))"

definition rpc_ListAgents :: "rpc_env \<Rightarrow> caller \<Rightarrow> string \<Rightarrow> db \<Rightarrow> answer" where
  "rpc_ListAgents ev ctx i d =
     (if i = [] then invalid ''workflow_id is required'' d
      else as_owner ev ctx i d
        (answer_with [] ''list agents: '' (\<lambda>as. RAgents (map (\<lambda>(a, st). AgentStateToProto a st) as)) (d, ListAgents (ev_flt ev) i d)))"

definition rpc_GetAgentRuntimePolicy :: "rpc_env \<Rightarrow> caller \<Rightarrow> string \<Rightarrow> string \<Rightarrow> db \<Rightarrow> answer" where
  "rpc_GetAgentRuntimePolicy ev ctx i a d =
     (if i = [] then invalid ''workflow_id is required'' d
      else if a = [] then invalid ''agent_name is required'' d
      else as_owner ev ctx i d
        (answer_with [] ''get agent runtime policy: '' (\<lambda>p. RStruct (new_struct p)) (d, GetAgentRuntimePolicy (ev_flt ev) i a d)))"

definition rpc_GetAgentLifecyclePolicy :: "rpc_env \<Rightarrow> caller \<Rightarrow> string \<Rightarrow> string \<Rightarrow> db \<Rightarrow> answer" where
  "rpc_GetAgentLifecyclePolicy ev ctx i a d =
     (if i = [] then invalid ''workflow_id is required'' d
      else if a = [] then invalid ''agent_name is required'' d
      else as_owner ev ctx i d
        (answer_with [] ''get agent lifecycle policy: '' (\<lambda>p. RStruct (new_struct p)) (d, GetAgentLifecyclePolicy (ev_flt ev) i a d)))"

definition rpc_ListWorkflowRuns :: "rpc_env \<Rightarrow> caller \<Rightarrow> string \<Rightarrow> db \<Rightarrow> answer" where
  "rpc_ListWorkflowRuns ev ctx i d =
     (if i = [] then invalid ''workflow_id is required'' d
      else as_owner ev ctx i d
        (answer_with [] ''list workflow runs: '' (\<lambda>rs. RRuns (map (\<lambda>(q, r). RunToProto q r) rs)) (d, ListWorkflowRuns (ev_flt ev) i d)))"

text \<open>The request is read first; the ownership of its workflow is checked afterwards.\<close>

definition rpc_GetRequestInfo :: "rpc_env \<Rightarrow> caller \<Rightarrow> string \<Rightarrow> db \<Rightarrow> answer" where
  "rpc_GetRequestInfo ev ctx rid d =
     (if rid = [] then invalid ''request_id is required'' d
      else case GetRequestInfo (ev_flt ev) rid d of
        Inl e \<Rightarrow> (d, Inl (status_of [(ErrNotFound, NotFound, Some ''request not found'')] ''get request info: '' e))
      | Inr r \<Rightarrow> as_owner ev ctx (r_workflow_id r) d (d, Inr (RRequest (RequestInfoToProto rid r))))"

definition metrics_answer :: "workflow_version_metrics \<Rightarrow> response" where
  "metrics_answer m = RMetrics \<lparr>pbm_version = int32 (v_version m), pbm_total_cost = v_total_cost m,
     pbm_run_count = int32 (v_run_count m), pbm_total_failures = int32 (v_total_failures m),
     pbm_total_llm_calls = int32 (v_total_llm_calls m), pbm_total_latency_seconds = v_total_latency_seconds m,
     pbm_total_approval_rejections = int32 (v_total_approval_rejections m),
     pbm_tool_failure_counts = map (\<lambda>(t, n). (t, int32 n)) (v_tool_failure_counts m)\<rparr>"

definition rpc_GetWorkflowMetrics :: "rpc_env \<Rightarrow> caller \<Rightarrow> string \<Rightarrow> db \<Rightarrow> answer" where
  "rpc_GetWorkflowMetrics ev ctx i d =
     (if i = [] then invalid ''workflow_id is required'' d
      else as_owner ev ctx i d
        (answer_with [wf_missing] ''get workflow metrics: '' metrics_answer (d, GetWorkflowMetrics (ev_flt ev) i d)))"

section \<open>Reads scoped by the caller's group\<close>

definition rpc_ListWorkflows :: "rpc_env \<Rightarrow> caller \<Rightarrow> db \<Rightarrow> answer" where
  "rpc_ListWorkflows ev ctx d = as_group ctx d (\<lambda>g.
     answer_with [] ''list workflows: '' (\<lambda>ws. RWorkflows (map (\<lambda>(i, w). WorkflowToProto i w) ws)) (d, ListWorkflows (ev_flt ev) g d))"

text \<open>Building the records stops at the first event that cannot be decoded.\<close>

fun map_results :: "('a \<Rightarrow> 'b result) \<Rightarrow> 'a list \<Rightarrow> 'b list result" where
  "map_results f [] = Inr []"
| "map_results f (x # xs) = (case f x of Inl e \<Rightarrow> Inl e
     | Inr y \<Rightarrow> (case map_results f xs of Inl e \<Rightarrow> Inl e | Inr ys \<Rightarrow> Inr (y # ys)))"

definition audit_answer ::
  "rpc_env \<Rightarrow> string \<Rightarrow> string \<Rightarrow> (audit_event \<Rightarrow> 'b result) \<Rightarrow> ('b list \<Rightarrow> response) \<Rightarrow> (string \<times> audit_event) list \<Rightarrow> db \<Rightarrow> answer" where
  "audit_answer ev op op' f g events d =
     (if ev_flt ev ''ListAuditEvents'' then (d, Inl (status_of [] op DbError))
      else answer_with [] op' g (d, map_results f (map snd events)))"

definition rpc_GetApprovalAudit :: "rpc_env \<Rightarrow> caller \<Rightarrow> string \<Rightarrow> db \<Rightarrow> answer" where
  "rpc_GetApprovalAudit ev ctx i d = as_group ctx d (\<lambda>g.
     audit_answer ev ''get approval audit: '' ''resolve approval audit: '' ApprovalAuditRecord RApprovals (GetApprovalAudit g i d) d)"

definition rpc_GetApprovalAuditById :: "rpc_env \<Rightarrow> caller \<Rightarrow> string \<Rightarrow> db \<Rightarrow> answer" where
  "rpc_GetApprovalAuditById ev ctx gid d = as_group ctx d (\<lambda>g.
     case GetApprovalAuditByID (ev_flt ev) g gid d of
       Inl e \<Rightarrow> (d, Inl (status_of [] ''get approval audit by id: '' e))
     | Inr None \<Rightarrow> (d, Inr (RApproval None))
     | Inr (Some (_, e)) \<Rightarrow> answer_with [] ''resolve approval audit: '' (\<lambda>r. RApproval (Some r)) (d, ApprovalAuditRecord e))"

definition rpc_GetInputAudit :: "rpc_env \<Rightarrow> caller \<Rightarrow> string \<Rightarrow> db \<Rightarrow> answer" where
  "rpc_GetInputAudit ev ctx i d = as_group ctx d (\<lambda>g.
     audit_answer ev ''get input audit: '' ''resolve input audit: '' InputAuditRecord RInputs (GetInputAudit g i d) d)"

definition rpc_GetWorkflowPolicyAudit :: "rpc_env \<Rightarrow> caller \<Rightarrow> string \<Rightarrow> db \<Rightarrow> answer" where
  "rpc_GetWorkflowPolicyAudit ev ctx i d = as_group ctx d (\<lambda>g.
     audit_answer ev ''get workflow policy audit: '' ''resolve workflow policy audit: '' WorkflowPolicyAuditRecord RPolicyAudits
       (GetWorkflowPolicyAudit g i d) d)"

definition rpc_GetAgentPolicyAudit :: "rpc_env \<Rightarrow> caller \<Rightarrow> string \<Rightarrow> string \<Rightarrow> db \<Rightarrow> answer" where
  "rpc_GetAgentPolicyAudit ev ctx i a d = as_group ctx d (\<lambda>g.
     audit_answer ev ''get agent policy audit: '' ''resolve agent policy audit: '' AgentPolicyAuditRecord RAgentAudits
       (GetAgentPolicyAudit g i a d) d)"

definition rpc_GetAuditLog :: "rpc_env \<Rightarrow> caller \<Rightarrow> string \<Rightarrow> db \<Rightarrow> answer" where
  "rpc_GetAuditLog ev ctx i d = as_group ctx d (\<lambda>g.
     audit_answer ev ''get audit log: '' ''resolve audit entry: '' AuditEntry RAuditLog (GetAuditLog g i d) d)"

section \<open>The registration service\<close>

definition rpc_SetModelPricing :: "rpc_env \<Rightarrow> caller \<Rightarrow> model_pricing option \<Rightarrow> db \<Rightarrow> answer" where
  "rpc_SetModelPricing ev ctx p d =
     (case ModelPricingFromProto p of
        Inl e \<Rightarrow> (d, Inl (Status InvalidArgument (Fmt [] e)))
      | Inr x \<Rightarrow> as_group ctx d (\<lambda>g.
          answer_with [] ''set model pricing: '' (\<lambda>_. RPricing (ModelPricingToProto x)) (SetModelPricing (ev_flt ev) g x d)))"

definition rpc_ListModelPricing :: "rpc_env \<Rightarrow> caller \<Rightarrow> db \<Rightarrow> answer" where
  "rpc_ListModelPricing ev ctx d = as_group ctx d (\<lambda>g.
     answer_with [] ''list model pricing: '' (\<lambda>ps. RPricings (map ModelPricingToProto ps)) (d, ListEffectivePricing (ev_flt ev) g d))"

abbreviation group_missing :: "error \<times> code \<times> string option" where
  "group_missing \<equiv> (ErrNotFound, NotFound, Some ''tenant group not found'')"

definition rpc_GetTenantGroup :: "rpc_env \<Rightarrow> caller \<Rightarrow> string \<Rightarrow> db \<Rightarrow> answer" where
  "rpc_GetTenantGroup ev ctx i d =
     (if i = [] then invalid ''id is required'' d
      else as_group ctx d (\<lambda>g.
        if i \<noteq> g then (d, Inl (Status NotFound (Text ''tenant group not found'')))
        else answer_with [group_missing] ''get tenant group: '' (\<lambda>x. RGroup (TenantGroupToProto i x)) (d, GetTenantGroup (ev_flt ev) i d)))"

definition rpc_DeleteTenantGroup :: "rpc_env \<Rightarrow> caller \<Rightarrow> string \<Rightarrow> db \<Rightarrow> answer" where
  "rpc_DeleteTenantGroup ev ctx i d =
     (if i = [] then invalid ''id is required'' d
      else as_group ctx d (\<lambda>g.
        if i \<noteq> g then (d, Inl (Status NotFound (Text ''tenant group not found'')))
        else answer_with [group_missing] ''delete tenant group: '' (\<lambda>_. REmpty) (DeleteTenantGroup (ev_flt ev) i d)))"

definition rpc_CreateTenant :: "rpc_env \<Rightarrow> caller \<Rightarrow> pb_tenant option \<Rightarrow> db \<Rightarrow> answer" where
  "rpc_CreateTenant ev ctx p d =
     (case TenantFromProto p of
        Inl e \<Rightarrow> (d, Inl (Status InvalidArgument (Fmt [] e)))
      | Inr t \<Rightarrow>
          answer_with [(ErrAlreadyExists, AlreadyExists, Some ''tenant already exists'')] ''create tenant: ''
            (\<lambda>(i, x). RTenant (TenantToProto i x))
            (CreateTenant (ev_flt ev) (ev_uid ev) (ev_now ev) (ev_partitions ev)
               (case TenantGroupFromContext ctx of None \<Rightarrow> t | Some g \<Rightarrow> t\<lparr>t_tenant_group_id := g\<rparr>) d))"

text \<open>The tenant is read before the caller's group is looked at.\<close>

definition as_tenant_owner :: "rpc_env \<Rightarrow> caller \<Rightarrow> string \<Rightarrow> db \<Rightarrow> (tenant \<Rightarrow> answer) \<Rightarrow> answer" where
  "as_tenant_owner ev ctx i d k =
     (if i = [] then invalid ''id is required'' d
      else case GetTenant (ev_flt ev) i d of
        Inl e \<Rightarrow> (d, Inl (status_of [tenant_missing] ''get tenant: '' e))
      | Inr t \<Rightarrow> as_group ctx d (\<lambda>g.
          if t_tenant_group_id t \<noteq> g then (d, Inl (Status NotFound (Text ''tenant not found''))) else k t))"

definition rpc_GetTenant :: "rpc_env \<Rightarrow> caller \<Rightarrow> string \<Rightarrow> db \<Rightarrow> answer" where
  "rpc_GetTenant ev ctx i d = as_tenant_owner ev ctx i d (\<lambda>t. (d, Inr (RTenant (TenantToProto i t))))"

definition rpc_ListTenants :: "rpc_env \<Rightarrow> caller \<Rightarrow> db \<Rightarrow> answer" where
  "rpc_ListTenants ev ctx d = as_group ctx d (\<lambda>g.
     answer_with [] ''list tenants: '' (\<lambda>ts. RTenants (map (\<lambda>(i, t). TenantToProto i t) ts)) (d, ListTenants (ev_flt ev) g d))"

definition rpc_DeleteTenant :: "rpc_env \<Rightarrow> caller \<Rightarrow> string \<Rightarrow> db \<Rightarrow> answer" where
  "rpc_DeleteTenant ev ctx i d = as_tenant_owner ev ctx i d (\<lambda>_.
     answer_with [tenant_missing, (ErrTenantHasWorkflows, FailedPrecondition, None)] ''delete tenant: '' (\<lambda>_. REmpty)
       (DeleteTenant (ev_flt ev) i (ev_now ev) d))"

section \<open>The server\<close>

text \<open>One constructor per RPC of the two services, with the fields of its request: the calls of the workflow
  service that change a workflow, those that read, and the registration service.\<close>

datatype workflow_cmd =
    CreateWorkflowRpc string string "pb_workflow_config option"
  | SetWorkflowConfigRpc string "pb_workflow_config option"
  | InvokeWorkflowRpc string string "int option" "json_map option"
  | DeleteWorkflowRpc string
  | SuspendWorkflowRpc string string bool string
  | AbandonQueuedRequestsRpc string "string list" bool
  | ResumeWorkflowRpc string string
  | ActivateWorkflowRpc string string
  | ResolveInterruptedWorkflowRpc string string
  | ApproveWorkflowRpc string string string string
  | RejectWorkflowRpc string string string string
  | SubmitInputRpc string string "json_map option" string
  | SetAgentRuntimePolicyRpc string string "json_map option"
  | SetAgentLifecyclePolicyRpc string string "json_map option"
  | DeleteAgentRpc string string
  | SetWorkflowLifecyclePolicyRpc string "pb_policy_rule option list option"

datatype workflow_query =
    GetWorkflowRpc string
  | GetWorkflowLifecyclePolicyRpc string
  | ListAgentsRpc string
  | GetAgentRuntimePolicyRpc string string
  | GetAgentLifecyclePolicyRpc string string
  | ListWorkflowRunsRpc string
  | GetRequestInfoRpc string
  | GetWorkflowMetricsRpc string
  | ListWorkflowsRpc
  | GetApprovalAuditRpc string
  | GetApprovalAuditByIdRpc string
  | GetInputAuditRpc string
  | GetWorkflowPolicyAuditRpc string
  | GetAgentPolicyAuditRpc string string
  | GetAuditLogRpc string

datatype registration_call =
    SetModelPricingRpc "model_pricing option"
  | ListModelPricingRpc
  | CreateTenantGroupRpc "pb_tenant_group option"
  | GetTenantGroupRpc string
  | DeleteTenantGroupRpc string
  | CreateTenantRpc "pb_tenant option"
  | GetTenantRpc string
  | ListTenantsRpc
  | DeleteTenantRpc string

datatype rpc = Command workflow_cmd | Query workflow_query | Registration registration_call

text \<open>
  The handlers registered with the server. \<open>CreateTenantGroup\<close> has no handler of its own: the embedded
  \<open>UnimplementedRegistrationServiceServer\<close> answers.
\<close>

primrec handle_cmd :: "rpc_env \<Rightarrow> workflow_cmd \<Rightarrow> caller \<Rightarrow> db \<Rightarrow> answer" where
  "handle_cmd ev (CreateWorkflowRpc typ tid cfg) ctx d = rpc_CreateWorkflow ev ctx typ tid cfg d"
| "handle_cmd ev (SetWorkflowConfigRpc i cfg) ctx d = rpc_SetWorkflowConfig ev ctx i cfg d"
| "handle_cmd ev (InvokeWorkflowRpc cid i ov ic) ctx d = rpc_InvokeWorkflow ev ctx cid i ov ic d"
| "handle_cmd ev (DeleteWorkflowRpc i) ctx d = rpc_DeleteWorkflow ev ctx i d"
| "handle_cmd ev (SuspendWorkflowRpc i sid stop reason) ctx d = rpc_SuspendWorkflow ev ctx i sid stop reason d"
| "handle_cmd ev (AbandonQueuedRequestsRpc i ids all) ctx d = rpc_AbandonQueuedRequests ev ctx i ids all d"
| "handle_cmd ev (ResumeWorkflowRpc i sid) ctx d = rpc_ResumeWorkflow ev ctx i sid d"
| "handle_cmd ev (ActivateWorkflowRpc i rid) ctx d = rpc_ActivateWorkflow ev ctx i rid d"
| "handle_cmd ev (ResolveInterruptedWorkflowRpc i rid) ctx d = rpc_ResolveInterruptedWorkflow ev ctx i rid d"
| "handle_cmd ev (ApproveWorkflowRpc i gid actor reason) ctx d = rpc_ApproveWorkflow ev ctx i gid actor reason d"
| "handle_cmd ev (RejectWorkflowRpc i gid actor reason) ctx d = rpc_RejectWorkflow ev ctx i gid actor reason d"
| "handle_cmd ev (SubmitInputRpc i gid reply actor) ctx d = rpc_SubmitInput ev ctx i gid reply actor d"
| "handle_cmd ev (SetAgentRuntimePolicyRpc i a p) ctx d = rpc_SetAgentRuntimePolicy ev ctx i a p d"
| "handle_cmd ev (SetAgentLifecyclePolicyRpc i a p) ctx d = rpc_SetAgentLifecyclePolicy ev ctx i a p d"
| "handle_cmd ev (DeleteAgentRpc i a) ctx d = rpc_DeleteAgent ev ctx i a d"
| "handle_cmd ev (SetWorkflowLifecyclePolicyRpc i p) ctx d = rpc_SetWorkflowLifecyclePolicy ev ctx i p d"

primrec handle_query :: "rpc_env \<Rightarrow> workflow_query \<Rightarrow> caller \<Rightarrow> db \<Rightarrow> answer" where
  "handle_query ev (GetWorkflowRpc i) ctx d = rpc_GetWorkflow ev ctx i d"
| "handle_query ev (GetWorkflowLifecyclePolicyRpc i) ctx d = rpc_GetWorkflowLifecyclePolicy ev ctx i d"
| "handle_query ev (ListAgentsRpc i) ctx d = rpc_ListAgents ev ctx i d"
| "handle_query ev (GetAgentRuntimePolicyRpc i a) ctx d = rpc_GetAgentRuntimePolicy ev ctx i a d"
| "handle_query ev (GetAgentLifecyclePolicyRpc i a) ctx d = rpc_GetAgentLifecyclePolicy ev ctx i a d"
| "handle_query ev (ListWorkflowRunsRpc i) ctx d = rpc_ListWorkflowRuns ev ctx i d"
| "handle_query ev (GetRequestInfoRpc rid) ctx d = rpc_GetRequestInfo ev ctx rid d"
| "handle_query ev (GetWorkflowMetricsRpc i) ctx d = rpc_GetWorkflowMetrics ev ctx i d"
| "handle_query ev ListWorkflowsRpc ctx d = rpc_ListWorkflows ev ctx d"
| "handle_query ev (GetApprovalAuditRpc i) ctx d = rpc_GetApprovalAudit ev ctx i d"
| "handle_query ev (GetApprovalAuditByIdRpc gid) ctx d = rpc_GetApprovalAuditById ev ctx gid d"
| "handle_query ev (GetInputAuditRpc i) ctx d = rpc_GetInputAudit ev ctx i d"
| "handle_query ev (GetWorkflowPolicyAuditRpc i) ctx d = rpc_GetWorkflowPolicyAudit ev ctx i d"
| "handle_query ev (GetAgentPolicyAuditRpc i a) ctx d = rpc_GetAgentPolicyAudit ev ctx i a d"
| "handle_query ev (GetAuditLogRpc i) ctx d = rpc_GetAuditLog ev ctx i d"

primrec handle_registration :: "rpc_env \<Rightarrow> registration_call \<Rightarrow> caller \<Rightarrow> db \<Rightarrow> answer" where
  "handle_registration ev (SetModelPricingRpc p) ctx d = rpc_SetModelPricing ev ctx p d"
| "handle_registration ev ListModelPricingRpc ctx d = rpc_ListModelPricing ev ctx d"
| "handle_registration ev (CreateTenantGroupRpc _) ctx d = (d, Inl (Status Unimplemented (Text ''method CreateTenantGroup not implemented'')))"
| "handle_registration ev (GetTenantGroupRpc i) ctx d = rpc_GetTenantGroup ev ctx i d"
| "handle_registration ev (DeleteTenantGroupRpc i) ctx d = rpc_DeleteTenantGroup ev ctx i d"
| "handle_registration ev (CreateTenantRpc p) ctx d = rpc_CreateTenant ev ctx p d"
| "handle_registration ev (GetTenantRpc i) ctx d = rpc_GetTenant ev ctx i d"
| "handle_registration ev ListTenantsRpc ctx d = rpc_ListTenants ev ctx d"
| "handle_registration ev (DeleteTenantRpc i) ctx d = rpc_DeleteTenant ev ctx i d"

definition handle :: "rpc_env \<Rightarrow> rpc \<Rightarrow> caller \<Rightarrow> db \<Rightarrow> answer" where
  "handle ev r ctx d = (case r of
       Command c \<Rightarrow> handle_cmd ev c ctx d
     | Query q \<Rightarrow> handle_query ev q ctx d
     | Registration x \<Rightarrow> handle_registration ev x ctx d)"

definition serve :: "rpc_env \<Rightarrow> metadata option \<Rightarrow> rpc \<Rightarrow> db \<Rightarrow> answer" where
  "serve ev md r d = UnaryInterceptor (ev_flt ev) md (handle ev r) d"

end
