(* ===== verification/Isolation.thy ===== *)
theory Isolation
  imports Handlers
begin

text \<open>
  Tenant isolation of the API. A group's view is its group row, tenants, prices, API keys and audit events; a workflow's view
  (\<open>purge_view\<close>) its row, requests, version metrics, agent states and job. A call of the API stays within one
  workflow and one group, the caller's; and what it answers about a workflow of another group is what it answers
  about a workflow that does not exist (\<open>GetRequestInfo\<close>, which takes the id of a request, apart).
\<close>

section \<open>Steps that stay within one workflow and one group\<close>

text \<open>The group that owns a workflow, from the two tables \<open>TenantGroupIDForWorkflow\<close> joins.\<close>

definition owner_tab :: "(string, workflow) table \<Rightarrow> (string, tenant) table \<Rightarrow> string \<Rightarrow> string option" where
  "owner_tab ws ts i = (case map_of ws i of None \<Rightarrow> None | Some w \<Rightarrow> map_option t_tenant_group_id (map_of ts (w_tenant_id w)))"

definition owner_group :: "db \<Rightarrow> string \<Rightarrow> string option" where
  "owner_group d i = owner_tab (db_workflows d) (db_tenants d) i"

lemma TenantGroup_owner: "TenantGroupIDForWorkflow i d = (case owner_group d i of None \<Rightarrow> Inl ErrNotFound | Some g \<Rightarrow> Inr g)"
  by (simp add: TenantGroupIDForWorkflow_def owner_group_def owner_tab_def split: option.split)

definition group_view where
  "group_view h d = (map_of (db_groups d) h, filter (\<lambda>x. t_tenant_group_id (snd x) = h) (db_tenants d),
     filter (\<lambda>x. fst (fst x) = h) (db_pricing d), filter (\<lambda>x. k_tenant_group_id (snd x) = h) (db_api_keys d),
     filter (\<lambda>x. ae_tenant_group_id (snd x) = h) (db_audit d))"

definition stays :: "string \<Rightarrow> string \<Rightarrow> db \<Rightarrow> db \<Rightarrow> bool" where
  "stays i g d d' = ((\<forall>k. k \<noteq> i \<longrightarrow> purge_view k d' = purge_view k d) \<and> (\<forall>h. h \<noteq> g \<longrightarrow> group_view h d' = group_view h d) \<and>
     owner_group d' i = owner_group d i)"

lemma stays_refl [simp]: "stays i g d d"
  by (simp add: stays_def)

lemma stays_trans: "stays i g d d1 \<Longrightarrow> stays i g d1 d2 \<Longrightarrow> stays i g d d2"
  by (simp add: stays_def)

lemma stays_owner: "stays i g d d' \<Longrightarrow> owner_group d' i = owner_group d i"
  by (simp add: stays_def)

lemmas view_defs = stays_def purge_view_def group_view_def owner_group_def

lemma filter_update_other:
  "(\<And>r. map_of t k = Some r \<Longrightarrow> \<not> P (k, r)) \<Longrightarrow> \<not> P (k, v) \<Longrightarrow> filter P (AList.update k v t) = filter P t"
  by (induction t) auto

lemma filter_upd_row_other:
  "(\<And>r. map_of t k = Some r \<Longrightarrow> g r \<Longrightarrow> \<not> P (k, r) \<and> \<not> P (k, f r)) \<Longrightarrow> filter P (fst (upd_row k g f t)) = filter P t"
  by (auto simp: upd_row_def intro!: filter_update_other split: option.split)

lemma filter_upd_where_other:
  assumes "\<And>k r. g k r \<Longrightarrow> \<not> P (k, r) \<and> \<not> P (k, f k r)"
  shows "filter P (upd_where g f t) = filter P t"
proof (induction t)
  case (Cons x t)
  obtain k r where x: "x = (k, r)" by (cases x)
  show ?case using Cons assms [of k r] x by (cases "g k r") (simp_all add: upd_where_def)
qed (simp add: upd_where_def)

lemma stays_upd_wf:
  assumes "\<And>w. w_tenant_id (f w) = w_tenant_id w"
  shows "stays i g d (fst (upd_wf i P f d))"
proof -
  have "owner_group (fst (upd_wf i P f d)) i = owner_group d i"
    using assms by (auto simp: owner_group_def owner_tab_def row_simps split: option.split)
  then show ?thesis by (simp add: view_defs upd_wf_def case_prod_unfold map_of_upd_row)
qed

lemma stays_upd_job: "stays i g d (fst (upd_job i P f d))"
  by (simp add: view_defs upd_job_def case_prod_unfold map_of_upd_row)

lemma stays_jobs: "(\<And>k. k \<noteq> i \<Longrightarrow> map_of js k = job_of d k) \<Longrightarrow> stays i g d (d\<lparr>db_jobs := js\<rparr>)"
  by (simp add: view_defs)

lemma stays_upd_reqs:
  assumes "\<And>q r. P q r \<Longrightarrow> r_workflow_id r = i" "\<And>r. r_workflow_id (f r) = r_workflow_id r"
  shows "stays i g d (upd_reqs P f d)"
  using assms by (auto simp: view_defs upd_reqs_def intro!: filter_upd_where_other)

lemma stays_upd_req:
  assumes "\<And>r. req_of d q = Some r \<Longrightarrow> r_workflow_id r = i" "\<And>r. r_workflow_id (f r) = r_workflow_id r"
  shows "stays i g d (fst (upd_req q P f d))"
  using assms by (auto simp: view_defs upd_req_def case_prod_unfold intro!: filter_upd_row_other)

lemma stays_insert_req: "r_workflow_id r = i \<Longrightarrow> stays i g d (d\<lparr>db_requests := db_requests d @ [(q, r)]\<rparr>)"
  by (simp add: view_defs)

lemma stays_new_epoch: "stays i g d (startNewMetricsEpoch i v d)"
  by (simp add: view_defs startNewMetricsEpoch_def Let_def)

lemma stays_upsert_agent: "stays i g d (upsert_agent i a f d)"
  by (auto simp: view_defs upsert_agent_def intro!: filter_update_other)

lemma stays_agent_delete: "stays i g d (agent_Delete i a d)"
  by (auto simp: view_defs agent_Delete_def del_where_def intro!: filter_cong)

lemma stays_append: "ae_tenant_group_id e = g \<Longrightarrow> stays i g d (Append u e d)"
  by (simp add: view_defs Append_def)

lemma owner_group_Some:
  "owner_group d i = Some g \<longleftrightarrow> (\<exists>w t. wf_of d i = Some w \<and> map_of (db_tenants d) (w_tenant_id w) = Some t \<and> t_tenant_group_id t = g)"
  by (auto simp: owner_group_def owner_tab_def split: option.splits)

text \<open>A change of a tenant of the group, keeping its group.\<close>

lemma stays_tenant:
  assumes "map_of (db_tenants d) k = Some t" "t_tenant_group_id t = g" "\<And>t. t_tenant_group_id (f t) = t_tenant_group_id t"
  shows "stays i g d (d\<lparr>db_tenants := fst (upd_row k P f (db_tenants d))\<rparr>)"
proof -
  have "owner_group (d\<lparr>db_tenants := fst (upd_row k P f (db_tenants d))\<rparr>) i = owner_group d i"
    using assms(3) by (auto simp: owner_group_def owner_tab_def map_of_upd_row option.map_comp comp_def if_distrib cong: option.map_cong if_cong split: option.split)
  then show ?thesis using assms by (auto simp: view_defs intro!: filter_upd_row_other)
qed

lemmas stays_intros = stays_upd_wf stays_upd_job stays_upd_reqs stays_new_epoch stays_upsert_agent stays_agent_delete

section \<open>The service calls on one workflow\<close>

lemma stays_update_config: "stays i g d (fst (UpdateConfig i cfg v d))"
proof -
  have "stays i g d (fst (upd_wf i (\<lambda>_. True) (\<lambda>w. w\<lparr>w_current_workflow_version := v, w_config := cfg\<rparr>) d))"
    by (rule stays_upd_wf) simp
  then show ?thesis by (auto simp: UpdateConfig_def Let_def intro: stays_trans stays_new_epoch split: option.split)
qed

lemma stays_freeze: "stays i g d (freeze_requests i d)" "stays i g d (unfreeze_requests i d)"
  by (auto simp: freeze_requests_def unfreeze_requests_def intro!: stays_upd_reqs)

lemma stays_lifecycle_state [intro]: "stays i g d (fst (upd_wf i P (set_lifecycle_state s) d))"
  by (rule stays_upd_wf) (simp add: set_lifecycle_state_def)

lemma stays_mark_suspension: "stays i g d (fst (MarkSuspensionRequested i sid reason stop now d))"
proof -
  obtain d1 hit where u: "upd_wf i (can_suspend sid) (suspend_row sid reason stop now) d = (d1, hit)" by fastforce
  have 1: "stays i g d d1" using stays_upd_wf [of "suspend_row sid reason stop now" i g d "can_suspend sid"] u by (simp add: suspend_row_def)
  have "stays i g d1 (freeze_requests i d1)" by (rule stays_freeze)
  then show ?thesis using u stays_trans [OF 1] stays_upd_job [of i g "freeze_requests i d1"]
    by (cases hit) (auto simp: MarkSuspensionRequested_def Let_def 1 intro: stays_trans)
qed

lemma stays_suspend: "stays i g d (fst (SuspendWorkflow flt sid i stop reason now d))"
proof -
  obtain d1 x where m: "MarkSuspensionRequested i sid reason stop now d = (d1, x)" by fastforce
  have 1: "stays i g d d1" using stays_mark_suspension [of i g d sid reason stop now] m by simp
  have 2: "stays i g d (fst (MarkAbandonRequested i sid now d1))"
    using stays_trans [OF 1 stays_upd_job] by (simp add: MarkAbandonRequested_def)
  have 3: "stays i g e (FinalizeSuspended i sid now e)" for e
    unfolding FinalizeSuspended_def by (rule stays_upd_wf) (simp add: set_lifecycle_state_def)
  show ?thesis using m 1 2 stays_trans [OF _ 3] by (cases x) (auto simp: SuspendWorkflow_def Let_def)
qed

lemma stays_abandon: "stays i g d (fst (AbandonQueuedRequests i ids d))"
  by (auto simp: AbandonQueuedRequests_def abandonable_def intro!: stays_upd_reqs)

lemma stays_restore: "stays i g d (fst (RestoreFromSuspension i sid s expected target cd d))"
proof -
  let ?P = "\<lambda>w. su_id (w_suspension w) = Some sid \<and> w_state w = WSuspended \<and> su_finalized_at (w_suspension w) \<noteq> None"
  let ?f = "\<lambda>w. (set_lifecycle_state LActive w)\<lparr>w_state := s, w_cooldown_until := cd, w_current_workflow_version := target,
    w_lifecycle_last_resolved := w_current_version w, w_suspension := no_suspension\<rparr>"
  obtain d1 hit where u: "upd_wf i ?P ?f d = (d1, hit)" by fastforce
  have 1: "stays i g d d1" using stays_upd_wf [of ?f i g d ?P] u by (simp add: set_lifecycle_state_def)
  have 2: "stays i g d (unfreeze_requests i d1)" by (rule stays_trans [OF 1 stays_freeze(2)])
  show ?thesis using u 1 2 stays_trans [OF 2 stays_new_epoch] by (cases hit) (simp_all add: RestoreFromSuspension_def Let_def)
qed

lemma stays_resume: "stays i g d (fst (ResumeWorkflow flt i sid now d))"
proof -
  have *: "stays i g d (fst (case RestoreFromSuspension i sid st e v cd d of (d', restored) \<Rightarrow> (d', k restored)))" for st e v cd k
    using stays_restore [of i g d sid st e v cd] by (simp add: case_prod_unfold)
  show ?thesis by (auto simp: ResumeWorkflow_def * split: sum.split option.split)
qed

lemma stays_finalize_deleted:
  assumes "owner_group d i = Some g"
  shows "stays i g d (FinalizeDeleted i now d)"
proof (cases "wf_of d i")
  case (Some w)
  let ?d1 = "fst (upd_wf i (\<lambda>_. True) (\<lambda>w. (set_lifecycle_state LDeleted w)\<lparr>w_deletion_finalized_at := Some now\<rparr>) d)"
  have 1: "stays i g d ?d1" by (rule stays_upd_wf) (simp add: set_lifecycle_state_def)
  obtain t where t: "map_of (db_tenants ?d1) (w_tenant_id w) = Some t" "t_tenant_group_id t = g"
    using assms Some by (auto simp: owner_group_Some)
  have "stays i g ?d1 (?d1\<lparr>db_tenants := fst (upd_row (w_tenant_id w) P (\<lambda>t. t\<lparr>t_workflow_count := t_workflow_count t - 1\<rparr>) (db_tenants ?d1))\<rparr>)" for P
    by (rule stays_tenant [OF t]) simp
  from stays_trans [OF 1 this] show ?thesis using Some by (simp add: FinalizeDeleted_def Let_def)
qed (simp add: FinalizeDeleted_def)

lemma stays_delete:
  assumes "owner_group d i = Some g"
  shows "stays i g d (fst (DeleteWorkflow flt i now d))"
proof -
  obtain d1 x where m: "MarkDeletionRequested i now d = (d1, x)" by fastforce
  let ?f = "\<lambda>w. w\<lparr>w_state := WDisabled, w_deletion_requested_at := Some now\<rparr>"
  have 1: "stays i g d d1"
    using stays_upd_wf [of ?f i g d "\<lambda>w. w_deletion_requested_at w = None"] m
    by (simp add: MarkDeletionRequested_def case_prod_unfold prod_eq_iff)
  have 2: "stays i g d (fst (AbandonQueuedRequests i None d1))" by (rule stays_trans [OF 1 stays_abandon])
  have 3: "stays i g d (FinalizeDeleted i now (fst (AbandonQueuedRequests i None d1)))"
    using stays_trans [OF 2 stays_finalize_deleted] stays_owner [OF 2] assms by simp
  show ?thesis using m 1 2 3 by (cases x) (auto simp: DeleteWorkflow_def Let_def split: sum.split)
qed

lemma stays_gate:
  "stays i g d (fst (ResolveApproval i gid s reason d))" "stays i g d (fst (ResolveInput i gid a d))"
  by (auto simp: ResolveApproval_def ResolveInput_def intro!: stays_trans [OF stays_upd_job stays_lifecycle_state] split: option.split)

text \<open>A job carries the group that owned its workflow when it was written: the tag the audit trail uses.\<close>

definition tagged :: "string \<Rightarrow> db \<Rightarrow> bool" where
  "tagged i d = (case job_of d i of None \<Rightarrow> True | Some j \<Rightarrow> owner_group d i = Some (j_tenant_group_id j))"

lemma gate_group:
  "ResolveApproval i gid s reason d = (d1, Some gate) \<Longrightarrow> tagged i d \<Longrightarrow> owner_group d i = Some (rg_tenant_group_id gate)"
  "ResolveInput i gid a d = (d1, Some gate) \<Longrightarrow> tagged i d \<Longrightarrow> owner_group d i = Some (rg_tenant_group_id gate)"
  by (auto simp: ResolveApproval_def ResolveInput_def tagged_def split: option.splits if_splits)

lemma stays_decision:
  assumes "owner_group d i = Some g" "tagged i d"
  shows "stays i g d (fst (ApproveWorkflow flt uid i gid actor reason now d))"
    "stays i g d (fst (RejectWorkflow flt uid i gid actor reason now d))"
    "stays i g d (fst (SubmitInput flt uid i gid reply actor now d))"
proof -
  have 1: "rg_tenant_group_id gate = g" "stays i g d d1" if "ResolveApproval i gid s reason d = (d1, Some gate)" for s d1 gate
    using gate_group(1) [OF that assms(2)] assms(1) stays_gate(1) [of i g d gid s reason] that by auto
  have 2: "rg_tenant_group_id gate = g" "stays i g d d1" if "ResolveInput i gid reply d = (d1, Some gate)" for d1 gate
    using gate_group(2) [OF that assms(2)] assms(1) stays_gate(2) [of i g d gid reply] that by auto
  have n: "stays i g d d1" if "ResolveApproval i gid s reason d = (d1, None)" for s d1
    using stays_gate(1) [of i g d gid s reason] that by simp
  have n': "stays i g d d1" if "ResolveInput i gid reply d = (d1, None)" for d1
    using stays_gate(2) [of i g d gid reply] that by simp
  show "stays i g d (fst (ApproveWorkflow flt uid i gid actor reason now d))" "stays i g d (fst (RejectWorkflow flt uid i gid actor reason now d))"
    by (auto simp: ApproveWorkflow_def RejectWorkflow_def recordApprovalDecision_def 1 n intro!: stays_trans [OF 1(2) stays_append]
        split: prod.split option.split)
  show "stays i g d (fst (SubmitInput flt uid i gid reply actor now d))"
    by (auto simp: SubmitInput_def recordInputDecision_def 2 n' intro!: stays_trans [OF 2(2) stays_append] split: prod.split option.split)
qed

section \<open>Invoking and creating\<close>

lemma stays_mark_scheduled:
  "(\<And>r. req_of d rid = Some r \<Longrightarrow> r_workflow_id r = i) \<Longrightarrow> stays i g d (mark_scheduled rid d)"
  unfolding mark_scheduled_def by (rule stays_upd_req) auto

lemma stays_upsert_job:
  assumes "req_of d rid = Some r"
  shows "stays (r_workflow_id r) g d (fst (UpsertJobAndSchedule rid ctx op tmo wfver expected mode now d))"
proof -
  have *: "stays (r_workflow_id r) g d (mark_scheduled rid (d\<lparr>db_jobs := js\<rparr>))"
    if "\<And>k. k \<noteq> r_workflow_id r \<Longrightarrow> map_of js k = job_of d k" for js
    by (rule stays_trans [OF stays_jobs stays_mark_scheduled]) (use that assms in auto)
  show ?thesis using assms
    by (auto simp: UpsertJobAndSchedule_def Let_def map_add_def update_conv intro!: * split: option.split)
qed

lemma stays_write_job:
  assumes "req_of d rid = Some r" "r_workflow_id r = i"
  shows "stays i g d (fst (write_job flt rid x w tmo now d))"
proof -
  let ?u = "UpsertJobAndSchedule rid (job_context (r_info x) (GetAllForWorkflow (r_workflow_id x) d))
      (request_type_name (r_type x) @ ''_entry'') tmo (w_current_workflow_version w) (w_current_version w) (effective_mode w) now d"
  obtain d1 y where u: "?u = (d1, y)" by fastforce
  have 1: "stays i g d d1" using stays_upsert_job [OF assms(1), of g] u assms(2) by (metis fst_conv)
  have 2: "stays i g e (SupercedeOlderRequests i v e)" for v e
    by (auto simp: SupercedeOlderRequests_def intro!: stays_upd_reqs)
  have 3: "stays i g e (MarkWorkflowScheduled i e)" for e by (auto simp: MarkWorkflowScheduled_def)
  have "fst iv = i" if "y = Some iv" for iv using u that assms by (auto elim!: Upsert_row)
  then show ?thesis using u 1 stays_trans [OF 1 2] stays_trans [OF 1 3] stays_trans [OF stays_trans [OF 1 2] 3]
    by (cases y) (auto simp: write_job_def Let_def)
qed

lemma stays_schedule:
  "(\<And>r. req_of d rid = Some r \<Longrightarrow> r_workflow_id r = i) \<Longrightarrow> stays i g d (fst (ScheduleRequest flt rid now d))"
  by (auto simp: ScheduleRequest_def request_Get_def intro!: stays_write_job split: sum.split option.splits)

lemma stays_submit: "stays i g d (fst (submit_invocation flt sflt uid i info now d))"
proof -
  obtain d1 x where c: "CreateInvocationRequest uid (run_request i info) now d = (d1, x)" by fastforce
  let ?d0 = "\<lambda>w. fst (upd_wf i (\<lambda>_. True) (\<lambda>x. x\<lparr>w_target_version := w_target_version w + 1\<rparr>) d)"
  have a: "stays i g d (?d0 w)" for w by (rule stays_upd_wf) simp
  have ins: "stays i g d ((?d0 w)\<lparr>db_requests := db_requests d @ [(uid, q)]\<rparr>)" if "r_workflow_id q = i" for w q
    using stays_trans [OF a stays_insert_req [OF that]] by simp
  have 1: "stays i g d d1"
    using c by (auto simp: CreateInvocationRequest_def bump_and_insert_def insert_request_def Let_def run_request_def new_request_def ins
        split: option.splits if_splits)
  have "r_workflow_id q = i" if "x = Inr v" "req_of d1 uid = Some q" for v q
    using c that by (auto simp: CreateInvocationRequest_def bump_and_insert_def insert_request_def Let_def run_request_def new_request_def map_add_def
        split: option.splits if_splits)
  then have 2: "x = Inr v \<Longrightarrow> stays i g d (fst (ScheduleRequest sflt uid now d1))" for v
    using stays_trans [OF 1 stays_schedule] by blast
  show ?thesis using c 1 2 by (cases x) (auto simp: submit_invocation_def split: prod.splits sum.splits error.splits)
qed

lemma stays_invoke: "stays i g d (fst (InvokeWorkflow flt sflt uid cid i tmo ctx now d))"
proof -
  obtain d' r where x: "InvokeWorkflow flt sflt uid cid i tmo ctx now d = (d', r)" by fastforce
  from x show ?thesis
  proof (cases rule: invoke_phases)
    case (submitted w info n)
    then show ?thesis using x stays_submit [of i g d flt sflt uid info now] by simp
  qed (use x in simp)
qed

text \<open>A new workflow row under a tenant of the group; no row of another workflow changes.\<close>

lemma create_workflow_views:
  assumes "map_of (db_tenants d) tid = Some t" "t_tenant_group_id t = g"
    and "d' = fst (CreateWorkflow flt minRepeat n uid typ tid cfg v now d)"
  shows "h \<noteq> g \<Longrightarrow> group_view h d' = group_view h d" "wf_of d k \<noteq> None \<Longrightarrow> purge_view k d' = purge_view k d"
proof -
  have "d' = d \<or> (\<exists>row. wf_of d uid = None \<and> d' = d\<lparr>db_tenants := AList.update tid (t\<lparr>t_workflow_count := t_workflow_count t + 1\<rparr>) (db_tenants d),
      db_workflows := db_workflows d @ [(uid, row)]\<rparr>)"
    using assms(1,3) by (auto simp: CreateWorkflow_def workflow_Create_def new_workflow_def Let_def split: sum.split if_splits)
  then show "h \<noteq> g \<Longrightarrow> group_view h d' = group_view h d" "wf_of d k \<noteq> None \<Longrightarrow> purge_view k d' = purge_view k d"
    using assms(1,2) by (auto simp: group_view_def purge_view_def map_add_def intro!: filter_update_other split: option.split)
qed

section \<open>The handlers\<close>

lemma checkWorkflowOwner_iff:
  "checkWorkflowOwner ev (Some g) i d = Inr u \<longleftrightarrow> g \<noteq> [] \<and> \<not> ev_flt ev ''owner'' \<and> owner_group d i = Some g"
  by (auto simp: checkWorkflowOwner_def TenantGroupFromContext_def service_TenantGroupIDForWorkflow_def TenantGroup_owner
      split: if_splits option.splits)

lemma stays_as_owner: "(owner_group d i = Some g \<Longrightarrow> stays i g d (fst k)) \<Longrightarrow> stays i g d (fst (as_owner ev (Some g) i d k))"
  by (auto simp: as_owner_def split: sum.split dest: checkWorkflowOwner_iff [THEN iffD1])

lemma fst_answer_with [simp]: "fst (answer_with cs op f x) = fst x"
  by (simp add: answer_with_def)

lemma fst_invalid [simp]: "fst (invalid t d) = d"
  by (simp add: invalid_def)

primrec cmd_workflow :: "workflow_cmd \<Rightarrow> string option" where
  "cmd_workflow (CreateWorkflowRpc typ tid cfg) = None"
| "cmd_workflow (SetWorkflowConfigRpc i cfg) = Some i"
| "cmd_workflow (InvokeWorkflowRpc cid i ov ic) = Some i"
| "cmd_workflow (DeleteWorkflowRpc i) = Some i"
| "cmd_workflow (SuspendWorkflowRpc i sid stop reason) = Some i"
| "cmd_workflow (AbandonQueuedRequestsRpc i ids all) = Some i"
| "cmd_workflow (ResumeWorkflowRpc i sid) = Some i"
| "cmd_workflow (ActivateWorkflowRpc i rid) = Some i"
| "cmd_workflow (ResolveInterruptedWorkflowRpc i rid) = Some i"
| "cmd_workflow (ApproveWorkflowRpc i gid actor reason) = Some i"
| "cmd_workflow (RejectWorkflowRpc i gid actor reason) = Some i"
| "cmd_workflow (SubmitInputRpc i gid reply actor) = Some i"
| "cmd_workflow (SetAgentRuntimePolicyRpc i a p) = Some i"
| "cmd_workflow (SetAgentLifecyclePolicyRpc i a p) = Some i"
| "cmd_workflow (DeleteAgentRpc i a) = Some i"
| "cmd_workflow (SetWorkflowLifecyclePolicyRpc i p) = Some i"

lemma stays_set_config: "stays i g d (fst (rpc_SetWorkflowConfig ev (Some g) i cfg d))"
proof -
  have "stays i g d (fst (SetWorkflowConfig flt m i c v d))" for flt m c v
    by (simp add: SetWorkflowConfig_def stays_update_config)
  then show ?thesis
    by (auto simp: rpc_SetWorkflowConfig_def intro!: stays_as_owner split: prod.split sum.split) (metis fst_conv)+
qed

lemma stays_activate:
  "stays i g d (fst (ActivateWorkflow flt i rid d))" "stays i g d (fst (service_ResolveInterruptedWorkflow flt i rid d))"
  by (auto simp: ActivateWorkflow_def service_ResolveInterruptedWorkflow_def TryActivateWorkflow_def ResolveInterruptedWorkflow_def
      case_prod_unfold set_lifecycle_state_def intro!: stays_upd_wf)

lemma stays_agents:
  "stays i g d (fst (SetAgentRuntimePolicy flt i a p d))" "stays i g d (fst (SetAgentLifecyclePolicy flt i a p d))"
  "stays i g d (fst (DeleteAgent flt i a d))" "stays i g d (fst (SetWorkflowLifecyclePolicy flt i pol d))"
  by (auto simp: SetAgentRuntimePolicy_def UpsertRuntimePolicy_def SetAgentLifecyclePolicy_def UpsertLifecyclePolicy_def DeleteAgent_def
      SetWorkflowLifecyclePolicy_def UpdateLifecyclePolicy_def stays_upsert_agent stays_agent_delete intro!: stays_upd_wf)

lemma stays_abandon_service: "stays i g d (fst (service_AbandonQueuedRequests flt i ids d))"
  using stays_abandon [of i g d ids] by (simp add: service_AbandonQueuedRequests_def case_prod_unfold)

lemmas stays_service = stays_invoke stays_delete stays_suspend stays_abandon_service stays_resume stays_activate stays_decision stays_agents

lemmas cmd_defs = rpc_InvokeWorkflow_def rpc_DeleteWorkflow_def rpc_SuspendWorkflow_def rpc_AbandonQueuedRequests_def
  rpc_ResumeWorkflow_def rpc_ActivateWorkflow_def rpc_ResolveInterruptedWorkflow_def rpc_ApproveWorkflow_def rpc_RejectWorkflow_def
  rpc_SubmitInput_def rpc_SetAgentRuntimePolicy_def rpc_SetAgentLifecyclePolicy_def rpc_DeleteAgent_def rpc_SetWorkflowLifecyclePolicy_def

lemma cmd_stays:
  assumes "cmd_workflow c = Some i" "tagged i d"
  shows "stays i g d (fst (handle_cmd ev c (Some g) d))"
  using assms
  by (cases c) (auto simp: stays_set_config cmd_defs Let_def stays_service intro!: stays_as_owner split: option.split)

lemmas query_defs = rpc_GetWorkflow_def rpc_GetWorkflowLifecyclePolicy_def rpc_ListAgents_def rpc_GetAgentRuntimePolicy_def
  rpc_GetAgentLifecyclePolicy_def rpc_ListWorkflowRuns_def rpc_GetRequestInfo_def rpc_GetWorkflowMetrics_def rpc_ListWorkflows_def
  rpc_GetApprovalAudit_def rpc_GetApprovalAuditById_def rpc_GetInputAudit_def rpc_GetWorkflowPolicyAudit_def rpc_GetAgentPolicyAudit_def
  rpc_GetAuditLog_def

lemma queries_change_nothing: "fst (handle_query ev q ctx d) = d"
  by (cases q) (simp_all add: query_defs as_owner_def as_group_def audit_answer_def split: sum.split option.split)

text \<open>Registration calls change the caller's group only, and no workflow.\<close>

lemma as_group_Some: "g \<noteq> [] \<Longrightarrow> as_group (Some g) d k = k g"
  by (simp add: as_group_def callerTenantGroup_def TenantGroupFromContext_def)

lemma create_tenant_views:
  assumes "t_tenant_group_id t = g" "g \<noteq> []" "d' = fst (CreateTenant flt uid now n t d)"
  shows "h \<noteq> g \<Longrightarrow> group_view h d' = group_view h d" "purge_view k d' = purge_view k d"
  using assms by (auto simp: CreateTenant_def tenant_Create_def Let_def group_view_def purge_view_def split: sum.split)

lemma purge_empty_views:
  assumes "pk (db_tenants d)" "map_of (db_tenants d) i = Some t" "t_tenant_group_id t = g"
  shows "h \<noteq> g \<Longrightarrow> group_view h (fst (PurgeIfEmpty i d)) = group_view h d" "purge_view k (fst (PurgeIfEmpty i d)) = purge_view k d"
proof -
  have "x = t" if "(i, x) \<in> set (db_tenants d)" for x using assms(1,2) that by (simp add: pk_def keys_def)
  then show "h \<noteq> g \<Longrightarrow> group_view h (fst (PurgeIfEmpty i d)) = group_view h d"
    using assms(3) by (auto simp: group_view_def PurgeIfEmpty_def Let_def del_where_def intro!: filter_cong)
qed (simp add: purge_view_def PurgeIfEmpty_def Let_def)

lemma delete_tenant_views:
  assumes "pk (db_tenants d)" "map_of (db_tenants d) i = Some t" "t_tenant_group_id t = g" "d' = fst (DeleteTenant flt i now d)"
  shows "h \<noteq> g \<Longrightarrow> group_view h d' = group_view h d" "purge_view k d' = purge_view k d"
proof -
  let ?P = "\<lambda>t. t_deleted_at t = None \<and> t_workflow_count t = 0" and ?f = "\<lambda>t. t\<lparr>t_deleted_at := Some now\<rparr>"
  define d1 where "d1 = d\<lparr>db_tenants := fst (upd_row i ?P ?f (db_tenants d))\<rparr>"
  have m: "fst (MarkDeleted i now d) = d1" by (simp add: MarkDeleted_def d1_def case_prod_unfold)
  have 1: "h \<noteq> g \<Longrightarrow> group_view h d1 = group_view h d" "purge_view k d1 = purge_view k d"
    using stays_tenant [OF assms(2,3), of ?f _ ?P] by (auto simp: stays_def d1_def purge_view_def)
  have t: "pk (db_tenants d1)" "\<exists>t. map_of (db_tenants d1) i = Some t \<and> t_tenant_group_id t = g"
    using assms(1-3) by (auto simp: d1_def map_of_upd_row)
  have "d' = d \<or> d' = d1 \<or> d' = fst (PurgeIfEmpty i d1)"
    using assms(4) m by (cases "MarkDeleted i now d") (auto simp: DeleteTenant_def split: sum.split)
  then show "h \<noteq> g \<Longrightarrow> group_view h d' = group_view h d" "purge_view k d' = purge_view k d"
    using 1 purge_empty_views [OF t(1)] t(2) by auto
qed

lemma registration_views:
  assumes "g \<noteq> []" "pk (db_tenants d)" "d' = fst (handle_registration ev x (Some g) d)"
  shows "h \<noteq> g \<Longrightarrow> group_view h d' = group_view h d" "purge_view k d' = purge_view k d"
proof -
  have tenant: "d' = d \<or> (\<exists>t. map_of (db_tenants d) i = Some t \<and> t_tenant_group_id t = g \<and> d' = fst (DeleteTenant (ev_flt ev) i (ev_now ev) d))"
    if "x = DeleteTenantRpc i" for i
    using that assms(1,3) by (auto simp: rpc_DeleteTenant_def as_tenant_owner_def GetTenant_def tenant_Get_def as_group_Some split: if_splits option.splits)
  have create: "d' = d \<or> (\<exists>t. t_tenant_group_id t = g \<and> d' = fst (CreateTenant (ev_flt ev) (ev_uid ev) (ev_now ev) (ev_partitions ev) t d))"
    if "x = CreateTenantRpc p" for p
    using that assms(1,3) by (force simp: rpc_CreateTenant_def TenantGroupFromContext_def split: sum.splits)
  have price: "group_view h (pricing_Upsert g p d) = group_view h d" if "h \<noteq> g" for p
    using that by (auto simp: group_view_def pricing_Upsert_def intro!: filter_update_other)
  have group: "group_view h (fst (group_Delete g d)) = group_view h d" if "h \<noteq> g"
    using that by (simp add: group_view_def group_Delete_def map_of_del_key)
  have same: "purge_view k (pricing_Upsert g p d) = purge_view k d" "purge_view k (fst (group_Delete g d)) = purge_view k d" for p
    by (simp_all add: purge_view_def pricing_Upsert_def group_Delete_def)
  note read = rpc_GetTenantGroup_def rpc_GetTenant_def rpc_ListTenants_def rpc_ListModelPricing_def rpc_SetModelPricing_def
    rpc_DeleteTenantGroup_def as_tenant_owner_def as_group_Some DeleteTenantGroup_def SetModelPricing_def
  show "group_view h d' = group_view h d" if "h \<noteq> g"
    using assms(1,3) that tenant create delete_tenant_views(1) [OF assms(2)] create_tenant_views(1) [OF _ assms(1)] price group
    by (cases x) (auto simp: read split: sum.splits)
  show "purge_view k d' = purge_view k d"
    using assms(1,3) tenant create delete_tenant_views(2) [OF assms(2)] create_tenant_views(2) [OF _ assms(1)] same
    by (cases x) (auto simp: read split: sum.splits)
qed

section \<open>Refusals\<close>

text \<open>What a caller is told about a workflow that is not its own; it does not depend on the database.\<close>

definition refusal :: "rpc_env \<Rightarrow> string \<Rightarrow> rpc_error" where
  "refusal ev g = (if g = [] then Status Unauthenticated (Text ''missing auth'')
     else if ev_flt ev ''owner'' then Status Internal (Fmt ''check workflow owner: '' DbError)
     else Status NotFound (Text ''workflow instance not found''))"

lemma as_owner_refused: "owner_group d i \<noteq> Some g \<Longrightarrow> as_owner ev (Some g) i d k = (d, Inl (refusal ev g))"
  by (auto simp: as_owner_def checkWorkflowOwner_def TenantGroupFromContext_def service_TenantGroupIDForWorkflow_def TenantGroup_owner
      refusal_def status_of_def split: option.split)

lemma empty_db_owner [simp]: "owner_group empty_db i = None"
  by (simp add: owner_group_def owner_tab_def empty_db_def)

lemma cmd_refused:
  assumes "cmd_workflow c = Some i" "owner_group d i \<noteq> Some g"
  shows "handle_cmd ev c (Some g) d = (d, snd (handle_cmd ev c (Some g) empty_db))"
  using assms by (cases c) (simp_all add: cmd_defs rpc_SetWorkflowConfig_def as_owner_refused invalid_def split: option.split)

text \<open>The workflow a query reads, after checking its owner; the audit reads filter by the caller's group instead.\<close>

fun query_workflow :: "workflow_query \<Rightarrow> string option" where
  "query_workflow (GetWorkflowRpc i) = Some i"
| "query_workflow (GetWorkflowLifecyclePolicyRpc i) = Some i"
| "query_workflow (ListAgentsRpc i) = Some i"
| "query_workflow (GetAgentRuntimePolicyRpc i a) = Some i"
| "query_workflow (GetAgentLifecyclePolicyRpc i a) = Some i"
| "query_workflow (ListWorkflowRunsRpc i) = Some i"
| "query_workflow (GetWorkflowMetricsRpc i) = Some i"
| "query_workflow _ = None"

lemma query_refused:
  assumes "query_workflow q = Some i" "owner_group d i \<noteq> Some g"
  shows "handle_query ev q (Some g) d = (d, snd (handle_query ev q (Some g) empty_db))"
  using assms by (cases q) (simp_all add: query_defs as_owner_refused invalid_def)

fun audit_workflow :: "workflow_query \<Rightarrow> string option" where
  "audit_workflow (GetApprovalAuditRpc i) = Some i"
| "audit_workflow (GetInputAuditRpc i) = Some i"
| "audit_workflow (GetWorkflowPolicyAuditRpc i) = Some i"
| "audit_workflow (GetAgentPolicyAuditRpc i a) = Some i"
| "audit_workflow (GetAuditLogRpc i) = Some i"
| "audit_workflow _ = None"

text \<open>
  The workflow a call names. What is left names no workflow: creating and listing workflows, the registration service, the audit
  entry of a gate, and \<open>GetRequestInfo\<close>, which names a request.
\<close>

definition rpc_workflow :: "rpc \<Rightarrow> string option" where
  "rpc_workflow r = (case r of
       Command c \<Rightarrow> cmd_workflow c
     | Query q \<Rightarrow> (case query_workflow q of Some i \<Rightarrow> Some i | None \<Rightarrow> audit_workflow q)
     | Registration _ \<Rightarrow> None)"

definition own_audit :: "string \<Rightarrow> db \<Rightarrow> (string \<times> audit_event) list" where
  "own_audit g d = filter (\<lambda>x. ae_tenant_group_id (snd x) = g) (db_audit d)"

section \<open>Isolation\<close>

definition jobs_tagged :: "db \<Rightarrow> bool" where
  "jobs_tagged d = list_all (\<lambda>(i, j). owner_group d i = Some (j_tenant_group_id j)) (db_jobs d)"

lemma jobs_tagged_at: "jobs_tagged d \<Longrightarrow> tagged i d"
  by (auto simp: jobs_tagged_def tagged_def list_all_iff split: option.split dest!: map_of_SomeD)

lemma create_cmd_views:
  assumes "d' = fst (rpc_CreateWorkflow ev (Some g) typ tid cfg d)"
  shows "h \<noteq> g \<Longrightarrow> group_view h d' = group_view h d" "wf_of d k \<noteq> None \<Longrightarrow> purge_view k d' = purge_view k d"
proof -
  have "d' = d \<or> (\<exists>t flt m n uid c v now. map_of (db_tenants d) tid = Some t \<and> t_tenant_group_id t = g \<and> d' = fst (CreateWorkflow flt m n uid typ tid c v now d))"
    using assms by (fastforce simp: rpc_CreateWorkflow_def checkTenantOwner_def TenantGroupFromContext_def TenantGroupIDForTenant_def tenant_Get_def
        split: if_splits option.splits)
  then show "h \<noteq> g \<Longrightarrow> group_view h d' = group_view h d" "wf_of d k \<noteq> None \<Longrightarrow> purge_view k d' = purge_view k d"
    using create_workflow_views by (elim disjE exE conjE; simp)+
qed

lemma cmd_isolated:
  assumes "jobs_tagged d" "h \<noteq> g" "owner_group d k = Some h" "d' = fst (handle_cmd ev c (Some g) d)"
  shows "group_view h d' = group_view h d" "purge_view k d' = purge_view k d"
proof -
  have row: "wf_of d k \<noteq> None" using assms(3) by (auto simp: owner_group_Some)
  have ne: "owner_group d k \<noteq> Some g" using assms(2,3) by simp
  have *: "group_view h d' = group_view h d \<and> purge_view k d' = purge_view k d"
  proof (cases "cmd_workflow c")
    case None
    then show ?thesis using assms(2,4) row create_cmd_views by (cases c) auto
  next
    case (Some i)
    have s: "stays i g d d'" using cmd_stays [OF Some jobs_tagged_at [OF assms(1)]] assms(4) by simp
    show ?thesis
    proof (cases "i = k")
      case True
      then have "d' = d" using assms(4) cmd_refused [OF Some, of d g ev] ne by (metis fst_conv)
      then show ?thesis by simp
    qed (use s assms(2) in \<open>auto simp: stays_def\<close>)
  qed
  then show "group_view h d' = group_view h d" "purge_view k d' = purge_view k d" by simp_all
qed

section \<open>Properties\<close>

text \<open>C1. Tenants are isolated for writing: a call authenticated as group \<open>g\<close>, whatever it asks for and whatever database
  calls fail, changes neither a workflow of another group (row, requests, job, agents, version metrics) nor that
  group's own rows, tenants, prices, keys and audit trail. Jobs are assumed to carry the group that owns their workflow.\<close>

theorem tenants_are_isolated:
  assumes "auth_resolve (ev_flt ev) md None d = Inr (Some g)" "g \<noteq> []" "db_pk d" "jobs_tagged d"
    and "h \<noteq> g" "owner_group d k = Some h" "serve ev md r d = (d', x)"
  shows "purge_view k d' = purge_view k d \<and> group_view h d' = group_view h d"
proof -
  have d': "d' = fst (handle ev r (Some g) d)" using assms(1,7) by (simp add: serve_def UnaryInterceptor_def)
  show ?thesis
  proof (cases r)
    case (Command c)
    then show ?thesis using cmd_isolated [OF assms(4-6)] d' by (simp add: handle_def)
  next
    case (Query q)
    then show ?thesis using queries_change_nothing d' by (simp add: handle_def)
  next
    case (Registration y)
    have "pk (db_tenants d)" using assms(3) by (simp add: db_pk_def)
    then show ?thesis using registration_views [OF assms(2), of d d' ev y] assms(5) d' Registration by (simp add: handle_def)
  qed
qed

section \<open>What a caller can learn\<close>

text \<open>Two databases that look the same to a group: the default prices all groups share, its view, its workflows and their views.\<close>

definition group_workflows :: "string \<Rightarrow> db \<Rightarrow> (string \<times> workflow) list" where
  "group_workflows g d = sel_where (\<lambda>_ w. case map_of (db_tenants d) (w_tenant_id w) of None \<Rightarrow> False | Some t \<Rightarrow> t_tenant_group_id t = g) (db_workflows d)"

definition same_for :: "string \<Rightarrow> db \<Rightarrow> db \<Rightarrow> bool" where
  "same_for g d e = (db_default_pricing d = db_default_pricing e \<and> group_view g d = group_view g e \<and> group_workflows g d = group_workflows g e \<and>
     (\<forall>i. owner_group d i = Some g \<longleftrightarrow> owner_group e i = Some g) \<and>
     (\<forall>i. owner_group d i = Some g \<longrightarrow> purge_view i d = purge_view i e))"

lemma view_reads:
  assumes "purge_view i d = purge_view i e"
  shows "workflow_Get i d = workflow_Get i e" "GetAllForWorkflow i d = GetAllForWorkflow i e"
    "request_ListForWorkflow i d = request_ListForWorkflow i e" "GetCurrentVersionMetrics i v d = GetCurrentVersionMetrics i v e"
proof -
  have rows: "[(a, s). ((w', a), s) \<leftarrow> t, w' = i] = map (\<lambda>((w, a), s). (a, s)) (filter (\<lambda>x. fst (fst x) = i) t)"
    for t :: "(string \<times> string, agent_state) table"
    by (induction t) auto
  have agents: "GetAllForWorkflow i x = map (\<lambda>((w, a), s). (a, s)) (filter (\<lambda>x. fst (fst x) = i) (db_agent_state x))" for x
    unfolding GetAllForWorkflow_def by (rule rows)
  show "workflow_Get i d = workflow_Get i e" using assms by (simp add: workflow_Get_def purge_view_def)
  show "GetAllForWorkflow i d = GetAllForWorkflow i e" using assms by (simp add: agents purge_view_def)
  show "request_ListForWorkflow i d = request_ListForWorkflow i e"
    using assms by (simp add: request_ListForWorkflow_def sel_where_def purge_view_def case_prod_unfold)
  have lookup: "map_of t (i, k) = map_of (filter (\<lambda>x. fst (fst x) = i) t) (i, k)" for t :: "(string \<times> int \<times> int, workflow_version_metrics) table" and k
    by (induction t) auto
  have epochs: "[ep. (w, ver, ep) \<leftarrow> keys t, w = i \<and> ver = v] = [ep. (w, ver, ep) \<leftarrow> keys (filter (\<lambda>x. fst (fst x) = i) t), w = i \<and> ver = v]"
    for t :: "(string \<times> int \<times> int, workflow_version_metrics) table"
    by (induction t) (auto simp: keys_def)
  have "filter (\<lambda>x. fst (fst x) = i) (db_version_metrics d) = filter (\<lambda>x. fst (fst x) = i) (db_version_metrics e)"
    using assms by (simp add: purge_view_def)
  then have "max_epoch i v d = max_epoch i v e" unfolding max_epoch_def by (subst (1 2) epochs) simp
  then show "GetCurrentVersionMetrics i v d = GetCurrentVersionMetrics i v e"
    using assms lookup [of "db_version_metrics d"] lookup [of "db_version_metrics e"]
    by (simp add: GetCurrentVersionMetrics_def purge_view_def)
qed

lemma metrics_read: "purge_view i d = purge_view i e \<Longrightarrow> GetWorkflowMetrics flt i d = GetWorkflowMetrics flt i e"
  using view_reads [of i d e] by (simp add: GetWorkflowMetrics_def split: sum.split)

lemma audit_reads:
  assumes "own_audit g d = own_audit g e"
  shows "ListAuditEvents g i a ts d = ListAuditEvents g i a ts e" "GetApprovalByID g gid d = GetApprovalByID g gid e"
proof -
  have f: "filter (\<lambda>(k, v). ae_tenant_group_id v = g \<and> Q k v) t = filter (\<lambda>(k, v). Q k v) (filter (\<lambda>x. ae_tenant_group_id (snd x) = g) t)"
    for Q and t :: "(string \<times> audit_event) list"
    by (induction t) auto
  show "ListAuditEvents g i a ts d = ListAuditEvents g i a ts e" "GetApprovalByID g gid d = GetApprovalByID g gid e"
    unfolding ListAuditEvents_def GetApprovalByID_def f assms [unfolded own_audit_def] by simp_all
qed

lemmas audit_services = GetApprovalAudit_def GetInputAudit_def GetWorkflowPolicyAudit_def GetAgentPolicyAudit_def GetAuditLog_def audit_answer_def

lemma audit_answers:
  assumes "own_audit g d = own_audit g e" "audit_workflow q = Some i"
  shows "snd (handle_query ev q (Some g) d) = snd (handle_query ev q (Some g) e)"
  using assms(2) by (cases q) (simp_all add: query_defs as_group_def callerTenantGroup_def TenantGroupFromContext_def audit_services
      audit_reads [OF assms(1)] answer_with_def split: sum.split option.split)

text \<open>C12. A workflow of another group looks like one that does not exist: a call that names a workflow the caller does not own changes
  nothing and is answered exactly as over any other database in which the caller does not own that workflow, whether another group does
  or nobody, as long as the audit trail of the caller's own group is the same.\<close>

theorem foreign_workflow_looks_absent:
  assumes "rpc_workflow r = Some i" "owner_group d i \<noteq> Some g" "owner_group e i \<noteq> Some g" "own_audit g d = own_audit g e"
  shows "handle ev r (Some g) d = (d, snd (handle ev r (Some g) e))"
proof (cases r)
  case (Command c)
  then show ?thesis using assms(1) cmd_refused [of c i d g ev] cmd_refused [of c i e g ev] assms(2,3)
    by (simp add: rpc_workflow_def handle_def)
next
  case (Query q)
  show ?thesis
  proof (cases "query_workflow q")
    case (Some k)
    then have "query_workflow q = Some i" using assms(1) Query by (simp add: rpc_workflow_def)
    then show ?thesis using Query query_refused [of q i d g ev] query_refused [of q i e g ev] assms(2,3)
      by (simp add: handle_def)
  next
    case None
    then have "audit_workflow q = Some i" using assms(1) Query by (simp add: rpc_workflow_def)
    then have "snd (handle_query ev q (Some g) d) = snd (handle_query ev q (Some g) e)" by (rule audit_answers [OF assms(4)])
    moreover have "fst (handle_query ev q (Some g) d) = d" by (rule queries_change_nothing)
    ultimately show ?thesis using Query by (simp add: handle_def prod_eq_iff)
  qed
qed (use assms(1) in \<open>simp add: rpc_workflow_def\<close>)

lemma as_owner_same:
  assumes "same_for g d e" "owner_group d i = Some g \<Longrightarrow> purge_view i d = purge_view i e \<Longrightarrow> snd k = snd k'"
  shows "snd (as_owner ev (Some g) i d k) = snd (as_owner ev (Some g) i e k')"
proof (cases "owner_group d i = Some g")
  case True
  then have "owner_group e i = Some g" "purge_view i d = purge_view i e" using assms(1) by (auto simp: same_for_def)
  then have "checkWorkflowOwner ev (Some g) i d = checkWorkflowOwner ev (Some g) i e"
    using True by (simp add: checkWorkflowOwner_def service_TenantGroupIDForWorkflow_def TenantGroup_owner split: option.split)
  then show ?thesis using True assms \<open>purge_view i d = purge_view i e\<close> by (simp add: as_owner_def split: sum.split)
next
  case False
  then have "owner_group e i \<noteq> Some g" using assms(1) by (auto simp: same_for_def)
  then show ?thesis using False by (simp add: as_owner_refused)
qed

lemma snd_answer_with: "snd x = snd y \<Longrightarrow> snd (answer_with cs op f x) = snd (answer_with cs op f y)"
  by (simp add: answer_with_def)

lemma snd_as_group: "(\<And>h. ctx = Some h \<Longrightarrow> snd (k h) = snd (k' h)) \<Longrightarrow> snd (as_group ctx d k) = snd (as_group ctx e k')"
  by (auto simp: as_group_def callerTenantGroup_def TenantGroupFromContext_def split: sum.split option.split)

lemma same_for_audit: "same_for g d e \<Longrightarrow> own_audit g d = own_audit g e"
  by (simp add: same_for_def group_view_def own_audit_def)

lemma same_for_list: "same_for g d e \<Longrightarrow> workflow_ListForTenantGroup g d = workflow_ListForTenantGroup g e"
  by (simp add: same_for_def group_workflows_def workflow_ListForTenantGroup_def)

lemma query_answers_same:
  assumes "same_for g d e" "\<nexists>rid. q = GetRequestInfoRpc rid"
  shows "snd (handle_query ev q (Some g) d) = snd (handle_query ev q (Some g) e)"
proof -
  note reads = view_reads [of _ d e] metrics_read [of _ d e] GetWorkflow_def GetWorkflowLifecyclePolicy_def ListAgents_def GetAgentRuntimePolicy_def
    GetAgentLifecyclePolicy_def ListWorkflowRuns_def
  note owned = as_owner_same [OF assms(1) snd_answer_with]
  note lists = same_for_list [OF assms(1)] audit_reads [OF same_for_audit [OF assms(1)]] ListWorkflows_def GetApprovalAuditByID_def
  consider (owner) i where "query_workflow q = Some i" | (audit) i where "audit_workflow q = Some i"
    | (list) "q = ListWorkflowsRpc \<or> (\<exists>gid. q = GetApprovalAuditByIdRpc gid)"
    using assms(2) by (cases q) auto
  then show ?thesis
  proof cases
    case (owner i)
    then show ?thesis by (cases q) (simp_all add: query_defs invalid_def reads owned)
  next
    case (audit i)
    then show ?thesis by (rule audit_answers [OF same_for_audit [OF assms(1)]])
  next
    case list
    then show ?thesis
      by (auto simp: query_defs as_group_def callerTenantGroup_def TenantGroupFromContext_def lists answer_with_def split: sum.split option.split)
  qed
qed

lemma map_of_filter_pk:
  "pk t \<Longrightarrow> map_of (filter (\<lambda>x. P (snd x)) t) k = (case map_of t k of None \<Rightarrow> None | Some r \<Rightarrow> if P r then Some r else None)"
  by (induction t) (auto simp: pk_def keys_def map_of_eq_None_iff split: option.split)

lemma own_request_same:
  assumes "same_for g d e" "pk (db_requests d)" "pk (db_requests e)" "req_of d q = Some r" "owner_group d (r_workflow_id r) = Some g"
  shows "req_of e q = Some r"
proof -
  have "purge_view (r_workflow_id r) d = purge_view (r_workflow_id r) e" using assms(1,5) by (simp add: same_for_def)
  then have "filter (\<lambda>x. r_workflow_id (snd x) = r_workflow_id r) (db_requests d) = filter (\<lambda>x. r_workflow_id (snd x) = r_workflow_id r) (db_requests e)"
    by (simp add: purge_view_def)
  then have "map_of (filter (\<lambda>x. r_workflow_id (snd x) = r_workflow_id r) (db_requests e)) q = Some r"
    using map_of_filter_pk [OF assms(2), of "\<lambda>x. r_workflow_id x = r_workflow_id r" q] assms(4) by simp
  then show ?thesis using map_of_filter_pk [OF assms(3), of "\<lambda>x. r_workflow_id x = r_workflow_id r" q] by (auto split: option.splits if_splits)
qed

lemma tenant_answer_same:
  assumes "same_for g d e" "pk (db_tenants d)" "pk (db_tenants e)" "g \<noteq> []"
  shows "snd (rpc_GetTenant ev (Some g) i d) = snd (rpc_GetTenant ev (Some g) i e)"
proof -
  have answer: "snd (rpc_GetTenant ev (Some g) i x) = (if i = [] then Inl (Status InvalidArgument (Text ''id is required''))
      else if ev_flt ev ''tenants.Get'' then Inl (status_of [tenant_missing] ''get tenant: '' DbError)
      else case map_of (filter (\<lambda>x. t_tenant_group_id (snd x) = g) (db_tenants x)) i of
        None \<Rightarrow> Inl (Status NotFound (Text ''tenant not found'')) | Some t \<Rightarrow> Inr (RTenant (TenantToProto i t)))" if "pk (db_tenants x)" for x
    using assms(4) map_of_filter_pk [OF that, of "\<lambda>t. t_tenant_group_id t = g" i]
    by (simp add: rpc_GetTenant_def as_tenant_owner_def GetTenant_def tenant_Get_def as_group_def callerTenantGroup_def
        TenantGroupFromContext_def status_of_def invalid_def split: option.split)
  have "filter (\<lambda>x. t_tenant_group_id (snd x) = g) (db_tenants d) = filter (\<lambda>x. t_tenant_group_id (snd x) = g) (db_tenants e)"
    using assms(1) by (simp add: same_for_def group_view_def)
  then show ?thesis by (simp only: answer [OF assms(2)] answer [OF assms(3)])
qed

lemma pricing_rows: "pricing_ListForTenantGroup g d = map snd (filter (\<lambda>x. fst (fst x) = g) (db_pricing d))"
proof -
  have "[p. ((g', m), p) \<leftarrow> t, g' = g] = map snd (filter (\<lambda>x. fst (fst x) = g) t)" for t :: "(string \<times> string, model_pricing) table"
    by (induction t) auto
  then show ?thesis by (simp add: pricing_ListForTenantGroup_def)
qed

text \<open>The calls that only read; a request may be read when its workflow is the caller's.\<close>

fun reading :: "string \<Rightarrow> db \<Rightarrow> rpc \<Rightarrow> bool" where
  "reading g d (Query q) = (\<forall>rid. q = GetRequestInfoRpc rid \<longrightarrow> (\<exists>r. req_of d rid = Some r \<and> owner_group d (r_workflow_id r) = Some g))"
| "reading g d (Registration x) = (x = ListModelPricingRpc \<or> x = ListTenantsRpc \<or> (\<exists>i. x = GetTenantGroupRpc i \<or> x = GetTenantRpc i))"
| "reading g d (Command c) = False"

text \<open>C13. Tenants are isolated for reading: the answer of every call that reads, of the workflow service and of the registration service,
  depends only on the caller's own group, tenants, prices, workflows and audit trail and on the default prices all groups share.
  \<open>GetRequestInfo\<close>, which looks the request up before it checks the owner, is covered for the requests of the caller's own
  workflows.\<close>

theorem answers_depend_only_on_own_data:
  assumes "same_for g d e" "db_pk d" "db_pk e" "g \<noteq> []" "reading g d r"
  shows "snd (handle ev r (Some g) d) = snd (handle ev r (Some g) e)"
proof (cases r)
  case (Query q)
  show ?thesis
  proof (cases "\<exists>rid. q = GetRequestInfoRpc rid")
    case True
    then obtain rid x where q: "q = GetRequestInfoRpc rid" and x: "req_of d rid = Some x" "owner_group d (r_workflow_id x) = Some g"
      using assms(5) Query by auto
    have "req_of e rid = Some x" using own_request_same [OF assms(1) _ _ x] assms(2,3) by (simp add: db_pk_def)
    then have "GetRequestInfo (ev_flt ev) rid e = GetRequestInfo (ev_flt ev) rid d" using x(1) by (simp add: GetRequestInfo_def request_Get_def)
    then show ?thesis using Query q as_owner_same [OF assms(1)]
      by (simp add: handle_def rpc_GetRequestInfo_def invalid_def split: sum.split)
  next
    case False
    then show ?thesis using Query query_answers_same [OF assms(1)] by (simp add: handle_def)
  qed
next
  case (Registration x)
  have view: "map_of (db_groups d) g = map_of (db_groups e) g"
    "filter (\<lambda>x. t_tenant_group_id (snd x) = g) (db_tenants d) = filter (\<lambda>x. t_tenant_group_id (snd x) = g) (db_tenants e)"
    "filter (\<lambda>x. fst (fst x) = g) (db_pricing d) = filter (\<lambda>x. fst (fst x) = g) (db_pricing e)" "db_default_pricing d = db_default_pricing e"
    using assms(1) by (simp_all add: same_for_def group_view_def)
  have "snd (rpc_ListModelPricing ev (Some g) d) = snd (rpc_ListModelPricing ev (Some g) e)"
    using view(3,4) by (simp add: rpc_ListModelPricing_def as_group_def callerTenantGroup_def TenantGroupFromContext_def answer_with_def
        ListEffectivePricing_def ListDefaults_def pricing_rows split: sum.split)
  moreover have "snd (rpc_ListTenants ev (Some g) d) = snd (rpc_ListTenants ev (Some g) e)"
    using view(2) by (simp add: rpc_ListTenants_def as_group_def callerTenantGroup_def TenantGroupFromContext_def answer_with_def
        ListTenants_def tenant_ListForTenantGroup_def sel_where_def case_prod_unfold split: sum.split)
  moreover have "snd (rpc_GetTenantGroup ev (Some g) i d) = snd (rpc_GetTenantGroup ev (Some g) i e)" for i
    using view(1) by (simp add: rpc_GetTenantGroup_def as_group_def callerTenantGroup_def TenantGroupFromContext_def answer_with_def
        GetTenantGroup_def group_Get_def invalid_def split: sum.split)
  moreover have "snd (rpc_GetTenant ev (Some g) i d) = snd (rpc_GetTenant ev (Some g) i e)" for i
    using tenant_answer_same [OF assms(1) _ _ assms(4)] assms(2,3) by (simp add: db_pk_def)
  ultimately show ?thesis using assms(5) Registration by (auto simp: handle_def)
qed (use assms(5) in simp)

section \<open>Witnesses\<close>

definition sample_env :: rpc_env where
  "sample_env = \<lparr>ev_flt = (\<lambda>_. False), ev_sflt = (\<lambda>_. False), ev_uid = ''u1'', ev_now = 5, ev_min_repeat = 5, ev_partitions = 4\<rparr>"

text \<open>Workflow \<open>w\<close> of group \<open>g\<close>, and an API key of group \<open>other\<close>.\<close>

definition two_groups :: db where
  "two_groups = (sample_db RUnscheduled (sample_job JPending None None))\<lparr>db_api_keys :=
     [(''k'', \<lparr>k_key_hash = HashKey ''secret'', k_tenant_group_id = ''other'', k_created_at = 0, k_revoked_at = None\<rparr>)]\<rparr>"

lemma two_groups_owner: "owner_group two_groups ''w'' = Some ''g''"
  by (simp add: two_groups_def owner_group_def owner_tab_def sample_row_defs)

theorem tenants_are_isolated_witness:
  "purge_view ''w'' (fst (serve sample_env (Some [(''x-api-key'', [''secret''])]) (Command (DeleteWorkflowRpc ''w'')) two_groups)) =
   purge_view ''w'' two_groups"
proof -
  let ?md = "Some [(''x-api-key'', [''secret''])]"
  have a: "auth_resolve (ev_flt sample_env) ?md None two_groups = Inr (Some ''other'')"
    by (simp add: auth_resolve_def md_get_def apiKeyHeader_def GetByKeyHash_def sel_where_def WithTenantGroup_def two_groups_def sample_env_def)
  have p: "db_pk two_groups" by (simp add: db_pk_def pk_def keys_def two_groups_def sample_row_defs)
  have t: "jobs_tagged two_groups"
    using two_groups_owner by (simp add: jobs_tagged_def) (simp add: two_groups_def sample_row_defs)
  show ?thesis
    using tenants_are_isolated [OF a _ p t _ two_groups_owner, of "Command (DeleteWorkflowRpc ''w'')"]
    by (cases "serve sample_env ?md (Command (DeleteWorkflowRpc ''w'')) two_groups") simp
qed

text \<open>The same database without the workflow, as \<open>other\<close> cannot tell.\<close>

definition without_workflow :: db where
  "without_workflow = two_groups\<lparr>db_workflows := [], db_requests := [], db_jobs := []\<rparr>"

lemma without_workflow_owner: "owner_group without_workflow i = None"
  by (simp add: without_workflow_def owner_group_def owner_tab_def)

theorem foreign_workflow_looks_absent_witness:
  "handle sample_env (Query (GetWorkflowRpc ''w'')) (Some ''other'') two_groups =
     (two_groups, Inl (Status NotFound (Text ''workflow instance not found''))) \<and>
   snd (handle sample_env (Query (GetAuditLogRpc ''w'')) (Some ''other'') two_groups) =
     snd (handle sample_env (Query (GetAuditLogRpc ''w'')) (Some ''other'') without_workflow)"
proof -
  have audit: "own_audit ''other'' two_groups = own_audit ''other'' without_workflow" by (simp add: own_audit_def without_workflow_def)
  have *: "handle sample_env r (Some ''other'') two_groups = (two_groups, snd (handle sample_env r (Some ''other'') without_workflow))"
    if "rpc_workflow r = Some ''w''" for r
    using foreign_workflow_looks_absent [OF that _ _ audit] by (simp add: two_groups_owner without_workflow_owner)
  have "snd (handle sample_env (Query (GetWorkflowRpc ''w'')) (Some ''other'') without_workflow) = Inl (Status NotFound (Text ''workflow instance not found''))"
    by (simp add: handle_def rpc_GetWorkflow_def as_owner_refused without_workflow_owner refusal_def sample_env_def)
  moreover note * [of "Query (GetWorkflowRpc ''w'')"] * [of "Query (GetAuditLogRpc ''w'')"]
  ultimately show ?thesis by (simp add: rpc_workflow_def)
qed

theorem answers_depend_only_on_own_data_witness:
  "snd (handle sample_env (Query ListWorkflowsRpc) (Some ''other'') two_groups) = snd (handle sample_env (Query ListWorkflowsRpc) (Some ''other'') without_workflow) \<and>
   snd (handle sample_env (Registration ListTenantsRpc) (Some ''other'') two_groups) = snd (handle sample_env (Registration ListTenantsRpc) (Some ''other'') without_workflow)"
proof -
  have o: "owner_group two_groups i \<noteq> Some ''other''" for i
    by (simp add: two_groups_def owner_group_def owner_tab_def sample_row_defs)
  have "same_for ''other'' two_groups without_workflow" using o
    by (simp add: same_for_def group_view_def group_workflows_def sel_where_def without_workflow_owner)
      (simp add: without_workflow_def two_groups_def sample_row_defs)
  moreover have "db_pk two_groups" "db_pk without_workflow" by (simp_all add: db_pk_def pk_def keys_def without_workflow_def two_groups_def sample_row_defs)
  ultimately show ?thesis using answers_depend_only_on_own_data by simp
qed

text \<open>\<open>GetRequestInfo\<close> tells a foreign request from an absent one: for a request of another group the answer is the one about
  the workflow, for an unknown id it is the one about the request.\<close>

theorem request_lookup_reveals_existence:
  "\<exists>ev g rid d. owner_group d ''w'' \<noteq> Some g \<and> r_workflow_id (the (req_of d rid)) = ''w'' \<and>
     snd (handle_query ev (GetRequestInfoRpc rid) (Some g) d) = Inl (Status NotFound (Text ''workflow instance not found'')) \<and>
     snd (handle_query ev (GetRequestInfoRpc rid) (Some g) empty_db) = Inl (Status NotFound (Text ''request not found''))"
proof (intro exI conjI)
  show "owner_group two_groups ''w'' \<noteq> Some ''other''" by (simp add: two_groups_owner)
  show "r_workflow_id (the (req_of two_groups ''r1'')) = ''w''" by (simp add: two_groups_def sample_row_defs)
  have r: "GetRequestInfo (ev_flt sample_env) ''r1'' two_groups = Inr (sample_req RUnscheduled 1)"
    by (simp add: GetRequestInfo_def request_Get_def sample_env_def) (simp add: two_groups_def sample_row_defs)
  show "snd (handle_query sample_env (GetRequestInfoRpc ''r1'') (Some ''other'') two_groups) =
      Inl (Status NotFound (Text ''workflow instance not found''))"
    using two_groups_owner by (simp add: rpc_GetRequestInfo_def r as_owner_refused refusal_def) (simp add: sample_req_def as_owner_refused refusal_def sample_env_def)
  show "snd (handle_query sample_env (GetRequestInfoRpc ''r1'') (Some ''other'') empty_db) = Inl (Status NotFound (Text ''request not found''))"
    by (simp add: rpc_GetRequestInfo_def GetRequestInfo_def request_Get_def status_of_def sample_env_def empty_db_def)
qed

end
