(* ===== verification/SchedulerTick.thy ===== *)
theory SchedulerTick
  imports SchedulerCore
begin

text \<open>
  Invariants of the scheduler loop, \<open>runPartition\<close> of \<open>src/internal/scheduler/scheduler.go\<close>. The locale
  \<open>tick_invariant\<close> says what each handler has to keep so that a whole tick keeps it, whatever the faults, the
  order of the sweeps and the number of rows they find; it is interpreted on the primary keys, on the bound on
  attempts and on the requests that no job refers to.
\<close>

section \<open>What the handlers do to the rows\<close>

subsection \<open>Requests\<close>

lemma req_DeleteTerminalJob [simp]: "db_requests (fst (DeleteTerminalJob i rid d)) = db_requests d"
  by (simp add: DeleteTerminalJob_def Let_def)

lemma CompleteRequest_other_requests:
  assumes "q \<noteq> rid"
  shows "req_of (fst (CompleteRequest flt uid rid i ver rtype oc reason res now d)) q = req_of d q"
proof (cases "CompleteRequest flt uid rid i ver rtype oc reason res now d")
  case (Pair d' r)
  then show ?thesis
  proof (cases rule: CompleteRequest_phases)
    case (finish d2 ls)
    then have "req_of d' q = req_of d2 q" using assms
      by (auto simp: finish_completion_def request_CompleteRequest_def Let_def case_prod_unfold row_simps split: if_splits sum.splits)
    then show ?thesis using Pair finish(2) by (simp add: same_queue_def)
  qed (use Pair in \<open>simp add: same_queue_def\<close>)
qed

lemma tear_down_other_requests:
  assumes "q \<noteq> rid" "req_of d q = Some r" "r_status r \<noteq> RPaused"
  shows "req_of (fst (tear_down flt rid i ver reason now d)) q = Some r"
proof -
  have u: "req_of (unfreeze_requests i d) q = Some r" using assms by (simp add: unfreeze_requests_def row_simps)
  show ?thesis
  proof (cases rule: tear_down_phases [of flt rid i ver reason now d])
    case (early e d')
    then show ?thesis using assms u by (auto simp: same_queue_def)
  next
    case (finish d2 ap)
    then have "req_of d2 q = Some r" using assms u by (auto simp: same_queue_def)
    then show ?thesis using finish(1) assms(1)
      by (auto simp: finish_failure_def request_FailRequest_def Let_def case_prod_unfold row_simps split: sum.split)
  qed
qed

lemma FailRequest_other_requests:
  assumes "q \<noteq> rid" "req_of d q = Some r" "r_status r \<noteq> RPaused"
  shows "req_of (fst (FailRequest flt rid i ver reason n now d)) q = Some r"
proof -
  have "req_of (fst (RequeueJob i rid n d)) q = Some r" "req_of (fst (ClaimFailedJob i rid n d')) q = req_of d' q" for d'
    using assms(2) by (simp_all add: RequeueJob_def ClaimFailedJob_def)
  then show ?thesis using assms tear_down_other_requests [OF assms(1) _ assms(3)]
    by (auto simp: FailRequest_def Let_def case_prod_unfold split: sum.split bool.split)
qed

lemma Upsert_other_requests:
  "req_of d q = Some r \<Longrightarrow> r_status r \<noteq> RUnscheduled \<Longrightarrow>
   req_of (fst (UpsertJobAndSchedule rid ctx op tmo wfver expected mode now d)) q = Some r"
  by (auto simp: UpsertJobAndSchedule_def mark_scheduled_def Let_def row_simps split: option.split)

lemma write_job_other_requests:
  assumes "req_of d q = Some r" "r_status r \<notin> {RUnscheduled, RScheduled}"
  shows "req_of (fst (write_job flt rid x w tmo now d)) q = Some r"
proof -
  let ?u = "UpsertJobAndSchedule rid (job_context (r_info x) (GetAllForWorkflow (r_workflow_id x) d))
      (request_type_name (r_type x) @ ''_entry'') tmo (w_current_workflow_version w) (w_current_version w) (effective_mode w) now d"
  obtain d1 y where u: "?u = (d1, y)" by fastforce
  then have "req_of d1 q = Some r" using assms Upsert_other_requests by (metis fst_conv insert_iff)
  then show ?thesis using assms u
    by (auto simp: write_job_def Let_def SupercedeOlderRequests_def MarkWorkflowScheduled_def row_simps split: option.split)
qed

lemma ScheduleRequest_other_requests:
  "req_of d q = Some r \<Longrightarrow> r_status r \<notin> {RUnscheduled, RScheduled} \<Longrightarrow> req_of (fst (ScheduleRequest flt rid now d)) q = Some r"
  by (auto simp: ScheduleRequest_def write_job_other_requests split: sum.split)

subsection \<open>Jobs\<close>

lemma Upsert_jobs:
  assumes "rows_all P (db_jobs d)"
    and "\<And>r w tg. req_of d rid = Some r \<Longrightarrow> r_status r = RUnscheduled \<Longrightarrow> P (fresh_job rid r w tg ctx op tmo wfver now)"
    and "\<And>r w tg j. req_of d rid = Some r \<Longrightarrow> r_status r = RUnscheduled \<Longrightarrow> P (overwrite_job rid r w tg ctx op tmo wfver j)"
  shows "rows_all P (db_jobs (fst (UpsertJobAndSchedule rid ctx op tmo wfver expected mode now d)))"
  using assms by (auto simp: UpsertJobAndSchedule_def mark_scheduled_def Let_def rows_all_update split: option.split)

lemma ScheduleRequest_jobs:
  assumes "rows_all P (db_jobs d)"
    and "\<And>r w tg ctx op tmo wfver. req_of d rid = Some r \<Longrightarrow> r_status r = RUnscheduled \<Longrightarrow> P (fresh_job rid r w tg ctx op tmo wfver now)"
    and "\<And>r w tg ctx op tmo wfver j. req_of d rid = Some r \<Longrightarrow> r_status r = RUnscheduled \<Longrightarrow> P (overwrite_job rid r w tg ctx op tmo wfver j)"
  shows "rows_all P (db_jobs (fst (ScheduleRequest flt rid now d)))"
proof -
  have "rows_all P (db_jobs (fst (write_job flt rid r w tmo now d)))" for r w tmo
  proof -
    let ?u = "UpsertJobAndSchedule rid (job_context (r_info r) (GetAllForWorkflow (r_workflow_id r) d))
        (request_type_name (r_type r) @ ''_entry'') tmo (w_current_workflow_version w) (w_current_version w) (effective_mode w) now d"
    obtain d1 y where u: "?u = (d1, y)" by fastforce
    have "rows_all P (db_jobs (fst ?u))" by (rule Upsert_jobs) (use assms in auto)
    then show ?thesis using assms(1) u
      by (auto simp: write_job_def Let_def SupercedeOlderRequests_def MarkWorkflowScheduled_def split: option.split)
  qed
  then show ?thesis using assms(1) by (auto simp: ScheduleRequest_def split: sum.split)
qed

lemma sweep_rows [simp]:
  "db_jobs (fst (ReconcileWorkflowLifecycles p b now d)) = db_jobs d"
  "db_requests (fst (ReconcileWorkflowLifecycles p b now d)) = db_requests d"
  "db_requests (fst (MarkOrphanedJobsFailed p g now d)) = db_requests d"
  "db_jobs (fst (SweepRequestsInProgress p d)) = db_jobs d"
  "db_jobs (fst (Renew p sid lease now d)) = db_jobs d"
  "db_requests (fst (Renew p sid lease now d)) = db_requests d"
  by (simp_all add: ReconcileWorkflowLifecycles_def MarkOrphanedJobsFailed_def SweepRequestsInProgress_def Renew_def
      Let_def case_prod_unfold)

lemma orphan_jobs:
  "rows_all P (db_jobs d) \<Longrightarrow> (\<And>j. P j \<Longrightarrow> P (j\<lparr>j_status := JFailed\<rparr>)) \<Longrightarrow> rows_all P (db_jobs (fst (MarkOrphanedJobsFailed p g now d)))"
  by (auto simp: MarkOrphanedJobsFailed_def Let_def upd_jobs_def intro!: rows_all_upd_where)

section \<open>Invariants of a tick\<close>

text \<open>\<open>ok\<close> holds of the request ids the sweeps find on job rows.\<close>

locale tick_sweeps =
  fixes I :: "db \<Rightarrow> bool" and ok :: "string \<Rightarrow> bool"
  assumes listed: "I d \<Longrightarrow> rows_all (\<lambda>j. ok (j_request_id j)) (db_jobs d)"
    and complete: "I d \<Longrightarrow> ok rid \<Longrightarrow> I (fst (CompleteRequest flt uid rid i ver rtype oc reason res now d))"
    and fail: "I d \<Longrightarrow> ok rid \<Longrightarrow> I (fst (FailRequest flt rid i ver reason n now d))"
    and schedule: "I d \<Longrightarrow> I (fst (ScheduleRequest flt rid now d))"
    and reconcile: "I d \<Longrightarrow> I (fst (ReconcileWorkflowLifecycles p b now d))"
    and orphans: "I d \<Longrightarrow> I (fst (MarkOrphanedJobsFailed p g now d))"
    and sweep: "I d \<Longrightarrow> I (fst (SweepRequestsInProgress p d))"
begin

lemma fold_inv: "I d \<Longrightarrow> (\<And>x d. x \<in> set xs \<Longrightarrow> I d \<Longrightarrow> I (f x d)) \<Longrightarrow> I (fold f xs d)"
  by (induction xs arbitrary: d) auto

lemma failed_ok: "I d \<Longrightarrow> x \<in> set (GetFailedJobs p d) \<Longrightarrow> ok (fj_request_id x)"
  using listed [of d] by (auto simp: GetFailedJobs_def sel_where_def rows_all_def list_all_iff)

lemma completed_ok:
  assumes "I d" "GetCompletedJobs p d = Inr js" "x \<in> set js"
  shows "ok (cj_request_id x)"
proof -
  have scan: "scan_all ys = Inr zs \<Longrightarrow> z \<in> set zs \<Longrightarrow> Some z \<in> set ys" for ys and zs :: "completed_job list" and z
    by (induction ys arbitrary: zs rule: scan_all.induct) (auto split: sum.splits)
  from scan [OF assms(2) [unfolded GetCompletedJobs_def] assms(3)] listed [OF assms(1)] show ?thesis
    by (force simp: sel_where_def rows_all_def list_all_iff dest!: sym [of "Some x"])
qed

lemma task: "I d \<Longrightarrow> I (run_task flt flts uid grace p now t d)"
proof (cases t)
  case TickFail
  assume "I d"
  then show ?thesis using TickFail failed_ok [of d _ p] by (auto simp: failJobs_def intro!: fold_inv fail)
next
  case TickComplete
  assume "I d"
  then show ?thesis using TickComplete completed_ok [of d p]
    by (auto simp: completeJobs_def intro!: fold_inv complete split: sum.split)
qed (simp_all add: reconcile orphans sweep)

lemma work: "I d \<Longrightarrow> I (scheduleJobs flt flts p now (fold (run_task flt flts uid grace p now) ts d))"
  by (auto simp: scheduleJobs_def intro!: fold_inv schedule task)

end

text \<open>A tick ends by renewing the lease of its partition.\<close>

locale tick_invariant = tick_sweeps +
  assumes renew: "I d \<Longrightarrow> I (fst (Renew p sid lease now d))"
begin

lemma tick: "I d \<Longrightarrow> I (fst (partition_tick flt flts uid sid grace lease p now ts d))"
  using work by (auto simp: partition_tick_def Let_def intro!: renew)

end

text \<open>A scheduler that ticks again and again: each tick has its own faults, time and order of sweeps.\<close>

record tick =
  tk_faults :: "string \<Rightarrow> bool"
  tk_item_faults :: "string \<Rightarrow> string \<Rightarrow> bool"
  tk_now :: timestamp
  tk_order :: "tick_task list"

fun run_ticks :: "string \<Rightarrow> string \<Rightarrow> int \<Rightarrow> int \<Rightarrow> string \<Rightarrow> tick list \<Rightarrow> db \<Rightarrow> db" where
  "run_ticks uid sid grace lease p [] d = d"
| "run_ticks uid sid grace lease p (t # ts) d =
     run_ticks uid sid grace lease p ts
       (fst (partition_tick (tk_faults t) (tk_item_faults t) uid sid grace lease p (tk_now t) (tk_order t) d))"

context tick_invariant
begin

lemma ticks: "I d \<Longrightarrow> I (run_ticks uid sid grace lease p ts d)"
  by (induction ts arbitrary: d) (auto intro: tick)

end

section \<open>Attempts stay within their bound\<close>

definition attempts_bounded :: "db \<Rightarrow> bool" where
  "attempts_bounded d = rows_all (\<lambda>j. j_attempts j \<le> maxJobAttempts) (db_jobs d)"

interpretation attempts: tick_invariant attempts_bounded "\<lambda>_. True"
proof
  fix d :: db assume a: "attempts_bounded d"
  show "rows_all (\<lambda>j. True) (db_jobs d)" by (simp add: rows_all_def list_all_iff)
  show "attempts_bounded (fst (CompleteRequest flt uid rid i ver rtype oc reason res now d))" for flt uid rid i ver rtype oc reason res now
    using a CompleteRequest_jobs by (simp add: attempts_bounded_def)
  show "attempts_bounded (fst (FailRequest flt rid i ver reason n now d))" for flt rid i ver reason n now
    using a unfolding attempts_bounded_def by (rule FailRequest_jobs) auto
  show "attempts_bounded (fst (ScheduleRequest flt rid now d))" for flt rid now
    using a unfolding attempts_bounded_def
    by (rule ScheduleRequest_jobs) (simp_all add: fresh_job_def overwrite_job_def maxJobAttempts_def)
  show "attempts_bounded (fst (MarkOrphanedJobsFailed p g now d))" for p g now
    using a unfolding attempts_bounded_def by (rule orphan_jobs) simp
qed (simp_all add: attempts_bounded_def)

section \<open>A request that no job refers to\<close>

definition stranded :: "string \<Rightarrow> db \<Rightarrow> bool" where
  "stranded rid d = ((case req_of d rid of None \<Rightarrow> False | Some r \<Rightarrow> r_status r = RInProgress) \<and>
     rows_all (\<lambda>j. j_request_id j \<noteq> rid) (db_jobs d))"

lemma strandedE:
  assumes "stranded q d"
  obtains r where "req_of d q = Some r" "r_status r = RInProgress" "rows_all (\<lambda>j. j_request_id j \<noteq> q) (db_jobs d)"
  using assms by (auto simp: stranded_def split: option.splits)

interpretation strands: tick_invariant "stranded q" "\<lambda>rid. rid \<noteq> q" for q
proof
  fix d :: db assume a: "stranded q d"
  then obtain r where r: "req_of d q = Some r" "r_status r = RInProgress" "rows_all (\<lambda>j. j_request_id j \<noteq> q) (db_jobs d)"
    by (rule strandedE)
  show "rows_all (\<lambda>j. j_request_id j \<noteq> q) (db_jobs d)" by (rule r(3))
  show "stranded q (fst (CompleteRequest flt uid rid i ver rtype oc reason res now d))" if "rid \<noteq> q"
    for flt uid rid i ver rtype oc reason res now
    using r that CompleteRequest_jobs CompleteRequest_other_requests [of q rid] by (simp add: stranded_def)
  show "stranded q (fst (FailRequest flt rid i ver reason n now d))" if "rid \<noteq> q" for flt rid i ver reason n now
    using r that FailRequest_jobs [of "\<lambda>j. j_request_id j \<noteq> q" d] FailRequest_other_requests [of q rid d r]
    by (simp add: stranded_def)
  show "stranded q (fst (ScheduleRequest flt rid now d))" for flt rid now
    using r ScheduleRequest_jobs [of "\<lambda>j. j_request_id j \<noteq> q" d rid] ScheduleRequest_other_requests [of d q r flt rid now]
    by (cases "rid = q") (auto simp: stranded_def fresh_job_def overwrite_job_def)
  show "stranded q (fst (MarkOrphanedJobsFailed p g now d))" for p g now
    using r orphan_jobs [of "\<lambda>j. j_request_id j \<noteq> q" d p g now] by (simp add: stranded_def)
  show "stranded q (fst (SweepRequestsInProgress p d))" for p
    using r by (simp add: stranded_def) (simp add: SweepRequestsInProgress_def Let_def row_simps)
qed (auto simp: stranded_def)

section \<open>Properties\<close>

text \<open>C20. No job is retried more than 20 times: over any number of scheduler ticks, whatever calls fail and
  in whatever order the sweeps run, the attempt counters stay at or below the maximum.\<close>

theorem attempts_never_exceed_maximum:
  assumes "attempts_bounded d"
  shows "attempts_bounded (run_ticks uid sid grace lease p ts d)"
  by (rule attempts.ticks [OF assms])

theorem attempts_never_exceed_maximum_witness:
  "attempts_bounded (run_ticks ''u'' ''s'' 30 60 ''0'' [\<lparr>tk_faults = (\<lambda>_. False), tk_item_faults = (\<lambda>_ _. False), tk_now = 9, tk_order = [TickFail]\<rparr>]
     (sample_db RInProgress ((sample_job JFailed None None)\<lparr>j_attempts := 20\<rparr>)))"
  by (rule attempts_never_exceed_maximum) (simp add: attempts_bounded_def sample_row_defs maxJobAttempts_def)

text \<open>A request in progress that no job row refers to is never settled: no sequence of scheduler ticks
  gives it a terminal status, since every sweep that ends a request starts from a job row.\<close>

theorem stranded_request_stays_in_progress:
  assumes "stranded q d"
  shows "stranded q (run_ticks uid sid grace lease p ts d)"
  by (rule strands.ticks [OF assms])

text \<open>One lost write strands a request: when everything in a completion succeeds but the final update of
  the request row fails, the job row is already deleted, and no later sequence of fault-free or faulty ticks
  ever completes the request, which stays in progress for readers and blocks the workflow's deletion and
  suspension.\<close>

theorem lost_terminal_write_strands_request:
  "let d = fst (CompleteRequest (\<lambda>c. c = ''CompleteRequest'') ''u'' ''r1'' ''w'' 1 TInvoke Successful [] None 9
       (sample_db RInProgress (sample_job JCompleted None None)))
   in stranded ''r1'' (run_ticks uid sid grace lease p ts d) \<and> HasRunningRequest ''w'' d"
proof -
  let ?d = "fst (CompleteRequest (\<lambda>c. c = ''CompleteRequest'') ''u'' ''r1'' ''w'' 1 TInvoke Successful [] None 9
       (sample_db RInProgress (sample_job JCompleted None None)))"
  have "stranded ''r1'' ?d" "HasRunningRequest ''w'' ?d" by code_simp+
  then show ?thesis using strands.ticks by (simp add: Let_def)
qed

theorem stranded_request_stays_in_progress_witness:
  "stranded ''r1'' (run_ticks ''u'' ''s'' 30 60 ''0'' [\<lparr>tk_faults = (\<lambda>_. False), tk_item_faults = (\<lambda>_ _. False), tk_now = 9, tk_order = [TickFail, TickComplete]\<rparr>]
     (empty_db\<lparr>db_workflows := [(''w'', sample_wf)], db_requests := [(''r1'', sample_req RInProgress 1)]\<rparr>))"
  by (rule stranded_request_stays_in_progress) (simp add: stranded_def sample_row_defs)

definition two_failures_pause :: lifecycle_policy where
  "two_failures_pause = \<lparr>lp_rules = [\<lparr>pr_metric = NumFailures, pr_threshold = 2, pr_window = 5, pr_tool_name = [],
     pr_action = \<lparr>pa_type = Pause, pa_cooldown_seconds = 0, pa_target_version = 0\<rparr>\<rparr>]\<rparr>"

definition one_failed_run :: db where
  "one_failed_run = (sample_db RInProgress ((sample_job JCompleted None None)\<lparr>j_workflow_metrics := one_failure\<rparr>))
     \<lparr>db_workflows := [(''w'', sample_wf\<lparr>w_lifecycle_policy := two_failures_pause\<rparr>)]\<rparr>"

definition complete_r1 :: "(string \<Rightarrow> bool) \<Rightarrow> db \<Rightarrow> db" where
  "complete_r1 flt d = fst (CompleteRequest flt ''u'' ''r1'' ''w'' 1 TInvoke CustomerMarked [] None 9 d)"

text \<open>Retrying a completion counts the run twice for the policy: a workflow whose only rule pauses it at
  two failures is left active by one completed run with one failure, but is paused by the same run when the
  first attempt at completing it emits the metrics and then fails to apply the policy, because the retry adds
  the run to the already stored history and totals before it evaluates the rule.\<close>

theorem retried_completion_fires_rule_early:
  "map_option w_state (wf_of (complete_r1 (\<lambda>_. False) one_failed_run) ''w'') = Some WActive \<and>
   map_option w_state (wf_of (complete_r1 (\<lambda>_. False) (complete_r1 (\<lambda>c. c = ''TryApplyResolution'') one_failed_run)) ''w'') = Some WPaused"
  by (intro conjI) code_simp+

end
