(* ===== verification/Worker.thy ===== *)
theory Worker
  imports SchedulerCore Convert
begin

text \<open>
  A worker session, \<open>WorkerSession\<close> of \<open>src/internal/rpcworker/rpcworker.go\<close>: the control loop with its four
  states, the lease goroutine of the job in hand and the messages of the client, as one step function over
  the session and the database. Every \<open>select\<close> case of the code is an event; \<open>flt\<close> makes the session's own
  repository calls and sends fail, \<open>sflt\<close> those inside the scheduler. A panic in the control goroutine ends
  the server process and is the state \<open>SessionCrashed\<close>. Converting a JSON value to a Struct is the identity.
\<close>

section \<open>Messages\<close>

datatype operation_status = OpUnspecified | OpInProgress | OpCompleted | OpFailed | OpCancelled
datatype cancel_reason = CrUnspecified | CrTimeout | CrSuspension
datatype failure_type = FtUnspecified | FtCustomerMarked | FtUncaughtException

text \<open>\<open>AtomicOperation\<close>; reading a nil context yields the empty map.\<close>

record pb_operation =
  po_name :: string
  po_context :: json_map
  po_timeout_seconds :: int
  po_delay_seconds :: int

text \<open>\<open>ApprovalGate\<close> and \<open>InputGate\<close>: the branches are (on approve, on reject) and (on answer, on timeout).\<close>

record pb_gate =
  pbg_id :: string
  pbg_timeout_seconds :: int
  pbg_detail :: string
  pbg_metadata :: "json_map option"
  pbg_yes :: "pb_operation option \<times> json_map option"
  pbg_no :: "pb_operation option \<times> json_map option"

record op_result =
  or_status :: operation_status
  or_message :: string
  or_next :: "pb_operation option"
  or_agent_updates :: agent_metrics
  or_approval_gate :: "pb_gate option"
  or_input_gate :: "pb_gate option"
  or_workflow_failures :: "int option"
  or_policy_actions :: "(string \<times> pb_agent_policy_action) list"
  or_failure_type :: failure_type
  or_failure_reason :: string
  or_result :: "json_map option"
  or_cancel_reason :: cancel_reason

text \<open>\<open>LaunchOperation\<close> carries the operation, \<open>CancelOperation\<close> the request and the reason.\<close>

record launch_operation =
  lo_id :: string
  lo_workflow_id :: string
  lo_operation_type :: string
  lo_workflow_type :: string
  lo_context :: json_map
  lo_name :: string
  lo_timeout_seconds :: int
  lo_workflow_version :: int

datatype server_command = Launch launch_operation | CancelOp string cancel_reason

datatype session_state = ConnectedIdle | ConnectedWaiting | ConnectedBusy | CancelRequested | SessionClosed | SessionCrashed

text \<open>
  The variables of a session: the state, the capabilities being polled for (in the idle state, once the
  client is ready), the job in hand, the newest snapshot of the running operation, the lease goroutines in
  the order in which they wait on \<open>cancelLease\<close> (a send wakes the first, each renewal moves its goroutine to
  the end), and the abandon signal waiting in its channel, which holds one.
\<close>

record lease_goroutine =
  lg_workflow :: string
  lg_request :: string
  lg_signalled :: bool

record session =
  ss_state :: session_state
  ss_polling :: "(string \<times> int) list option"
  ss_job :: "(string \<times> job) option"
  ss_this_op :: agent_metrics
  ss_leases :: "lease_goroutine list"
  ss_abandon :: "string option"

record worker_env =
  we_session :: string
  we_group :: string
  we_uid :: string

definition leaseTime :: int where
  "leaseTime = secs 5"

section \<open>Metrics of the operation in flight\<close>

text \<open>A snapshot replaces its predecessor; an empty report keeps it.\<close>

definition recordSnapshot :: "op_result option \<Rightarrow> agent_metrics \<Rightarrow> agent_metrics" where
  "recordSnapshot res thisOp = (case res of None \<Rightarrow> thisOp | Some r \<Rightarrow> if or_agent_updates r = [] then thisOp else or_agent_updates r)"

definition agentMetrics :: "agent_metrics \<Rightarrow> job \<Rightarrow> agent_metrics result" where
  "agentMetrics thisOp j = MergeAgentMetrics thisOp (j_agent_metrics j)"

section \<open>Ending an operation\<close>

definition finish_job ::
  "(string \<Rightarrow> bool) \<Rightarrow> (string \<Rightarrow> bool) \<Rightarrow> worker_env \<Rightarrow> string \<Rightarrow> job \<Rightarrow> run_outcome \<Rightarrow> string \<Rightarrow> json_map option \<Rightarrow>
   agent_metrics \<Rightarrow> workflow_job_metrics \<Rightarrow> timestamp \<Rightarrow> db \<Rightarrow> db \<times> unit result" where
  "finish_job flt sflt env i j oc reason res am wm now d =
     (if flt ''UpdateJobStatusWithMetrics'' then (d, Inl DbError)
      else case UpdateJobStatusWithMetrics i (we_session env) JCompleted oc reason res am wm d of
        (d1, False) \<Rightarrow> (d1, Inr ())
      | (d1, True) \<Rightarrow>
          (case CompleteRequest sflt (we_uid env) (j_request_id j) i (j_version j) (j_job_type j) oc reason res now d1 of
             (d2, Inl Panic) \<Rightarrow> (d2, Inl Panic)
           | (d2, _) \<Rightarrow> (d2, Inr ())))"

text \<open>\<open>buildBranch\<close> and \<open>buildInputBranch\<close>.\<close>

definition buildBranch :: "pb_operation option \<times> json_map option \<Rightarrow> gate_branch" where
  "buildBranch b = (case b of
       (Some n, _) \<Rightarrow> \<lparr>gb_next = Some \<lparr>no_operation_name = po_name n, no_context = po_context n, no_timeout_seconds = po_timeout_seconds n\<rparr>, gb_result = None\<rparr>
     | (None, r) \<Rightarrow> \<lparr>gb_next = None, gb_result = r\<rparr>)"

definition result_outcome :: "op_result \<Rightarrow> run_outcome \<times> string" where
  "result_outcome r = (case or_failure_type r of
       FtCustomerMarked \<Rightarrow> (CustomerMarked, or_failure_reason r)
     | FtUncaughtException \<Rightarrow> (UncaughtException, or_failure_reason r)
     | FtUnspecified \<Rightarrow> (Successful, []))"

text \<open>The four ways a completed operation continues: next operation, approval gate, input gate, end of the run.\<close>

definition advance_job ::
  "(string \<Rightarrow> bool) \<Rightarrow> (string \<Rightarrow> bool) \<Rightarrow> worker_env \<Rightarrow> string \<Rightarrow> job \<Rightarrow> op_result \<Rightarrow> agent_metrics \<Rightarrow> workflow_job_metrics \<Rightarrow>
   timestamp \<Rightarrow> db \<Rightarrow> db \<times> unit result" where
  "advance_job flt sflt env i j r am wm now d =
     (case or_next r of
        Some n \<Rightarrow>
          if flt ''UpdateJobWithMetrics'' then (d, Inl DbError)
          else (fst (UpdateJobWithMetrics i (we_session env) JAwaitingNext (po_name n) (po_timeout_seconds n) (po_delay_seconds n)
                  (po_context n) am wm now d), Inr ())
      | None \<Rightarrow>
          (case or_approval_gate r of
             Some g \<Rightarrow>
               if flt ''ParkForApproval'' then (d, Inl DbError)
               else let d1 = fst (ParkForApproval i (we_session env) (pbg_id g) (pbg_timeout_seconds g) (pbg_detail g) (pbg_metadata g)
                           \<lparr>jm_approval_gate = Some \<lparr>ag_on_approve = buildBranch (pbg_yes g), ag_on_reject = buildBranch (pbg_no g)\<rparr>,
                            jm_input_gate = None\<rparr> am wm now d)
                    in (if flt ''MarkAwaitingApproval'' then d1 else MarkAwaitingApproval i d1, Inr ())
           | None \<Rightarrow>
               (case or_input_gate r of
                  Some g \<Rightarrow>
                    if flt ''ParkForInput'' then (d, Inl DbError)
                    else let d1 = fst (ParkForInput i (we_session env) (pbg_id g) (pbg_timeout_seconds g) (pbg_detail g) (pbg_metadata g)
                                \<lparr>jm_approval_gate = None,
                                 jm_input_gate = Some \<lparr>ig_on_answer = buildBranch (pbg_yes g), ig_on_timeout = buildBranch (pbg_no g)\<rparr>\<rparr>
                                am wm now d)
                         in (if flt ''MarkAwaitingInput'' then d1 else MarkAwaitingInput i d1, Inr ())
                | None \<Rightarrow> finish_job flt sflt env i j (fst (result_outcome r)) (snd (result_outcome r)) (or_result r) am wm now d)))"

definition audit_policy_actions :: "(string \<Rightarrow> bool) \<Rightarrow> worker_env \<Rightarrow> string \<Rightarrow> job \<Rightarrow> op_result \<Rightarrow> timestamp \<Rightarrow> db \<Rightarrow> db" where
  "audit_policy_actions flt env i j r now d =
     fold (\<lambda>x d. if flt (''Append:'' @ fst x) then d
        else Append (we_uid env @ fst x) \<lparr>ae_tenant_group_id = we_group env, ae_workflow_id = i, ae_request_id = j_request_id j,
               ae_event_type = EvAgentPolicyAction, ae_actor = ''system'', ae_occurred_at = now,
               ae_details = DAgentPolicy (AgentPolicyActionFromProto (fst x) (snd x))\<rparr> d) (or_policy_actions r) d"

definition merged_workflow_metrics :: "op_result \<Rightarrow> job \<Rightarrow> workflow_job_metrics" where
  "merged_workflow_metrics r j = (case or_workflow_failures r of
       None \<Rightarrow> j_workflow_metrics j
     | Some n \<Rightarrow> MergeWorkflowMetrics \<lparr>wm_failures = n, wm_approval_rejections = None\<rparr> (j_workflow_metrics j))"

text \<open>The result says only whether the goroutine panicked: the errors are logged by the callers.\<close>

definition completeOperation ::
  "(string \<Rightarrow> bool) \<Rightarrow> (string \<Rightarrow> bool) \<Rightarrow> worker_env \<Rightarrow> string \<Rightarrow> job \<Rightarrow> agent_metrics \<Rightarrow> op_result \<Rightarrow> timestamp \<Rightarrow> db \<Rightarrow> db \<times> bool" where
  "completeOperation flt sflt env i j thisOp r now d =
     (case agentMetrics (recordSnapshot (Some r) thisOp) j of
        Inl _ \<Rightarrow> (d, True)
      | Inr am \<Rightarrow>
          (case advance_job flt sflt env i j r am (merged_workflow_metrics r j) now d of
             (d1, Inl e) \<Rightarrow> (d1, e = Panic)
           | (d1, Inr _) \<Rightarrow> (audit_policy_actions flt env i j r now d1, False)))"

definition failOperation ::
  "(string \<Rightarrow> bool) \<Rightarrow> (string \<Rightarrow> bool) \<Rightarrow> worker_env \<Rightarrow> string \<Rightarrow> job \<Rightarrow> agent_metrics \<Rightarrow> string \<Rightarrow> timestamp \<Rightarrow> db \<Rightarrow> db \<times> bool" where
  "failOperation flt sflt env i j thisOp reason now d =
     (case agentMetrics thisOp j of
        Inl _ \<Rightarrow> (d, True)
      | Inr am \<Rightarrow>
          if flt ''FailJobWithMetrics'' then (d, False)
          else case FailJobWithMetrics i (we_session env) reason am (j_workflow_metrics j) d of
            (d1, False) \<Rightarrow> (d1, False)
          | (d1, True) \<Rightarrow>
              (case FailRequest sflt (j_request_id j) i (j_version j) reason (j_attempts j) now d1 of
                 (d2, r) \<Rightarrow> (d2, r = Inl Panic)))"

definition softFailOperation ::
  "(string \<Rightarrow> bool) \<Rightarrow> (string \<Rightarrow> bool) \<Rightarrow> worker_env \<Rightarrow> string \<Rightarrow> job \<Rightarrow> agent_metrics \<Rightarrow> run_outcome \<Rightarrow> string \<Rightarrow> timestamp \<Rightarrow> db \<Rightarrow> db \<times> bool" where
  "softFailOperation flt sflt env i j thisOp oc reason now d =
     (case agentMetrics thisOp j of
        Inl _ \<Rightarrow> (d, True)
      | Inr am \<Rightarrow>
          (case finish_job flt sflt env i j oc reason None am
                  ((j_workflow_metrics j)\<lparr>wm_failures := wm_failures (j_workflow_metrics j) + 1\<rparr>) now d of
             (d1, r) \<Rightarrow> (d1, r = Inl Panic)))"

definition suspendedReason :: string where
  "suspendedReason = ''stopped by workflow suspension''"

definition suspendOperation ::
  "(string \<Rightarrow> bool) \<Rightarrow> (string \<Rightarrow> bool) \<Rightarrow> worker_env \<Rightarrow> string \<Rightarrow> job \<Rightarrow> agent_metrics \<Rightarrow> timestamp \<Rightarrow> db \<Rightarrow> db \<times> bool" where
  "suspendOperation flt sflt env i j thisOp now d =
     (case agentMetrics thisOp j of
        Inl _ \<Rightarrow> (d, True)
      | Inr am \<Rightarrow>
          (case finish_job flt sflt env i j Suspended suspendedReason None am (j_workflow_metrics j) now d of
             (d1, r) \<Rightarrow> (d1, r = Inl Panic)))"

section \<open>The lease goroutine and the end of the session\<close>

definition release :: "(string \<Rightarrow> bool) \<Rightarrow> worker_env \<Rightarrow> lease_goroutine \<Rightarrow> db \<Rightarrow> db" where
  "release flt env g d = (if flt ''ReleaseJob'' then d else fst (ReleaseJob (lg_workflow g) (we_session env) d))"

text \<open>\<open>cancelLeaseIfExists\<close> wakes the goroutine that has waited longest, which releases its job and ends.\<close>

definition release_lease :: "(string \<Rightarrow> bool) \<Rightarrow> worker_env \<Rightarrow> session \<Rightarrow> db \<Rightarrow> session \<times> db" where
  "release_lease flt env s d =
     (case ss_leases s of [] \<Rightarrow> (s, d) | g # gs \<Rightarrow> (s\<lparr>ss_leases := gs\<rparr>, release flt env g d))"

type_synonym session_result = "session \<times> db \<times> server_command list"

text \<open>The control goroutine returns: the deferred close of \<open>cancelLease\<close> wakes every lease goroutine.\<close>

definition close_session :: "(string \<Rightarrow> bool) \<Rightarrow> worker_env \<Rightarrow> session \<Rightarrow> db \<Rightarrow> server_command list \<Rightarrow> session_result" where
  "close_session flt env s d cs =
     (s\<lparr>ss_state := SessionClosed, ss_leases := []\<rparr>, fold (release flt env) (ss_leases s) d, cs)"

definition crash :: "session \<Rightarrow> db \<Rightarrow> session_result" where
  "crash s d = (s\<lparr>ss_state := SessionCrashed\<rparr>, d, [])"

text \<open>After an operation ended: the deferred signal releases the lease, and the session goes on to \<open>nxt\<close>.\<close>

definition after_operation ::
  "(string \<Rightarrow> bool) \<Rightarrow> worker_env \<Rightarrow> session \<Rightarrow> db \<times> bool \<Rightarrow> (session \<Rightarrow> db \<Rightarrow> session_result) \<Rightarrow> session_result" where
  "after_operation flt env s x nxt =
     (case x of (d, panicked) \<Rightarrow>
        if panicked then crash s d else case release_lease flt env s d of (s', d') \<Rightarrow> nxt s' d')"

definition to_idle :: "session \<Rightarrow> db \<Rightarrow> session_result" where
  "to_idle s d = (s\<lparr>ss_state := ConnectedIdle, ss_polling := None\<rparr>, d, [])"

definition keep_polling :: "session \<Rightarrow> db \<Rightarrow> session_result" where
  "keep_polling s d = (s, d, [])"

definition closing :: "(string \<Rightarrow> bool) \<Rightarrow> worker_env \<Rightarrow> session \<Rightarrow> db \<Rightarrow> session_result" where
  "closing flt env s d = close_session flt env s d []"

section \<open>Acquiring and launching\<close>

text \<open>\<open>ctx["input"][k] = v\<close>, with a fresh map where there is none.\<close>

definition inject_input :: "string \<Rightarrow> json \<Rightarrow> json_map \<Rightarrow> json_map" where
  "inject_input k v ctx = AList.update ''input''
     (JObj (AList.update k v (case map_of ctx ''input'' of Some (JObj m) \<Rightarrow> m | _ \<Rightarrow> []))) ctx"

definition recordGateOutcome :: "bool \<Rightarrow> job \<Rightarrow> job" where
  "recordGateOutcome rejected j =
     (let n = (case wm_approval_rejections (j_workflow_metrics j) of None \<Rightarrow> 0 | Some n \<Rightarrow> n)
      in j\<lparr>j_workflow_metrics := (j_workflow_metrics j)\<lparr>wm_approval_rejections := Some (if rejected then n + 1 else n)\<rparr>\<rparr>)"

text \<open>What a job resumes with: an operation to launch, or a run to finish with the branch's result.\<close>

datatype resume = LaunchJob job | CompleteWith job "json_map option" | Unexpected | MissingGate

definition enter_branch :: "json_map \<Rightarrow> next_operation \<Rightarrow> job \<Rightarrow> job" where
  "enter_branch ctx n j = j\<lparr>j_context := ctx, j_timeout_seconds := no_timeout_seconds n, j_current_atomic_operation := no_operation_name n\<rparr>"

definition resolveBranch :: "gate_branch \<Rightarrow> job \<Rightarrow> resume" where
  "resolveBranch b j = (case gb_next b of
       Some n \<Rightarrow> LaunchJob (enter_branch
         (if ap_reason (j_approval j) = [] then no_context n
          else inject_input ''approval_reason'' (JStr (ap_reason (j_approval j))) (no_context n)) n j)
     | None \<Rightarrow> CompleteWith j (gb_result b))"

definition resolveInputBranch :: "gate_branch \<Rightarrow> json_map option \<Rightarrow> job \<Rightarrow> resume" where
  "resolveInputBranch b answer j = (case gb_next b of
       Some n \<Rightarrow> LaunchJob (enter_branch
         (case answer of None \<Rightarrow> no_context n | Some a \<Rightarrow> inject_input ''answer'' (JObj a) (no_context n)) n j)
     | None \<Rightarrow> CompleteWith j (gb_result b))"

definition resume_job :: "job \<Rightarrow> resume" where
  "resume_job j =
     (case j_status j of
        JApproved \<Rightarrow> (case jm_approval_gate (j_job_metadata j) of
            None \<Rightarrow> MissingGate | Some g \<Rightarrow> resolveBranch (ag_on_approve g) (recordGateOutcome False j))
      | JRejected \<Rightarrow> (case jm_approval_gate (j_job_metadata j) of
            None \<Rightarrow> MissingGate | Some g \<Rightarrow> resolveBranch (ag_on_reject g) (recordGateOutcome True j))
      | JAnswered \<Rightarrow> (case jm_input_gate (j_job_metadata j) of
            None \<Rightarrow> MissingGate | Some g \<Rightarrow> resolveInputBranch (ig_on_answer g) (in_answer (j_input j)) j)
      | JInputTimedOut \<Rightarrow> (case jm_input_gate (j_job_metadata j) of
            None \<Rightarrow> MissingGate | Some g \<Rightarrow> resolveInputBranch (ig_on_timeout g) None j)
      | JAwaitingNext \<Rightarrow> LaunchJob j
      | JPending \<Rightarrow> LaunchJob j
      | _ \<Rightarrow> Unexpected)"

definition completed_with :: "json_map option \<Rightarrow> op_result" where
  "completed_with res = \<lparr>or_status = OpCompleted, or_message = [], or_next = None, or_agent_updates = [],
     or_approval_gate = None, or_input_gate = None, or_workflow_failures = None, or_policy_actions = [],
     or_failure_type = FtUnspecified, or_failure_reason = [], or_result = res, or_cancel_reason = CrUnspecified\<rparr>"

definition launch_message :: "string \<Rightarrow> job \<Rightarrow> launch_operation" where
  "launch_message i j = \<lparr>lo_id = j_request_id j, lo_workflow_id = i, lo_operation_type = request_type_name (j_job_type j),
     lo_workflow_type = j_workflow_type j, lo_context = j_context j, lo_name = j_current_atomic_operation j,
     lo_timeout_seconds = int32 (j_timeout_seconds j), lo_workflow_version = int32 (j_workflow_version j)\<rparr>"

definition launch ::
  "(string \<Rightarrow> bool) \<Rightarrow> worker_env \<Rightarrow> string \<Rightarrow> job \<Rightarrow> session \<Rightarrow> db \<Rightarrow> session_result" where
  "launch flt env i j s d =
     (if flt ''NewStruct'' then after_operation flt env s (d, False) keep_polling
      else case agentMetrics (ss_this_op s) j of
        Inl _ \<Rightarrow> crash s d
      | Inr am \<Rightarrow>
        if flt ''DispatchJob'' then close_session flt env s d []
        else case DispatchJob i (we_session env) (j_current_atomic_operation j) (j_timeout_seconds j) (j_context j) am (j_workflow_metrics j) d of
          (d1, False) \<Rightarrow> after_operation flt env s (d1, False) keep_polling
        | (d1, True) \<Rightarrow>
            (let d2 = (if flt ''MarkInvoking'' then d1 else MarkInvoking i d1);
                 d3 = (if flt ''MarkRequestInProgress'' then d2 else MarkRequestInProgress (j_request_id j) d2)
             in if flt ''Send'' then
                  close_session flt env s (if flt ''UpdateJobStatus'' then d3 else fst (UpdateJobStatus i (we_session env) JPending d3)) []
                else (s\<lparr>ss_state := ConnectedWaiting, ss_polling := None, ss_job := Some (i, j)\<rparr>, d3,
                      [Launch (launch_message i j)])))"

text \<open>One round of the polling loop.\<close>

definition poll ::
  "(string \<Rightarrow> bool) \<Rightarrow> (string \<Rightarrow> bool) \<Rightarrow> worker_env \<Rightarrow> (string \<times> int) list \<Rightarrow> timestamp \<Rightarrow> session \<Rightarrow> db \<Rightarrow> session_result" where
  "poll flt sflt env caps now s d =
     (if flt ''GetAvailableJob'' then keep_polling s d
      else case GetAvailableJob (we_group env) caps now d of
        None \<Rightarrow> keep_polling s d
      | Some i \<Rightarrow>
        if flt ''AcquireJob'' then keep_polling s d
        else case AcquireJob i (we_session env) leaseTime (we_group env) now d of
          (d1, None) \<Rightarrow> keep_polling s d1
        | (d1, Some j) \<Rightarrow>
            (let s1 = s\<lparr>ss_this_op := [],
                   ss_leases := ss_leases s @ [\<lparr>lg_workflow = i, lg_request = j_request_id j, lg_signalled = False\<rparr>]\<rparr>
             in if j_abandon_requested_at j \<noteq> None
                then after_operation flt env s1 (suspendOperation flt sflt env i j [] now d1) keep_polling
                else case resume_job j of
                  LaunchJob j' \<Rightarrow> launch flt env i j' s1 d1
                | CompleteWith j' res \<Rightarrow>
                    after_operation flt env s1 (completeOperation flt sflt env i j' [] (completed_with res) now d1) keep_polling
                | Unexpected \<Rightarrow> after_operation flt env s1 (d1, False) keep_polling
                | MissingGate \<Rightarrow> crash s1 d1))"

section \<open>The state machine\<close>

datatype session_event =
    MsgReady "(string \<times> int) list" | MsgUpdate string "op_result option" | MsgOther
  | PollTick | RenewTick string | StreamDone | AckTimeout | OperationTimedOut | CancelAckTimeout | AbandonSignal

text \<open>One tick of the lease goroutine of workflow \<open>i\<close>.\<close>

definition renew_tick :: "(string \<Rightarrow> bool) \<Rightarrow> worker_env \<Rightarrow> string \<Rightarrow> timestamp \<Rightarrow> session \<Rightarrow> db \<Rightarrow> session_result" where
  "renew_tick flt env i now s d =
     (case filter (\<lambda>g. lg_workflow g = i) (ss_leases s) of
        [] \<Rightarrow> (s, d, [])
      | g # _ \<Rightarrow>
          (let rest = remove1 g (ss_leases s)
           in if flt ''RenewJobLease'' then (s\<lparr>ss_leases := rest\<rparr>, d, [])
              else case RenewJobLease i (we_session env) leaseTime now d of
                (d1, False, _) \<Rightarrow> (s\<lparr>ss_leases := rest\<rparr>, d1, [])
              | (d1, True, abandon) \<Rightarrow>
                  if abandon \<and> \<not> lg_signalled g
                  then (s\<lparr>ss_leases := rest @ [g\<lparr>lg_signalled := True\<rparr>],
                          ss_abandon := (case ss_abandon s of None \<Rightarrow> Some (lg_request g) | Some q \<Rightarrow> Some q)\<rparr>, d1, [])
                  else (s\<lparr>ss_leases := rest @ [g]\<rparr>, d1, [])))"

definition fail_and_close ::
  "(string \<Rightarrow> bool) \<Rightarrow> (string \<Rightarrow> bool) \<Rightarrow> worker_env \<Rightarrow> string \<Rightarrow> job \<Rightarrow> string \<Rightarrow> timestamp \<Rightarrow> session \<Rightarrow> db \<Rightarrow> session_result" where
  "fail_and_close flt sflt env i j reason now s d =
     after_operation flt env s (failOperation flt sflt env i j (ss_this_op s) reason now d) (closing flt env)"

text \<open>Sending the cancel command; without it the job is failed and the session ends.\<close>

definition request_cancel ::
  "(string \<Rightarrow> bool) \<Rightarrow> (string \<Rightarrow> bool) \<Rightarrow> worker_env \<Rightarrow> string \<Rightarrow> job \<Rightarrow> cancel_reason \<Rightarrow> timestamp \<Rightarrow> session \<Rightarrow> db \<Rightarrow> session_result" where
  "request_cancel flt sflt env i j cr now s d =
     (if flt ''Send'' then fail_and_close flt sflt env i j [] now s d
      else (s\<lparr>ss_state := CancelRequested\<rparr>, d, [CancelOp (j_request_id j) cr]))"

fun idle_step :: "(string \<Rightarrow> bool) \<Rightarrow> (string \<Rightarrow> bool) \<Rightarrow> worker_env \<Rightarrow> timestamp \<Rightarrow> session_event \<Rightarrow> session \<Rightarrow> db \<Rightarrow> session_result" where
  "idle_step flt sflt env now StreamDone s d = close_session flt env s d []"
| "idle_step flt sflt env now (MsgReady caps) s d =
     (if ss_polling s = None then poll flt sflt env caps now (s\<lparr>ss_polling := Some caps\<rparr>) d else (s, d, []))"
| "idle_step flt sflt env now (MsgUpdate q r) s d = (if ss_polling s = None then close_session flt env s d [] else (s, d, []))"
| "idle_step flt sflt env now MsgOther s d = (if ss_polling s = None then close_session flt env s d [] else (s, d, []))"
| "idle_step flt sflt env now PollTick s d = (case ss_polling s of None \<Rightarrow> (s, d, []) | Some caps \<Rightarrow> poll flt sflt env caps now s d)"
| "idle_step flt sflt env now _ s d = (s, d, [])"

text \<open>A ticker with a non-positive period panics as soon as the busy state is entered.\<close>

fun waiting_step :: "(string \<Rightarrow> bool) \<Rightarrow> (string \<Rightarrow> bool) \<Rightarrow> worker_env \<Rightarrow> string \<Rightarrow> job \<Rightarrow> timestamp \<Rightarrow> session_event \<Rightarrow> session \<Rightarrow> db \<Rightarrow> session_result" where
  "waiting_step flt sflt env i j now StreamDone s d = close_session flt env s d []"
| "waiting_step flt sflt env i j now AckTimeout s d =
     (if flt ''Send'' then fail_and_close flt sflt env i j [] now s d
      else close_session flt env s d [CancelOp (j_request_id j) CrTimeout])"
| "waiting_step flt sflt env i j now (MsgReady caps) s d = fail_and_close flt sflt env i j [] now s d"
| "waiting_step flt sflt env i j now MsgOther s d = fail_and_close flt sflt env i j [] now s d"
| "waiting_step flt sflt env i j now (MsgUpdate q r) s d =
     (if q \<noteq> j_request_id j then fail_and_close flt sflt env i j [] now s d
      else case r of
        None \<Rightarrow> crash s d
      | Some res \<Rightarrow>
          if or_status res \<noteq> OpInProgress then fail_and_close flt sflt env i j [] now s d
          else if flt ''UpdateJobStatus'' then fail_and_close flt sflt env i j [] now s d
          else case UpdateJobStatus i (we_session env) JRunning d of
            (d1, False) \<Rightarrow> close_session flt env s d1 []
          | (d1, True) \<Rightarrow>
              if j_timeout_seconds j \<le> 0 then crash s d1
              else (s\<lparr>ss_state := ConnectedBusy\<rparr>, d1, []))"
| "waiting_step flt sflt env i j now _ s d = (s, d, [])"

text \<open>A report of a running operation is stored at once; losing the job there fails it.\<close>

definition recordInterim ::
  "(string \<Rightarrow> bool) \<Rightarrow> (string \<Rightarrow> bool) \<Rightarrow> worker_env \<Rightarrow> string \<Rightarrow> job \<Rightarrow> op_result \<Rightarrow> timestamp \<Rightarrow> session \<Rightarrow> db \<Rightarrow> session_result" where
  "recordInterim flt sflt env i j res now s d =
     (if or_agent_updates res = [] then (s, d, [])
      else case agentMetrics (ss_this_op s) j of
        Inl _ \<Rightarrow> crash s d
      | Inr am \<Rightarrow>
          if flt ''UpdateJobMetrics'' then fail_and_close flt sflt env i j ''failed to record interim metrics'' now s d
          else case UpdateJobMetrics i (we_session env) am d of
            (d1, False) \<Rightarrow> fail_and_close flt sflt env i j ''failed to record interim metrics'' now s d1
          | (d1, True) \<Rightarrow> (s, d1, []))"

fun busy_step :: "(string \<Rightarrow> bool) \<Rightarrow> (string \<Rightarrow> bool) \<Rightarrow> worker_env \<Rightarrow> string \<Rightarrow> job \<Rightarrow> timestamp \<Rightarrow> session_event \<Rightarrow> session \<Rightarrow> db \<Rightarrow> session_result" where
  "busy_step flt sflt env i j now StreamDone s d = fail_and_close flt sflt env i j [] now s d"
| "busy_step flt sflt env i j now (MsgReady caps) s d = fail_and_close flt sflt env i j [] now s d"
| "busy_step flt sflt env i j now MsgOther s d = fail_and_close flt sflt env i j [] now s d"
| "busy_step flt sflt env i j now (MsgUpdate q r) s0 d =
     (let s = s0\<lparr>ss_this_op := recordSnapshot r (ss_this_op s0)\<rparr>
      in if q \<noteq> j_request_id j then fail_and_close flt sflt env i j [] now s d
         else case r of
           None \<Rightarrow> crash s d
         | Some res \<Rightarrow>
             (case or_status res of
                OpCompleted \<Rightarrow> after_operation flt env s (completeOperation flt sflt env i j (ss_this_op s) res now d) to_idle
              | OpFailed \<Rightarrow> after_operation flt env s (failOperation flt sflt env i j (ss_this_op s) (or_message res) now d) to_idle
              | OpInProgress \<Rightarrow> recordInterim flt sflt env i j res now s d
              | OpCancelled \<Rightarrow> after_operation flt env s (failOperation flt sflt env i j (ss_this_op s) [] now d) to_idle
              | OpUnspecified \<Rightarrow> to_idle s d))"
| "busy_step flt sflt env i j now AbandonSignal s d =
     (case ss_abandon s of
        None \<Rightarrow> (s, d, [])
      | Some q \<Rightarrow>
          if q \<noteq> j_request_id j then (s\<lparr>ss_abandon := None\<rparr>, d, [])
          else request_cancel flt sflt env i j CrSuspension now (s\<lparr>ss_abandon := None\<rparr>) d)"
| "busy_step flt sflt env i j now OperationTimedOut s d = request_cancel flt sflt env i j CrTimeout now s d"
| "busy_step flt sflt env i j now _ s d = (s, d, [])"

definition cancel_ack ::
  "(string \<Rightarrow> bool) \<Rightarrow> (string \<Rightarrow> bool) \<Rightarrow> worker_env \<Rightarrow> string \<Rightarrow> job \<Rightarrow> op_result \<Rightarrow> timestamp \<Rightarrow> session \<Rightarrow> db \<Rightarrow> session_result" where
  "cancel_ack flt sflt env i j res now s d =
     (case or_cancel_reason res of
        CrSuspension \<Rightarrow> after_operation flt env s (suspendOperation flt sflt env i j (ss_this_op s) now d) to_idle
      | CrTimeout \<Rightarrow> after_operation flt env s
          (softFailOperation flt sflt env i j (ss_this_op s) OperationTimeout ''operation exceeded its timeout'' now d) to_idle
      | CrUnspecified \<Rightarrow> after_operation flt env s (failOperation flt sflt env i j (ss_this_op s) (or_message res) now d) to_idle)"

fun cancel_step :: "(string \<Rightarrow> bool) \<Rightarrow> (string \<Rightarrow> bool) \<Rightarrow> worker_env \<Rightarrow> string \<Rightarrow> job \<Rightarrow> timestamp \<Rightarrow> session_event \<Rightarrow> session \<Rightarrow> db \<Rightarrow> session_result" where
  "cancel_step flt sflt env i j now StreamDone s d = fail_and_close flt sflt env i j [] now s d"
| "cancel_step flt sflt env i j now CancelAckTimeout s d = fail_and_close flt sflt env i j [] now s d"
| "cancel_step flt sflt env i j now (MsgReady caps) s d = fail_and_close flt sflt env i j [] now s d"
| "cancel_step flt sflt env i j now MsgOther s d = fail_and_close flt sflt env i j [] now s d"
| "cancel_step flt sflt env i j now (MsgUpdate q r) s0 d =
     (if q \<noteq> j_request_id j then fail_and_close flt sflt env i j [] now s0 d
      else let s = s0\<lparr>ss_this_op := recordSnapshot r (ss_this_op s0)\<rparr>
           in case r of
             None \<Rightarrow> crash s d
           | Some res \<Rightarrow>
               (case or_status res of
                  OpCompleted \<Rightarrow> after_operation flt env s (completeOperation flt sflt env i j (ss_this_op s) res now d) to_idle
                | OpFailed \<Rightarrow> cancel_ack flt sflt env i j res now s d
                | OpCancelled \<Rightarrow> cancel_ack flt sflt env i j res now s d
                | OpInProgress \<Rightarrow> (s, d, [])
                | OpUnspecified \<Rightarrow> to_idle s d))"
| "cancel_step flt sflt env i j now _ s d = (s, d, [])"

definition session_step ::
  "(string \<Rightarrow> bool) \<Rightarrow> (string \<Rightarrow> bool) \<Rightarrow> worker_env \<Rightarrow> timestamp \<Rightarrow> session_event \<Rightarrow> session \<Rightarrow> db \<Rightarrow> session_result" where
  "session_step flt sflt env now ev s d =
     (case ev of
        RenewTick i \<Rightarrow> (if ss_state s = SessionCrashed then (s, d, []) else renew_tick flt env i now s d)
      | _ \<Rightarrow>
         (case (ss_state s, ss_job s) of
            (ConnectedIdle, _) \<Rightarrow> idle_step flt sflt env now ev s d
          | (ConnectedWaiting, Some (i, j)) \<Rightarrow> waiting_step flt sflt env i j now ev s d
          | (ConnectedBusy, Some (i, j)) \<Rightarrow> busy_step flt sflt env i j now ev s d
          | (CancelRequested, Some (i, j)) \<Rightarrow> cancel_step flt sflt env i j now ev s d
          | _ \<Rightarrow> (s, d, [])))"

definition new_session :: session where
  "new_session = \<lparr>ss_state = ConnectedIdle, ss_polling = None, ss_job = None, ss_this_op = [], ss_leases = [], ss_abandon = None\<rparr>"

end
