(* ===== verification/WorkerSession.thy ===== *)
theory WorkerSession
  imports Worker
begin

text \<open>
  What a worker session guarantees: a session that no longer holds its job changes no job and no request,
  its states follow the machine of \<open>WorkerSession\<close> in
  \<open>src/internal/rpcworker/rpcworker.go\<close>, and the reports of a running operation replace each other.
\<close>

section \<open>A session without ownership\<close>

definition not_owner :: "string \<Rightarrow> db \<Rightarrow> bool" where
  "not_owner sid d = rows_all (\<lambda>j. j_owner j \<noteq> Some sid) (db_jobs d)"

lemma not_owner_same_queue: "same_queue d d' \<Longrightarrow> not_owner sid d' = not_owner sid d"
  by (simp add: not_owner_def same_queue_def)

lemma fenced:
  assumes "not_owner sid d"
  shows "UpdateJobStatus i sid s d = (d, False)" "FailJobWithMetrics i sid r am wm d = (d, False)"
    "UpdateJobStatusWithMetrics i sid s oc r res am wm d = (d, False)" "UpdateJobMetrics i sid am d = (d, False)"
    "UpdateJobWithMetrics i sid s op t dl c am wm now d = (d, False)" "DispatchJob i sid op t c am wm d = (d, False)"
    "ParkForApproval i sid g t ju me jm am wm now d = (d, False)" "ParkForInput i sid g t ju me jm am wm now d = (d, False)"
    "ReleaseJob i sid d = (d, False)" "fst (RenewJobLease i sid l now d) = d" "fst (snd (RenewJobLease i sid l now d)) = False"
  using do_write_fenced [of d i sid] assms rows_all_lookup [of _ "db_jobs d" i]
  by (fastforce simp: not_owner_def write_defs case_prod_unfold upd_job_blocked intro!: upd_job_blocked)+

lemma release_fenced: "not_owner (we_session env) d \<Longrightarrow> release flt env g d = d"
  by (simp add: release_def fenced)

lemma fold_release_fenced: "not_owner (we_session env) d \<Longrightarrow> fold (release flt env) gs d = d"
  by (induction gs) (simp_all add: release_fenced)

definition quiet :: "worker_env \<Rightarrow> db \<Rightarrow> session_result \<Rightarrow> bool" where
  "quiet env d r = same_queue d (fst (snd r))"

lemma quiet_stay [simp]: "quiet env d (s, d', cs) = same_queue d d'"
  by (simp add: quiet_def)

lemma quiet_close: "same_queue d d' \<Longrightarrow> not_owner (we_session env) d \<Longrightarrow> quiet env d (close_session flt env s d' cs)"
  by (simp add: close_session_def not_owner_same_queue fold_release_fenced)

lemma quiet_crash [simp]: "quiet env d (crash s d') = same_queue d d'"
  by (simp add: crash_def)

lemma quiet_after:
  assumes "same_queue d (fst x)" "not_owner (we_session env) d" "\<And>s d'. same_queue d d' \<Longrightarrow> quiet env d (nxt s d')"
  shows "quiet env d (after_operation flt env s x nxt)"
proof -
  obtain d1 p where x: "x = (d1, p)" by (cases x)
  then have "not_owner (we_session env) d1" using assms(1,2) not_owner_same_queue by simp
  then show ?thesis using assms x
    by (auto simp: after_operation_def release_lease_def release_fenced split: list.split)
qed

lemma quiet_to_idle: "same_queue d d' \<Longrightarrow> quiet env d (to_idle s d')"
  by (simp add: to_idle_def)

lemma quiet_closing: "not_owner (we_session env) d \<Longrightarrow> same_queue d d' \<Longrightarrow> quiet env d (closing flt env s d')"
  by (simp add: closing_def quiet_close)

lemma fail_fenced:
  "not_owner (we_session env) d \<Longrightarrow> same_queue d (fst (failOperation flt sflt env i j thisOp reason now d))"
  by (simp add: failOperation_def fenced split: sum.split)

lemma finish_fenced:
  "not_owner (we_session env) d \<Longrightarrow> fst (finish_job flt sflt env i j oc reason res am wm now d) = d"
  by (simp add: finish_job_def fenced)

lemma same_queue_audit: "same_queue d (audit_policy_actions flt env i j r now d)"
proof -
  have "same_queue d' (fold (\<lambda>x d. if flt (''Append:'' @ fst x) then d else Append (u x) (e x) d) xs d')" for xs u e d'
    by (induction xs arbitrary: d') (auto simp: Append_def same_queue_def)
  then show ?thesis by (simp add: audit_policy_actions_def)
qed

lemma same_queue_marks:
  "same_queue d (MarkWorkflowAwaitingApproval i d)" "same_queue d (MarkWorkflowAwaitingInput i d)"
  by (simp_all add: MarkWorkflowAwaitingApproval_def MarkWorkflowAwaitingInput_def same_queue_def split: option.split)

lemma advance_fenced:
  assumes "not_owner (we_session env) d"
  shows "same_queue d (fst (advance_job flt sflt env i j r am wm now d))"
  using assms same_queue_marks
  by (auto simp: advance_job_def fenced finish_fenced Let_def split: option.split)

lemma complete_fenced:
  assumes "not_owner (we_session env) d"
  shows "same_queue d (fst (completeOperation flt sflt env i j thisOp r now d))"
proof -
  obtain am where "agentMetrics (recordSnapshot (Some r) thisOp) j = Inr am \<or> (\<exists>e. agentMetrics (recordSnapshot (Some r) thisOp) j = Inl e)"
    by (cases "agentMetrics (recordSnapshot (Some r) thisOp) j") auto
  moreover obtain d1 x where a: "advance_job flt sflt env i j r am (merged_workflow_metrics r j) now d = (d1, x)" by fastforce
  then have "same_queue d d1" using advance_fenced [OF assms] by (metis fst_conv)
  ultimately show ?thesis using a same_queue_audit same_queue_trans
    by (auto simp: completeOperation_def split: sum.split)
qed

lemma soft_fail_fenced:
  "not_owner (we_session env) d \<Longrightarrow> same_queue d (fst (softFailOperation flt sflt env i j thisOp oc reason now d))"
  by (simp add: softFailOperation_def finish_fenced case_prod_unfold split: sum.split)

lemma suspend_fenced:
  "not_owner (we_session env) d \<Longrightarrow> same_queue d (fst (suspendOperation flt sflt env i j thisOp now d))"
  by (simp add: suspendOperation_def finish_fenced case_prod_unfold split: sum.split)

lemmas quiet_ops = quiet_after quiet_to_idle quiet_closing quiet_close fail_fenced complete_fenced soft_fail_fenced suspend_fenced

lemma quiet_fail_and_close:
  "not_owner (we_session env) d \<Longrightarrow> quiet env d (fail_and_close flt sflt env i j reason now s d)"
  by (simp add: fail_and_close_def quiet_ops)

lemma quiet_waiting: "not_owner (we_session env) d \<Longrightarrow> quiet env d (waiting_step flt sflt env i j now ev s d)"
  by (cases ev) (simp_all add: quiet_fail_and_close quiet_ops fenced split: option.split)

lemma quiet_interim: "not_owner (we_session env) d \<Longrightarrow> quiet env d (recordInterim flt sflt env i j res now s d)"
  by (simp add: recordInterim_def quiet_fail_and_close fenced split: sum.split)

lemma quiet_busy: "not_owner (we_session env) d \<Longrightarrow> quiet env d (busy_step flt sflt env i j now ev s d)"
  by (cases ev) (simp_all add: Let_def quiet_fail_and_close quiet_ops quiet_interim request_cancel_def split: option.split operation_status.split)

lemma quiet_cancel: "not_owner (we_session env) d \<Longrightarrow> quiet env d (cancel_step flt sflt env i j now ev s d)"
  by (cases ev) (simp_all add: Let_def quiet_fail_and_close quiet_ops cancel_ack_def split: option.split operation_status.split cancel_reason.split)

lemma quiet_idle:
  "not_owner (we_session env) d \<Longrightarrow> ev \<noteq> PollTick \<Longrightarrow> \<forall>caps. ev \<noteq> MsgReady caps \<Longrightarrow> quiet env d (idle_step flt sflt env now ev s d)"
  by (cases ev) (simp_all add: quiet_close)

lemma quiet_renew: "not_owner (we_session env) d \<Longrightarrow> quiet env d (renew_tick flt env i now s d)"
  using fenced(10,11) [of "we_session env" d i leaseTime now]
  by (auto simp: renew_tick_def Let_def split: list.split prod.split bool.split)

section \<open>The state machine\<close>

text \<open>
  Where an event can take a session, by the state it is in and the request it holds. An idle session polls when the client is
  ready and goes to waiting when it has sent an operation; an acknowledgement of that operation makes it busy; the result of
  the operation makes it idle again; a timeout or the abandon signal asks for a cancellation, whose result makes it idle.
  A message out of place and a lost stream end the session; a panic ends the process.
\<close>

definition idle_moves :: "session_event \<Rightarrow> session_state list" where
  "idle_moves ev = (case ev of
       MsgReady _ \<Rightarrow> [ConnectedIdle, ConnectedWaiting, SessionClosed, SessionCrashed]
     | PollTick \<Rightarrow> [ConnectedIdle, ConnectedWaiting, SessionClosed, SessionCrashed]
     | MsgUpdate _ _ \<Rightarrow> [ConnectedIdle, SessionClosed]
     | MsgOther \<Rightarrow> [ConnectedIdle, SessionClosed]
     | StreamDone \<Rightarrow> [SessionClosed]
     | _ \<Rightarrow> [ConnectedIdle])"

text \<open>The states a report about request \<open>rid\<close> leads to, when it says that the operation goes on and when it says anything else.\<close>

definition report_moves :: "string \<Rightarrow> session_state list \<Rightarrow> session_state list \<Rightarrow> string \<Rightarrow> op_result option \<Rightarrow> session_state list" where
  "report_moves rid running over q r = (if q \<noteq> rid then [SessionClosed, SessionCrashed]
     else case r of None \<Rightarrow> [SessionCrashed] | Some res \<Rightarrow> if or_status res = OpInProgress then running else over)"

definition waiting_moves :: "string \<Rightarrow> session_event \<Rightarrow> session_state list" where
  "waiting_moves rid ev = (case ev of
       MsgUpdate q r \<Rightarrow> report_moves rid [ConnectedBusy, SessionClosed, SessionCrashed] [SessionClosed, SessionCrashed] q r
     | MsgReady _ \<Rightarrow> [SessionClosed, SessionCrashed]
     | MsgOther \<Rightarrow> [SessionClosed, SessionCrashed]
     | AckTimeout \<Rightarrow> [SessionClosed, SessionCrashed]
     | StreamDone \<Rightarrow> [SessionClosed]
     | _ \<Rightarrow> [ConnectedWaiting])"

definition busy_moves :: "string \<Rightarrow> session_event \<Rightarrow> session_state list" where
  "busy_moves rid ev = (case ev of
       MsgUpdate q r \<Rightarrow> report_moves rid [ConnectedBusy, SessionClosed, SessionCrashed] [ConnectedIdle, SessionCrashed] q r
     | MsgReady _ \<Rightarrow> [SessionClosed, SessionCrashed]
     | MsgOther \<Rightarrow> [SessionClosed, SessionCrashed]
     | StreamDone \<Rightarrow> [SessionClosed, SessionCrashed]
     | OperationTimedOut \<Rightarrow> [CancelRequested, SessionClosed, SessionCrashed]
     | AbandonSignal \<Rightarrow> [ConnectedBusy, CancelRequested, SessionClosed, SessionCrashed]
     | _ \<Rightarrow> [ConnectedBusy])"

definition cancel_moves :: "string \<Rightarrow> session_event \<Rightarrow> session_state list" where
  "cancel_moves rid ev = (case ev of
       MsgUpdate q r \<Rightarrow> report_moves rid [CancelRequested] [ConnectedIdle, SessionCrashed] q r
     | MsgReady _ \<Rightarrow> [SessionClosed, SessionCrashed]
     | MsgOther \<Rightarrow> [SessionClosed, SessionCrashed]
     | StreamDone \<Rightarrow> [SessionClosed, SessionCrashed]
     | CancelAckTimeout \<Rightarrow> [SessionClosed, SessionCrashed]
     | _ \<Rightarrow> [CancelRequested])"

text \<open>A renewal of the lease leaves the state alone, and a session that ended never moves again.\<close>

definition session_moves :: "session \<Rightarrow> session_event \<Rightarrow> session_state list" where
  "session_moves s ev = (case ev of RenewTick _ \<Rightarrow> [ss_state s]
     | _ \<Rightarrow> (case (ss_state s, ss_job s) of
         (ConnectedIdle, _) \<Rightarrow> idle_moves ev
       | (ConnectedWaiting, Some (i, j)) \<Rightarrow> waiting_moves (j_request_id j) ev
       | (ConnectedBusy, Some (i, j)) \<Rightarrow> busy_moves (j_request_id j) ev
       | (CancelRequested, Some (i, j)) \<Rightarrow> cancel_moves (j_request_id j) ev
       | _ \<Rightarrow> [ss_state s]))"

lemmas moves_defs = idle_moves_def waiting_moves_def busy_moves_def cancel_moves_def report_moves_def

text \<open>
  The arrows of the comment above \<open>WorkerSession\<close>. All but the first are moves; the first goes from idle straight to busy,
  where the code goes to waiting.
\<close>

lemma comment_arrows:
  "or_status res = OpInProgress \<Longrightarrow> ConnectedBusy \<in> set (waiting_moves rid (MsgUpdate rid (Some res)))"
  "or_status res \<in> {OpCompleted, OpFailed, OpCancelled} \<Longrightarrow> ConnectedIdle \<in> set (busy_moves rid (MsgUpdate rid (Some res)))"
  "CancelRequested \<in> set (busy_moves rid OperationTimedOut)"
  "or_status res \<in> {OpCancelled, OpCompleted} \<Longrightarrow> ConnectedIdle \<in> set (cancel_moves rid (MsgUpdate rid (Some res)))"
  "SessionClosed \<in> set (idle_moves StreamDone) \<inter> set (waiting_moves rid StreamDone) \<inter> set (busy_moves rid StreamDone) \<inter> set (cancel_moves rid StreamDone)"
  "ConnectedBusy \<notin> set (idle_moves ev)"
  by (auto simp: moves_defs split: session_event.split)

definition next_state :: "session_result \<Rightarrow> session_state" where
  "next_state r = ss_state (fst r)"

definition commands :: "session_result \<Rightarrow> server_command list" where
  "commands r = snd (snd r)"

lemma end_states [simp]:
  "next_state (close_session flt env s d cs) = SessionClosed" "commands (close_session flt env s d cs) = cs"
  "next_state (crash s d) = SessionCrashed" "commands (crash s d) = []"
  "next_state (to_idle s d) = ConnectedIdle" "commands (to_idle s d) = []"
  "next_state (closing flt env s d) = SessionClosed" "commands (closing flt env s d) = []"
  "next_state (keep_polling s d) = ss_state s" "commands (keep_polling s d) = []"
  "next_state (s, d, cs) = ss_state s" "commands (s, d, cs) = cs"
  by (simp_all add: next_state_def commands_def close_session_def crash_def to_idle_def closing_def keep_polling_def)

lemma state_after [simp]:
  "next_state (after_operation flt env s x (closing flt env)) = (if snd x then SessionCrashed else SessionClosed)"
  "next_state (after_operation flt env s x to_idle) = (if snd x then SessionCrashed else ConnectedIdle)"
  "next_state (after_operation flt env s x keep_polling) = (if snd x then SessionCrashed else ss_state s)"
  "commands (after_operation flt env s x (closing flt env)) = []"
  "commands (after_operation flt env s x to_idle) = []"
  "commands (after_operation flt env s x keep_polling) = []"
  by (auto simp: after_operation_def release_lease_def case_prod_unfold split: list.split)

lemma state_fail_and_close:
  "next_state (fail_and_close flt sflt env i j reason now s d) = SessionClosed \<or>
   next_state (fail_and_close flt sflt env i j reason now s d) = SessionCrashed"
  "commands (fail_and_close flt sflt env i j reason now s d) = []"
  by (simp_all add: fail_and_close_def)

definition launches :: "server_command list \<Rightarrow> bool" where
  "launches cs = list_ex (\<lambda>c. case c of Launch _ \<Rightarrow> True | CancelOp _ _ \<Rightarrow> False) cs"

lemma launches_simps [simp]: "\<not> launches []" "launches [Launch a]" "\<not> launches [CancelOp b r]"
  by (simp_all add: launches_def)

text \<open>A step from state \<open>a\<close> leads to one of the states \<open>ts\<close>, and it launches an operation exactly when it goes from idle to waiting.\<close>

definition conforms :: "session_state \<Rightarrow> session_state list \<Rightarrow> session_result \<Rightarrow> bool" where
  "conforms a ts r = (next_state r \<in> set ts \<and>
     launches (commands r) = (a = ConnectedIdle \<and> next_state r = ConnectedWaiting))"

lemma conforms_fail_and_close:
  "{SessionClosed, SessionCrashed} \<subseteq> set ts \<Longrightarrow> conforms a ts (fail_and_close flt sflt env i j reason now s d)"
  using state_fail_and_close [of flt sflt env i j reason now s d] by (auto simp: conforms_def)

lemma conforms_launch:
  "ss_state s = ConnectedIdle \<Longrightarrow> conforms ConnectedIdle [ConnectedIdle, ConnectedWaiting, SessionClosed, SessionCrashed] (launch flt env i j s d)"
  by (auto simp: conforms_def launch_def Let_def split: sum.split prod.split bool.split)

lemma conforms_poll:
  "ss_state s = ConnectedIdle \<Longrightarrow>
   conforms ConnectedIdle [ConnectedIdle, ConnectedWaiting, SessionClosed, SessionCrashed] (poll flt sflt env caps now s d)"
  using conforms_launch
  by (simp add: poll_def Let_def split: option.split prod.split resume.split) (simp add: conforms_def)

lemma conforms_idle: "ss_state s = ConnectedIdle \<Longrightarrow> conforms ConnectedIdle (idle_moves ev) (idle_step flt sflt env now ev s d)"
  by (cases ev) (simp_all add: idle_moves_def conforms_poll split: option.split, simp_all add: conforms_def)

lemma conforms_waiting:
  "ss_state s = ConnectedWaiting \<Longrightarrow> conforms ConnectedWaiting (waiting_moves (j_request_id j) ev) (waiting_step flt sflt env i j now ev s d)"
  by (cases ev) (simp_all add: waiting_moves_def report_moves_def conforms_fail_and_close split: option.split prod.split bool.split,
      simp_all add: conforms_def)

lemma conforms_interim:
  "ss_state s = ConnectedBusy \<Longrightarrow>
   conforms ConnectedBusy [ConnectedBusy, SessionClosed, SessionCrashed] (recordInterim flt sflt env i j res now s d)"
  by (simp add: recordInterim_def conforms_fail_and_close split: sum.split prod.split bool.split) (simp add: conforms_def)

lemma conforms_busy:
  "ss_state s = ConnectedBusy \<Longrightarrow> conforms ConnectedBusy (busy_moves (j_request_id j) ev) (busy_step flt sflt env i j now ev s d)"
  by (cases ev) (simp_all add: busy_moves_def report_moves_def Let_def conforms_fail_and_close conforms_interim request_cancel_def
      split: option.split operation_status.split, simp_all add: conforms_def)

lemma conforms_cancel:
  "ss_state s = CancelRequested \<Longrightarrow> conforms CancelRequested (cancel_moves (j_request_id j) ev) (cancel_step flt sflt env i j now ev s d)"
  by (cases ev) (simp_all add: cancel_moves_def report_moves_def Let_def conforms_fail_and_close cancel_ack_def
      split: option.split operation_status.split cancel_reason.split, simp_all add: conforms_def)

text \<open>A step is the step of the lease goroutine or of the state the session is in.\<close>

lemma session_step_dispatch:
  assumes "P (s, d, [])" "\<And>i. P (renew_tick flt env i now s d)"
    and "ss_state s = ConnectedIdle \<Longrightarrow> P (idle_step flt sflt env now ev s d)"
    and "\<And>i j. ss_state s = ConnectedWaiting \<Longrightarrow> P (waiting_step flt sflt env i j now ev s d)"
    and "\<And>i j. ss_state s = ConnectedBusy \<Longrightarrow> P (busy_step flt sflt env i j now ev s d)"
    and "\<And>i j. ss_state s = CancelRequested \<Longrightarrow> P (cancel_step flt sflt env i j now ev s d)"
  shows "P (session_step flt sflt env now ev s d)"
proof -
  let ?by_state = "case (ss_state s, ss_job s) of
      (ConnectedIdle, _) \<Rightarrow> idle_step flt sflt env now ev s d
    | (ConnectedWaiting, Some (i, j)) \<Rightarrow> waiting_step flt sflt env i j now ev s d
    | (ConnectedBusy, Some (i, j)) \<Rightarrow> busy_step flt sflt env i j now ev s d
    | (CancelRequested, Some (i, j)) \<Rightarrow> cancel_step flt sflt env i j now ev s d
    | _ \<Rightarrow> (s, d, [])"
  have "P ?by_state" using assms by (cases "ss_state s"; cases "ss_job s") (simp_all add: case_prod_unfold)
  moreover have "session_step flt sflt env now ev s d \<in> {?by_state, (s, d, [])} \<union> range (\<lambda>i. renew_tick flt env i now s d)"
    unfolding session_step_def by (cases ev) auto
  ultimately show ?thesis using assms(1,2) by auto
qed

lemma session_conforms: "conforms (ss_state s) (session_moves s ev) (session_step flt sflt env now ev s d)"
proof (cases "\<exists>i. ev = RenewTick i")
  case True
  have renew: "next_state (renew_tick flt env i now s d) = ss_state s \<and> commands (renew_tick flt env i now s d) = []" for i
    by (auto simp: renew_tick_def Let_def next_state_def commands_def split: list.split prod.split bool.split)
  show ?thesis using True renew by (auto simp: session_step_def session_moves_def conforms_def split: if_splits)
next
  case False
  let ?by_state = "case (ss_state s, ss_job s) of
      (ConnectedIdle, _) \<Rightarrow> idle_step flt sflt env now ev s d
    | (ConnectedWaiting, Some (i, j)) \<Rightarrow> waiting_step flt sflt env i j now ev s d
    | (ConnectedBusy, Some (i, j)) \<Rightarrow> busy_step flt sflt env i j now ev s d
    | (CancelRequested, Some (i, j)) \<Rightarrow> cancel_step flt sflt env i j now ev s d
    | _ \<Rightarrow> (s, d, [])"
  let ?moves = "case (ss_state s, ss_job s) of
      (ConnectedIdle, _) \<Rightarrow> idle_moves ev
    | (ConnectedWaiting, Some (i, j)) \<Rightarrow> waiting_moves (j_request_id j) ev
    | (ConnectedBusy, Some (i, j)) \<Rightarrow> busy_moves (j_request_id j) ev
    | (CancelRequested, Some (i, j)) \<Rightarrow> cancel_moves (j_request_id j) ev
    | _ \<Rightarrow> [ss_state s]"
  have "session_step flt sflt env now ev s d = ?by_state"
    using False unfolding session_step_def by (cases ev) (simp_all only: session_event.case, blast)
  moreover have "session_moves s ev = ?moves"
    using False unfolding session_moves_def by (cases ev) (simp_all only: session_event.case, blast)
  moreover have "conforms (ss_state s) ?moves ?by_state"
  proof (cases "ss_job s")
    case None
    show ?thesis by (cases "ss_state s") (simp_all add: None conforms_idle, simp_all add: conforms_def)
  next
    case (Some ij)
    obtain i j where "ij = (i, j)" by (cases ij)
    then show ?thesis
      by (cases "ss_state s") (simp_all add: Some conforms_idle conforms_waiting conforms_busy conforms_cancel, simp_all add: conforms_def)
  qed
  ultimately show ?thesis by simp
qed

section \<open>Properties\<close>

text \<open>C22. A worker session follows its state machine: whatever the faults and the database, an event takes it only where the
  machine says for the state it is in and the request it holds, an operation is launched exactly on the step from idle to
  waiting, and a session that has ended stays ended and launches nothing.\<close>

theorem session_follows_its_machine:
  "next_state (session_step flt sflt env now ev s d) \<in> set (session_moves s ev) \<and>
   launches (commands (session_step flt sflt env now ev s d)) =
     (ss_state s = ConnectedIdle \<and> next_state (session_step flt sflt env now ev s d) = ConnectedWaiting)"
  using session_conforms [of s ev flt sflt env now d] by (simp add: conforms_def)

text \<open>C21. A session that has lost its job cannot change the outcome of any run: a step of a session that owns no job row leaves
  every job row and every request row as it was, whatever the client sends and whichever timer fires, except that an
  idle session looks for work when the client says it is ready or the polling timer fires.\<close>

theorem session_without_lease_is_harmless:
  assumes "not_owner (we_session env) d" "ss_state s = ConnectedIdle \<longrightarrow> ev \<noteq> PollTick \<and> (\<forall>caps. ev \<noteq> MsgReady caps)"
    and "session_step flt sflt env now ev s d = (s', d', cs)"
  shows "db_jobs d' = db_jobs d \<and> db_requests d' = db_requests d"
proof -
  have "quiet env d (session_step flt sflt env now ev s d)"
    by (rule session_step_dispatch)
      (use assms(1,2) in \<open>simp_all add: quiet_idle quiet_waiting quiet_busy quiet_cancel quiet_renew\<close>)
  then show ?thesis using assms(3) by (simp add: quiet_def same_queue_def)
qed

definition sample_session :: session where
  "sample_session = new_session\<lparr>ss_state := ConnectedBusy, ss_job := Some (''w'', sample_job JRunning (Some ''s1'') (Some 9))\<rparr>"

definition sample_worker :: worker_env where
  "sample_worker = \<lparr>we_session = ''s1'', we_group = ''g'', we_uid = ''u''\<rparr>"

theorem session_without_lease_is_harmless_witness:
  "db_jobs (fst (snd (session_step (\<lambda>_. False) (\<lambda>_. False) sample_worker 20 (MsgUpdate ''r1'' (Some (completed_with None))) sample_session
     (sample_db RInProgress (sample_job JRunning (Some ''s2'') (Some 30)))))) = [(''w'', sample_job JRunning (Some ''s2'') (Some 30))]"
proof -
  let ?d = "sample_db RInProgress (sample_job JRunning (Some ''s2'') (Some 30))"
  have "not_owner (we_session sample_worker) ?d" by (simp add: not_owner_def sample_worker_def sample_db_def sample_job_def)
  moreover have "ss_state sample_session = ConnectedIdle \<longrightarrow> MsgUpdate ''r1'' (Some (completed_with None)) \<noteq> PollTick \<and>
      (\<forall>caps. MsgUpdate ''r1'' (Some (completed_with None)) \<noteq> MsgReady caps)" by simp
  moreover have jobs: "db_jobs ?d = [(''w'', sample_job JRunning (Some ''s2'') (Some 30))]" by (simp add: sample_db_def)
  ultimately show ?thesis
    using session_without_lease_is_harmless [of sample_worker ?d sample_session "MsgUpdate ''r1'' (Some (completed_with None))"
        "\<lambda>_. False" "\<lambda>_. False" 20]
    by (metis prod.collapse jobs)
qed

text \<open>A session run on a list of events, without faults.\<close>

fun run_session :: "worker_env \<Rightarrow> timestamp \<Rightarrow> session_event list \<Rightarrow> session \<Rightarrow> db \<Rightarrow> session \<times> db" where
  "run_session env now [] s d = (s, d)"
| "run_session env now (ev # evs) s d =
     (case session_step (\<lambda>_. False) (\<lambda>_. False) env now ev s d of (s', d', _) \<Rightarrow> run_session env now evs s' d')"

text \<open>A report of a running operation.\<close>

definition interim :: "op_result \<Rightarrow> bool" where
  "interim r = (or_status r = OpInProgress \<and> or_agent_updates r \<noteq> [])"

lemma interim_step:
  assumes "ss_state s = ConnectedBusy" "ss_job s = Some (i, j)" "job_of d i = Some row" "j_owner row = Some (we_session env)"
    and "interim r" "MergeAgentMetrics (or_agent_updates r) (j_agent_metrics j) = Inr am"
  shows "\<exists>d'. session_step (\<lambda>_. False) (\<lambda>_. False) env now (MsgUpdate (j_request_id j) (Some r)) s d =
      (s\<lparr>ss_this_op := or_agent_updates r\<rparr>, d', []) \<and> job_of d' i = Some (row\<lparr>j_agent_metrics := am\<rparr>)"
proof -
  have "snd (UpdateJobMetrics i (we_session env) am d)"
    "job_of (fst (UpdateJobMetrics i (we_session env) am d)) i = Some (row\<lparr>j_agent_metrics := am\<rparr>)"
    using assms(3,4) by (simp_all add: UpdateJobMetrics_def row_simps)
  then obtain d' where "UpdateJobMetrics i (we_session env) am d = (d', True)" "job_of d' i = Some (row\<lparr>j_agent_metrics := am\<rparr>)"
    by (cases "UpdateJobMetrics i (we_session env) am d") auto
  then show ?thesis using assms
    by (auto simp: session_step_def recordInterim_def recordSnapshot_def agentMetrics_def interim_def Let_def)
qed

text \<open>C36. The reports of a running operation are running totals: after any number of interim reports the job
  row carries the metrics the job had when it was acquired merged with the newest report alone, so that no
  spend is counted twice, and the session is still busy with the job.\<close>

theorem interim_reports_replace_each_other:
  assumes "ss_state s = ConnectedBusy" "ss_job s = Some (i, j)" "job_of d i = Some row" "j_owner row = Some (we_session env)"
    and "no_nil (j_agent_metrics j)" "rs \<noteq> []" "list_all interim rs"
    and "run_session env now (map (\<lambda>r. MsgUpdate (j_request_id j) (Some r)) rs) s d = (s', d')"
  shows "ss_state s' = ConnectedBusy \<and> ss_job s' = Some (i, j) \<and>
    map_option (\<lambda>k. Inr (j_agent_metrics k)) (job_of d' i) = Some (MergeAgentMetrics (or_agent_updates (last rs)) (j_agent_metrics j))"
  using assms(1-4,6-8)
proof (induction rs arbitrary: s d row)
  case (Cons r rs)
  obtain am where am: "MergeAgentMetrics (or_agent_updates r) (j_agent_metrics j) = Inr am"
    using MergeAgentMetrics_total [OF assms(5)] by blast
  have "interim r" using Cons.prems by simp
  from interim_step [OF Cons.prems(1-4) this am, of now] obtain d1 where
    st: "session_step (\<lambda>_. False) (\<lambda>_. False) env now (MsgUpdate (j_request_id j) (Some r)) s d = (s\<lparr>ss_this_op := or_agent_updates r\<rparr>, d1, [])"
    "job_of d1 i = Some (row\<lparr>j_agent_metrics := am\<rparr>)" by blast
  show ?case
  proof (cases "rs = []")
    case True
    then show ?thesis using Cons.prems st am by auto
  next
    case False
    then show ?thesis
      using Cons.IH [of "s\<lparr>ss_this_op := or_agent_updates r\<rparr>" d1 "row\<lparr>j_agent_metrics := am\<rparr>"] Cons.prems st by simp
  qed
qed simp

definition sample_report :: "int \<Rightarrow> op_result" where
  "sample_report n = (completed_with None)\<lparr>or_status := OpInProgress, or_agent_updates := [(''a'', Some (no_metrics\<lparr>m_llm_calls := Some n\<rparr>))]\<rparr>"

theorem interim_reports_replace_each_other_witness:
  "case run_session sample_worker 5 (map (\<lambda>r. MsgUpdate ''r1'' (Some r)) [sample_report 2, sample_report 5]) sample_session
      (sample_db RInProgress (sample_job JRunning (Some ''s1'') (Some 9))) of
     (s', d') \<Rightarrow> map_option j_agent_metrics (job_of d' ''w'') = Some [(''a'', Some (no_metrics\<lparr>m_llm_calls := Some 5\<rparr>))]"
proof -
  let ?d = "sample_db RInProgress (sample_job JRunning (Some ''s1'') (Some 9))"
  let ?j = "sample_job JRunning (Some ''s1'') (Some 9)"
  obtain s' d' where r: "run_session sample_worker 5 (map (\<lambda>r. MsgUpdate ''r1'' (Some r)) [sample_report 2, sample_report 5]) sample_session ?d = (s', d')"
    by fastforce
  have "ss_state sample_session = ConnectedBusy" "ss_job sample_session = Some (''w'', ?j)" "job_of ?d ''w'' = Some ?j"
    "j_owner ?j = Some (we_session sample_worker)" "no_nil (j_agent_metrics ?j)" "[sample_report 2, sample_report 5] \<noteq> []"
    "list_all interim [sample_report 2, sample_report 5]" "j_request_id ?j = ''r1''"
    by (simp_all add: sample_session_def sample_worker_def sample_db_def sample_job_def no_nil_def interim_def sample_report_def)
  from interim_reports_replace_each_other [OF this(1-7), unfolded this(8), OF r]
  show ?thesis using r by (auto simp: sample_report_def sample_job_def)
qed

section \<open>What a client can do to the server\<close>

text \<open>An update without a result dereferences a nil pointer in the control goroutine.\<close>

lemma update_without_result_crashes:
  assumes "ss_job s = Some (i, j)" "ss_state s \<in> {ConnectedWaiting, ConnectedBusy, CancelRequested}"
  shows "next_state (session_step flt sflt env now (MsgUpdate (j_request_id j) None) s d) = SessionCrashed"
  using assms by (auto simp: session_step_def Let_def)

text \<open>An operation whose timeout is not positive is launched, and panics as soon as the client acknowledges it.\<close>

lemma nonpositive_timeout_crashes:
  assumes "ss_job s = Some (i, j)" "ss_state s = ConnectedWaiting" "j_timeout_seconds j \<le> 0"
    and "job_of d i = Some row" "j_owner row = Some (we_session env)" "or_status r = OpInProgress"
  shows "next_state (session_step (\<lambda>_. False) sflt env now (MsgUpdate (j_request_id j) (Some r)) s d) = SessionCrashed"
proof -
  have "snd (UpdateJobStatus i (we_session env) JRunning d)" using assms(4,5) by (simp add: UpdateJobStatus_def row_simps)
  then show ?thesis using assms by (simp add: session_step_def case_prod_unfold split: prod.split)
qed

text \<open>An unspecified status drops the job without ending it: the row stays running and its lease is kept up.\<close>

lemma unspecified_status_abandons_job:
  assumes "ss_job s = Some (i, j)" "ss_state s = ConnectedBusy" "or_status r = OpUnspecified"
  shows "session_step flt sflt env now (MsgUpdate (j_request_id j) (Some r)) s d =
    (s\<lparr>ss_this_op := recordSnapshot (Some r) (ss_this_op s), ss_state := ConnectedIdle, ss_polling := None\<rparr>, d, [])"
  using assms by (simp add: session_step_def to_idle_def Let_def)

text \<open>A session that lost its job still writes the audit rows of the policy actions it was told about.\<close>

lemma lost_job_still_audited:
  assumes "not_owner (we_session env) d" "agentMetrics (recordSnapshot (Some r) thisOp) j = Inr am"
    and "or_next r = None" "or_approval_gate r = None" "or_input_gate r = None" "or_policy_actions r = [(a, pa)]"
  shows "length (db_audit (fst (completeOperation (\<lambda>_. False) sflt env i j thisOp r now d))) = length (db_audit d) + 1"
  using assms by (simp add: completeOperation_def advance_job_def finish_job_def fenced audit_policy_actions_def Append_def)

section \<open>What a session launches\<close>

text \<open>The row of a job that session \<open>sid\<close> of group \<open>tg\<close> may pick, and its row once the operation is launched.\<close>

definition may_pick :: "string \<Rightarrow> (string \<times> int) list \<Rightarrow> timestamp \<Rightarrow> job \<Rightarrow> bool" where
  "may_pick tg caps now j = (dispatchable (j_status j) \<and> unowned now j \<and> dispatch_due now j \<and> j_tenant_group_id j = tg \<and>
     (j_workflow_type j, j_workflow_version j) \<in> set caps)"

definition launched :: "string \<Rightarrow> string \<Rightarrow> server_command \<Rightarrow> job \<Rightarrow> bool" where
  "launched sid i c j = (j_owner j = Some sid \<and> j_status j = JDispatched \<and> c = Launch (launch_message i j))"

text \<open>What a resumed job keeps of the row that was acquired.\<close>

definition same_identity :: "job \<Rightarrow> job \<Rightarrow> bool" where
  "same_identity k j = (j_request_id k = j_request_id j \<and> j_job_type k = j_job_type j \<and> j_workflow_type k = j_workflow_type j \<and>
     j_workflow_version k = j_workflow_version j)"

definition launch_ok :: "string \<Rightarrow> string \<Rightarrow> (string \<times> int) list \<Rightarrow> timestamp \<Rightarrow> db \<Rightarrow> session_result \<Rightarrow> bool" where
  "launch_ok sid tg caps now d r = (\<forall>c\<in>set (commands r). \<exists>i j j'. job_of d i = Some j \<and> may_pick tg caps now j \<and>
     job_of (fst (snd r)) i = Some j' \<and> launched sid i c j')"

lemma launch_ok_silent: "commands r = [] \<Longrightarrow> launch_ok sid tg caps now d r"
  by (simp add: launch_ok_def)

lemma marks_keep_jobs: "db_jobs (MarkWorkflowInvoking i d) = db_jobs d" "db_jobs (MarkRequestInProgress q d) = db_jobs d"
  by (simp_all add: MarkWorkflowInvoking_def MarkRequestInProgress_def split: option.split)

lemma clear_gates_keeps [simp]:
  "j_owner (clear_gates j) = j_owner j" "j_status (clear_gates j) = j_status j" "j_request_id (clear_gates j) = j_request_id j"
  "j_current_atomic_operation (clear_gates j) = j_current_atomic_operation j" "j_timeout_seconds (clear_gates j) = j_timeout_seconds j"
  "j_job_type (clear_gates j) = j_job_type j" "j_workflow_type (clear_gates j) = j_workflow_type j"
  "j_workflow_version (clear_gates j) = j_workflow_version j" "j_context (clear_gates j) = j_context j"
  by (simp_all add: clear_gates_def)

lemma DispatchJob_hit:
  assumes "job_of d i = Some k" "DispatchJob i sid op t ctx am wm d = (d1, True)"
  shows "j_owner k = Some sid \<and> job_of d1 i = Some (clear_gates (k\<lparr>j_status := JDispatched,
    j_current_atomic_operation := op, j_timeout_seconds := t, j_context := ctx, j_agent_metrics := am, j_workflow_metrics := wm\<rparr>))"
proof -
  let ?x = "DispatchJob i sid op t ctx am wm d"
  have "d1 = fst ?x" "snd ?x" using assms(2) by simp_all
  then show ?thesis using assms(1) by (auto simp: DispatchJob_def row_simps)
qed

lemma launch_launches:
  assumes "job_of d i = Some k" "same_identity k j" "c \<in> set (commands (launch flt env i j s d))"
  shows "\<exists>j'. job_of (fst (snd (launch flt env i j s d))) i = Some j' \<and> launched (we_session env) i c j'"
proof -
  obtain am where am: "agentMetrics (ss_this_op s) j = Inr am" using assms(3)
    by (cases "agentMetrics (ss_this_op s) j") (auto simp: launch_def split: if_splits)
  define x where "x = DispatchJob i (we_session env) (j_current_atomic_operation j) (j_timeout_seconds j) (j_context j) am (j_workflow_metrics j) d"
  obtain d1 ok where x1: "x = (d1, ok)" by (cases x)
  have ok: ok using assms(3) am x1 by (auto simp: launch_def x_def [symmetric] split: if_splits bool.splits)
  note hit = DispatchJob_hit [OF assms(1), of "we_session env" "j_current_atomic_operation j" "j_timeout_seconds j" "j_context j" am "j_workflow_metrics j" d1]
  have "x = (d1, True)" using x1 ok by simp
  then show ?thesis using assms(2,3) am hit
    by (auto simp: launch_def x_def [symmetric] Let_def launched_def launch_message_def same_identity_def marks_keep_jobs split: if_splits)
qed

lemma resume_keeps_identity: "resume_job j = LaunchJob j' \<Longrightarrow> same_identity j j'"
  by (auto simp: resume_job_def resolveBranch_def resolveInputBranch_def enter_branch_def recordGateOutcome_def same_identity_def Let_def
      split: job_status.splits option.splits)

lemma resume_keeps_request: "resume_job j = LaunchJob j' \<Longrightarrow> j_request_id j' = j_request_id j"
  by (drule resume_keeps_identity) (simp add: same_identity_def)

text \<open>A polling round that sends something has found a job, acquired it and launched it.\<close>

lemma poll_sends:
  assumes "commands (poll flt sflt env caps now s d) \<noteq> []"
  obtains i d1 j j' s1 where "GetAvailableJob (we_group env) caps now d = Some i"
    "AcquireJob i (we_session env) leaseTime (we_group env) now d = (d1, Some j)" "resume_job j = LaunchJob j'"
    "poll flt sflt env caps now s d = launch flt env i j' s1 d1"
proof (cases "GetAvailableJob (we_group env) caps now d")
  case None
  then show thesis using assms by (simp add: poll_def split: if_splits)
next
  case (Some i)
  obtain d1 jo where acq: "AcquireJob i (we_session env) leaseTime (we_group env) now d = (d1, jo)" by fastforce
  have f: "\<not> flt ''GetAvailableJob''" "\<not> flt ''AcquireJob''"
    using assms Some by (simp_all add: poll_def split: if_splits)
  obtain j where j: "jo = Some j" using assms Some acq f by (cases jo) (simp_all add: poll_def)
  show thesis
  proof (cases "resume_job j")
    case (LaunchJob j')
    then show thesis using that [OF Some] acq j assms f Some by (simp add: poll_def Let_def split: if_splits)
  qed (use assms Some acq j f in \<open>simp_all add: poll_def Let_def split: if_splits\<close>)
qed

lemma AcquireJob_hit:
  assumes "AcquireJob i sid l tg now d = (d1, Some j)"
  shows "\<exists>k. job_of d i = Some k \<and> dispatchable (j_status k) \<and> unowned now k \<and> dispatch_due now k \<and> j_tenant_group_id k = tg \<and>
    j_request_id j = j_request_id k \<and> job_of d1 i = Some j"
proof -
  let ?u = "upd_job i (\<lambda>j. dispatchable (j_status j) \<and> unowned now j \<and> dispatch_due now j \<and> j_tenant_group_id j = tg)
      (\<lambda>j. j\<lparr>j_owner := Some sid, j_lease_expires_at := Some (now + l)\<rparr>) d"
  have "snd ?u" "d1 = fst ?u" "job_of (fst ?u) i = Some j"
    using assms by (auto simp: AcquireJob_def case_prod_unfold split: if_splits)
  then show ?thesis by (auto simp: row_simps split: if_splits option.splits)
qed

lemma poll_launches:
  assumes "pk (db_jobs d)"
  shows "launch_ok (we_session env) (we_group env) caps now d (poll flt sflt env caps now s d)"
proof (cases "commands (poll flt sflt env caps now s d) = []")
  case False
  obtain i d1 j j' s1 where i: "GetAvailableJob (we_group env) caps now d = Some i"
      and acq: "AcquireJob i (we_session env) leaseTime (we_group env) now d = (d1, Some j)"
      and res: "resume_job j = LaunchJob j'" and eq: "poll flt sflt env caps now s d = launch flt env i j' s1 d1"
    using poll_sends [OF False] by blast
  obtain k where k: "job_of d i = Some k" "job_of d1 i = Some j" "j_request_id j = j_request_id k" using AcquireJob_hit [OF acq] by blast
  have "i \<in> set (sel_keys (\<lambda>_. may_pick (we_group env) caps now) (db_jobs d))"
    using i unfolding GetAvailableJob_def may_pick_def by (auto split: list.splits)
  then have "may_pick (we_group env) caps now k" using k(1) assms by (simp add: in_sel_keys)
  then show ?thesis unfolding launch_ok_def eq
    using launch_launches [OF k(2) resume_keeps_identity [OF res], of _ flt env s1] k(1) by blast
qed (rule launch_ok_silent)

text \<open>A launched job was there to be picked by the session, and its row records the very operation that was sent.\<close>

lemma session_launches:
  assumes "db_pk d" "session_step flt sflt env now ev s d = (s', d', cs)" "Launch op \<in> set cs"
  shows "\<exists>caps i j j'. (ev = MsgReady caps \<or> ss_polling s = Some caps) \<and> job_of d i = Some j \<and>
    may_pick (we_group env) caps now j \<and> job_of d' i = Some j' \<and> launched (we_session env) i (Launch op) j'"
proof -
  have pk: "pk (db_jobs d)" using assms(1) by (simp add: db_pk_def)
  have idle: "ss_state s = ConnectedIdle" using session_conforms [of s ev flt sflt env now d] assms(2,3)
    by (force simp: conforms_def launches_def list_ex_iff)
  obtain caps s1 where c: "ev = MsgReady caps \<or> ss_polling s = Some caps" "poll flt sflt env caps now s1 d = (s', d', cs)"
    using assms(2,3) idle by (cases ev) (auto simp: session_step_def renew_tick_def Let_def close_session_def split: if_splits option.splits list.splits prod.splits bool.splits)
  have "launch_ok (we_session env) (we_group env) caps now d (s', d', cs)" using poll_launches [OF pk, of env caps now flt sflt s1] c(2) by simp
  then show ?thesis using assms(3) c(1) unfolding launch_ok_def by fastforce
qed

end
