(* ===== verification/RunEnds.thy ===== *)
theory RunEnds
  imports Worker
begin

text \<open>
  The two ways a run ends, \<open>CompleteRequest\<close> and \<open>FailRequest\<close> of \<open>src/internal/scheduler/scheduler.go\<close>, and the ends of an
  operation in \<open>src/internal/rpcworker/rpcworker.go\<close> that lead to them, as sequences of statements. A relation between
  databases that holds across each statement holds across the whole path, whichever calls fail: the locales state what has to
  be shown of the statements, and give the paths.
\<close>

section \<open>Completing and failing a request\<close>

text \<open>\<open>G\<close> is what a statement may need of the state it runs in; the relation keeps it.\<close>

locale run_ends =
  fixes R :: "db \<Rightarrow> db \<Rightarrow> bool" and G :: "db \<Rightarrow> bool" and i rid :: string
  assumes refl [simp]: "R d d"
    and trans: "R d d1 \<Longrightarrow> R d1 d2 \<Longrightarrow> R d d2"
    and guard: "R d d' \<Longrightarrow> G d \<Longrightarrow> G d'"
    and apply_completed: "R d (fst (ApplyCompletedJob i ls v now d))"
    and apply_failed: "R d (fst (ApplyFailedJob i rid ls ws v now d))"
    and emit: "R d (fst (EmitMetrics i v rolling vm agents d))"
    and state_resolution: "R d (fst (TryApplyStateResolution i v ws cd rid d))"
    and version_resolution: "R d (fst (TryApplyVersionResolution i v expected target rid d))"
    and record_action: "G d \<Longrightarrow> R d (recordPolicyAction flt uid i rid act now d)"
    and delete_job: "R d (fst (DeleteTerminalJob i rid d))"
    and requeue: "R d (fst (RequeueJob i rid n d))"
    and claim: "R d (fst (ClaimFailedJob i rid n d))"
    and complete_request: "G d \<Longrightarrow> R d (fst (request_CompleteRequest rid oc reason res now d))"
    and fail_request: "G d \<Longrightarrow> R d (fst (request_FailRequest rid reason now d))"
begin

lemma fold_steps: "(\<And>x d. R d (f x d)) \<Longrightarrow> R d (fold f xs d)"
  by (induction xs arbitrary: d) (auto intro: trans)

lemma metrics: "R d (fst (HandleAgentMetrics flt rid im wm i w now d))"
  by (auto simp: HandleAgentMetrics_def Let_def emit split: prod.split sum.split)

lemma resolve: "R d (fst (ResolveLifecyclePolicy flt i w vm rid now d))"
  by (auto simp: ResolveLifecyclePolicy_def Let_def case_prod_unfold state_resolution version_resolution split: sum.split option.split)

lemma promote:
  assumes "G d"
  shows "R d (fst (promote_and_resolve flt uid rid i am wm w now d))"
proof -
  obtain d1 x where m: "HandleAgentMetrics flt rid am wm i w now d = (d1, x)" by fastforce
  have 1: "R d d1" using metrics [of d flt am wm w now] m by simp
  show ?thesis
  proof (cases x)
    case (Inr y)
    obtain vm w' where y: "y = (vm, w')" by fastforce
    obtain d2 z where r: "ResolveLifecyclePolicy flt i w' vm rid now d1 = (d2, z)" by fastforce
    have 2: "R d d2" using trans [OF 1, of d2] resolve [of d1 flt w' vm now] r by simp
    show ?thesis using m Inr y r 2 trans [OF 2 record_action [OF guard [OF 2 assms]]]
      by (auto simp: promote_and_resolve_def split: sum.split option.split)
  qed (use m 1 in \<open>simp add: promote_and_resolve_def\<close>)
qed

lemma finish:
  assumes "G d"
  shows "R d (fst (finish_completion flt rid i oc reason res b now d))" "R d (fst (finish_failure flt rid i reason b now d))"
proof -
  let ?d1 = "if flt ''DeleteTerminalJob'' then d else fst (DeleteTerminalJob i rid d)"
  have 1: "R d ?d1" by (simp add: delete_job)
  note ends = trans [OF 1 complete_request [OF guard [OF 1 assms]]] trans [OF 1 fail_request [OF guard [OF 1 assms]]]
  show "R d (fst (finish_completion flt rid i oc reason res b now d))"
    using 1 ends(1) [of oc reason res now] by (cases "request_CompleteRequest rid oc reason res now ?d1") (auto simp: finish_completion_def Let_def split: sum.split)
  show "R d (fst (finish_failure flt rid i reason b now d))"
    using 1 ends(2) [of reason now] by (cases "request_FailRequest rid reason now ?d1") (auto simp: finish_failure_def Let_def split: sum.split)
qed

lemma complete:
  assumes "G d"
  shows "R d (fst (CompleteRequest flt uid rid i ver rtype oc reason res now d))"
proof (cases "completed_lifecycle rtype")
  case (Some ls)
  obtain d1 applied where a: "ApplyCompletedJob i ls ver now d = (d1, applied)" by fastforce
  have 1: "R d d1" using apply_completed [of d ls ver now] a by simp
  obtain am wm where g: "GetJobMetrics i rid d1 = (am, wm)" by fastforce
  show ?thesis
  proof (cases "workflow_Get i d1")
    case (Inr w)
    obtain d2 x where p: "promote_and_resolve flt uid rid i am wm w now d1 = (d2, x)" by fastforce
    have 2: "R d d2" using trans [OF 1, of d2] promote [OF guard [OF 1 assms], of flt uid am wm w now] p by simp
    show ?thesis using Some a g Inr p 1 2 trans [OF 2 finish(1) [OF guard [OF 2 assms]]]
      by (simp add: CompleteRequest_def split: sum.split)
  qed (use Some a g 1 in \<open>simp add: CompleteRequest_def\<close>)
qed (simp add: CompleteRequest_def)

lemma interrupted: "R d (fst (recordInterruptedMetrics flt rid i now d))"
  using metrics by (auto simp: recordInterruptedMetrics_def split: prod.split sum.split error.split) (metis fst_conv)+

lemma tear_down:
  assumes "G d"
  shows "R d (fst (tear_down flt rid i ver reason now d))"
proof -
  obtain d1 applied where a: "ApplyFailedJob i rid LInterrupted WDisabled ver now d = (d1, applied)" by fastforce
  have 1: "R d d1" using apply_failed [of d LInterrupted WDisabled ver now] a by simp
  obtain d2 x where r: "(if applied then recordInterruptedMetrics flt rid i now d1 else (d1, Inr ())) = (d2, x)" by fastforce
  have 2: "R d d2" using 1 trans [OF 1, of d2] interrupted [of d1 flt now] r by (auto split: if_splits)
  show ?thesis using a r 2 trans [OF 2 finish(2) [OF guard [OF 2 assms]]] by (simp add: tear_down_def split: sum.split)
qed

lemma fail:
  assumes "G d"
  shows "R d (fst (FailRequest flt rid i ver reason attempts now d))"
proof (cases "workflow_Get i d")
  case (Inr w)
  let ?retry = "wc_resumable (w_config w) \<and> attempts < maxJobAttempts"
  obtain d1 q where r: "(if ?retry then RequeueJob i rid attempts d else (d, False)) = (d1, q)" by fastforce
  have 1: "R d d1" using requeue [of d attempts] r by (auto split: if_splits)
  obtain d2 c where m: "ClaimFailedJob i rid attempts d1 = (d2, c)" by fastforce
  have 2: "R d d2" using trans [OF 1, of d2] claim [of d1 attempts] m by simp
  show ?thesis using Inr r m 1 2 trans [OF 2 tear_down [OF guard [OF 2 assms]]]
    by (auto simp: FailRequest_def Let_def split: bool.split)
qed (simp add: FailRequest_def)

end

section \<open>Ending an operation\<close>

text \<open>What a session writes when an operation of its job ends: the job row, the marks on the workflow, the audit entries.\<close>

locale operation_ends = run_ends R G i rid for R :: "db \<Rightarrow> db \<Rightarrow> bool" and G :: "db \<Rightarrow> bool" and i rid :: string +
  fixes env :: worker_env
  assumes completed: "R d (fst (UpdateJobStatusWithMetrics i (we_session env) JCompleted oc reason res am wm d))"
    and failed: "R d (fst (FailJobWithMetrics i (we_session env) reason am wm d))"
    and next_operation: "R d (fst (UpdateJobWithMetrics i (we_session env) JAwaitingNext op tmo delay ctx am wm now d))"
    and park_approval: "R d (fst (ParkForApproval i (we_session env) gid tmo detail meta jm am wm now d))"
    and park_input: "R d (fst (ParkForInput i (we_session env) gid tmo detail meta jm am wm now d))"
    and awaiting_approval: "R d (MarkWorkflowAwaitingApproval i d)"
    and awaiting_input: "R d (MarkWorkflowAwaitingInput i d)"
    and append: "ae_tenant_group_id e = we_group env \<Longrightarrow> R d (Append u e d)"
begin

lemma finish_job:
  assumes "G d" "j_request_id j = rid"
  shows "R d (fst (finish_job flt sflt env i j oc reason res am wm now d))"
proof -
  obtain d1 hit where u: "UpdateJobStatusWithMetrics i (we_session env) JCompleted oc reason res am wm d = (d1, hit)" by fastforce
  have 1: "R d d1" using completed [of d oc reason res am wm] u by simp
  obtain d2 x where c: "CompleteRequest sflt (we_uid env) rid i (j_version j) (j_job_type j) oc reason res now d1 = (d2, x)" by fastforce
  have 2: "R d d2" using trans [OF 1 complete [OF guard [OF 1 assms(1)]]] c by (metis fst_conv)
  show ?thesis using u 1 c 2 assms(2) by (cases hit) (auto simp: finish_job_def split: sum.split error.split)
qed

lemma audit: "R d (audit_policy_actions flt env i j r now d)"
  by (auto simp: audit_policy_actions_def intro!: fold_steps append)

lemma advance:
  assumes "G d" "j_request_id j = rid"
  shows "R d (fst (advance_job flt sflt env i j r am wm now d))"
  using finish_job [OF assms]
  by (auto simp: advance_job_def Let_def next_operation park_approval park_input intro: trans [OF park_approval awaiting_approval]
      trans [OF park_input awaiting_input] split: option.split)

lemma complete_operation:
  assumes "G d" "j_request_id j = rid"
  shows "R d (fst (completeOperation flt sflt env i j thisOp r now d))"
proof (cases "agentMetrics (recordSnapshot (Some r) thisOp) j")
  case (Inr am)
  obtain d1 x where a: "advance_job flt sflt env i j r am (merged_workflow_metrics r j) now d = (d1, x)" by fastforce
  have 1: "R d d1" using advance [OF assms, of flt sflt r am "merged_workflow_metrics r j" now] a by simp
  show ?thesis using Inr a 1 trans [OF 1 audit] by (simp add: completeOperation_def split: sum.split)
qed (simp add: completeOperation_def)

lemma fail_operation:
  assumes "G d" "j_request_id j = rid"
  shows "R d (fst (failOperation flt sflt env i j thisOp reason now d))"
proof (cases "agentMetrics thisOp j")
  case (Inr am)
  obtain d1 hit where u: "FailJobWithMetrics i (we_session env) reason am (j_workflow_metrics j) d = (d1, hit)" by fastforce
  have 1: "R d d1" using failed [of d reason am "j_workflow_metrics j"] u by simp
  show ?thesis using Inr u 1 trans [OF 1 fail [OF guard [OF 1 assms(1)]]] assms(2)
    by (cases hit) (auto simp: failOperation_def case_prod_unfold)
qed (simp add: failOperation_def)

lemma stop_operation:
  assumes "G d" "j_request_id j = rid"
  shows "R d (fst (softFailOperation flt sflt env i j thisOp oc reason now d))" "R d (fst (suspendOperation flt sflt env i j thisOp now d))"
  using finish_job [OF assms] by (auto simp: softFailOperation_def suspendOperation_def case_prod_unfold split: sum.split)

lemmas operations = complete_operation fail_operation stop_operation

end

end
