(* ===== verification/System.thy ===== *)
theory System
  imports Isolation SchedulerTick WorkerSession RunEnds
begin

text \<open>
  The whole system over one database: API servers, scheduler ticks, the workers of a partition and worker sessions,
  in any interleaving and with any faults. The relation \<open>row_change\<close> lists the row changes a statement may make and the
  constraint each one obeys; every operation of every component is a sequence of them, so a constraint is proved
  once per kind of change and holds in all reachable states.
\<close>

section \<open>Well-formed databases\<close>

definition policy_ok :: "lifecycle_policy \<Rightarrow> bool" where
  "policy_ok p = list_all (\<lambda>r. rule_windowed r \<longrightarrow> 0 \<le> pr_window r) (lp_rules p)"

definition tenant_ok :: "tenant \<Rightarrow> bool" where
  "tenant_ok t = (0 \<le> t_workflow_count t \<and> (t_deleted_at t = None \<or> t_workflow_count t = 0))"

text \<open>The foreign keys of the schema.\<close>

definition has_wf :: "db \<Rightarrow> string \<Rightarrow> bool" where
  "has_wf d i = (wf_of d i \<noteq> None)"

definition has_tenant :: "db \<Rightarrow> string \<Rightarrow> bool" where
  "has_tenant d t = (map_of (db_tenants d) t \<noteq> None)"

definition has_group :: "db \<Rightarrow> string \<Rightarrow> bool" where
  "has_group d g = (map_of (db_groups d) g \<noteq> None)"

definition refs_ok :: "db \<Rightarrow> bool" where
  "refs_ok d = (rows_all (\<lambda>w. has_tenant d (w_tenant_id w)) (db_workflows d) \<and>
     rows_all (\<lambda>r. has_wf d (r_workflow_id r)) (db_requests d) \<and> list_all (has_wf d) (keys (db_jobs d)) \<and>
     list_all (\<lambda>k. has_wf d (fst k)) (keys (db_agent_state d)) \<and> list_all (\<lambda>k. has_wf d (fst k)) (keys (db_version_metrics d)) \<and>
     rows_all (\<lambda>t. has_group d (t_tenant_group_id t)) (db_tenants d) \<and>
     rows_all (\<lambda>k. has_group d (k_tenant_group_id k)) (db_api_keys d))"

definition sys_ok :: "db \<Rightarrow> bool" where
  "sys_ok d = (db_pk d \<and> refs_ok d \<and> jobs_tagged d \<and>
     rows_all (\<lambda>w. policy_ok (w_lifecycle_policy w)) (db_workflows d) \<and> rows_all tenant_ok (db_tenants d))"

section \<open>The life of a request\<close>

text \<open>
  The status changes the statements make, between the creation of a request and the purge of its workflow. The two
  terminal writes are not guarded on the status.
\<close>

fun request_moves :: "request_status \<Rightarrow> request_status list" where
  "request_moves RUnscheduled = [RScheduled, RPaused, RAbandoned, RSuperceded]"
| "request_moves RScheduled = [RInProgress, RSuperceded]"
| "request_moves RPaused = [RUnscheduled, RAbandoned]"
| "request_moves _ = []"

inductive request_move :: "customer_request \<Rightarrow> customer_request \<Rightarrow> bool" where
  moved: "s \<in> set (request_moves (r_status r)) \<Longrightarrow> request_move r (r\<lparr>r_status := s\<rparr>)"
| completed: "request_move r (r\<lparr>r_status := RCompleted, r_run_outcome := Some oc, r_failure_reason := reason, r_result := res,
    r_completed_at := Some now\<rparr>)"
| interrupted: "request_move r (r\<lparr>r_status := RFailed, r_run_outcome := Some Interrupted, r_failure_reason := reason,
    r_completed_at := Some now\<rparr>)"

declare request_move.intros [simp]

inductive_cases request_moveE: "request_move r r'"

lemma request_move_fixed: "request_move r r' \<Longrightarrow> r_workflow_id r' = r_workflow_id r \<and> r_version r' = r_version r"
  by (erule request_moveE) simp_all

text \<open>A run begins unscheduled and without a result.\<close>

definition fresh_run :: "customer_request \<Rightarrow> bool" where
  [simp]: "fresh_run r = (r_status r = RUnscheduled \<and> r_run_outcome r = None \<and> r_failure_reason r = [] \<and> r_completed_at r = None \<and> r_result r = None)"

text \<open>Of a workflow, only the creation of a run changes the target version, and the other versions never go back.\<close>

definition workflow_forward :: "workflow \<Rightarrow> workflow \<Rightarrow> bool" where
  [simp]: "workflow_forward w w' = (w_target_version w' = w_target_version w \<and> w_current_version w \<le> w_current_version w' \<and>
     w_metrics_emitted_at w \<le> w_metrics_emitted_at w')"

section \<open>The row changes\<close>

inductive row_change :: "db \<Rightarrow> db \<Rightarrow> bool" where
  wf: "(\<And>w. w_tenant_id (f w) = w_tenant_id w) \<Longrightarrow> (\<And>w. policy_ok (w_lifecycle_policy w) \<Longrightarrow> policy_ok (w_lifecycle_policy (f w))) \<Longrightarrow>
    (\<And>w. P w \<Longrightarrow> workflow_forward w (f w)) \<Longrightarrow> row_change d (fst (upd_wf i P f d))"
| wfs: "(\<And>k w. w_tenant_id (f k w) = w_tenant_id w) \<Longrightarrow> (\<And>k w. w_lifecycle_policy (f k w) = w_lifecycle_policy w) \<Longrightarrow>
    (\<And>k w. Q k w \<Longrightarrow> workflow_forward w (f k w)) \<Longrightarrow> row_change d (d\<lparr>db_workflows := upd_where Q f (db_workflows d)\<rparr>)"
| new_wf: "wf_of d i = None \<Longrightarrow> map_of (db_tenants d) (w_tenant_id w) \<noteq> None \<Longrightarrow> policy_ok (w_lifecycle_policy w) \<Longrightarrow>
    w_target_version w = 0 \<Longrightarrow> row_change d (d\<lparr>db_workflows := db_workflows d @ [(i, w)]\<rparr>)"
| job: "(\<And>j. j_tenant_group_id (f j) = j_tenant_group_id j) \<Longrightarrow> row_change d (fst (upd_job i P f d))"
| jobs: "(\<And>j. j_tenant_group_id (f j) = j_tenant_group_id j) \<Longrightarrow> row_change d (upd_jobs Q f d)"
| put_job: "owner_group d i = Some (j_tenant_group_id j) \<Longrightarrow> row_change d (d\<lparr>db_jobs := AList.update i j (db_jobs d)\<rparr>)"
| del_job: "row_change d (d\<lparr>db_jobs := del_where Q (db_jobs d)\<rparr>)"
| req: "(\<And>r. P r \<Longrightarrow> request_move r (f r)) \<Longrightarrow> row_change d (fst (upd_req q P f d))"
| reqs: "(\<And>q r. Q q r \<Longrightarrow> request_move r (f r)) \<Longrightarrow> row_change d (upd_reqs Q f d)"
| new_req: "req_of d q = None \<Longrightarrow> wf_of d (r_workflow_id r) = Some w \<Longrightarrow> r_version r = w_target_version w + 1 \<Longrightarrow>
    fresh_run r \<Longrightarrow> row_change d
      ((fst (upd_wf (r_workflow_id r) (\<lambda>_. True) (\<lambda>x. x\<lparr>w_target_version := r_version r\<rparr>) d))\<lparr>db_requests := db_requests d @ [(q, r)]\<rparr>)"
| put_version: "wf_of d i \<noteq> None \<Longrightarrow> row_change d (d\<lparr>db_version_metrics := AList.update (i, v, e) m (db_version_metrics d)\<rparr>)"
| put_agent: "wf_of d i \<noteq> None \<Longrightarrow> row_change d (d\<lparr>db_agent_state := AList.update (i, a) s (db_agent_state d)\<rparr>)"
| del_agent: "row_change d (d\<lparr>db_agent_state := del_where Q (db_agent_state d)\<rparr>)"
| tenant: "(\<And>t. t_tenant_group_id (f t) = t_tenant_group_id t) \<Longrightarrow> (\<And>t. P t \<Longrightarrow> tenant_ok t \<Longrightarrow> tenant_ok (f t)) \<Longrightarrow>
    row_change d (d\<lparr>db_tenants := fst (upd_row k P f (db_tenants d))\<rparr>)"
| new_tenant: "map_of (db_tenants d) k = None \<Longrightarrow> map_of (db_groups d) (t_tenant_group_id t) \<noteq> None \<Longrightarrow> tenant_ok t \<Longrightarrow>
    row_change d (d\<lparr>db_tenants := db_tenants d @ [(k, t)]\<rparr>)"
| del_tenant: "(\<And>k t. Q k t \<Longrightarrow> \<not> exists_row (\<lambda>_ w. w_tenant_id w = k) (db_workflows d)) \<Longrightarrow>
    row_change d (d\<lparr>db_tenants := del_where Q (db_tenants d)\<rparr>)"
| new_group: "map_of (db_groups d) k = None \<Longrightarrow> row_change d (d\<lparr>db_groups := db_groups d @ [(k, g)]\<rparr>)"
| del_group: "\<not> exists_row (\<lambda>_ t. t_tenant_group_id t = i) (db_tenants d) \<Longrightarrow> \<not> exists_row (\<lambda>_ k. k_tenant_group_id k = i) (db_api_keys d) \<Longrightarrow>
    row_change d (d\<lparr>db_groups := del_where (\<lambda>k _. k = i) (db_groups d)\<rparr>)"
| new_key: "map_of (db_api_keys d) k = None \<Longrightarrow> map_of (db_groups d) (k_tenant_group_id x) \<noteq> None \<Longrightarrow>
    row_change d (d\<lparr>db_api_keys := db_api_keys d @ [(k, x)]\<rparr>)"
| key: "(\<And>x. k_tenant_group_id (f x) = k_tenant_group_id x) \<Longrightarrow> row_change d (d\<lparr>db_api_keys := fst (upd_row k P f (db_api_keys d))\<rparr>)"
| price: "row_change d (d\<lparr>db_pricing := AList.update k p (db_pricing d)\<rparr>)"
| audit: "row_change d (d\<lparr>db_audit := as\<rparr>)"

text \<open>The purge of a deleted workflow is the only thing that removes requests, version metrics and workflows.\<close>

inductive purge_change :: "db \<Rightarrow> db \<Rightarrow> bool" where
  del_wf: "\<not> exists_row (\<lambda>_ r. r_workflow_id r = i) (db_requests d) \<Longrightarrow> job_of d i = None \<Longrightarrow>
    \<not> exists_row (\<lambda>(w, v, e) _. w = i) (db_version_metrics d) \<Longrightarrow>
    purge_change d (d\<lparr>db_workflows := del_where (\<lambda>k _. k = i) (db_workflows d), db_agent_state := del_where (\<lambda>(w, a) _. w = i) (db_agent_state d)\<rparr>)"
| del_req: "purge_change d (d\<lparr>db_requests := del_where Q (db_requests d)\<rparr>)"
| del_version: "purge_change d (d\<lparr>db_version_metrics := del_where Q (db_version_metrics d)\<rparr>)"

lemma pk_snoc [simp]: "pk (t @ [(k, r)]) \<longleftrightarrow> pk t \<and> map_of t k = None"
  by (auto simp: pk_def keys_def map_of_eq_None_iff)

lemma pk_delete [simp]: "pk t \<Longrightarrow> pk (del_where Q t)"
  by (rule pk_del_where)

lemma change_pk: "row_change d d' \<Longrightarrow> db_pk d \<Longrightarrow> db_pk d'"
  by (induction rule: row_change.induct)
    (simp_all add: db_pk_def upd_wf_def upd_wfs_def upd_job_def upd_jobs_def upd_req_def upd_reqs_def case_prod_unfold)

lemma change_policies:
  assumes "row_change d d'" "rows_all (\<lambda>w. policy_ok (w_lifecycle_policy w)) (db_workflows d)"
  shows "rows_all (\<lambda>w. policy_ok (w_lifecycle_policy w)) (db_workflows d')"
  using assms
proof (induction rule: row_change.induct)
  case (wf f d i P)
  then show ?case by (auto simp: upd_wf_def case_prod_unfold intro!: rows_all_upd_row)
next
  case (wfs f Q d)
  then show ?case by (auto intro!: rows_all_upd_where)
qed (auto simp: rows_all_del_where upd_wf_def case_prod_unfold intro!: rows_all_upd_row)

lemma change_tenants:
  assumes "row_change d d'" "rows_all tenant_ok (db_tenants d)"
  shows "rows_all tenant_ok (db_tenants d')"
  using assms by (induction rule: row_change.induct) (auto simp: rows_all_del_where intro!: rows_all_upd_row)

subsection \<open>References survive every change\<close>

lemma rows_all_mono: "rows_all P t \<Longrightarrow> (\<And>k r. (k, r) \<in> set t \<Longrightarrow> P r \<Longrightarrow> Q r) \<Longrightarrow> rows_all Q t"
  by (force simp: rows_all_def list_all_iff)

lemma list_all_mono: "list_all P t \<Longrightarrow> (\<And>x. x \<in> set t \<Longrightarrow> P x \<Longrightarrow> Q x) \<Longrightarrow> list_all Q t"
  by (simp add: list_all_iff)

lemma map_of_del_keep: "(\<And>r. \<not> Q k r) \<Longrightarrow> map_of (del_where Q t) k = map_of t k"
  by (induction t) (auto simp: del_where_def)

lemma keys_update_all: "list_all P (keys t) \<Longrightarrow> P k \<Longrightarrow> list_all P (keys (AList.update k v t))"
  by (induction t) (auto simp: keys_def)

lemma keys_del_all: "list_all P (keys t) \<Longrightarrow> list_all P (keys (del_where Q t))"
  by (induction t) (auto simp: keys_def del_where_def)

lemma row_lookup_None:
  "map_of (fst (upd_row i P f t)) k = None \<longleftrightarrow> map_of t k = None" "map_of (upd_where Q g t) k = None \<longleftrightarrow> map_of t k = None"
  by (auto simp: map_of_upd_row)

lemmas change_defs = upd_wf_def upd_wfs_def upd_job_def upd_jobs_def upd_req_def upd_reqs_def case_prod_unfold

text \<open>Which rows exist after a change of the table they live in.\<close>

lemma has_wf_simps [simp]:
  "has_wf (d\<lparr>db_workflows := fst (upd_row i P f (db_workflows d))\<rparr>) = has_wf d"
  "has_wf (d\<lparr>db_workflows := upd_where Q g (db_workflows d)\<rparr>) = has_wf d"
  by (simp_all add: has_wf_def row_lookup_None fun_eq_iff del: map_of_upd_where)

lemma has_tenant_simps [simp]: "has_tenant (d\<lparr>db_tenants := fst (upd_row i P f (db_tenants d))\<rparr>) = has_tenant d"
  by (simp add: has_tenant_def row_lookup_None fun_eq_iff)

lemma has_more:
  "has_wf d k \<Longrightarrow> has_wf (d\<lparr>db_workflows := db_workflows d @ u\<rparr>) k"
  "has_tenant d k \<Longrightarrow> has_tenant (d\<lparr>db_tenants := db_tenants d @ v\<rparr>) k"
  "has_group d k \<Longrightarrow> has_group (d\<lparr>db_groups := db_groups d @ w\<rparr>) k"
  by (auto simp: has_wf_def has_tenant_def has_group_def map_add_Some_iff)

lemma has_other [simp]:
  "has_wf (d\<lparr>db_jobs := a1\<rparr>) = has_wf d" "has_wf (d\<lparr>db_requests := a2\<rparr>) = has_wf d" "has_wf (d\<lparr>db_version_metrics := a3\<rparr>) = has_wf d"
  "has_wf (d\<lparr>db_agent_state := a4\<rparr>) = has_wf d" "has_wf (d\<lparr>db_tenants := a5\<rparr>) = has_wf d" "has_wf (d\<lparr>db_groups := a6\<rparr>) = has_wf d"
  "has_wf (d\<lparr>db_api_keys := a7\<rparr>) = has_wf d" "has_wf (d\<lparr>db_pricing := a8\<rparr>) = has_wf d" "has_wf (d\<lparr>db_partitions := a9\<rparr>) = has_wf d"
  "has_wf (d\<lparr>db_audit := a10\<rparr>) = has_wf d"
  "has_tenant (d\<lparr>db_jobs := a1\<rparr>) = has_tenant d" "has_tenant (d\<lparr>db_requests := a2\<rparr>) = has_tenant d"
  "has_tenant (d\<lparr>db_version_metrics := a3\<rparr>) = has_tenant d" "has_tenant (d\<lparr>db_agent_state := a4\<rparr>) = has_tenant d"
  "has_tenant (d\<lparr>db_workflows := a11\<rparr>) = has_tenant d" "has_tenant (d\<lparr>db_groups := a6\<rparr>) = has_tenant d"
  "has_tenant (d\<lparr>db_api_keys := a7\<rparr>) = has_tenant d" "has_tenant (d\<lparr>db_pricing := a8\<rparr>) = has_tenant d"
  "has_tenant (d\<lparr>db_partitions := a9\<rparr>) = has_tenant d" "has_tenant (d\<lparr>db_audit := a10\<rparr>) = has_tenant d"
  "has_group (d\<lparr>db_jobs := a1\<rparr>) = has_group d" "has_group (d\<lparr>db_requests := a2\<rparr>) = has_group d"
  "has_group (d\<lparr>db_version_metrics := a3\<rparr>) = has_group d" "has_group (d\<lparr>db_agent_state := a4\<rparr>) = has_group d"
  "has_group (d\<lparr>db_workflows := a11\<rparr>) = has_group d" "has_group (d\<lparr>db_tenants := a5\<rparr>) = has_group d"
  "has_group (d\<lparr>db_api_keys := a7\<rparr>) = has_group d" "has_group (d\<lparr>db_pricing := a8\<rparr>) = has_group d"
  "has_group (d\<lparr>db_partitions := a9\<rparr>) = has_group d" "has_group (d\<lparr>db_audit := a10\<rparr>) = has_group d"
  by (simp_all add: has_wf_def has_tenant_def has_group_def fun_eq_iff)

lemma change_refs:
  assumes "row_change d d'" "refs_ok d"
  shows "refs_ok d'"
  using assms
proof (induction rule: row_change.induct)
  case (new_wf d i w)
  then show ?case by (auto simp: refs_ok_def has_tenant_def [of d "w_tenant_id w"] elim!: rows_all_mono list_all_mono intro: has_more)
next
  case (del_tenant Q d)
  have "\<not> Q (w_tenant_id w) t" if "(k, w) \<in> set (db_workflows d)" for k w t
    using that del_tenant(1) by (force simp: exists_row_def list_ex_iff)
  then have "rows_all (\<lambda>w. has_tenant (d\<lparr>db_tenants := del_where Q (db_tenants d)\<rparr>) (w_tenant_id w)) (db_workflows d)"
    using del_tenant(2) by (auto simp: refs_ok_def has_tenant_def map_of_del_keep elim!: rows_all_mono)
  then show ?case using del_tenant(2) by (simp add: refs_ok_def rows_all_del_where)
next
  case (new_tenant d k t)
  then show ?case by (auto simp: refs_ok_def has_group_def [of d "t_tenant_group_id t"] elim!: rows_all_mono intro: has_more)
next
  case (new_group d k g)
  then show ?case by (auto simp: refs_ok_def elim!: rows_all_mono intro: has_more)
next
  case (del_group i d)
  have "t_tenant_group_id t \<noteq> i" if "(k, t) \<in> set (db_tenants d)" for k t using that del_group(1) by (auto simp: exists_row_def list_ex_iff)
  moreover have "k_tenant_group_id x \<noteq> i" if "(k, x) \<in> set (db_api_keys d)" for k x using that del_group(2) by (auto simp: exists_row_def list_ex_iff)
  ultimately show ?case using del_group(3) by (auto simp: refs_ok_def has_group_def map_of_del_key elim!: rows_all_mono)
next
  case (put_job d i j)
  then have "has_wf d i" by (auto simp: owner_group_Some has_wf_def)
  then show ?case using put_job by (simp add: refs_ok_def keys_update_all)
next
  case (req P f d q)
  have "P r \<Longrightarrow> r_workflow_id (f r) = r_workflow_id r" for r using request_move_fixed req.hyps by blast
  then show ?case using req.prems by (auto simp: refs_ok_def change_defs intro!: rows_all_upd_row)
next
  case (reqs Q f d)
  have "Q q r \<Longrightarrow> r_workflow_id (f r) = r_workflow_id r" for q r using request_move_fixed reqs.hyps by blast
  then show ?case using reqs.prems by (auto simp: refs_ok_def change_defs intro!: rows_all_upd_where)
qed (auto simp: refs_ok_def change_defs keys_update_all keys_del_all rows_all_del_where has_wf_def [of _ "r_workflow_id _"]
    has_group_def [of _ "k_tenant_group_id _"] has_wf_def [of d i for d i] intro!: rows_all_upd_row rows_all_upd_where)

subsection \<open>So do the tags of the jobs\<close>

lemma owner_upd_wf [simp]:
  "(\<And>w. w_tenant_id (f w) = w_tenant_id w) \<Longrightarrow> owner_group (fst (upd_wf i P f d)) k = owner_group d k"
  "(\<And>k w. w_tenant_id (h k w) = w_tenant_id w) \<Longrightarrow> owner_group (d\<lparr>db_workflows := upd_where Q h (db_workflows d)\<rparr>) k = owner_group d k"
  by (auto simp: owner_group_def owner_tab_def row_simps split: option.split)

lemma owner_other_tables [simp]:
  "owner_group (fst (upd_job i P f d)) k = owner_group d k" "owner_group (upd_jobs Q f d) k = owner_group d k"
  "owner_group (fst (upd_req q P' f' d)) k = owner_group d k" "owner_group (upd_reqs Q' f' d) k = owner_group d k"
  "owner_group (d\<lparr>db_jobs := js\<rparr>) k = owner_group d k" "owner_group (d\<lparr>db_requests := rs\<rparr>) k = owner_group d k"
  "owner_group (d\<lparr>db_version_metrics := vs\<rparr>) k = owner_group d k" "owner_group (d\<lparr>db_agent_state := as\<rparr>) k = owner_group d k"
  "owner_group (d\<lparr>db_groups := gs\<rparr>) k = owner_group d k" "owner_group (d\<lparr>db_api_keys := ks\<rparr>) k = owner_group d k"
  "owner_group (d\<lparr>db_pricing := ps\<rparr>) k = owner_group d k" "owner_group (d\<lparr>db_partitions := pt\<rparr>) k = owner_group d k"
  "owner_group (d\<lparr>db_audit := au\<rparr>) k = owner_group d k"
  by (simp_all add: owner_group_def)

lemma owner_upd_tenant [simp]:
  assumes "\<And>t. t_tenant_group_id (f t) = t_tenant_group_id t"
  shows "owner_group (d\<lparr>db_tenants := fst (upd_row x P f (db_tenants d))\<rparr>) k = owner_group d k"
  using assms by (auto simp: owner_group_def owner_tab_def map_of_upd_row option.map_comp comp_def if_distrib cong: option.map_cong if_cong
      split: option.split)

definition tag_rows :: "db \<Rightarrow> (string, job) table \<Rightarrow> bool" where
  "tag_rows d js = list_all (\<lambda>x. owner_group d (fst x) = Some (j_tenant_group_id (snd x))) js"

lemma jobs_tagged_rows: "jobs_tagged d = tag_rows d (db_jobs d)"
  by (simp add: jobs_tagged_def tag_rows_def case_prod_unfold)

lemma tag_rows_update: "tag_rows d js \<Longrightarrow> owner_group d k = Some (j_tenant_group_id j) \<Longrightarrow> tag_rows d (AList.update k j js)"
  by (induction js) (auto simp: tag_rows_def)

lemma tag_rows_upd_row:
  assumes "tag_rows d js" "\<And>j. j_tenant_group_id (f j) = j_tenant_group_id j"
  shows "tag_rows d (fst (upd_row k P f js))"
proof (cases "map_of js k")
  case (Some j)
  then have "owner_group d k = Some (j_tenant_group_id j)" using assms(1) by (force simp: tag_rows_def list_all_iff dest: map_of_SomeD)
  then show ?thesis using assms Some tag_rows_update [of d js k "f j"] by (simp add: upd_row_def)
qed (use assms in simp)

lemma tag_rows_upd_where:
  "tag_rows d js \<Longrightarrow> (\<And>j. j_tenant_group_id (f j) = j_tenant_group_id j) \<Longrightarrow> tag_rows d (upd_where Q (\<lambda>_. f) js)"
  by (induction js) (auto simp: tag_rows_def upd_where_def)

lemma tag_rows_same: "tag_rows d js \<Longrightarrow> (\<And>k g. k \<in> fst ` set js \<Longrightarrow> owner_group d k = Some g \<Longrightarrow> owner_group d' k = Some g) \<Longrightarrow> tag_rows d' js"
  by (auto simp: tag_rows_def list_all_iff)

lemma change_tags:
  assumes "row_change d d'" "jobs_tagged d"
  shows "jobs_tagged d'"
  using assms unfolding jobs_tagged_rows
proof (induction rule: row_change.induct)
  case (new_wf d i w)
  then show ?case by (auto elim!: tag_rows_same simp: owner_group_Some map_add_def)
next
  case (job f d i P)
  then have "tag_rows (fst (upd_job i P f d)) (fst (upd_row i P f (db_jobs d)))" using tag_rows_upd_row by (auto simp: tag_rows_def)
  then show ?case by (simp add: upd_job_def case_prod_unfold)
next
  case (jobs f d Q)
  then have "tag_rows (upd_jobs Q f d) (upd_where Q (\<lambda>_. f) (db_jobs d))" using tag_rows_upd_where by (auto simp: tag_rows_def)
  then show ?case by (simp add: upd_jobs_def)
next
  case (put_job d i j)
  then show ?case using tag_rows_update by (simp add: tag_rows_def)
next
  case (new_tenant d k t)
  then show ?case by (auto elim!: tag_rows_same simp: owner_group_def owner_tab_def map_add_Some_iff split: option.splits)
next
  case (del_tenant Q d)
  have "\<not> Q (w_tenant_id w) t" if "wf_of d k = Some w" for k w t
    using map_of_SomeD [OF that] del_tenant(1) by (force simp: exists_row_def list_ex_iff)
  then show ?case using del_tenant(2) by (auto elim!: tag_rows_same simp: owner_group_Some map_of_del_keep)
next
  case (del_job d Q)
  then show ?case by (auto simp: tag_rows_def list_all_iff del_where_def)
qed (simp_all add: tag_rows_def)

lemma purge_refs:
  assumes "purge_change d d'" "refs_ok d"
  shows "refs_ok d'"
  using assms
proof (induction rule: purge_change.induct)
  case (del_wf i d)
  let ?d = "d\<lparr>db_workflows := del_where (\<lambda>k _. k = i) (db_workflows d), db_agent_state := del_where (\<lambda>(w, a) _. w = i) (db_agent_state d)\<rparr>"
  have keep: "has_wf d k \<Longrightarrow> k \<noteq> i \<Longrightarrow> has_wf ?d k" for k by (simp add: has_wf_def map_of_del_key)
  have r: "r_workflow_id r \<noteq> i" if "(k, r) \<in> set (db_requests d)" for k r
    using that del_wf(1) by (auto simp: exists_row_def list_ex_iff)
  have j: "k \<noteq> i" if "k \<in> set (keys (db_jobs d))" for k using that del_wf(2) by (auto simp: map_of_eq_None_iff keys_def)
  have v: "fst k \<noteq> i" if "k \<in> set (keys (db_version_metrics d))" for k
    using that del_wf(3) by (auto simp: exists_row_def list_ex_iff keys_def)
  have a: "list_all (\<lambda>k. has_wf ?d (fst k)) (keys (del_where (\<lambda>(w, a) _. w = i) (db_agent_state d)))"
    using del_wf(4) keep by (auto simp: refs_ok_def list_all_iff keys_def del_where_def)
  show ?case using del_wf(4) a keep r j v unfolding refs_ok_def
    by (auto simp: has_tenant_def has_group_def rows_all_del_where elim!: rows_all_mono list_all_mono)
qed (auto simp: refs_ok_def keys_del_all rows_all_del_where)

lemma purge_tags:
  assumes "purge_change d d'" "jobs_tagged d"
  shows "jobs_tagged d'"
  using assms unfolding jobs_tagged_rows
proof (induction rule: purge_change.induct)
  case (del_wf i d)
  have "k \<noteq> i" if "k \<in> fst ` set (db_jobs d)" for k using that del_wf(2) by (auto simp: map_of_eq_None_iff)
  then have "tag_rows (d\<lparr>db_workflows := del_where (\<lambda>k _. k = i) (db_workflows d), db_agent_state := del_where (\<lambda>(w, a) _. w = i) (db_agent_state d)\<rparr>) (db_jobs d)"
    by (intro tag_rows_same [OF del_wf(4)]) (simp add: owner_group_Some map_of_del_key)
  then show ?case by simp
qed (simp_all add: tag_rows_def)

lemma purge_ok:
  assumes "purge_change d d'" "sys_ok d"
  shows "sys_ok d'"
proof -
  have "db_pk d' \<and> rows_all (\<lambda>w. policy_ok (w_lifecycle_policy w)) (db_workflows d') \<and> rows_all tenant_ok (db_tenants d')"
    using assms by cases (simp_all add: sys_ok_def db_pk_def rows_all_del_where)
  then show ?thesis using assms purge_refs purge_tags by (simp add: sys_ok_def)
qed

lemma change_ok: "row_change d d' \<Longrightarrow> sys_ok d \<Longrightarrow> sys_ok d'"
  by (simp add: sys_ok_def change_pk change_refs change_tags change_policies change_tenants)

abbreviation changes :: "db \<Rightarrow> db \<Rightarrow> bool" where
  "changes \<equiv> row_change\<^sup>*\<^sup>*"

lemma changes_ok: "changes d d' \<Longrightarrow> sys_ok d \<Longrightarrow> sys_ok d'"
  by (induction rule: rtranclp_induct) (auto intro: change_ok)

abbreviation purges :: "db \<Rightarrow> db \<Rightarrow> bool" where
  "purges \<equiv> purge_change\<^sup>*\<^sup>*"

lemma purges_ok: "purges d d' \<Longrightarrow> sys_ok d \<Longrightarrow> sys_ok d'"
  by (induction rule: rtranclp_induct) (auto intro: purge_ok)

lemma changes_trans: "changes d d1 \<Longrightarrow> changes d1 d2 \<Longrightarrow> changes d d2"
  by (rule rtranclp_trans)

section \<open>Every statement is a sequence of row changes\<close>

lemma ch_wf: "(\<And>w. w_tenant_id (f w) = w_tenant_id w) \<Longrightarrow> (\<And>w. w_lifecycle_policy (f w) = w_lifecycle_policy w) \<Longrightarrow>
    (\<And>w. P w \<Longrightarrow> workflow_forward w (f w)) \<Longrightarrow> changes d (fst (upd_wf i P f d))"
  by (intro r_into_rtranclp row_change.wf) simp_all

lemma ch_wfs: "(\<And>w. w_tenant_id (f w) = w_tenant_id w) \<Longrightarrow> (\<And>w. w_lifecycle_policy (f w) = w_lifecycle_policy w) \<Longrightarrow>
    (\<And>k w. Q k w \<Longrightarrow> workflow_forward w (f w)) \<Longrightarrow> changes d (upd_wfs Q f d)"
  unfolding upd_wfs_def by (intro r_into_rtranclp row_change.wfs) simp_all

lemma ch_job: "(\<And>j. j_tenant_group_id (f j) = j_tenant_group_id j) \<Longrightarrow> changes d (fst (upd_job i P f d))"
  by (intro r_into_rtranclp row_change.job)

lemma ch_jobs: "(\<And>j. j_tenant_group_id (f j) = j_tenant_group_id j) \<Longrightarrow> changes d (upd_jobs Q f d)"
  by (intro r_into_rtranclp row_change.jobs)

lemma ch_req: "(\<And>r. P r \<Longrightarrow> request_move r (f r)) \<Longrightarrow> changes d (fst (upd_req q P f d))"
  by (intro r_into_rtranclp row_change.req)

lemma ch_reqs: "(\<And>q r. Q q r \<Longrightarrow> request_move r (f r)) \<Longrightarrow> changes d (upd_reqs Q f d)"
  by (intro r_into_rtranclp row_change.reqs)

lemma ch_audit: "changes d (Append u e d)"
  unfolding Append_def by (intro r_into_rtranclp row_change.audit)

lemma update_absent: "map_of t k = None \<Longrightarrow> AList.update k v t = t @ [(k, v)]"
  by (induction t) (auto split: if_splits)

lemma ch_epoch: "wf_of d i \<noteq> None \<Longrightarrow> changes d (startNewMetricsEpoch i v d)"
  using row_change.put_version [of d i v "max_epoch i v d + 1" "zero_version_metrics i v (max_epoch i v d + 1)"]
  by (simp add: startNewMetricsEpoch_def Let_def update_absent [OF startNewMetricsEpoch_fresh] r_into_rtranclp)

lemma ch_agent: "wf_of d i \<noteq> None \<Longrightarrow> changes d (upsert_agent i a f d)"
  unfolding upsert_agent_def by (intro r_into_rtranclp row_change.put_agent)

lemmas ch_rows = ch_wf ch_wfs ch_job ch_jobs ch_req ch_reqs ch_audit

named_theorems ch_stmt "a statement is a sequence of row changes"

lemma ch_lifecycle [ch_stmt]: "changes d (fst (upd_wf i P (set_lifecycle_state s) d))"
  by (rule ch_wf) (simp_all add: set_lifecycle_state_def)

subsection \<open>Jobs\<close>

lemma ch_job_writes [ch_stmt]:
  "changes d (fst (RenewJobLease i sid ttl now d))" "changes d (fst (ReleaseJob i sid d))" "changes d (fst (UpdateJobStatus i sid st d))"
  "changes d (fst (FailJobWithMetrics i sid reason am wm d))" "changes d (fst (UpdateJobStatusWithMetrics i sid st oc reason res am wm d))"
  "changes d (fst (UpdateJobMetrics i sid am d))" "changes d (fst (UpdateJobWithMetrics i sid st op tmo delay ctx am wm now d))"
  "changes d (fst (DispatchJob i sid op tmo ctx am wm d))" "changes d (fst (ParkForApproval i sid gid tmo detail meta jm am wm now d))"
  "changes d (fst (ParkForInput i sid gid tmo detail meta jm am wm now d))" "changes d (fst (MarkAbandonRequested i s now d))"
  "changes d (fst (RequeueJob i rid n d))" "changes d (fst (ClaimFailedJob i rid n d))"
  by (auto simp: RenewJobLease_def ReleaseJob_def UpdateJobStatus_def FailJobWithMetrics_def UpdateJobStatusWithMetrics_def UpdateJobMetrics_def
      UpdateJobWithMetrics_def DispatchJob_def ParkForApproval_def ParkForInput_def MarkAbandonRequested_def RequeueJob_def ClaimFailedJob_def
      clear_gates_def Let_def case_prod_unfold intro!: ch_job split: option.split)

lemma ch_acquire [ch_stmt]: "changes d (fst (AcquireJob i sid ttl g now d))"
  by (auto simp: AcquireJob_def Let_def case_prod_unfold intro!: ch_job split: option.split)

lemma ch_gates [ch_stmt]:
  "changes d (fst (ResolveApproval i gid s reason d))" "changes d (fst (ResolveInput i gid a d))"
  by (auto simp: ResolveApproval_def ResolveInput_def intro!: changes_trans [OF ch_job ch_lifecycle] split: option.split)

lemma ch_job_sweeps [ch_stmt]:
  "changes d (fst (SweepAbandonedJobs p now d))" "changes d (fst (MarkOrphanedJobsFailed p grace now d))"
  by (auto simp: SweepAbandonedJobs_def MarkOrphanedJobsFailed_def Let_def intro!: ch_jobs)

lemma ch_delete_job [ch_stmt]: "changes d (fst (DeleteTerminalJob i rid d))"
  by (auto simp: DeleteTerminalJob_def Let_def intro!: r_into_rtranclp row_change.del_job)

lemma ch_gate_sweeps [ch_stmt]:
  "changes d (fst (SweepExpiredApprovals p now d))" "changes d (fst (SweepExpiredInputs p now d))"
  by (auto simp: SweepExpiredApprovals_def SweepExpiredInputs_def Let_def set_lifecycle_state_def intro!: changes_trans [OF ch_jobs ch_wfs])

lemma ch_upsert [ch_stmt]: "changes d (fst (UpsertJobAndSchedule rid ctx op tmo wfver expected mode now d))"
proof -
  have *: "changes d (mark_scheduled rid (d\<lparr>db_jobs := AList.update k j (db_jobs d)\<rparr>))" if "owner_group d k = Some (j_tenant_group_id j)" for k j
  proof -
    have "changes d (d\<lparr>db_jobs := AList.update k j (db_jobs d)\<rparr>)" by (rule r_into_rtranclp) (rule row_change.put_job [OF that])
    then show ?thesis unfolding mark_scheduled_def by (rule changes_trans) (rule ch_req, simp)
  qed
  have fresh: "job_of d k = None \<Longrightarrow> db_jobs d @ [(k, j)] = AList.update k j (db_jobs d)" for k j by (simp add: update_absent)
  show ?thesis
    by (auto simp: UpsertJobAndSchedule_def Let_def fresh fresh_job_def overwrite_job_def owner_group_Some intro!: * split: option.split)
qed

subsection \<open>Workflows\<close>

lemma ch_workflow_writes [ch_stmt]:
  "changes d (MarkWorkflowScheduled i d)" "changes d (MarkWorkflowInvoking i d)" "changes d (MarkWorkflowAwaitingApproval i d)"
  "changes d (MarkWorkflowAwaitingInput i d)" "changes d (FinalizeSuspended i sid now d)"
  "changes d (fst (TryActivateWorkflow i rid d))" "changes d (fst (ResolveInterruptedWorkflow i rid d))"
  "changes d (fst (ApplyCompletedJob i s v now d))"
  "changes d (fst (MarkDeletionRequested i now d))" "changes d (fst (TryApplyStateResolution i v ws cd rid d))"
  "changes d (fst (ExpireCooldowns p now d))"
  by (auto simp: MarkWorkflowScheduled_def MarkWorkflowInvoking_def MarkWorkflowAwaitingApproval_def MarkWorkflowAwaitingInput_def
      FinalizeSuspended_def TryActivateWorkflow_def ResolveInterruptedWorkflow_def ApplyCompletedJob_def
      MarkDeletionRequested_def TryApplyStateResolution_def ExpireCooldowns_def set_lifecycle_state_def case_prod_unfold Let_def
      intro!: ch_wf ch_wfs split: option.split)

lemma ch_reconcile [ch_stmt]: "changes d (fst (ReconcileWorkflowLifecycles p b now d))"
  by (auto simp: ReconcileWorkflowLifecycles_def apply_projection_def intro!: r_into_rtranclp row_change.wfs split: option.split)

lemma ch_then_epoch: "changes d d1 \<Longrightarrow> (b \<Longrightarrow> wf_of d1 i \<noteq> None) \<Longrightarrow> changes d (if b then startNewMetricsEpoch i v d1 else d1)"
  using changes_trans [OF _ ch_epoch] by simp

lemma ch_version_resolution [ch_stmt]: "changes d (fst (TryApplyVersionResolution i v e t rid d))"
proof -
  let ?P = "\<lambda>w. w_lifecycle_last_resolved w < v \<and> w_current_workflow_version w = e \<and> w_state w \<notin> {WDisabled, WSuspended}"
  let ?f = "\<lambda>w. w\<lparr>w_lifecycle_last_resolved := v, w_current_workflow_version := t, w_last_policy_decision_request_id := rid\<rparr>"
  obtain d1 hit where u: "upd_wf i ?P ?f d = (d1, hit)" by fastforce
  have "changes d d1" using ch_wf [of ?f ?P d i] u by simp
  moreover have "hit \<Longrightarrow> wf_of d1 i \<noteq> None" using u snd_upd_wf [of i ?P ?f d] wf_upd_wf [of i ?P ?f d i] by auto
  ultimately show ?thesis using u ch_then_epoch [of d d1 "hit \<and> t \<noteq> e" i t] by (simp add: TryApplyVersionResolution_def)
qed

lemma ch_update_config [ch_stmt]: "changes d (fst (UpdateConfig i cfg v d))"
proof -
  let ?f = "\<lambda>w. w\<lparr>w_current_workflow_version := v, w_config := cfg\<rparr>"
  have "changes d (fst (upd_wf i (\<lambda>_. True) ?f d))" by (rule ch_wf) simp_all
  from ch_then_epoch [OF this] show ?thesis by (auto simp: UpdateConfig_def Let_def row_simps split: option.split)
qed

lemma ch_freeze [ch_stmt]: "changes d (freeze_requests i d)" "changes d (unfreeze_requests i d)"
  by (auto simp: freeze_requests_def unfreeze_requests_def intro!: ch_reqs)

lemma ch_apply_failed [ch_stmt]: "changes d (fst (ApplyFailedJob i rid s ws v now d))"
proof -
  let ?P = "\<lambda>w. w_current_version w < v"
  have "changes d (fst (upd_wf i ?P (interrupt_row rid s ws v now) d))" by (rule ch_wf) (simp_all add: interrupt_row_def)
  then show ?thesis using changes_trans [OF _ ch_freeze(2)] by (auto simp: ApplyFailedJob_def case_prod_unfold)
qed

lemma ch_mark_suspension [ch_stmt]: "changes d (fst (MarkSuspensionRequested i sid reason stop now d))"
proof -
  obtain d1 hit where u: "upd_wf i (can_suspend sid) (suspend_row sid reason stop now) d = (d1, hit)" by fastforce
  have 1: "changes d d1" using ch_wf [of "suspend_row sid reason stop now" "can_suspend sid" d i] u by (simp add: suspend_row_def)
  have 2: "changes d (freeze_requests i d1)" by (rule changes_trans [OF 1 ch_freeze(1)])
  show ?thesis using u 1 2 changes_trans [OF 2 ch_job] by (cases hit) (auto simp: MarkSuspensionRequested_def Let_def)
qed

lemma ch_abort_suspension [ch_stmt]: "changes d (AbortSuspension i sid d)"
proof -
  let ?P = "\<lambda>w. su_id (w_suspension w) = Some sid \<and> w_state w \<noteq> WSuspended"
  obtain d1 hit where u: "upd_wf i ?P (\<lambda>w. w\<lparr>w_suspension := no_suspension\<rparr>) d = (d1, hit)" by fastforce
  have 1: "changes d d1" using ch_wf [of "\<lambda>w. w\<lparr>w_suspension := no_suspension\<rparr>" ?P d i] u by simp
  show ?thesis using u 1 changes_trans [OF 1 ch_freeze(2)] by (simp add: AbortSuspension_def)
qed

lemma ch_restore [ch_stmt]: "changes d (fst (RestoreFromSuspension i sid s expected target cd d))"
proof -
  let ?P = "\<lambda>w. su_id (w_suspension w) = Some sid \<and> w_state w = WSuspended \<and> su_finalized_at (w_suspension w) \<noteq> None"
  let ?f = "\<lambda>w. (set_lifecycle_state LActive w)\<lparr>w_state := s, w_cooldown_until := cd, w_current_workflow_version := target,
    w_lifecycle_last_resolved := w_current_version w, w_suspension := no_suspension\<rparr>"
  obtain d1 hit where u: "upd_wf i ?P ?f d = (d1, hit)" by fastforce
  have 1: "changes d d1" using ch_wf [of ?f ?P d i] u by (simp add: set_lifecycle_state_def)
  have 2: "changes d (unfreeze_requests i d1)" by (rule changes_trans [OF 1 ch_freeze(2)])
  have "hit \<Longrightarrow> wf_of (unfreeze_requests i d1) i \<noteq> None" using u snd_upd_wf [of i ?P ?f d] wf_upd_wf [of i ?P ?f d i] by auto
  then show ?thesis using u 1 ch_then_epoch [OF 2, of "target \<noteq> expected" i target]
    by (cases hit) (simp_all add: RestoreFromSuspension_def Let_def)
qed

lemma ch_finalize_deleted [ch_stmt]: "changes d (FinalizeDeleted i now d)"
proof -
  let ?d1 = "fst (upd_wf i (\<lambda>_. True) (\<lambda>w. (set_lifecycle_state LDeleted w)\<lparr>w_deletion_finalized_at := Some now\<rparr>) d)"
  have 1: "changes d ?d1" by (rule ch_wf) (simp_all add: set_lifecycle_state_def)
  have "row_change ?d1 (?d1\<lparr>db_tenants := fst (upd_row k (\<lambda>t. t_workflow_count t > 0) (\<lambda>t. t\<lparr>t_workflow_count := t_workflow_count t - 1\<rparr>) (db_tenants ?d1))\<rparr>)" for k
    by (rule row_change.tenant) (auto simp: tenant_ok_def)
  from rtranclp.rtrancl_into_rtrancl [OF 1 this] show ?thesis by (simp add: FinalizeDeleted_def Let_def split: option.split)
qed

lemma purge_statements:
  "purges d (request_DeleteForWorkflow i d)" "purges d (version_DeleteForWorkflow i d)" "purges d (fst (PurgeDeleted i d))"
  by (auto simp: request_DeleteForWorkflow_def version_DeleteForWorkflow_def PurgeDeleted_def
      intro!: r_into_rtranclp purge_change.intros split: option.split)

lemma ch_create_workflow [ch_stmt]:
  assumes "policy_ok (w_lifecycle_policy w)"
  shows "changes d (fst (workflow_Create i w now d))"
proof (cases "map_of (db_tenants d) (w_tenant_id w)")
  case (Some t)
  let ?t = "\<lambda>t. t\<lparr>t_workflow_count := t_workflow_count t + 1\<rparr>"
  let ?d1 = "d\<lparr>db_tenants := fst (upd_row (w_tenant_id w) (\<lambda>t. t_deleted_at t = None) ?t (db_tenants d))\<rparr>"
  have 1: "changes d ?d1" by (intro r_into_rtranclp row_change.tenant) (auto simp: tenant_ok_def)
  have 2: "changes ?d1 (?d1\<lparr>db_workflows := db_workflows ?d1 @ [(i, row)]\<rparr>)"
    if "wf_of d i = None" "w_tenant_id row = w_tenant_id w" "w_lifecycle_policy row = w_lifecycle_policy w" "w_target_version row = 0" for row
    using that Some assms by (intro r_into_rtranclp row_change.new_wf) (simp_all add: map_of_upd_row)
  show ?thesis using Some changes_trans [OF 1 2] by (auto simp: workflow_Create_def Let_def upd_row_Some)
qed (simp add: workflow_Create_def)

subsection \<open>Requests, metrics, tenants, keys\<close>

lemma ch_requests [ch_stmt]:
  "changes d (MarkRequestInProgress rid d)" "changes d (fst (SweepRequestsInProgress p d))" "changes d (SupercedeOlderRequests i v d)"
  "changes d (fst (request_CompleteRequest rid oc reason res now d))" "changes d (fst (request_FailRequest rid reason now d))"
  "changes d (fst (AbandonQueuedRequests i ids d))"
  by (auto simp: MarkRequestInProgress_def SweepRequestsInProgress_def SupercedeOlderRequests_def request_CompleteRequest_def
      request_FailRequest_def AbandonQueuedRequests_def abandonable_def Let_def case_prod_unfold intro!: ch_req ch_reqs)

lemma ch_bump:
  assumes "wf_of d (r_workflow_id r) = Some w" "r_status r = RUnscheduled"
  shows "changes d (fst (bump_and_insert rid r w now d))"
proof (cases "req_of d rid")
  case None
  then show ?thesis
    using bump_and_insert_cases(2) [OF assms(1) None, of now] row_change.new_req [of d rid "new_request r (w_target_version w + 1) now" w] assms
    by (simp add: new_request_def r_into_rtranclp)
qed (use bump_and_insert_cases(1) [OF assms(1)] in simp)

lemma ch_new_requests:
  assumes "r_status r = RUnscheduled"
  shows "changes d (fst (CreateInvocationRequest rid r now d))" "changes d (fst (CreateDuePeriodicRequest rid r gap now d))"
  using ch_bump [OF _ assms, of d _ rid now]
  by (auto simp: CreateInvocationRequest_def CreateDuePeriodicRequest_def split: option.split prod.split sum.split)

lemma ch_histories: "wf_of d i \<noteq> None \<Longrightarrow> changes d (put_histories i agents d)"
proof (induction agents arbitrary: d)
  case (Cons x agents)
  then have "changes d (upsert_agent i (fst x) (\<lambda>s. s\<lparr>as_invocation_metrics := snd x\<rparr>) d)" by (intro ch_agent)
  moreover have "changes (upsert_agent i (fst x) (\<lambda>s. s\<lparr>as_invocation_metrics := snd x\<rparr>) d)
      (put_histories i agents (upsert_agent i (fst x) (\<lambda>s. s\<lparr>as_invocation_metrics := snd x\<rparr>) d))" using Cons by simp
  ultimately show ?case by (simp add: put_histories_def case_prod_unfold)
qed (simp add: put_histories_def)

lemma ch_emit [ch_stmt]: "changes d (fst (EmitMetrics i v rolling vm agents d))"
proof -
  let ?P = "\<lambda>w. w_metrics_emitted_at w < v" and ?f = "\<lambda>w. w\<lparr>w_metrics_emitted_at := v, w_invocation_metrics := rolling\<rparr>"
  obtain d1 hit where u: "upd_wf i ?P ?f d = (d1, hit)" by fastforce
  have 1: "changes d d1" using ch_wf [of ?f ?P d i] u by simp
  let ?d2 = "d1\<lparr>db_version_metrics := AList.update (i, v_version vm, v_epoch vm) (vm\<lparr>v_workflow_id := i\<rparr>) (db_version_metrics d1)\<rparr>"
  have w: "hit \<Longrightarrow> wf_of d1 i \<noteq> None" using u snd_upd_wf [of i ?P ?f d] wf_upd_wf [of i ?P ?f d i] by auto
  then have "hit \<Longrightarrow> row_change d1 ?d2" by (intro row_change.put_version)
  then have "hit \<Longrightarrow> changes d ?d2" using 1 by (meson rtranclp.rtrancl_into_rtrancl)
  moreover have "hit \<Longrightarrow> changes ?d2 (put_histories i agents ?d2)" using w by (intro ch_histories) simp
  ultimately show ?thesis using u 1 by (cases hit) (auto simp: EmitMetrics_def)
qed

lemma ch_agents [ch_stmt]:
  "changes d (fst (UpsertRuntimePolicy i a p d))" "changes d (fst (UpsertLifecyclePolicy i a p d))" "changes d (agent_Delete i a d)"
  by (auto simp: UpsertRuntimePolicy_def UpsertLifecyclePolicy_def agent_Delete_def intro!: ch_agent intro: r_into_rtranclp row_change.del_agent)

lemma ch_policy: "policy_ok p \<Longrightarrow> changes d (UpdateLifecyclePolicy i p d)"
  unfolding UpdateLifecyclePolicy_def by (intro r_into_rtranclp row_change.wf) simp_all

lemma ch_tenants [ch_stmt]:
  "changes d (fst (tenant_Create i t d))" "changes d (fst (MarkDeleted i now d))" "changes d (fst (PurgeIfEmpty i d))"
proof -
  show "changes d (fst (tenant_Create i t d))"
    by (auto simp: tenant_Create_def tenant_ok_def intro!: r_into_rtranclp row_change.new_tenant)
  let ?P = "\<lambda>t. t_deleted_at t = None \<and> t_workflow_count t = 0"
  have "row_change d (d\<lparr>db_tenants := fst (upd_row i ?P (\<lambda>t. t\<lparr>t_deleted_at := Some now\<rparr>) (db_tenants d))\<rparr>)"
    by (rule row_change.tenant) (auto simp: tenant_ok_def)
  then show "changes d (fst (MarkDeleted i now d))" by (simp add: MarkDeleted_def case_prod_unfold r_into_rtranclp)
  show "changes d (fst (PurgeIfEmpty i d))"
    by (auto simp: PurgeIfEmpty_def Let_def intro!: r_into_rtranclp row_change.del_tenant)
qed

lemma ch_groups [ch_stmt]:
  "changes d (fst (group_Create i g d))" "changes d (fst (group_Delete i d))" "changes d (fst (key_Create i k d))" "changes d (fst (Revoke i now d))"
  "changes d (pricing_Upsert tg p d)"
proof -
  show "changes d (fst (group_Create i g d))" by (auto simp: group_Create_def intro!: r_into_rtranclp row_change.new_group)
  have "del_where (\<lambda>k _. k = i) t = t" if "map_of t i = None" for t :: "(string, tenant_group) table"
    using that by (induction t) (auto simp: del_where_def split: if_splits)
  then show "changes d (fst (group_Delete i d))"
    by (cases "map_of (db_groups d) i") (auto simp: group_Delete_def intro!: r_into_rtranclp row_change.del_group)
  show "changes d (fst (key_Create i k d))" by (auto simp: key_Create_def intro!: r_into_rtranclp row_change.new_key)
  show "changes d (fst (Revoke i now d))" by (auto simp: Revoke_def intro!: r_into_rtranclp row_change.key)
  show "changes d (pricing_Upsert tg p d)" by (auto simp: pricing_Upsert_def intro!: r_into_rtranclp row_change.price)
qed

text \<open>The leases of the partitions are the scheduler's own: no row change touches them, and their statements touch nothing else.\<close>

lemma changes_partitions: "changes d d' \<Longrightarrow> db_partitions d' = db_partitions d"
proof (induction rule: rtranclp_induct)
  case (step e f)
  from step.hyps(2) have "db_partitions f = db_partitions e"
    by cases (simp_all add: upd_wf_def upd_job_def upd_jobs_def upd_req_def upd_reqs_def case_prod_unfold)
  then show ?case using step.IH by simp
qed simp

lemma purges_partitions: "purges d d' \<Longrightarrow> db_partitions d' = db_partitions d"
proof (induction rule: rtranclp_induct)
  case (step e f)
  from step.hyps(2) have "db_partitions f = db_partitions e" by cases simp_all
  then show ?case using step.IH by simp
qed simp

definition lease_change :: "db \<Rightarrow> db \<Rightarrow> bool" where
  "lease_change d d' = (\<exists>t. d' = d\<lparr>db_partitions := t\<rparr> \<and> (pk (db_partitions d) \<longrightarrow> pk t))"

lemma lease_change_refl [simp]: "lease_change d d"
  unfolding lease_change_def by (rule exI [of _ "db_partitions d"]) simp

lemma lease_change_ok: "lease_change d d' \<Longrightarrow> sys_ok d \<Longrightarrow> sys_ok d'"
  by (auto simp: lease_change_def sys_ok_def db_pk_def refs_ok_def jobs_tagged_def)

lemma lease_statements:
  "lease_change d (fst (Renew p sid lease now d))" "lease_change d (fst (AcquireAvailable sid lease now d))" "lease_change d (Release p sid d)"
  by (auto simp: lease_change_def Renew_def AcquireAvailable_def Release_def Let_def case_prod_unfold split: list.split)
    (metis db.surjective db.update_convs(6))+

lemma lease_seed: "SeedPartitions n d = Inr (d', u) \<Longrightarrow> lease_change d d'"
proof -
  have "pk t \<Longrightarrow> pk (fold seed_one is t)" for "is" t
    by (induction "is" arbitrary: t) (auto simp: seed_one_def)
  then show "SeedPartitions n d = Inr (d', u) \<Longrightarrow> lease_change d d'"
    by (cases "1 \<le> n") (auto simp: SeedPartitions_fold lease_change_def, simp add: SeedPartitions_def)
qed

section \<open>Every operation is a sequence of statements\<close>

lemmas ch = ch_stmt

lemma ch_fold: "(\<And>x d. changes d (f x d)) \<Longrightarrow> changes d (fold f xs d)"
  by (induction xs arbitrary: d) (auto intro: changes_trans)

subsection \<open>The scheduler\<close>

interpretation run_changes: run_ends changes "\<lambda>_. True" i rid for i rid
  by unfold_locales (auto simp: recordPolicyAction_def intro: changes_trans ch ch_audit split: sum.split)

lemmas ch_complete = run_changes.complete [OF TrueI] and ch_fail = run_changes.fail [OF TrueI]

lemma ch_write_job: "changes d (fst (write_job flt rid x w tmo now d))"
proof -
  let ?u = "UpsertJobAndSchedule rid (job_context (r_info x) (GetAllForWorkflow (r_workflow_id x) d))
      (request_type_name (r_type x) @ ''_entry'') tmo (w_current_workflow_version w) (w_current_version w) (effective_mode w) now d"
  obtain d1 y where u: "?u = (d1, y)" by fastforce
  have 1: "changes d d1" using ch_upsert u by (metis fst_conv)
  show ?thesis using u 1 changes_trans [OF 1 ch_requests(3)] changes_trans [OF 1 ch_workflow_writes(1)]
      changes_trans [OF changes_trans [OF 1 ch_requests(3)] ch_workflow_writes(1)]
    by (cases y) (auto simp: write_job_def Let_def)
qed

lemma ch_schedule: "changes d (fst (ScheduleRequest flt rid now d))"
  by (auto simp: ScheduleRequest_def ch_write_job split: sum.split)

interpretation system: tick_sweeps "changes d" "\<lambda>_. True" for d
  by unfold_locales (auto simp: rows_all_def list_all_iff intro: changes_trans ch_complete ch_fail ch_schedule ch)

subsection \<open>The services\<close>

lemma ch_create_wf: "changes d (fst (CreateWorkflow flt minRepeat n uid typ tid cfg v now d))"
  by (auto simp: CreateWorkflow_def new_workflow_def policy_ok_def intro!: ch_create_workflow split: sum.split)

lemma ch_set_config: "changes d (fst (SetWorkflowConfig flt m i cfg v d))"
  by (simp add: SetWorkflowConfig_def ch)

lemma queued_run: "r_status (run_request i info) = RUnscheduled"
  by (simp add: run_request_def)

lemma ch_submit: "changes d (fst (submit_invocation flt sflt uid i info now d))"
proof -
  obtain d1 x where c: "CreateInvocationRequest uid (run_request i info) now d = (d1, x)" by fastforce
  have 1: "changes d d1" using ch_new_requests(1) [of "run_request i info" d uid now] c queued_run by simp
  show ?thesis using c 1 changes_trans [OF 1 ch_schedule, of sflt uid now]
    by (cases x) (auto simp: submit_invocation_def split: prod.splits sum.splits error.splits)
qed

lemma ch_invoke: "changes d (fst (InvokeWorkflow flt sflt uid cid i tmo ctx now d))"
proof -
  obtain d' r where x: "InvokeWorkflow flt sflt uid cid i tmo ctx now d = (d', r)" by fastforce
  from x show ?thesis
  proof (cases rule: invoke_phases)
    case (submitted w info n)
    then show ?thesis using x ch_submit [of d flt sflt uid i info now] by simp
  qed (use x in simp)
qed

lemma ch_suspend: "changes d (fst (SuspendWorkflow flt sid i stop reason now d))"
proof -
  obtain d1 x where m: "MarkSuspensionRequested i sid reason stop now d = (d1, x)" by fastforce
  have 1: "changes d d1" using ch_mark_suspension [of d i sid reason stop now] m by simp
  have 2: "changes d (fst (MarkAbandonRequested i sid now d1))" by (rule changes_trans [OF 1 ch_job_writes(11)])
  show ?thesis using m 1 2 changes_trans [OF _ ch_workflow_writes(5)] by (cases x) (auto simp: SuspendWorkflow_def Let_def)
qed

lemma ch_resume: "changes d (fst (ResumeWorkflow flt i sid now d))"
proof -
  have *: "changes d (fst (case RestoreFromSuspension i sid st e v cd d of (d', restored) \<Rightarrow> (d', k restored)))" for st e v cd k
    using ch_restore [of d i sid st e v cd] by (simp add: case_prod_unfold)
  show ?thesis by (auto simp: ResumeWorkflow_def * split: sum.split option.split)
qed

lemma ch_delete: "changes d (fst (DeleteWorkflow flt i now d))"
proof -
  obtain d1 x where m: "MarkDeletionRequested i now d = (d1, x)" by fastforce
  have 1: "changes d d1" using ch_workflow_writes(9) [of d i now] m by simp
  have 2: "changes d (fst (AbandonQueuedRequests i None d1))" by (rule changes_trans [OF 1 ch_requests(6)])
  show ?thesis using m 1 2 changes_trans [OF 2 ch_finalize_deleted] by (cases x) (auto simp: DeleteWorkflow_def Let_def split: sum.split)
qed

lemma ch_decisions:
  "changes d (fst (ApproveWorkflow flt uid i gid actor reason now d))" "changes d (fst (RejectWorkflow flt uid i gid actor reason now d))"
  "changes d (fst (SubmitInput flt uid i gid reply actor now d))"
proof -
  have *: "changes d d1" if "ResolveApproval i gid s reason d = (d1, x)" for s d1 x using ch_gates(1) [of d i gid s reason] that by simp
  show "changes d (fst (ApproveWorkflow flt uid i gid actor reason now d))" "changes d (fst (RejectWorkflow flt uid i gid actor reason now d))"
    by (auto simp: ApproveWorkflow_def RejectWorkflow_def recordApprovalDecision_def intro: * changes_trans [OF _ ch_audit] split: prod.split option.split)
  have "changes d d1" if "ResolveInput i gid reply d = (d1, x)" for d1 x using ch_gates(2) [of d i gid reply] that by simp
  then show "changes d (fst (SubmitInput flt uid i gid reply actor now d))"
    by (auto simp: SubmitInput_def recordInputDecision_def intro: changes_trans [OF _ ch_audit] split: prod.split option.split)
qed

lemma ch_small_services:
  "changes d (fst (ActivateWorkflow flt i rid d))" "changes d (fst (service_ResolveInterruptedWorkflow flt i rid d))"
  "changes d (fst (service_AbandonQueuedRequests flt i ids d))" "changes d (fst (SetAgentRuntimePolicy flt i a p d))"
  "changes d (fst (SetAgentLifecyclePolicy flt i a p d))" "changes d (fst (DeleteAgent flt i a d))"
  "changes d (fst (SetModelPricing flt tg mp d))" "changes d (fst (DeleteTenantGroup flt tg d))"
  by (auto simp: ActivateWorkflow_def service_ResolveInterruptedWorkflow_def service_AbandonQueuedRequests_def SetAgentRuntimePolicy_def
      SetAgentLifecyclePolicy_def DeleteAgent_def SetModelPricing_def DeleteTenantGroup_def case_prod_unfold ch)

lemma ch_tenant_services: "changes d (fst (CreateTenant flt uid now n t d))" "changes d (fst (DeleteTenant flt k now d))"
proof -
  show "changes d (fst (CreateTenant flt uid now n t d))"
    using ch_tenants(1) by (auto simp: CreateTenant_def Let_def split: prod.split sum.split) (metis fst_conv)+
  obtain d1 x where m: "MarkDeleted k now d = (d1, x)" by fastforce
  have 1: "changes d d1" using ch_tenants(2) [of d k now] m by simp
  show "changes d (fst (DeleteTenant flt k now d))"
    using m 1 changes_trans [OF 1 ch_tenants(3)] by (cases x) (auto simp: DeleteTenant_def)
qed

subsection \<open>The API\<close>

lemma ch_as_owner: "changes d (fst k) \<Longrightarrow> changes d (fst (as_owner ev ctx i d k))"
  by (simp add: as_owner_def split: sum.split)

lemma ch_as_group: "(\<And>g. changes d (fst (k g))) \<Longrightarrow> changes d (fst (as_group ctx d k))"
  by (simp add: as_group_def split: sum.split)

lemma ch_rpc_config: "changes d (fst (rpc_SetWorkflowConfig ev ctx i cfg d))"
proof -
  obtain d1 x where c: "SetWorkflowConfig (ev_flt ev) (ev_min_repeat ev) i (WorkflowConfigFromProto cfg) (case cfg of None \<Rightarrow> 0 | Some p \<Rightarrow> pbc_version p) d = (d1, x)"
    by fastforce
  then have "changes d d1" using ch_set_config by (metis fst_conv)
  then show ?thesis using c by (cases x) (auto simp: rpc_SetWorkflowConfig_def intro!: ch_as_owner)
qed

text \<open>What the handler accepts is a policy the engine can evaluate.\<close>

lemma validated_rules:
  "validate_workflow_rules n rs = None \<Longrightarrow> policy_ok (WorkflowLifecyclePolicyFromProto (Some rs))"
proof (induction n rs rule: validate_workflow_rules.induct)
  case (3 n r rs)
  then show ?case
    by (auto simp: policy_ok_def WorkflowLifecyclePolicyFromProto_def List.map_filter_simps workflowRuleFromProto_def rule_windowed_def
        action_from_proto_def split: option.splits if_splits pb_policy_action_type.splits)
qed (simp_all add: policy_ok_def WorkflowLifecyclePolicyFromProto_def List.map_filter_simps)

lemma ch_rpc_policy: "changes d (fst (rpc_SetWorkflowLifecyclePolicy ev ctx i p d))"
proof -
  have "policy_ok (WorkflowLifecyclePolicyFromProto p)" if "validate_workflow_rules 0 (case p of None \<Rightarrow> [] | Some rs \<Rightarrow> rs) = None"
    using that validated_rules by (cases p) (auto simp: policy_ok_def WorkflowLifecyclePolicyFromProto_def)
  then show ?thesis
    by (auto simp: rpc_SetWorkflowLifecyclePolicy_def SetWorkflowLifecyclePolicy_def intro!: ch_as_owner ch_policy split: option.split)
qed

lemma ch_cmd: "changes d (fst (handle_cmd ev c ctx d))"
proof (cases c)
  case (CreateWorkflowRpc kind tid cfg)
  then show ?thesis by (auto simp: rpc_CreateWorkflow_def ch_create_wf split: sum.split)
next
  case (SetWorkflowLifecyclePolicyRpc i p)
  then show ?thesis by (simp add: ch_rpc_policy)
next
  case (SetWorkflowConfigRpc i cfg)
  then show ?thesis by (simp add: ch_rpc_config)
qed (auto simp: cmd_defs Let_def ch_invoke ch_delete ch_suspend ch_resume ch_decisions ch_small_services intro!: ch_as_owner split: option.split)

lemma ch_registration: "changes d (fst (handle_registration ev x ctx d))"
  by (cases x) (auto simp: rpc_SetModelPricing_def rpc_ListModelPricing_def rpc_GetTenantGroup_def rpc_DeleteTenantGroup_def rpc_CreateTenant_def
      as_tenant_owner_def rpc_GetTenant_def rpc_ListTenants_def rpc_DeleteTenant_def ch_small_services ch_tenant_services
      intro!: ch_as_group split: sum.split)

lemma ch_serve: "changes d (fst (serve ev md r d))"
  by (auto simp: serve_def UnaryInterceptor_def handle_def ch_cmd ch_registration queries_change_nothing split: sum.split rpc.split)

subsection \<open>The workers of a partition\<close>

lemma ch_append_fold: "changes d (fold (\<lambda>e d. if bad e then d else Append (u e) (ev e) d) es d)"
  by (rule ch_fold) (simp add: ch_audit)

lemma ch_gate_workers: "changes d (approval_sweep flt af uid p now d)" "changes d (input_sweep flt af uid p now d)"
proof -
  obtain d1 x where a: "SweepExpiredApprovals p now d = (d1, x)" by fastforce
  have 1: "changes d d1" using ch_gate_sweeps(1) [of d p now] a by simp
  show "changes d (approval_sweep flt af uid p now d)"
    using a 1 changes_trans [OF 1 ch_append_fold] by (cases x) (auto simp: approval_sweep_def)
  obtain d2 y where b: "SweepExpiredInputs p now d = (d2, y)" by fastforce
  have 2: "changes d d2" using ch_gate_sweeps(2) [of d p now] b by simp
  show "changes d (input_sweep flt af uid p now d)"
    using b 2 changes_trans [OF 2 ch_append_fold] by (cases y) (auto simp: input_sweep_def)
qed

lemma ch_deletion: "changes d (deletion_sweep flt flts p now d)"
proof -
  have "changes d (deletion_reconcileOne f now i d)" for f i d
    using changes_trans [OF ch_requests(6) ch_finalize_deleted] by (simp add: deletion_reconcileOne_def Let_def ch)
  then show ?thesis by (auto simp: deletion_sweep_def intro!: ch_fold)
qed

lemma ch_suspension: "changes d (suspension_sweep flt flts p now d)"
proof -
  have "changes d (suspension_reconcileOne f now i w d)" for f i w d
    using changes_trans [OF ch_job_writes(11) ch_workflow_writes(5)] by (simp add: suspension_reconcileOne_def Let_def ch)
  then show ?thesis by (auto simp: suspension_sweep_def intro!: ch_fold)
qed

lemma purges_fold: "(\<And>x d. purges d (f x d)) \<Longrightarrow> purges d (fold f xs d)"
  by (induction xs arbitrary: d) (auto intro: rtranclp_trans)

lemma purge_sweep_purges: "purges d (purge_sweep flt flts p age now d)"
proof -
  have "purges d (purge_reconcileOne f i d)" for f i d
    using rtranclp_trans [OF purge_statements(1,2)] rtranclp_trans [OF rtranclp_trans [OF purge_statements(1,2)] purge_statements(3)]
    by (simp add: purge_reconcileOne_def Let_def purge_statements)
  then show ?thesis by (auto simp: purge_sweep_def intro!: purges_fold)
qed

lemma ch_tenant_purge: "changes d (tenant_purge_sweep flt pf p d)"
  by (auto simp: tenant_purge_sweep_def ch intro!: ch_fold)

lemma ch_periodic: "changes d (periodic_sweep flt flts corr rids p now d)"
proof -
  have "changes d (fst (createPeriodicRequest f sf c rid now i w d))" for f sf c rid i w d
  proof (cases "resolve_params f 0 i w False [(''correlationId'', JStr c)] d")
    case (Inr info)
    obtain d1 x where r: "CreateDuePeriodicRequest rid (run_request i info) (secs (wc_repeat_every_seconds (w_config w))) now d = (d1, x)" by fastforce
    have 1: "changes d d1" using ch_new_requests(2) [of "run_request i info" d rid] r by (metis fst_conv queued_run)
    show ?thesis using Inr r 1 changes_trans [OF 1 ch_schedule, of sf rid now]
      by (auto simp: createPeriodicRequest_def split: sum.splits option.splits prod.splits error.splits)
  qed (simp add: createPeriodicRequest_def)
  then show ?thesis by (auto simp: periodic_sweep_def intro!: ch_fold)
qed

subsection \<open>Worker sessions\<close>

abbreviation after :: "session_result \<Rightarrow> db" where
  "after x \<equiv> fst (snd x)"

lemma ch_release: "changes d (release flt env g d)" "changes d (snd (release_lease flt env s d))" "changes d (after (close_session flt env s d cs))"
  by (auto simp: release_def release_lease_def close_session_def ch intro!: ch_fold split: list.split)

lemma ch_after_operation:
  assumes "changes d d1" "\<And>s d. changes d (after (nxt s d))"
  shows "changes d (after (after_operation flt env s (d1, b) nxt))"
proof -
  obtain s' d' where r: "release_lease flt env s d1 = (s', d')" by fastforce
  have "changes d d'" using changes_trans [OF assms(1), of d'] ch_release(2) [of d1 flt env s] r by simp
  then show ?thesis using r assms(1) changes_trans [OF _ assms(2)] by (simp add: after_operation_def crash_def)
qed

lemma ch_nexts: "changes d (after (to_idle s d))" "changes d (after (keep_polling s d))" "changes d (after (closing flt env s d))" "changes d (after (crash s d))"
  by (simp_all add: to_idle_def keep_polling_def closing_def crash_def ch_release)

interpretation operation_changes: operation_ends changes "\<lambda>_. True" i rid env for i rid env
  by unfold_locales (auto intro: ch ch_audit)

lemmas ch_operations = operation_changes.operations [OF TrueI HOL.refl]

lemma ch_after_op: "changes d (fst x) \<Longrightarrow> (\<And>s d. changes d (after (nxt s d))) \<Longrightarrow> changes d (after (after_operation flt env s x nxt))"
  using ch_after_operation [of d "fst x" nxt flt env s "snd x"] by simp

lemma ch_launch: "changes d (after (launch flt env i j s d))"
proof (cases "agentMetrics (ss_this_op s) j")
  case (Inr am)
  obtain d1 b where u: "DispatchJob i (we_session env) (j_current_atomic_operation j) (j_timeout_seconds j) (j_context j) am (j_workflow_metrics j) d = (d1, b)"
    by fastforce
  have 1: "changes d d1" using ch_job_writes(8) u by (metis fst_conv)
  have more: "changes d (MarkWorkflowInvoking i e)" "changes d (MarkRequestInProgress rid e)" "changes d (fst (UpdateJobStatus i sid st e))"
    "changes d (after (close_session flt env s e []))" if "changes d e" for e rid sid st
    using changes_trans [OF that ch_workflow_writes(2)] changes_trans [OF that ch_requests(1)] changes_trans [OF that ch_job_writes(3)]
      changes_trans [OF that ch_release(3)] by simp_all
  show ?thesis using Inr u 1 by (cases b) (simp_all add: launch_def Let_def more ch_after_op ch_nexts ch_release)
qed (simp add: launch_def ch_after_op ch_nexts)

lemma ch_poll: "changes d (after (poll flt sflt env caps now s d))"
proof (cases "GetAvailableJob (we_group env) caps now d")
  case (Some i)
  obtain d1 x where a: "AcquireJob i (we_session env) leaseTime (we_group env) now d = (d1, x)" by fastforce
  have 1: "changes d d1" using ch_acquire a by (metis fst_conv)
  show ?thesis
  proof (cases x)
    case (Some j)
    have op: "changes d (fst (suspendOperation flt sflt env i j [] now d1))" "changes d (fst (completeOperation flt sflt env i j' [] r now d1))" for j' r
      by (rule changes_trans [OF 1 ch_operations(4)], rule changes_trans [OF 1 ch_operations(1)])
    show ?thesis using a Some 1 changes_trans [OF 1 ch_launch] \<open>GetAvailableJob _ _ _ _ = Some i\<close>
      by (auto simp: poll_def Let_def op ch_nexts ch_after_op changes_trans [OF 1 ch_nexts(4)] split: resume.split if_splits)
  qed (use a 1 \<open>GetAvailableJob _ _ _ _ = Some i\<close> in \<open>auto simp: poll_def keep_polling_def\<close>)
qed (simp add: poll_def keep_polling_def)

lemma ch_fail_and_close: "changes d (after (fail_and_close flt sflt env i j reason now s d))"
  by (simp add: fail_and_close_def ch_after_op ch_operations ch_nexts)

lemma ch_renew: "changes d (after (renew_tick flt env i now s d))"
proof -
  obtain d1 b x where r: "RenewJobLease i (we_session env) leaseTime now d = (d1, b, x)" by (metis prod_cases3)
  have "changes d d1" using ch_job_writes(1) [of d i "we_session env" leaseTime now] r by simp
  then show ?thesis using r by (cases b) (auto simp: renew_tick_def Let_def split: list.split)
qed

lemma ch_idle: "changes d (after (idle_step flt sflt env now ev s d))"
  by (cases ev) (simp_all add: ch_poll ch_release split: option.split)

lemma ch_waiting: "changes d (after (waiting_step flt sflt env i j now ev s d))"
proof (cases ev)
  case (MsgUpdate q r)
  obtain d1 b where u: "UpdateJobStatus i (we_session env) JRunning d = (d1, b)" by fastforce
  have 1: "changes d d1" using ch_job_writes(3) u by (metis fst_conv)
  show ?thesis using u 1 changes_trans [OF 1 ch_release(3)]
    by (cases b) (simp_all add: MsgUpdate ch_fail_and_close crash_def split: option.split)
qed (simp_all add: ch_fail_and_close ch_release)

lemma ch_interim: "changes d (after (recordInterim flt sflt env i j res now s d))"
proof (cases "agentMetrics (ss_this_op s) j")
  case (Inr am)
  obtain d1 b where u: "UpdateJobMetrics i (we_session env) am d = (d1, b)" by fastforce
  have 1: "changes d d1" using ch_job_writes(6) u by (metis fst_conv)
  show ?thesis using u 1 changes_trans [OF 1 ch_fail_and_close] Inr
    by (cases b) (simp_all add: recordInterim_def ch_fail_and_close)
qed (simp add: recordInterim_def ch_nexts)

lemma ch_busy: "changes d (after (busy_step flt sflt env i j now ev s d))"
  by (cases ev) (simp_all add: Let_def ch_fail_and_close ch_interim ch_after_op ch_operations ch_nexts request_cancel_def
      split: option.split operation_status.split)

lemma ch_cancel: "changes d (after (cancel_step flt sflt env i j now ev s d))"
  by (cases ev) (simp_all add: Let_def ch_fail_and_close ch_after_op ch_operations ch_nexts cancel_ack_def
      split: option.split operation_status.split cancel_reason.split)

lemma ch_session_step: "changes d (after (session_step flt sflt env now ev s d))"
proof (cases "\<exists>i. ev = RenewTick i")
  case False
  let ?step = "case (ss_state s, ss_job s) of
            (ConnectedIdle, _) \<Rightarrow> idle_step flt sflt env now ev s d
          | (ConnectedWaiting, Some (i, j)) \<Rightarrow> waiting_step flt sflt env i j now ev s d
          | (ConnectedBusy, Some (i, j)) \<Rightarrow> busy_step flt sflt env i j now ev s d
          | (CancelRequested, Some (i, j)) \<Rightarrow> cancel_step flt sflt env i j now ev s d
          | _ \<Rightarrow> (s, d, [])"
  have "session_step flt sflt env now ev s d = ?step" using False unfolding session_step_def by (cases ev) (simp_all only: session_event.case, blast)
  moreover have "changes d (after ?step)"
    by (simp add: ch_idle ch_waiting ch_busy ch_cancel split: session_state.split option.split prod.split)
  ultimately show ?thesis by simp
qed (auto simp: session_step_def ch_renew)

section \<open>The system\<close>

text \<open>The database and the open worker sessions, each with the tenant group it authenticated for.\<close>

record system =
  sy_db :: db
  sy_sessions :: "(string, string \<times> session) table"

text \<open>
  The steps of the system: a call of the API, a worker that connects or whose session handles one event, a tick of a
  partition, one round of each background worker, the partition leases, and the commands of the operator. The fault
  oracles, the clock and the generated identifiers are arbitrary in every step.
\<close>

inductive sys_step :: "system \<Rightarrow> system \<Rightarrow> bool" where
  api: "sys_step s (s\<lparr>sy_db := fst (serve ev md r (sy_db s))\<rparr>)"
| connect: "auth_resolve flt md None (sy_db s) = Inr (Some g) \<Longrightarrow> map_of (sy_sessions s) sid = None \<Longrightarrow>
    sys_step s (s\<lparr>sy_sessions := sy_sessions s @ [(sid, g, new_session)]\<rparr>)"
| session: "map_of (sy_sessions s) (we_session env) = Some (we_group env, ses) \<Longrightarrow>
    session_step flt sflt env now e ses (sy_db s) = (ses', d', cs) \<Longrightarrow>
    sys_step s (s\<lparr>sy_db := d', sy_sessions := AList.update (we_session env) (we_group env, ses') (sy_sessions s)\<rparr>)"
| tick: "sys_step s (s\<lparr>sy_db := fst (partition_tick flt flts uid sid grace lease p now ts (sy_db s))\<rparr>)"
| acquire: "sys_step s (s\<lparr>sy_db := fst (AcquireAvailable sid lease now (sy_db s))\<rparr>)"
| release: "sys_step s (s\<lparr>sy_db := Release p sid (sy_db s)\<rparr>)"
| approvals: "sys_step s (s\<lparr>sy_db := approval_sweep flt af ids p now (sy_db s)\<rparr>)"
| inputs: "sys_step s (s\<lparr>sy_db := input_sweep flt af ids p now (sy_db s)\<rparr>)"
| abandoned: "sys_step s (s\<lparr>sy_db := abandoned_sweep flt p now (sy_db s)\<rparr>)"
| cooldowns: "sys_step s (s\<lparr>sy_db := cooldown_sweep flt p now (sy_db s)\<rparr>)"
| deletions: "sys_step s (s\<lparr>sy_db := deletion_sweep flt flts p now (sy_db s)\<rparr>)"
| suspensions: "sys_step s (s\<lparr>sy_db := suspension_sweep flt flts p now (sy_db s)\<rparr>)"
| purges: "sys_step s (s\<lparr>sy_db := purge_sweep flt flts p age now (sy_db s)\<rparr>)"
| tenant_purges: "sys_step s (s\<lparr>sy_db := tenant_purge_sweep flt pf p (sy_db s)\<rparr>)"
| periodic: "sys_step s (s\<lparr>sy_db := periodic_sweep flt flts corr rids p now (sy_db s)\<rparr>)"
| provision: "sys_step s (s\<lparr>sy_db := fst (runProvision flt name gid kid rand now now' (sy_db s))\<rparr>)"
| revoke: "sys_step s (s\<lparr>sy_db := fst (Revoke k now (sy_db s))\<rparr>)"
| seed: "SeedPartitions n (sy_db s) = Inr (d', u) \<Longrightarrow> sys_step s (s\<lparr>sy_db := d'\<rparr>)"

text \<open>
  The database after the migrations of \<open>src/migrations\<close>, run at time \<open>t\<close>: empty but for the default group of 001 and the default prices
  of 010.
\<close>

definition seeded_prices :: "(string, model_pricing) table" where
  "seeded_prices =
     [(''claude-opus-4-8'', \<lparr>mp_model_id = ''claude-opus-4-8'', mp_input_per_1m = 5, mp_output_per_1m = 25\<rparr>),
      (''claude-sonnet-4-6'', \<lparr>mp_model_id = ''claude-sonnet-4-6'', mp_input_per_1m = 3, mp_output_per_1m = 15\<rparr>),
      (''claude-haiku-4-5'', \<lparr>mp_model_id = ''claude-haiku-4-5'', mp_input_per_1m = 1, mp_output_per_1m = 5\<rparr>)]"

definition migrated_db :: "timestamp \<Rightarrow> db" where
  "migrated_db t = empty_db\<lparr>
     db_groups := [(''default'', \<lparr>tg_name = ''Default'', tg_policies = no_policies, tg_created_at = t\<rparr>)],
     db_default_pricing := seeded_prices\<rparr>"

definition initial :: "timestamp \<Rightarrow> system" where
  "initial t = \<lparr>sy_db = migrated_db t, sy_sessions = []\<rparr>"

lemma ch_provision: "changes d (fst (runProvision flt name gid kid rand now now' d))"
proof -
  obtain d1 x where g: "group_Create gid \<lparr>tg_name = name, tg_policies = no_policies, tg_created_at = now\<rparr> d = (d1, x)" by fastforce
  have 1: "changes d d1" using ch_groups g by (metis fst_conv)
  show ?thesis using g 1 changes_trans [OF 1 ch_groups(3)]
    by (auto simp: runProvision_def split: sum.split prod.split) (metis fst_conv)+
qed

lemma ch_tick:
  obtains e where "changes d e" "lease_change e (fst (partition_tick flt flts uid sid grace lease p now ts d))"
proof
  show "changes d (scheduleJobs flt flts p now (fold (run_task flt flts uid grace p now) ts d))" by (rule system.work) simp
qed (simp add: partition_tick_def Let_def lease_statements)

text \<open>A step is a sequence of row changes or a purge, then at most a change of partition leases.\<close>

lemma step_changes: "sys_step s s' \<Longrightarrow> \<exists>e. (changes (sy_db s) e \<or> purges (sy_db s) e) \<and> lease_change e (sy_db s')"
proof (induction rule: sys_step.induct)
  case (session s env ses flt sflt now e ses' d' cs)
  then show ?case using ch_session_step [of "sy_db s" flt sflt env now e ses] by (auto intro: exI [of _ d'])
next
  case (tick s flt flts uid sid grace lease p now ts)
  show ?case using ch_tick [of "sy_db s" flt flts uid sid grace lease p now ts] by auto
next
  case (seed n s d' u)
  then show ?case using lease_seed by (auto intro: exI [of _ "sy_db s"])
qed (auto intro: exI [of _ "sy_db s" for s] lease_statements lease_change_refl ch_serve ch_gate_workers ch_deletion ch_suspension purge_sweep_purges ch_tenant_purge
    ch_periodic ch_provision ch simp: abandoned_sweep_def cooldown_sweep_def)

lemma steps_ok: "sys_step\<^sup>*\<^sup>* s s' \<Longrightarrow> sys_ok (sy_db s) \<Longrightarrow> sys_ok (sy_db s')"
  by (induction rule: rtranclp_induct) (auto dest!: step_changes intro: lease_change_ok changes_ok purges_ok)

section \<open>Properties\<close>

lemma initial_ok: "sys_ok (sy_db (initial t))"
  by (simp add: initial_def migrated_db_def seeded_prices_def sys_ok_def empty_db_def db_pk_def pk_def keys_def refs_ok_def jobs_tagged_def rows_all_def)

text \<open>C2. Whatever the API servers, the schedulers, the background workers, the worker sessions and the operator do after the
  migrations, in any order and with any of their database calls failing, every reachable database is well formed: primary and
  foreign keys hold (so a tenant row stays as long as a workflow row refers to it), every job carries the tenant group that owns
  its workflow, no stored lifecycle policy has a negative window, and the workflow count stored on a tenant is never negative
  and is 0 on a tenant marked deleted. That the stored count is the number of live workflows is not part of it.\<close>

theorem reachable_states_are_well_formed:
  assumes "sys_step\<^sup>*\<^sup>* (initial t) s"
  shows "sys_ok (sy_db s)"
  by (rule steps_ok [OF assms initial_ok])

theorem reachable_states_are_well_formed_witness:
  "sys_ok (fst (runProvision (\<lambda>_. False) ''acme'' ''g'' ''k'' (Some [1, 2, 3]) 5 6 (migrated_db 0)))"
proof -
  let ?d = "fst (runProvision (\<lambda>_. False) ''acme'' ''g'' ''k'' (Some [1, 2, 3]) 5 6 (sy_db (initial 0)))"
  have "sys_step\<^sup>*\<^sup>* (initial 0) ((initial 0)\<lparr>sy_db := ?d\<rparr>)" by (intro r_into_rtranclp sys_step.provision)
  from reachable_states_are_well_formed [OF this] show ?thesis by (simp add: initial_def)
qed

text \<open>C3. Workers are isolated: in every state reached from a well-formed one, an operation is launched on a session only
  for a job whose workflow belongs to the tenant group the session authenticated for, that matches a capability
  the client announced, is due and is owned by nobody; and when the command is sent, the job row is owned by the
  session, dispatched, and records everything the command carries: request, workflow, type, version, operation, context and timeout.\<close>

theorem workers_serve_only_their_group:
  assumes "sys_ok (sy_db s0)" "sys_step\<^sup>*\<^sup>* s0 s" "session_step flt sflt env now e ses (sy_db s) = (ses', d', cs)" "Launch op \<in> set cs"
  shows "\<exists>caps i j j'. (e = MsgReady caps \<or> ss_polling ses = Some caps) \<and> job_of (sy_db s) i = Some j \<and>
    may_pick (we_group env) caps now j \<and> owner_group (sy_db s) i = Some (we_group env) \<and>
    job_of d' i = Some j' \<and> launched (we_session env) i (Launch op) j'"
proof -
  have ok: "sys_ok (sy_db s)" by (rule steps_ok [OF assms(2,1)])
  then have pk: "db_pk (sy_db s)" by (simp add: sys_ok_def)
  obtain caps i j j' where l: "e = MsgReady caps \<or> ss_polling ses = Some caps" "job_of (sy_db s) i = Some j"
      "may_pick (we_group env) caps now j" "job_of d' i = Some j'" "launched (we_session env) i (Launch op) j'"
    using session_launches [OF pk assms(3,4)] by blast
  moreover have "owner_group (sy_db s) i = Some (we_group env)"
    using ok map_of_SomeD [OF l(2)] l(3) by (fastforce simp: sys_ok_def jobs_tagged_def list_all_iff may_pick_def)
  ultimately show ?thesis by blast
qed

text \<open>A scheduled run of group \<open>g\<close>, waiting for a worker.\<close>

definition waiting_run :: system where
  "waiting_run = \<lparr>sy_db = (sample_db RScheduled (sample_job JPending None None))
     \<lparr>db_groups := [(''g'', \<lparr>tg_name = ''g'', tg_policies = sample_policies, tg_created_at = 0\<rparr>)]\<rparr>,
     sy_sessions = [(''s1'', ''g'', new_session)]\<rparr>"

theorem workers_serve_only_their_group_witness:
  "map_option (\<lambda>j. (j_owner j, j_status j)) (job_of (fst (snd (session_step (\<lambda>_. False) (\<lambda>_. False) sample_worker 20
     (MsgReady [(''T'', 1)]) new_session (sy_db waiting_run)))) ''w'') = Some (Some ''s1'', JDispatched)"
proof -
  let ?d = "sy_db waiting_run"
  let ?r = "session_step (\<lambda>_. False) (\<lambda>_. False) sample_worker 20 (MsgReady [(''T'', 1)]) new_session ?d"
  have ok: "sys_ok ?d"
    by (simp add: sys_ok_def refs_ok_def jobs_tagged_def owner_group_def owner_tab_def has_wf_def has_tenant_def has_group_def policy_ok_def
        tenant_ok_def rows_all_def db_pk_def pk_def keys_def waiting_run_def sample_row_defs)
  have step: "?r = (fst ?r, fst (snd ?r), snd (snd ?r))" by simp
  have "snd (snd ?r) = [Launch (launch_message ''w'' (sample_job JPending None None))]" by code_simp
  then have sent: "Launch (launch_message ''w'' (sample_job JPending None None)) \<in> set (snd (snd ?r))" by simp
  from workers_serve_only_their_group [OF ok rtranclp.rtrancl_refl step sent] obtain i j j' where
    "job_of ?d i = Some j" "job_of (fst (snd ?r)) i = Some j'" "launched (we_session sample_worker) i (Launch (launch_message ''w'' (sample_job JPending None None))) j'"
    by blast
  moreover from this(1) have "i = ''w''" by (simp add: waiting_run_def sample_db_def split: if_splits)
  ultimately show ?thesis by (simp add: launched_def sample_worker_def)
qed

end
