(* ===== verification/Robustness.thy ===== *)
theory Robustness
  imports System
begin

text \<open>
  What the API survives: in a well-formed database no call crashes the server, because the only panics within reach of a
  handler (slicing with a negative window, dividing by zero partitions, a missing timeout in a request, a nil rule)
  are excluded by what the handlers validate and store.
\<close>

section \<open>Services that never panic\<close>

definition calm :: "'d \<times> 'a result \<Rightarrow> bool" where
  "calm x = (snd x \<noteq> Inl Panic)"

lemma calm_pair [simp]: "calm (d, Inl e) \<longleftrightarrow> e \<noteq> Panic" "calm (d, Inr v)"
  by (simp_all add: calm_def)

lemma answer_calm: "calm x \<Longrightarrow> snd (answer_with cs op f x) \<noteq> Inl Crashed"
  by (auto simp: answer_with_def status_of_def calm_def split: sum.split option.split)

lemma status_calm: "status_of cs op e = Crashed \<longleftrightarrow> e = Panic"
  by (auto simp: status_of_def split: option.split)

lemma loop_calm: "list_all (\<lambda>r. rule_windowed r \<longrightarrow> 0 \<le> pr_window r) rs \<Longrightarrow> \<exists>x. resolve_loop ms vm rs acc = Inr x"
proof (induction rs arbitrary: acc)
  case (Cons r rs)
  then obtain y where "eval_rule ms vm r = Inr y" using eval_rule_total [of r ms vm] by auto
  then show ?case using Cons by (cases acc rule: prod_cases4) (auto simp: Let_def split: option.split)
qed (simp del: split_paired_Ex)

lemma policy_calm: "policy_ok p \<Longrightarrow> \<exists>x. ResolvePolicy ms p vm = Inr x"
  using loop_calm [of "lp_rules p" ms vm "(- 1, no_goal, None, 0)"] by (auto simp: policy_ok_def ResolvePolicy_def)

lemma resume_calm:
  assumes "rows_all (\<lambda>w. policy_ok (w_lifecycle_policy w)) (db_workflows d)"
  shows "calm (ResumeWorkflow flt i sid now d)"
proof (cases "wf_of d i")
  case (Some w)
  then have p: "policy_ok (w_lifecycle_policy w)" using assms rows_all_lookup by fastforce
  let ?w = "w\<lparr>w_invocation_metrics := sort_key s_ran_at (w_invocation_metrics w)\<rparr>"
  have "resolveResumeState flt i ?w now d \<noteq> Inl Panic"
  proof -
    obtain g f v where "ResolvePolicy (w_invocation_metrics ?w) (w_lifecycle_policy ?w)
        (case GetCurrentVersionMetrics i (w_current_workflow_version w) d of None \<Rightarrow> zero_version_metrics [] 0 0 | Some v \<Rightarrow> v) = Inr (g, f, v)"
      using policy_calm [OF p] by fastforce
    then show ?thesis by (simp add: resolveResumeState_def Let_def)
  qed
  then show ?thesis using Some by (auto simp: ResumeWorkflow_def workflow_Get_def calm_def split: sum.split option.split prod.split)
qed (simp add: ResumeWorkflow_def workflow_Get_def)

lemma invoke_calm: "calm (InvokeWorkflow flt sflt uid cid i tmo ctx now d)"
proof -
  obtain d' r where x: "InvokeWorkflow flt sflt uid cid i tmo ctx now d = (d', r)" by fastforce
  then show ?thesis
  proof (cases rule: invoke_phases)
    case (submitted w info n)
    then show ?thesis using x submit_invocation_spec [OF submitted(1-3,5)] by (cases r) (simp_all add: calm_def)
  qed (use x in simp)
qed

lemma create_calm: "n \<noteq> 0 \<Longrightarrow> calm (CreateWorkflow flt m n uid ty tid cfg v now d)"
  by (simp add: CreateWorkflow_def partitionForID_def workflow_Create_def Let_def split: option.split)

lemma calm_step: "calm x \<Longrightarrow> (\<And>d v. calm (k d v)) \<Longrightarrow> calm (case x of (d, Inl e) \<Rightarrow> (d, Inl e) | (d, Inr v) \<Rightarrow> k d v)"
  by (cases x) (auto simp: calm_def split: sum.split)

lemma repo_calm:
  "calm (MarkSuspensionRequested i sid reason stop now d)" "calm (MarkDeletionRequested i now d)" "calm (UpdateConfig i cfg v d)"
  "calm (UpsertRuntimePolicy i a p d)" "calm (UpsertLifecyclePolicy i a p d)" "calm (tenant_Create i t d)" "calm (MarkDeleted i now d)"
  "calm (group_Delete i d)"
  by (auto simp: MarkSuspensionRequested_def MarkDeletionRequested_def UpdateConfig_def UpsertRuntimePolicy_def UpsertLifecyclePolicy_def
      tenant_Create_def MarkDeleted_def group_Delete_def Let_def case_prod_unfold split: option.split bool.split)

lemma staged_calm:
  "calm (SuspendWorkflow flt sid i stop reason now d)" "calm (DeleteWorkflow flt i now d)" "calm (DeleteTenant flt i now d)"
  unfolding SuspendWorkflow_def DeleteWorkflow_def DeleteTenant_def Let_def workflow_Get_def
  by (auto simp: repo_calm intro!: calm_step split: option.split)

lemma services_calm:
  "calm (SetWorkflowConfig flt m i cfg v d)" "calm (service_AbandonQueuedRequests flt i ids d)" "calm (ActivateWorkflow flt i rid d)"
  "calm (service_ResolveInterruptedWorkflow flt i rid d)" "calm (ApproveWorkflow flt uid i gid actor reason now d)"
  "calm (RejectWorkflow flt uid i gid actor reason now d)" "calm (SubmitInput flt uid i gid ans actor now d)"
  "calm (SetAgentRuntimePolicy flt i a p d)" "calm (SetAgentLifecyclePolicy flt i a p d)" "calm (DeleteAgent flt i a d)"
  "calm (SetWorkflowLifecyclePolicy flt i pol d)" "calm (DeleteTenantGroup flt i d)" "calm (SetModelPricing flt g x d)"
  by (auto simp: SetWorkflowConfig_def service_AbandonQueuedRequests_def ActivateWorkflow_def service_ResolveInterruptedWorkflow_def
      ApproveWorkflow_def RejectWorkflow_def SubmitInput_def SetAgentRuntimePolicy_def SetAgentLifecyclePolicy_def DeleteAgent_def
      SetWorkflowLifecyclePolicy_def DeleteTenantGroup_def SetModelPricing_def repo_calm split: option.split prod.split)

lemma create_tenant_calm: "n \<noteq> 0 \<Longrightarrow> calm (CreateTenant flt uid now n t d)"
  by (auto simp: CreateTenant_def partitionForID_def Let_def repo_calm intro!: calm_step)

section \<open>Handlers that never crash\<close>

lemma owner_calm:
  assumes "snd k \<noteq> Inl Crashed"
  shows "snd (as_owner ev ctx i d k) \<noteq> Inl Crashed"
proof -
  have "TenantGroupIDForWorkflow i d \<noteq> Inl Panic" by (simp add: TenantGroupIDForWorkflow_def split: option.split)
  then show ?thesis using assms
    by (auto simp: as_owner_def checkWorkflowOwner_def service_TenantGroupIDForWorkflow_def status_calm split: option.split sum.split)
qed

lemma group_calm: "(\<And>g. snd (k g) \<noteq> Inl Crashed) \<Longrightarrow> snd (as_group ctx d k) \<noteq> Inl Crashed"
  by (auto simp: as_group_def callerTenantGroup_def split: option.split)

lemma tenant_owner_calm: "(\<And>t. snd (k t) \<noteq> Inl Crashed) \<Longrightarrow> snd (as_tenant_owner ev ctx i d k) \<noteq> Inl Crashed"
  by (auto simp: as_tenant_owner_def invalid_def GetTenant_def tenant_Get_def status_calm group_calm split: sum.split option.split)

lemma invalid_calm [simp]: "snd (invalid t d) \<noteq> Inl Crashed"
  by (simp add: invalid_def)

lemma rules_calm: "None \<notin> set rs \<Longrightarrow> validate_workflow_rules n rs \<noteq> Some Crashed"
  by (induction n rs rule: validate_workflow_rules.induct) (auto split: option.split)

text \<open>A request whose messages contain no nil pointer where the handler expects one.\<close>

definition well_formed_rpc :: "rpc \<Rightarrow> bool" where
  "well_formed_rpc r = (case r of Command (SetWorkflowLifecyclePolicyRpc i (Some rs)) \<Rightarrow> None \<notin> set rs | _ \<Rightarrow> True)"

lemma cmd_calm:
  assumes "sys_ok d" "ev_partitions ev \<noteq> 0" "well_formed_rpc (Command c)"
  shows "snd (handle_cmd ev c ctx d) \<noteq> Inl Crashed"
proof (cases c)
  case (CreateWorkflowRpc ty tid cfg)
  have "checkTenantOwner ev ctx tid d \<noteq> Inl Crashed"
    by (auto simp: checkTenantOwner_def TenantGroupIDForTenant_def tenant_Get_def status_calm split: option.split sum.split)
  then show ?thesis using assms(2) by (auto simp: CreateWorkflowRpc rpc_CreateWorkflow_def answer_calm create_calm split: sum.split)
next
  case (SetWorkflowConfigRpc i cfg)
  have "calm (d1, GetWorkflow flt i d1)" for flt d1 by (simp add: calm_def GetWorkflow_def workflow_Get_def split: option.split)
  moreover have "calm (SetWorkflowConfig (ev_flt ev) (ev_min_repeat ev) i cf v d)" for cf v by (rule services_calm)
  ultimately show ?thesis
    by (auto simp: SetWorkflowConfigRpc rpc_SetWorkflowConfig_def answer_calm calm_def status_calm intro!: owner_calm split: sum.split prod.split)
      (metis snd_conv)+
next
  case (ResumeWorkflowRpc i sid)
  then show ?thesis using assms(1) by (simp add: rpc_ResumeWorkflow_def sys_ok_def owner_calm answer_calm resume_calm)
next
  case (SetWorkflowLifecyclePolicyRpc i p)
  have "validate_workflow_rules 0 (case p of None \<Rightarrow> [] | Some rs \<Rightarrow> rs) \<noteq> Some Crashed"
    using assms(3) by (intro rules_calm) (auto simp: SetWorkflowLifecyclePolicyRpc well_formed_rpc_def split: option.split)
  then show ?thesis
    by (auto simp: SetWorkflowLifecyclePolicyRpc rpc_SetWorkflowLifecyclePolicy_def owner_calm answer_calm services_calm split: option.split)
qed (simp_all add: rpc_InvokeWorkflow_def rpc_DeleteWorkflow_def rpc_SuspendWorkflow_def rpc_AbandonQueuedRequests_def rpc_ActivateWorkflow_def
    rpc_ResolveInterruptedWorkflow_def rpc_ApproveWorkflow_def rpc_RejectWorkflow_def rpc_SubmitInput_def rpc_SetAgentRuntimePolicy_def
    rpc_SetAgentLifecyclePolicy_def rpc_DeleteAgent_def Let_def owner_calm answer_calm services_calm staged_calm invoke_calm split: option.split)

lemma reads_calm:
  "calm (d, GetWorkflow flt i d)" "calm (d, GetWorkflowLifecyclePolicy flt i d)" "calm (d, ListAgents flt i d)"
  "calm (d, GetAgentRuntimePolicy flt i a d)" "calm (d, GetAgentLifecyclePolicy flt i a d)" "calm (d, ListWorkflowRuns flt i d)"
  "calm (d, GetWorkflowMetrics flt i d)" "calm (d, ListWorkflows flt g d)" "calm (d, ListEffectivePricing flt g d)"
  "calm (d, GetTenantGroup flt i d)" "calm (d, ListTenants flt g d)" "GetRequestInfo flt q d \<noteq> Inl Panic"
  by (auto simp: calm_def GetWorkflow_def workflow_Get_def GetWorkflowLifecyclePolicy_def ListAgents_def GetAgentRuntimePolicy_def
      GetAgentLifecyclePolicy_def ListWorkflowRuns_def GetWorkflowMetrics_def ListWorkflows_def ListEffectivePricing_def GetTenantGroup_def
      group_Get_def ListTenants_def GetRequestInfo_def request_Get_def split: option.split)

lemma details_calm:
  "ApprovalDetails e \<noteq> Inl Panic" "InputDetails e \<noteq> Inl Panic" "PolicyDetails e \<noteq> Inl Panic" "AgentPolicyDetails e \<noteq> Inl Panic"
  by (simp_all add: ApprovalDetails_def InputDetails_def PolicyDetails_def AgentPolicyDetails_def split: audit_details.split)

lemma records_calm:
  "ApprovalAuditRecord e \<noteq> Inl Panic" "InputAuditRecord e \<noteq> Inl Panic" "WorkflowPolicyAuditRecord e \<noteq> Inl Panic"
  "AgentPolicyAuditRecord e \<noteq> Inl Panic" "AuditEntry e \<noteq> Inl Panic"
  by (auto simp: details_calm ApprovalAuditRecord_def InputAuditRecord_def WorkflowPolicyAuditRecord_def AgentPolicyAuditRecord_def AuditEntry_def
      split: audit_details.split audit_event_type.split sum.split)

lemma audit_calm:
  assumes "\<And>e. f e \<noteq> Inl Panic"
  shows "snd (audit_answer ev op op' f g es d) \<noteq> Inl Crashed"
proof -
  have "map_results f xs \<noteq> Inl Panic" for xs
    by (induction xs) (use assms in \<open>auto split: sum.split\<close>)
  then show ?thesis by (simp add: audit_answer_def status_calm answer_calm calm_def)
qed

lemma query_calm: "snd (handle_query ev q ctx d) \<noteq> Inl Crashed"
proof (cases q)
  case (GetApprovalAuditByIdRpc gid)
  then show ?thesis
    by (simp add: rpc_GetApprovalAuditById_def GetApprovalAuditByID_def status_calm group_calm answer_calm calm_def records_calm
        split: option.split)
qed (auto simp: rpc_GetWorkflow_def rpc_GetWorkflowLifecyclePolicy_def rpc_ListAgents_def rpc_GetAgentRuntimePolicy_def
    rpc_GetAgentLifecyclePolicy_def rpc_ListWorkflowRuns_def rpc_GetRequestInfo_def rpc_GetWorkflowMetrics_def rpc_ListWorkflows_def
    rpc_GetApprovalAudit_def rpc_GetInputAudit_def rpc_GetWorkflowPolicyAudit_def rpc_GetAgentPolicyAudit_def rpc_GetAuditLog_def
    status_calm reads_calm intro!: owner_calm group_calm answer_calm audit_calm records_calm split: sum.split)

lemma registration_calm:
  assumes "ev_partitions ev \<noteq> 0"
  shows "snd (handle_registration ev x ctx d) \<noteq> Inl Crashed"
  using assms by (cases x) (simp_all add: rpc_SetModelPricing_def rpc_ListModelPricing_def rpc_GetTenantGroup_def rpc_DeleteTenantGroup_def rpc_CreateTenant_def
    rpc_GetTenant_def rpc_ListTenants_def rpc_DeleteTenant_def services_calm staged_calm reads_calm create_tenant_calm
    group_calm answer_calm tenant_owner_calm split: sum.split)

lemma api_calm:
  assumes "sys_ok (sy_db s0)" "sys_step\<^sup>*\<^sup>* s0 s" "ev_partitions ev \<noteq> 0" "well_formed_rpc r"
  shows "snd (serve ev md r (sy_db s)) \<noteq> Inl Crashed"
proof -
  have ok: "sys_ok (sy_db s)" by (rule steps_ok [OF assms(2,1)])
  have "snd (handle ev r ctx (sy_db s)) \<noteq> Inl Crashed" for ctx
    using cmd_calm [OF ok assms(3)] registration_calm [OF assms(3)] query_calm assms(4) by (cases r) (simp_all add: handle_def)
  moreover have "auth_resolve (ev_flt ev) md None (sy_db s) \<noteq> Inl Crashed"
    by (simp add: auth_resolve_def split: option.split list.split sum.split prod.split)
  ultimately show ?thesis by (auto simp: serve_def UnaryInterceptor_def split: sum.split)
qed

section \<open>A run that keeps failing\<close>

text \<open>
  One attempt at the job of workflow \<open>i\<close>: a worker acquires it and the operation fails after some reports. Without
  an available job nothing happens.
\<close>

record attempt =
  at_worker :: worker_env
  at_reports :: agent_metrics
  at_reason :: string
  at_time :: timestamp

definition failing_attempt :: "string \<Rightarrow> attempt \<Rightarrow> db \<Rightarrow> db" where
  "failing_attempt i a d =
     (case AcquireJob i (we_session (at_worker a)) leaseTime (we_group (at_worker a)) (at_time a) d of
        (d1, None) \<Rightarrow> d1
      | (d1, Some j) \<Rightarrow> fst (failOperation (\<lambda>_. False) (\<lambda>_. False) (at_worker a) i j (at_reports a) (at_reason a) (at_time a) d1))"

text \<open>The run of request \<open>rid\<close> waits for a worker of group \<open>g\<close>, with \<open>n\<close> attempts behind it.\<close>

definition awaits_worker :: "string \<Rightarrow> string \<Rightarrow> int \<Rightarrow> string \<Rightarrow> int \<Rightarrow> db \<Rightarrow> bool" where
  "awaits_worker rid i ver g n d = (db_pk d \<and> (\<exists>w r j. wf_of d i = Some w \<and> w_current_version w < ver \<and> req_of d rid = Some r \<and>
     job_of d i = Some j \<and> j_request_id j = rid \<and> j_version j = ver \<and> j_status j = JPending \<and> j_owner j = None \<and> j_dispatch_at j = None \<and>
     j_tenant_group_id j = g \<and> j_attempts j = n \<and> no_nil (j_agent_metrics j)))"

lemma attempt_outcome:
  assumes "awaits_worker rid i ver g n d" "we_group (at_worker a) = g"
  shows "interrupted_run rid i ver (failing_attempt i a d) \<or> n < maxJobAttempts \<and> awaits_worker rid i ver g (n + 1) (failing_attempt i a d)"
proof -
  let ?sid = "we_session (at_worker a)" and ?t = "at_time a"
  obtain w r j where d: "db_pk d" "wf_of d i = Some w" "w_current_version w < ver" "req_of d rid = Some r" "job_of d i = Some j"
    and j: "j_request_id j = rid" "j_version j = ver" "j_status j = JPending" "j_owner j = None" "j_dispatch_at j = None"
      "j_tenant_group_id j = g" "j_attempts j = n" "no_nil (j_agent_metrics j)"
    using assms(1) unfolding awaits_worker_def by blast
  let ?j1 = "j\<lparr>j_owner := Some ?sid, j_lease_expires_at := Some (?t + leaseTime)\<rparr>"
  obtain d1 where a1: "AcquireJob i ?sid leaseTime g ?t d = (d1, Some ?j1)" and d1: "db_pk d1" "wf_of d1 i = Some w" "req_of d1 rid = Some r" "job_of d1 i = Some ?j1"
    using d j by (simp add: AcquireJob_def case_prod_unfold row_simps dispatchable_def unowned_def dispatch_due_def)
  obtain am where am: "agentMetrics (at_reports a) ?j1 = Inr am" "no_nil am"
    using MergeAgentMetrics_total [of "j_agent_metrics j"] j(8) by (auto simp: agentMetrics_def)
  let ?j2 = "?j1\<lparr>j_status := JFailed, j_failure_reason := at_reason a, j_agent_metrics := am\<rparr>"
  obtain d2 where f: "FailJobWithMetrics i ?sid (at_reason a) am (j_workflow_metrics ?j1) d1 = (d2, True)" and d2: "db_pk d2" "wf_of d2 i = Some w" "req_of d2 rid = Some r" "job_of d2 i = Some ?j2"
    using d1 by (simp add: FailJobWithMetrics_def prod_eq_iff row_simps)
  have e: "failing_attempt i a d = fst (FailRequest (\<lambda>_. False) rid i ver (at_reason a) n ?t d2)"
    using a1 am f assms(2) j by (simp add: failing_attempt_def failOperation_def case_prod_unfold)
  show ?thesis
  proof (cases "wc_resumable (w_config w) \<and> n < maxJobAttempts")
    case True
    then obtain d3 where "FailRequest (\<lambda>_. False) rid i ver (at_reason a) n ?t d2 = (d3, Inr False)" "db_pk d3"
        "job_of d3 i = Some (?j2\<lparr>j_status := JPending, j_owner := None, j_lease_expires_at := None, j_attempts := n + 1\<rparr>)"
        "db_workflows d3 = db_workflows d2" "db_requests d3 = db_requests d2"
      using failure_requeues [OF d2(2) _ d2(4), of rid ver "at_reason a" ?t] d2(1) j by auto
    then show ?thesis using True e d2 d(3) j am(2) by (auto simp: awaits_worker_def)
  next
    case False
    then show ?thesis using failure_interrupts [OF d2(1,2) d(3) d2(3,4), of "at_reason a" ?t] e j am(2) by auto
  qed
qed

lemma interrupted_attempt: "interrupted_run rid i ver d \<Longrightarrow> failing_attempt i a d = d"
  by (simp add: interrupted_run_def failing_attempt_def AcquireJob_def upd_job_def upd_row_def)

text \<open>C11. A run that keeps failing ends: whatever workers take it, whatever they report and however they fail, after at most
  \<open>maxJobAttempts + 1\<close> attempts (one, if the workflow is not resumable) the run is interrupted, its request has
  failed, its job is gone, and it stays so.\<close>

theorem failing_run_ends:
  assumes "awaits_worker rid i ver g n d" "0 \<le> n" "list_all (\<lambda>a. we_group (at_worker a) = g) as"
    and "nat (maxJobAttempts - n) < length as"
  shows "interrupted_run rid i ver (fold (failing_attempt i) as d)"
  using assms
proof (induction as arbitrary: n d)
  case (Cons a as)
  have stays: "fold (failing_attempt i) bs e = e" if "interrupted_run rid i ver e" for bs e
    using that by (induction bs) (simp_all add: interrupted_attempt)
  from attempt_outcome [OF Cons.prems(1), of a] Cons.prems(3) consider
    "interrupted_run rid i ver (failing_attempt i a d)" | "n < maxJobAttempts" "awaits_worker rid i ver g (n + 1) (failing_attempt i a d)" by auto
  then show ?case
  proof cases
    case 2
    then have "nat (maxJobAttempts - (n + 1)) < length as" using Cons.prems(2,4) by simp
    then show ?thesis using Cons.IH [OF 2(2)] Cons.prems(2,3) by simp
  qed (simp add: stays)
qed simp

text \<open>A resumable run whose worker fails 21 times.\<close>

definition resumable_run :: db where
  "resumable_run = (sample_db RScheduled (sample_job JPending None None))
     \<lparr>db_workflows := [(''w'', sample_wf\<lparr>w_config := (w_config sample_wf)\<lparr>wc_resumable := True\<rparr>\<rparr>)]\<rparr>"

definition crash_attempt :: attempt where
  "crash_attempt = \<lparr>at_worker = sample_worker, at_reports = [], at_reason = ''boom'', at_time = 9\<rparr>"

theorem failing_run_ends_witness:
  "interrupted_run ''r1'' ''w'' 1 (fold (failing_attempt ''w'') (replicate 21 crash_attempt) resumable_run)"
proof (rule failing_run_ends)
  show "awaits_worker ''r1'' ''w'' 1 ''g'' 0 resumable_run"
    by (simp add: awaits_worker_def resumable_run_def sample_row_defs db_pk_def pk_def keys_def no_nil_def)
qed (simp_all add: list_all_iff crash_attempt_def sample_worker_def maxJobAttempts_def)

end
