(* ===== verification/SchedulerLoop.thy ===== *)
theory SchedulerLoop
  imports System
begin

text \<open>
  The loop in which a scheduler acquires, ticks and loses its partition (\<open>Run\<close> and \<open>runPartition\<close> of
  \<open>src/internal/scheduler/scheduler.go\<close>), the partition workers it starts beside the ticks
  (\<open>SetPartitionWorkers\<close> in \<open>src/cmd/boundflow/main.go\<close>), and any number of such loops over one database.
\<close>

section \<open>Partition workers\<close>

datatype partition_worker =
    CooldownExpiry | PeriodicWorkflows | ApprovalTimeouts | InputTimeouts | Deletions | Suspensions | AbandonedJobs
  | WorkflowPurges | TenantPurges

text \<open>\<open>time.Duration(n) * time.Second\<close> counts nanoseconds in 64 bits and wraps; here in microseconds.\<close>

definition go_duration :: "int \<Rightarrow> int" where
  "go_duration n = signed_take_bit 63 (n * 1000000000) div 1000"

lemma go_duration_small: "0 \<le> n \<Longrightarrow> n \<le> 2 ^ 33 \<Longrightarrow> go_duration n = secs n"
  by (simp add: go_duration_def secs_def signed_take_bit_int_eq_self)

text \<open>What one round of a worker draws: the faults of its calls, identifiers and the clock.\<close>

record round =
  ro_fault :: "string \<Rightarrow> bool"
  ro_item_fault :: "string \<Rightarrow> string \<Rightarrow> bool"
  ro_purge_fault :: "string \<Rightarrow> bool"
  ro_audit_fault :: "string \<Rightarrow> bool"
  ro_audit_id :: "expired_gate \<Rightarrow> string"
  ro_correlation :: "string \<Rightarrow> string"
  ro_request_id :: "string \<Rightarrow> string"
  ro_now :: timestamp

fun worker_round :: "int \<Rightarrow> round \<Rightarrow> partition_worker \<Rightarrow> string \<Rightarrow> db \<Rightarrow> db" where
  "worker_round age ro CooldownExpiry p d = cooldown_sweep (ro_fault ro) p (ro_now ro) d"
| "worker_round age ro PeriodicWorkflows p d =
     periodic_sweep (ro_fault ro) (ro_item_fault ro) (ro_correlation ro) (ro_request_id ro) p (ro_now ro) d"
| "worker_round age ro ApprovalTimeouts p d = approval_sweep (ro_fault ro) (ro_audit_fault ro) (ro_audit_id ro) p (ro_now ro) d"
| "worker_round age ro InputTimeouts p d = input_sweep (ro_fault ro) (ro_audit_fault ro) (ro_audit_id ro) p (ro_now ro) d"
| "worker_round age ro Deletions p d = deletion_sweep (ro_fault ro) (ro_item_fault ro) p (ro_now ro) d"
| "worker_round age ro Suspensions p d = suspension_sweep (ro_fault ro) (ro_item_fault ro) p (ro_now ro) d"
| "worker_round age ro AbandonedJobs p d = abandoned_sweep (ro_fault ro) p (ro_now ro) d"
| "worker_round age ro WorkflowPurges p d = purge_sweep (ro_fault ro) (ro_item_fault ro) p (go_duration age) (ro_now ro) d"
| "worker_round age ro TenantPurges p d = tenant_purge_sweep (ro_fault ro) (ro_purge_fault ro) p d"

lemma worker_changes: "changes d (worker_round age ro w p d) \<or> purges d (worker_round age ro w p d)"
  by (cases w) (simp_all add: ch ch_gate_workers ch_deletion ch_suspension purge_sweep_purges ch_tenant_purge ch_periodic
      abandoned_sweep_def cooldown_sweep_def)

lemma worker_partitions: "db_partitions (worker_round age ro w p d) = db_partitions d"
  using worker_changes [of d age ro w p] changes_partitions purges_partitions by blast

text \<open>
  The \<open>Run\<close> of a worker: a ticker, a sweep at each of its ticks, and the end when the scheduler cancels the context.
  Creating a ticker with a non-positive period panics. The result says whether the worker has stopped.
\<close>

datatype ticker_event = Ticked round | Cancelled

fun ticker_loop :: "(round \<Rightarrow> db \<Rightarrow> db) \<Rightarrow> ticker_event list \<Rightarrow> db \<Rightarrow> db \<times> bool" where
  "ticker_loop f [] d = (d, False)"
| "ticker_loop f (Ticked ro # es) d = ticker_loop f es (f ro d)"
| "ticker_loop f (Cancelled # es) d = (d, True)"

definition ticker_run :: "int \<Rightarrow> (round \<Rightarrow> db \<Rightarrow> db) \<Rightarrow> ticker_event list \<Rightarrow> db \<Rightarrow> (db \<times> bool) result" where
  "ticker_run interval f es d = (if go_duration interval \<le> 0 then Inl Panic else Inr (ticker_loop f es d))"

definition LifecycleResolver_Run :: "int \<Rightarrow> string \<Rightarrow> ticker_event list \<Rightarrow> db \<Rightarrow> (db \<times> bool) result" where
  "LifecycleResolver_Run interval p = ticker_run interval (\<lambda>ro. cooldown_sweep (ro_fault ro) p (ro_now ro))"

definition PeriodicWorkflowHandler_Run :: "int \<Rightarrow> string \<Rightarrow> ticker_event list \<Rightarrow> db \<Rightarrow> (db \<times> bool) result" where
  "PeriodicWorkflowHandler_Run interval p = ticker_run interval
     (\<lambda>ro. periodic_sweep (ro_fault ro) (ro_item_fault ro) (ro_correlation ro) (ro_request_id ro) p (ro_now ro))"

definition ApprovalTimeoutResolver_Run :: "int \<Rightarrow> string \<Rightarrow> ticker_event list \<Rightarrow> db \<Rightarrow> (db \<times> bool) result" where
  "ApprovalTimeoutResolver_Run interval p = ticker_run interval
     (\<lambda>ro. approval_sweep (ro_fault ro) (ro_audit_fault ro) (ro_audit_id ro) p (ro_now ro))"

definition InputTimeoutResolver_Run :: "int \<Rightarrow> string \<Rightarrow> ticker_event list \<Rightarrow> db \<Rightarrow> (db \<times> bool) result" where
  "InputTimeoutResolver_Run interval p = ticker_run interval
     (\<lambda>ro. input_sweep (ro_fault ro) (ro_audit_fault ro) (ro_audit_id ro) p (ro_now ro))"

definition DeletionReconciler_Run :: "int \<Rightarrow> string \<Rightarrow> ticker_event list \<Rightarrow> db \<Rightarrow> (db \<times> bool) result" where
  "DeletionReconciler_Run interval p = ticker_run interval (\<lambda>ro. deletion_sweep (ro_fault ro) (ro_item_fault ro) p (ro_now ro))"

definition SuspensionReconciler_Run :: "int \<Rightarrow> string \<Rightarrow> ticker_event list \<Rightarrow> db \<Rightarrow> (db \<times> bool) result" where
  "SuspensionReconciler_Run interval p = ticker_run interval (\<lambda>ro. suspension_sweep (ro_fault ro) (ro_item_fault ro) p (ro_now ro))"

definition AbandonedJobResolver_Run :: "int \<Rightarrow> string \<Rightarrow> ticker_event list \<Rightarrow> db \<Rightarrow> (db \<times> bool) result" where
  "AbandonedJobResolver_Run interval p = ticker_run interval (\<lambda>ro. abandoned_sweep (ro_fault ro) p (ro_now ro))"

text \<open>The purge age is a duration, computed when the reconciler is created.\<close>

definition WorkflowPurgeReconciler_Run :: "int \<Rightarrow> int \<Rightarrow> string \<Rightarrow> ticker_event list \<Rightarrow> db \<Rightarrow> (db \<times> bool) result" where
  "WorkflowPurgeReconciler_Run interval purgeAgeSeconds p = ticker_run interval
     (\<lambda>ro. purge_sweep (ro_fault ro) (ro_item_fault ro) p (go_duration purgeAgeSeconds) (ro_now ro))"

definition TenantPurgeReconciler_Run :: "int \<Rightarrow> string \<Rightarrow> ticker_event list \<Rightarrow> db \<Rightarrow> (db \<times> bool) result" where
  "TenantPurgeReconciler_Run interval p = ticker_run interval (\<lambda>ro. tenant_purge_sweep (ro_fault ro) (ro_purge_fault ro) p)"

text \<open>The workers as \<open>runScheduler\<close> sets them up: only the periodic handler has a configured period.\<close>

fun partition_worker_Run :: "int \<Rightarrow> int \<Rightarrow> partition_worker \<Rightarrow> string \<Rightarrow> ticker_event list \<Rightarrow> db \<Rightarrow> (db \<times> bool) result" where
  "partition_worker_Run every age CooldownExpiry = LifecycleResolver_Run 30"
| "partition_worker_Run every age PeriodicWorkflows = PeriodicWorkflowHandler_Run every"
| "partition_worker_Run every age ApprovalTimeouts = ApprovalTimeoutResolver_Run 30"
| "partition_worker_Run every age InputTimeouts = InputTimeoutResolver_Run 30"
| "partition_worker_Run every age Deletions = DeletionReconciler_Run 30"
| "partition_worker_Run every age Suspensions = SuspensionReconciler_Run 30"
| "partition_worker_Run every age AbandonedJobs = AbandonedJobResolver_Run 30"
| "partition_worker_Run every age WorkflowPurges = WorkflowPurgeReconciler_Run 30 age"
| "partition_worker_Run every age TenantPurges = TenantPurgeReconciler_Run 30"

lemmas worker_Run_defs = LifecycleResolver_Run_def PeriodicWorkflowHandler_Run_def ApprovalTimeoutResolver_Run_def InputTimeoutResolver_Run_def
  DeletionReconciler_Run_def SuspensionReconciler_Run_def AbandonedJobResolver_Run_def WorkflowPurgeReconciler_Run_def TenantPurgeReconciler_Run_def

text \<open>A worker runs its rounds one after the other, up to the cancellation and no further.\<close>

lemma ticker_rounds: "ticker_loop f (map Ticked ros) d = (fold f ros d, False)"
  "ticker_loop f (map Ticked ros @ Cancelled # es) d = (fold f ros d, True)"
  by (induction ros arbitrary: d) auto

lemma ticker_same: "(\<And>ro d. f ro d = g ro d) \<Longrightarrow> ticker_loop f es d = ticker_loop g es d"
  by (induction f es d rule: ticker_loop.induct) auto

lemma worker_Run_ticker:
  assumes "0 < every" "every \<le> 2 ^ 33"
  shows "partition_worker_Run every age w p es d = Inr (ticker_loop (\<lambda>ro. worker_round age ro w p) es d)"
proof -
  have "0 < go_duration every" "0 < go_duration 30" using assms by (simp_all add: go_duration_small secs_def)
  then show ?thesis by (cases w) (auto simp: worker_Run_defs ticker_run_def intro!: ticker_same)
qed

lemma worker_runs_rounds:
  assumes "0 < every" "every \<le> 2 ^ 33"
  shows "partition_worker_Run every age w p (map Ticked ros) d = Inr (fold (\<lambda>ro. worker_round age ro w p) ros d, False)"
    and "partition_worker_Run every age w p (map Ticked ros @ Cancelled # es) d = Inr (fold (\<lambda>ro. worker_round age ro w p) ros d, True)"
  by (simp_all only: worker_Run_ticker [OF assms] ticker_rounds)

text \<open>
  A poll period that does not fit into an integer is read as the largest one, passes the start-up check, and makes the
  periodic handler panic: its duration wraps.
\<close>

lemma oversized_poll_panics: "partition_worker_Run (2 ^ 63 - 1) age PeriodicWorkflows p es d = Inl Panic"
proof -
  have "go_duration (2 ^ 63 - 1) = - 1000000" by (simp add: go_duration_def signed_take_bit_eq_take_bit_shift take_bit_eq_mod)
  then show ?thesis by (simp add: worker_Run_defs ticker_run_def)
qed

section \<open>The loop\<close>

definition tick_interval :: int where
  "tick_interval = 30"

definition orphan_grace :: int where
  "orphan_grace = 25"

definition partition_lease_time :: int where
  "partition_lease_time = secs tick_interval + secs 2"

text \<open>
  Between partitions the loop sleeps and tries again. With one it ticks and its workers run, until a renewal fails
  or the process is told to stop: then the workers are cancelled. Without a partition the loop does not notice the stop.
\<close>

record scheduler_loop =
  sl_id :: string
  sl_partition :: "string option"
  sl_stopped :: bool

datatype loop_event =
    AcquireRound timestamp
  | TickRound "string \<Rightarrow> bool" "string \<Rightarrow> string \<Rightarrow> bool" string timestamp "tick_task list"
  | WorkerRound partition_worker int round
  | StopLoop

fun loop_step :: "(string \<Rightarrow> bool) \<Rightarrow> loop_event \<Rightarrow> scheduler_loop \<Rightarrow> db \<Rightarrow> scheduler_loop \<times> db" where
  "loop_step flt (AcquireRound now) l d =
     (if sl_stopped l \<or> sl_partition l \<noteq> None \<or> flt ''AcquireAvailable'' then (l, d)
      else case AcquireAvailable (sl_id l) partition_lease_time now d of
        (d', got) \<Rightarrow> (l\<lparr>sl_partition := map_option fst got\<rparr>, d'))"
| "loop_step flt (TickRound tflt flts uid now ts) l d =
     (case sl_partition l of
        None \<Rightarrow> (l, d)
      | Some p \<Rightarrow>
          (case partition_tick tflt flts uid (sl_id l) orphan_grace partition_lease_time p now ts d of
             (d', renewed) \<Rightarrow> (if renewed then l else l\<lparr>sl_partition := None\<rparr>, d')))"
| "loop_step flt (WorkerRound w age ro) l d =
     (case sl_partition l of None \<Rightarrow> (l, d) | Some p \<Rightarrow> (l, worker_round age ro w p d))"
| "loop_step flt StopLoop l d =
     (case sl_partition l of
        None \<Rightarrow> (l, d)
      | Some p \<Rightarrow> (l\<lparr>sl_partition := None, sl_stopped := True\<rparr>, if flt ''Release'' then d else Release p (sl_id l) d))"

section \<open>Any number of loops\<close>

text \<open>
  The loops of all scheduler processes by identifier, the database, and the clock. \<open>fl_until\<close> is not part of the code: the
  end of the lease a loop obtained last.
\<close>

record fleet =
  fl_loops :: "string \<Rightarrow> scheduler_loop"
  fl_until :: "string \<Rightarrow> timestamp"
  fl_db :: db
  fl_now :: timestamp

definition lease_obtained :: "loop_event \<Rightarrow> scheduler_loop \<Rightarrow> scheduler_loop \<Rightarrow> bool" where
  "lease_obtained e l l' = (sl_partition l' \<noteq> None \<and>
     (case e of AcquireRound _ \<Rightarrow> sl_partition l = None | TickRound _ _ _ _ _ \<Rightarrow> True | _ \<Rightarrow> False))"

text \<open>The time an event happens at; time does not go back.\<close>

definition happens_at :: "timestamp \<Rightarrow> loop_event \<Rightarrow> bool" where
  "happens_at t e = (case e of AcquireRound now \<Rightarrow> now = t | TickRound _ _ _ now _ \<Rightarrow> now = t | _ \<Rightarrow> True)"

definition loop_at :: "string \<Rightarrow> timestamp \<Rightarrow> (string \<Rightarrow> bool) \<Rightarrow> loop_event \<Rightarrow> fleet \<Rightarrow> fleet" where
  "loop_at i t flt e f = (case loop_step flt e (fl_loops f i) (fl_db f) of (l', d') \<Rightarrow>
     \<lparr>fl_loops = (fl_loops f)(i := l'),
      fl_until = (if lease_obtained e (fl_loops f i) l' then (fl_until f)(i := t + partition_lease_time) else fl_until f),
      fl_db = d', fl_now = t\<rparr>)"

text \<open>The seeding of the partitions at the start of a process, and whatever else changes the database, come in between.\<close>

inductive fleet_step :: "fleet \<Rightarrow> fleet \<Rightarrow> bool" where
  loop: "i \<noteq> [] \<Longrightarrow> fl_now f \<le> t \<Longrightarrow> happens_at t e \<Longrightarrow> fleet_step f (loop_at i t flt e f)"
| seed: "SeedPartitions n (fl_db f) = Inr (d', u) \<Longrightarrow> fleet_step f (f\<lparr>fl_db := d'\<rparr>)"
| other: "changes (fl_db f) d' \<or> purges (fl_db f) d' \<Longrightarrow> fleet_step f (f\<lparr>fl_db := d'\<rparr>)"

definition idle_fleet :: "db \<Rightarrow> timestamp \<Rightarrow> fleet" where
  "idle_fleet d t = \<lparr>fl_loops = (\<lambda>i. \<lparr>sl_id = i, sl_partition = None, sl_stopped = False\<rparr>), fl_until = (\<lambda>_. 0), fl_db = d, fl_now = t\<rparr>"

text \<open>A loop that holds a partition owns its row as long as the lease it obtained last has not run out.\<close>

definition fleet_ok :: "fleet \<Rightarrow> bool" where
  "fleet_ok f = (\<forall>i. sl_id (fl_loops f i) = i \<and> (\<forall>p. sl_partition (fl_loops f i) = Some p \<longrightarrow> i \<noteq> [] \<and>
     (fl_now f \<le> fl_until f i \<longrightarrow> partition_holder (fl_db f) p = Some (i, fl_until f i))))"

lemma holder_cong: "db_partitions d' = db_partitions d \<Longrightarrow> partition_holder d' p = partition_holder d p"
  by (simp add: partition_holder_def)

lemmas others_blocked = partition_lease.attempt_blocked

lemma tick_shape:
  obtains e where "db_partitions e = db_partitions d"
    "partition_tick flt flts uid sid grace lease p now ts d = (if flt ''Renew'' then (e, False) else Renew p sid lease now e)"
proof
  show "db_partitions (scheduleJobs flt flts p now (fold (run_task flt flts uid grace p now) ts d)) = db_partitions d"
    by (rule changes_partitions, rule system.work) simp
qed (simp add: partition_tick_def Let_def)

text \<open>Another loop's step leaves an unexpired lease alone.\<close>

lemma loop_spares_others:
  assumes "loop_step flt e l d = (l', d')" "partition_holder d p = Some (j, u)" "sl_id l \<noteq> j" "t \<le> u" "happens_at t e"
  shows "partition_holder d' p = Some (j, u)"
proof (cases e)
  case (AcquireRound now)
  have "partition_holder (partition_step TryAcquireAny (sl_id l) now partition_lease_time d) p = Some (j, u)"
    using assms AcquireRound by (intro others_blocked) (auto simp: happens_at_def)
  then show ?thesis using assms(1,2) AcquireRound by (auto simp: case_prod_unfold split: if_splits)
next
  case (TickRound tflt flts uid now ts)
  show ?thesis
  proof (cases "sl_partition l")
    case (Some q)
    obtain x where x: "db_partitions x = db_partitions d" "partition_tick tflt flts uid (sl_id l) orphan_grace partition_lease_time q now ts d =
        (if tflt ''Renew'' then (x, False) else Renew q (sl_id l) partition_lease_time now x)" by (rule tick_shape)
    have h: "partition_holder x p = Some (j, u)" using assms(2) holder_cong [OF x(1)] by simp
    then have "partition_holder (partition_step (TryRenew q) (sl_id l) now partition_lease_time x) p = Some (j, u)"
      using assms TickRound by (intro others_blocked) (auto simp: happens_at_def)
    then show ?thesis using assms(1) TickRound Some x(2) h by (auto simp: case_prod_unfold split: if_splits)
  qed (use assms TickRound in simp)
next
  case (WorkerRound w age ro)
  then show ?thesis using assms(1,2) holder_cong [OF worker_partitions] by (auto split: option.splits)
next
  case StopLoop
  have "partition_holder (partition_step (TryRelease q) (sl_id l) t 0 d) p = Some (j, u)" for q
    using assms by (intro others_blocked) auto
  then show ?thesis using assms(1,2) StopLoop by (auto split: option.splits if_splits)
qed

text \<open>A loop that obtained a lease owns its row until the lease ends.\<close>

lemma loop_holds_lease:
  assumes "loop_step flt e l d = (l', d')" "lease_obtained e l l'" "sl_partition l' = Some p" "sl_id l \<noteq> []" "happens_at t e"
  shows "partition_holder d' p = Some (sl_id l, t + partition_lease_time)"
proof (cases e)
  case (AcquireRound now)
  then show ?thesis using assms
    by (auto simp: lease_obtained_def happens_at_def AcquireAvailable_def Let_def partition_holder_Some map_of_upd_row take_partition_def
        split: if_splits list.splits option.splits)
next
  case (TickRound tflt flts uid now ts)
  then obtain q where q: "sl_partition l = Some q" using assms(1,3) by (cases "sl_partition l") auto
  obtain x where x: "partition_tick tflt flts uid (sl_id l) orphan_grace partition_lease_time q now ts d =
      (if tflt ''Renew'' then (x, False) else Renew q (sl_id l) partition_lease_time now x)" by (rule tick_shape)
  have "p = q" "\<not> tflt ''Renew''" "d' = fst (Renew q (sl_id l) partition_lease_time now x)" "snd (Renew q (sl_id l) partition_lease_time now x)"
    using assms(1,3) TickRound q x by (auto simp: case_prod_unfold split: if_splits)
  then show ?thesis using assms(4,5) TickRound
    by (auto simp: happens_at_def Renew_def case_prod_unfold partition_holder_Some map_of_upd_row upd_row_hit take_partition_def)
qed (use assms(2) in \<open>simp_all add: lease_obtained_def\<close>)

lemma loop_keeps: "loop_step flt e l d = (l', d') \<Longrightarrow> \<not> lease_obtained e l l' \<Longrightarrow> sl_partition l' = Some p \<Longrightarrow>
    sl_partition l = Some p \<and> db_partitions d' = db_partitions d"
  by (cases e) (auto simp: lease_obtained_def case_prod_unfold worker_partitions split: if_splits option.splits)

lemma loop_id: "loop_step flt e l d = (l', d') \<Longrightarrow> sl_id l' = sl_id l"
  by (cases e) (auto simp: case_prod_unfold split: if_splits option.splits)

lemma fleet_okI:
  assumes "\<And>i. sl_id (fl_loops f i) = i" "\<And>i p. sl_partition (fl_loops f i) = Some p \<Longrightarrow> i \<noteq> []"
    and "\<And>i p. sl_partition (fl_loops f i) = Some p \<Longrightarrow> fl_now f \<le> fl_until f i \<Longrightarrow>
      partition_holder (fl_db f) p = Some (i, fl_until f i)"
  shows "fleet_ok f"
  using assms by (simp add: fleet_ok_def)

lemma fleet_okD:
  assumes "fleet_ok f"
  shows "sl_id (fl_loops f i) = i"
    and "sl_partition (fl_loops f i) = Some p \<Longrightarrow> i \<noteq> []"
    and "sl_partition (fl_loops f i) = Some p \<Longrightarrow> fl_now f \<le> fl_until f i \<Longrightarrow> partition_holder (fl_db f) p = Some (i, fl_until f i)"
  using assms by (simp_all add: fleet_ok_def)

lemma loop_at_ok:
  assumes ok: "fleet_ok f" and i: "i \<noteq> []" and t: "fl_now f \<le> t" and e: "happens_at t e"
  shows "fleet_ok (loop_at i t flt e f)"
proof -
  obtain l' d' where step: "loop_step flt e (fl_loops f i) (fl_db f) = (l', d')" by (cases "loop_step flt e (fl_loops f i) (fl_db f)")
  let ?new = "lease_obtained e (fl_loops f i) l'"
  note id = fleet_okD(1) [OF ok]
  have held: "partition_holder (fl_db f) p = Some (k, fl_until f k)" if "sl_partition (fl_loops f k) = Some p" "t \<le> fl_until f k" for k p
    using fleet_okD(3) [OF ok that(1)] t that(2) by simp
  have mine: "partition_holder d' p = Some (i, if ?new then t + partition_lease_time else fl_until f i)"
    if "sl_partition l' = Some p" "?new \<or> t \<le> fl_until f i" for p
  proof (cases ?new)
    case True
    then show ?thesis using loop_holds_lease [OF step True that(1)] i e id by simp
  next
    case False
    have kept: "sl_partition (fl_loops f i) = Some p" "db_partitions d' = db_partitions (fl_db f)"
      using loop_keeps [OF step False that(1)] by simp_all
    have "partition_holder d' p = Some (i, fl_until f i)"
      unfolding holder_cong [OF kept(2)] using held [OF kept(1)] that(2) False by simp
    then show ?thesis using False by simp
  qed
  have others: "partition_holder d' p = Some (k, fl_until f k)" if "k \<noteq> i" "sl_partition (fl_loops f k) = Some p" "t \<le> fl_until f k" for k p
    using loop_spares_others [OF step held [OF that(2,3)]] that id e by simp
  show ?thesis
  proof (intro fleet_okI)
    fix k p
    show "sl_id (fl_loops (loop_at i t flt e f) k) = k" using id loop_id [OF step] by (simp add: loop_at_def step)
    assume p: "sl_partition (fl_loops (loop_at i t flt e f) k) = Some p"
    then show "k \<noteq> []" using i fleet_okD(2) [OF ok, of k p] by (cases "k = i") (simp_all add: loop_at_def step)
    assume now: "fl_now (loop_at i t flt e f) \<le> fl_until (loop_at i t flt e f) k"
    show "partition_holder (fl_db (loop_at i t flt e f)) p = Some (k, fl_until (loop_at i t flt e f) k)"
      using mine [of p] others [of k p] p now by (cases "k = i"; cases ?new) (simp_all add: loop_at_def step)
  qed
qed

lemma seed_keeps_holder: "SeedPartitions n d = Inr (d', u) \<Longrightarrow> partition_holder d p = Some h \<Longrightarrow> partition_holder d' p = Some h"
  using fold_seed_keeps by (cases "1 \<le> n") (force simp: SeedPartitions_fold partition_holder_def split: option.splits, simp add: SeedPartitions_def)

lemma fleet_step_ok: "fleet_step f f' \<Longrightarrow> fleet_ok f \<Longrightarrow> fleet_ok f'"
proof (induction rule: fleet_step.induct)
  case (loop i f t e flt)
  then show ?case by (intro loop_at_ok)
next
  case (seed n f d' u)
  then show ?case using seed_keeps_holder [OF seed.hyps] by (simp add: fleet_ok_def)
next
  case (other f d')
  then have "db_partitions d' = db_partitions (fl_db f)" using changes_partitions purges_partitions by blast
  from holder_cong [OF this] show ?case using other.prems by (simp add: fleet_ok_def)
qed

lemma fleet_reachable_ok: "fleet_step\<^sup>*\<^sup>* (idle_fleet d t) f \<Longrightarrow> fleet_ok f"
proof (induction rule: rtranclp_induct)
  case base
  show ?case by (simp add: fleet_ok_def idle_fleet_def)
qed (rule fleet_step_ok)

text \<open>C9. No two schedulers own a partition at the same time: over any interleaving of the loops of any number of
  scheduler processes (acquisitions, ticks, worker rounds, stops) with the rest of the system, and whatever calls fail, a
  loop that holds a partition and whose last lease has not run out is the owner recorded in the partition's row, and every
  other loop that still believes it holds that partition has a lease that has run out.\<close>

theorem schedulers_never_share_a_partition:
  assumes "fleet_step\<^sup>*\<^sup>* (idle_fleet d t) f" "sl_partition (fl_loops f a) = Some p" "fl_now f \<le> fl_until f a"
  shows "partition_holder (fl_db f) p = Some (a, fl_until f a) \<and>
    (\<forall>b. b \<noteq> a \<and> sl_partition (fl_loops f b) = Some p \<longrightarrow> fl_until f b < fl_now f)"
proof -
  note ok = fleet_reachable_ok [OF assms(1)]
  have a: "partition_holder (fl_db f) p = Some (a, fl_until f a)" using fleet_okD(3) [OF ok assms(2,3)] .
  then show ?thesis using fleet_okD(3) [OF ok, of _ p] by (metis not_le option.inject prod.inject)
qed

definition two_owners :: fleet where
  "two_owners = loop_at ''a'' (secs 40) (\<lambda>_. False) (AcquireRound (secs 40)) (loop_at ''b'' 0 (\<lambda>_. False) (AcquireRound 0)
     (idle_fleet (empty_db\<lparr>db_partitions := [(''0'', \<lparr>p_workflow_count = 0, p_owner = None, p_lease_until = None\<rparr>)]\<rparr>) 0))"

lemmas two_owners_eval = two_owners_def loop_at_def idle_fleet_def lease_obtained_def AcquireAvailable_def empty_db_def partition_free_def
  take_partition_def upd_row_def keys_def partition_lease_time_def tick_interval_def secs_def

theorem schedulers_never_share_a_partition_witness:
  "sl_partition (fl_loops two_owners ''a'') = Some ''0'' \<and> sl_partition (fl_loops two_owners ''b'') = Some ''0'' \<and>
   partition_holder (fl_db two_owners) ''0'' = Some (''a'', secs 72) \<and> fl_until two_owners ''b'' < fl_now two_owners"
proof -
  have holds: "sl_partition (fl_loops two_owners ''a'') = Some ''0''" "sl_partition (fl_loops two_owners ''b'') = Some ''0''"
    "fl_until two_owners ''a'' = secs 72" "fl_now two_owners \<le> fl_until two_owners ''a''"
    by (simp_all add: two_owners_eval)
  have "fleet_step\<^sup>*\<^sup>* (idle_fleet (empty_db\<lparr>db_partitions := [(''0'', \<lparr>p_workflow_count = 0, p_owner = None, p_lease_until = None\<rparr>)]\<rparr>) 0) two_owners"
    unfolding two_owners_def
    by (rule rtranclp.rtrancl_into_rtrancl [OF r_into_rtranclp]; rule fleet_step.loop)
      (simp_all add: happens_at_def two_owners_eval)
  from schedulers_never_share_a_partition [OF this holds(1,4)] show ?thesis using holds by simp
qed

end
