(* ===== verification/Startup.thy ===== *)
theory Startup
  imports Robustness SchedulerLoop
begin

text \<open>
  The processes: configuration from the environment (\<open>src/internal/config/config.go\<close>) and the modes of
  \<open>src/cmd/boundflow/main.go\<close>. An environment maps every variable to its value,
  an unset one to the empty string as \<open>os.Getenv\<close> does. A process that passed its checks is one of the constructors
  of \<open>process\<close>; its gRPC server (\<open>src/internal/server/server.go\<close>) then listens on the configured port until \<open>Serve\<close>
  returns or a signal arrives.
\<close>

section \<open>Configuration\<close>

type_synonym environ = "string \<Rightarrow> string"

definition is_digit :: "char \<Rightarrow> bool" where
  "is_digit c = (48 \<le> (of_char c :: nat) \<and> (of_char c :: nat) \<le> 57)"

definition digit_of :: "char \<Rightarrow> int" where
  "digit_of c = int (of_char c) - 48"

text \<open>
  The loop of \<open>strconv.ParseUint\<close> for base 10 and 64 bits: \<open>None\<close> is a syntax error; a value that does not fit stops
  the loop at once with the maximum, whatever characters follow.
\<close>

fun parse_uint :: "string \<Rightarrow> int \<Rightarrow> int option" where
  "parse_uint [] n = Some n"
| "parse_uint (c # cs) n =
     (if \<not> is_digit c then None
      else if 2 ^ 64 \<le> n * 10 + digit_of c then Some (2 ^ 64 - 1)
      else parse_uint cs (n * 10 + digit_of c))"

text \<open>The number \<open>strconv.Atoi\<close> returns beside its error: 0 for bad syntax, the nearest 64-bit integer when out of range.\<close>

definition Atoi :: "string \<Rightarrow> int" where
  "Atoi s =
     (let neg = (s \<noteq> [] \<and> hd s = CHR ''-'');
          ds = (if s \<noteq> [] \<and> (hd s = CHR ''-'' \<or> hd s = CHR ''+'') then tl s else s)
      in if ds = [] then 0
         else case parse_uint ds 0 of
           None \<Rightarrow> 0
         | Some un \<Rightarrow> if neg then - min un (2 ^ 63) else min un (2 ^ 63 - 1))"

definition envInt :: "environ \<Rightarrow> string \<Rightarrow> int" where
  "envInt env key = Atoi (env key)"

record base_config =
  bc_log_level :: string
  bc_database_url :: string
  bc_debug :: bool
  bc_num_partitions :: int
  bc_max_partitions_per_scheduler :: int
  bc_periodic_poll_seconds :: int

record server_config =
  sc_base :: base_config
  sc_grpc_port :: int

record scheduler_config =
  hc_base :: base_config
  hc_workflow_purge_age_seconds :: int

record worker_config =
  wk_base :: base_config
  wk_grpc_port :: int
  wk_job_timeout_secs :: int

definition loadBase :: "environ \<Rightarrow> base_config" where
  "loadBase env = \<lparr>bc_log_level = env ''BOUNDFLOW_LOG_LEVEL'', bc_database_url = env ''BOUNDFLOW_DATABASE_URL'',
     bc_debug = (env ''BOUNDFLOW_DEBUG'' = ''true''), bc_num_partitions = envInt env ''BOUNDFLOW_NUM_PARTITIONS'',
     bc_max_partitions_per_scheduler = envInt env ''BOUNDFLOW_MAX_PARTITIONS_PER_SCHEDULER'',
     bc_periodic_poll_seconds = envInt env ''BOUNDFLOW_PERIODIC_POLL_SECONDS''\<rparr>"

definition LoadServer :: "environ \<Rightarrow> server_config" where
  "LoadServer env = \<lparr>sc_base = loadBase env, sc_grpc_port = envInt env ''BOUNDFLOW_GRPC_PORT''\<rparr>"

definition LoadScheduler :: "environ \<Rightarrow> scheduler_config" where
  "LoadScheduler env = \<lparr>hc_base = loadBase env, hc_workflow_purge_age_seconds = envInt env ''BOUNDFLOW_WORKFLOW_PURGE_AGE_SECONDS''\<rparr>"

definition LoadWorker :: "environ \<Rightarrow> worker_config" where
  "LoadWorker env = \<lparr>wk_base = loadBase env, wk_grpc_port = envInt env ''BOUNDFLOW_WORKER_GRPC_PORT'',
     wk_job_timeout_secs = envInt env ''BOUNDFLOW_JOB_TIMEOUT_SECS''\<rparr>"

section \<open>Modes\<close>

datatype log_level = LevelDebug | LevelInfo | LevelWarn | LevelError

definition newLogger :: "string \<Rightarrow> log_level" where
  "newLogger level = (if level = ''debug'' then LevelDebug else if level = ''warn'' then LevelWarn
     else if level = ''error'' then LevelError else LevelInfo)"

text \<open>
  What a process becomes: an API server, a scheduler with one loop per identifier, a worker server, a finished
  command with what it printed, or an exit with a message.
\<close>

datatype process =
    Fatal string
  | Serving server_config
  | Scheduling scheduler_config "string list"
  | Working worker_config string
  | Provisioned string string string
  | Migrated

text \<open>\<open>requirePositive\<close> exits at the first variable that is not positive.\<close>

fun requirePositive :: "(string \<times> int) list \<Rightarrow> string option" where
  "requirePositive [] = None"
| "requirePositive ((v, n) # vs) = (if n < 1 then Some (v @ '' must be set to a positive integer'') else requirePositive vs)"

definition mustConnectDB :: "(string \<Rightarrow> bool) \<Rightarrow> string \<Rightarrow> string option" where
  "mustConnectDB flt url =
     (if url = [] then Some ''BOUNDFLOW_DATABASE_URL must be set''
      else if flt ''pgxpool.New'' then Some ''unable to connect to database'' else None)"

definition start :: "(string \<Rightarrow> bool) \<Rightarrow> string \<Rightarrow> (string \<times> int) list \<Rightarrow> process \<Rightarrow> process" where
  "start flt url required p =
     (case requirePositive required of
        Some m \<Rightarrow> Fatal m
      | None \<Rightarrow> (case mustConnectDB flt url of Some m \<Rightarrow> Fatal m | None \<Rightarrow> p))"

definition runServer :: "(string \<Rightarrow> bool) \<Rightarrow> environ \<Rightarrow> process" where
  "runServer flt env =
     (let cfg = LoadServer env
      in start flt (bc_database_url (sc_base cfg))
           [(''BOUNDFLOW_GRPC_PORT'', sc_grpc_port cfg), (''BOUNDFLOW_NUM_PARTITIONS'', bc_num_partitions (sc_base cfg)),
            (''BOUNDFLOW_PERIODIC_POLL_SECONDS'', bc_periodic_poll_seconds (sc_base cfg))]
           (Serving cfg))"

text \<open>One loop per partition the process will hold; \<open>ids\<close> are the identifiers \<open>uuid.NewString\<close> returns.\<close>

definition runScheduler :: "(string \<Rightarrow> bool) \<Rightarrow> (nat \<Rightarrow> string) \<Rightarrow> environ \<Rightarrow> process" where
  "runScheduler flt ids env =
     (let cfg = LoadScheduler env
      in start flt (bc_database_url (hc_base cfg))
           [(''BOUNDFLOW_NUM_PARTITIONS'', bc_num_partitions (hc_base cfg)),
            (''BOUNDFLOW_MAX_PARTITIONS_PER_SCHEDULER'', bc_max_partitions_per_scheduler (hc_base cfg)),
            (''BOUNDFLOW_PERIODIC_POLL_SECONDS'', bc_periodic_poll_seconds (hc_base cfg)),
            (''BOUNDFLOW_WORKFLOW_PURGE_AGE_SECONDS'', hc_workflow_purge_age_seconds cfg)]
           (Scheduling cfg (map ids [0..<nat (bc_max_partitions_per_scheduler (hc_base cfg))])))"

definition runWorker :: "(string \<Rightarrow> bool) \<Rightarrow> string \<Rightarrow> environ \<Rightarrow> process" where
  "runWorker flt workerID env =
     (let cfg = LoadWorker env
      in start flt (bc_database_url (wk_base cfg))
           [(''BOUNDFLOW_WORKER_GRPC_PORT'', wk_grpc_port cfg), (''BOUNDFLOW_JOB_TIMEOUT_SECS'', wk_job_timeout_secs cfg)]
           (Working cfg workerID))"

text \<open>
  \<open>up\<close> stands for the migration library applied to the embedded SQL files: the database afterwards, or \<open>None\<close> when it
  reported an error other than that there was nothing to do.
\<close>

definition runMigrate :: "(string \<Rightarrow> bool) \<Rightarrow> (db \<Rightarrow> db option) \<Rightarrow> environ \<Rightarrow> db \<Rightarrow> db \<times> process" where
  "runMigrate flt up env d =
     (let cfg = LoadScheduler env; n = bc_num_partitions (hc_base cfg)
      in case requirePositive [(''BOUNDFLOW_NUM_PARTITIONS'', n)] of
           Some m \<Rightarrow> (d, Fatal m)
         | None \<Rightarrow>
             if flt ''iofs.New'' then (d, Fatal ''load embedded migrations'')
             else if flt ''migrate.NewWithSourceInstance'' then (d, Fatal ''init migrate'')
             else (case up d of
                None \<Rightarrow> (d, Fatal ''apply migrations'')
              | Some d1 \<Rightarrow>
                  (case mustConnectDB flt (bc_database_url (hc_base cfg)) of
                     Some m \<Rightarrow> (d1, Fatal m)
                   | None \<Rightarrow>
                       if flt ''SeedPartitions'' then (d1, Fatal ''seed scheduler partitions'')
                       else case SeedPartitions n d1 of
                         Inl _ \<Rightarrow> (d1, Fatal ''seed scheduler partitions'')
                       | Inr (d2, _) \<Rightarrow> (d2, Migrated))))"

text \<open>The values a provisioning or scheduling process draws: identifiers, random bytes and clock readings.\<close>

record draws =
  dr_ids :: "nat \<Rightarrow> string"
  dr_group :: string
  dr_key :: string
  dr_random :: "int list option"
  dr_now :: timestamp
  dr_now' :: timestamp

definition provision :: "(string \<Rightarrow> bool) \<Rightarrow> draws \<Rightarrow> string \<Rightarrow> environ \<Rightarrow> db \<Rightarrow> db \<times> process" where
  "provision flt dr name env d =
     (if name = [] then (d, Fatal ''usage: boundflow -mode=provision -name=<customer-name>'')
      else case mustConnectDB flt (bc_database_url (hc_base (LoadScheduler env))) of
        Some m \<Rightarrow> (d, Fatal m)
      | None \<Rightarrow>
          (case runProvision flt name (dr_group dr) (dr_key dr) (dr_random dr) (dr_now dr) (dr_now' dr) d of
             (d1, Inl _) \<Rightarrow> (d1, Fatal ''provision'')
           | (d1, Inr (g, k, raw)) \<Rightarrow> (d1, Provisioned g k raw)))"

definition main_mode ::
  "(string \<Rightarrow> bool) \<Rightarrow> (db \<Rightarrow> db option) \<Rightarrow> draws \<Rightarrow> string \<Rightarrow> string \<Rightarrow> environ \<Rightarrow> db \<Rightarrow> db \<times> process" where
  "main_mode flt up dr mode name env d =
     (if mode = [] then (d, Fatal ''usage: boundflow -mode=<server|scheduler|worker|provision>'')
      else if mode = ''server'' then (d, runServer flt env)
      else if mode = ''scheduler'' then (d, runScheduler flt (dr_ids dr) env)
      else if mode = ''worker'' then (d, runWorker flt (dr_ids dr 0) env)
      else if mode = ''provision'' then provision flt dr name env d
      else if mode = ''migrate'' then runMigrate flt up env d
      else (d, Fatal ''unknown mode: must be server, scheduler, worker, provision, or migrate''))"

section \<open>Listening and leaving\<close>

text \<open>The two gRPC servers: the services they register and the port they listen on. Both put every call through the authenticator.\<close>

datatype grpc_service = RegistrationService | WorkflowService | WorkerService | ServerReflection

record grpc_server =
  gs_services :: "grpc_service list"
  gs_port :: int

definition NewWorkerServer :: "worker_config \<Rightarrow> grpc_server" where
  "NewWorkerServer cfg = \<lparr>gs_services = [WorkerService], gs_port = wk_grpc_port cfg\<rparr>"

definition server_New :: "server_config \<Rightarrow> bool \<Rightarrow> grpc_server" where
  "server_New cfg debug =
     \<lparr>gs_services = [RegistrationService, WorkflowService] @ (if debug then [ServerReflection] else []), gs_port = sc_grpc_port cfg\<rparr>"

text \<open>
  \<open>Start\<close> of either server: the address it listens on, or the error it returns at once. \<open>net.Listen\<close> refuses a port
  outside 16 bits, and fails for reasons of its own.
\<close>

definition listen_addr :: "int \<Rightarrow> string" where
  "listen_addr port = '':'' @ (if port < 0 then ''-'' else []) @ digits (nat \<bar>port\<bar>)"

definition server_Start :: "(string \<Rightarrow> bool) \<Rightarrow> grpc_server \<Rightarrow> string + string" where
  "server_Start flt s =
     (let addr = listen_addr (gs_port s)
      in if gs_port s < 0 \<or> 65535 < gs_port s \<or> flt ''net.Listen'' then Inl (''failed to listen on '' @ addr) else Inr addr)"

text \<open>The server a process runs; a scheduler and the commands run none.\<close>

definition process_server :: "process \<Rightarrow> grpc_server option" where
  "process_server p = (case p of
     Serving cfg \<Rightarrow> Some (server_New cfg (bc_debug (sc_base cfg)))
   | Working cfg _ \<Rightarrow> Some (NewWorkerServer cfg)
   | _ \<Rightarrow> None)"

text \<open>
  The \<open>select\<close> at the end of \<open>runServer\<close>, \<open>runScheduler\<close> and \<open>runWorker\<close> takes whichever channel is ready, the error of the server or
  of a loop or the signal; a command is done, and \<open>log.Fatal\<close> exits.
\<close>

datatype wake = ErrCh string | SigCh

definition exit_status :: "process \<Rightarrow> wake \<Rightarrow> int" where
  "exit_status p w = (case p of
     Fatal _ \<Rightarrow> 1
   | Provisioned _ _ _ \<Rightarrow> 0
   | Migrated \<Rightarrow> 0
   | _ \<Rightarrow> (case w of ErrCh _ \<Rightarrow> 1 | SigCh \<Rightarrow> 0))"

section \<open>Properties\<close>

lemma start_checked: "start flt url vs p = q \<Longrightarrow> (\<And>m. q \<noteq> Fatal m) \<Longrightarrow> list_all (\<lambda>(v, n). 1 \<le> n) vs"
proof -
  have "requirePositive vs = None \<Longrightarrow> list_all (\<lambda>(v, n). 1 \<le> n) vs" by (induction vs) (auto split: if_splits)
  then show "start flt url vs p = q \<Longrightarrow> (\<And>m. q \<noteq> Fatal m) \<Longrightarrow> list_all (\<lambda>(v, n). 1 \<le> n) vs"
    by (auto simp: start_def split: option.splits)
qed

lemma server_checked:
  assumes "runServer flt env = Serving cfg"
  shows "cfg = LoadServer env" "1 \<le> sc_grpc_port cfg" "1 \<le> bc_num_partitions (sc_base cfg)" "1 \<le> bc_periodic_poll_seconds (sc_base cfg)"
proof -
  show c: "cfg = LoadServer env" using assms by (auto simp: runServer_def start_def Let_def split: option.splits)
  have "list_all (\<lambda>(v, n). 1 \<le> n) [(''BOUNDFLOW_GRPC_PORT'', sc_grpc_port (LoadServer env)),
      (''BOUNDFLOW_NUM_PARTITIONS'', bc_num_partitions (sc_base (LoadServer env))),
      (''BOUNDFLOW_PERIODIC_POLL_SECONDS'', bc_periodic_poll_seconds (sc_base (LoadServer env)))]"
    using assms unfolding runServer_def Let_def by (rule start_checked) simp
  then show "1 \<le> sc_grpc_port cfg" "1 \<le> bc_num_partitions (sc_base cfg)" "1 \<le> bc_periodic_poll_seconds (sc_base cfg)" by (simp_all add: c)
qed

text \<open>How a server process handles one call: its number of partitions and shortest period come from its configuration.\<close>

definition server_env :: "server_config \<Rightarrow> (string \<Rightarrow> bool) \<Rightarrow> (string \<Rightarrow> bool) \<Rightarrow> string \<Rightarrow> timestamp \<Rightarrow> rpc_env" where
  "server_env cfg flt sflt uid now = \<lparr>ev_flt = flt, ev_sflt = sflt, ev_uid = uid, ev_now = now,
     ev_min_repeat = bc_periodic_poll_seconds (sc_base cfg), ev_partitions = bc_num_partitions (sc_base cfg)\<rparr>"

text \<open>C10. A server process that started never crashes: its start-up checks, the validation in the handlers and the
  well-formedness of every reachable database together exclude all panics within reach of a call, whatever the caller, the
  call (as long as its messages hold no nil rule) and the database failures.\<close>

theorem started_server_never_crashes:
  assumes "main_mode sflt0 up dr ''server'' name env d0 = (d1, Serving cfg)" "sys_ok (sy_db s0)" "sys_step\<^sup>*\<^sup>* s0 s" "well_formed_rpc r"
  shows "snd (serve (server_env cfg flt sflt uid now) md r (sy_db s)) \<noteq> Inl Crashed"
proof -
  have "runServer sflt0 env = Serving cfg" using assms(1) by (simp add: main_mode_def)
  from server_checked(3) [OF this] have "ev_partitions (server_env cfg flt sflt uid now) \<noteq> 0" by (simp add: server_env_def)
  then show ?thesis using api_calm [OF assms(2,3)] assms(4) by blast
qed

text \<open>An environment as the compose file sets it.\<close>

definition sample_environ :: environ where
  "sample_environ v = (if v = ''BOUNDFLOW_DATABASE_URL'' then ''postgres://db'' else if v = ''BOUNDFLOW_GRPC_PORT'' then ''50051'' else ''10'')"

theorem started_server_never_crashes_witness:
  "\<exists>cfg. runServer (\<lambda>_. False) sample_environ = Serving cfg \<and>
     snd (serve (server_env cfg (\<lambda>_. False) (\<lambda>_. False) ''u'' 5) None (Command (ResumeWorkflowRpc ''w'' ''s'')) (sy_db (initial 0))) \<noteq> Inl Crashed"
proof -
  obtain cfg where c: "runServer (\<lambda>_. False) sample_environ = Serving cfg"
    by (simp add: runServer_def Let_def start_def mustConnectDB_def LoadServer_def loadBase_def envInt_def sample_environ_def Atoi_def
        is_digit_def digit_of_def)
  then have "main_mode (\<lambda>_. False) Some undefined ''server'' [] sample_environ empty_db = (empty_db, Serving cfg)" by (simp add: main_mode_def)
  from started_server_never_crashes [OF this initial_ok rtranclp.rtrancl_refl] c show ?thesis by (auto simp: well_formed_rpc_def)
qed

text \<open>What \<open>envInt\<close> reads: the digits of a number in range come back as that number, and a number out of range as the largest.\<close>

lemma parse_digits: "int n < 2 ^ 64 \<Longrightarrow> parse_uint (digits n @ cs) 0 = parse_uint cs (int n)"
proof (induction n arbitrary: cs rule: digits.induct)
  case (1 n)
  show ?case
  proof (cases "n < 10")
    case True
    then show ?thesis by (subst digits.simps) (simp add: is_digit_def digit_of_def)
  next
    case False
    then have "parse_uint (digits (n div 10) @ [char_of (48 + n mod 10)] @ cs) 0 = parse_uint ([char_of (48 + n mod 10)] @ cs) (int (n div 10))"
      using 1 by simp
    moreover have "int (n div 10) * 10 + int (n mod 10) = int n" "n mod 10 \<le> 9" by presburger+
    ultimately show ?thesis using False 1(2) by (subst digits.simps) (simp add: is_digit_def digit_of_def)
  qed
qed

lemma digits_hd: "digits n \<noteq> [] \<and> is_digit (hd (digits n))"
proof (induction n rule: digits.induct)
  case (1 n)
  then show ?case by (subst (1 2) digits.simps) (auto simp: is_digit_def)
qed

lemma envInt_reads_back: "int n < 2 ^ 63 \<Longrightarrow> env v = digits n \<Longrightarrow> envInt env v = int n"
proof -
  assume n: "int n < 2 ^ 63" "env v = digits n"
  have "hd (digits n) \<noteq> CHR ''-''" "hd (digits n) \<noteq> CHR ''+''" using digits_hd [of n] by (auto simp: is_digit_def)
  then show ?thesis using n digits_hd [of n] parse_digits [of n "[]"] by (simp add: envInt_def Atoi_def Let_def)
qed

text \<open>A setting too large for 64 bits passes the check as the largest integer, although the comment says it is read as 0.\<close>

lemma oversized_setting_is_accepted:
  "envInt (\<lambda>_. ''99999999999999999999'') v = 2 ^ 63 - 1" "requirePositive [(v, envInt (\<lambda>_. ''99999999999999999999'') v)] = None"
  by (simp_all add: envInt_def Atoi_def is_digit_def digit_of_def)

text \<open>A process that listens does so on a port of 16 bits, and a setting out of that range passes the start-up checks only to fail when it listens.\<close>

lemma running_server_port:
  assumes "runServer flt env = Serving cfg" "server_Start flt' (server_New cfg debug) = Inr addr"
  shows "sc_grpc_port cfg \<in> {1..65535} \<and> addr = '':'' @ digits (nat (sc_grpc_port cfg))"
  using assms server_checked(2) [OF assms(1)] by (auto simp: server_Start_def server_New_def listen_addr_def Let_def split: if_splits)

lemma oversized_port_never_listens:
  assumes "runServer flt env = Serving cfg" "process_server (Serving cfg) = Some s" "env ''BOUNDFLOW_GRPC_PORT'' = digits n" "65535 < n" "int n < 2 ^ 63"
  shows "\<exists>m. server_Start flt' s = Inl m \<and> exit_status (Serving cfg) (ErrCh m) = 1"
proof -
  have "gs_port s = int n" using assms(2,3,5) envInt_reads_back server_checked(1) [OF assms(1)]
    by (auto simp: process_server_def server_New_def LoadServer_def)
  then show ?thesis using assms(4) by (simp add: server_Start_def exit_status_def Let_def)
qed

end
