(* ===== verification/RunHistory.thy ===== *)
theory RunHistory
  imports System
begin

text \<open>
  What the whole system does to the runs of a workflow over time: as long as a request exists its row changes along
  \<open>request_move\<close> only and its workflow advances, and in every reachable state the runs of a workflow have distinct
  versions up to the target version and carry an outcome exactly when they are over.
\<close>

section \<open>Requests and workflows move forward\<close>

definition workflow_advance :: "workflow \<Rightarrow> workflow \<Rightarrow> bool" where
  "workflow_advance w w' = (w_target_version w \<le> w_target_version w' \<and> w_current_version w \<le> w_current_version w' \<and>
     w_metrics_emitted_at w \<le> w_metrics_emitted_at w')"

lemma advance_refl [simp]: "workflow_advance w w"
  by (simp add: workflow_advance_def)

lemma advance_trans: "workflow_advance w w1 \<Longrightarrow> workflow_advance w1 w2 \<Longrightarrow> workflow_advance w w2"
  by (auto simp: workflow_advance_def)

lemma forward_advance: "workflow_forward w w' \<Longrightarrow> workflow_advance w w'"
  by (simp add: workflow_advance_def)

text \<open>The statuses a request can have from some status on, whatever happens to it. Only queued work can wait, start or be dropped.\<close>

fun later_status :: "request_status \<Rightarrow> request_status list" where
  "later_status RUnscheduled = [RUnscheduled, RPaused, RScheduled, RInProgress, RAbandoned, RSuperceded, RCompleted, RFailed]"
| "later_status RPaused = [RUnscheduled, RPaused, RScheduled, RInProgress, RAbandoned, RSuperceded, RCompleted, RFailed]"
| "later_status RScheduled = [RScheduled, RInProgress, RSuperceded, RCompleted, RFailed]"
| "later_status RInProgress = [RInProgress, RCompleted, RFailed]"
| "later_status RAbandoned = [RAbandoned, RCompleted, RFailed]"
| "later_status RSuperceded = [RSuperceded, RCompleted, RFailed]"
| "later_status RCompleted = [RCompleted, RFailed]"
| "later_status RFailed = [RCompleted, RFailed]"

lemma move_later: "request_move r r' \<Longrightarrow> r_status r \<in> set (later_status s) \<Longrightarrow> r_status r' \<in> set (later_status s)"
  by (erule request_moveE; cases "r_status r"; cases s) auto

lemma moves_later: "request_move\<^sup>*\<^sup>* r r' \<Longrightarrow> r_status r' \<in> set (later_status (r_status r))"
proof (induction rule: rtranclp_induct)
  case base
  show ?case by (cases "r_status r") simp_all
next
  case (step y z)
  then show ?case using move_later by blast
qed

lemma moves_fixed: "request_move\<^sup>*\<^sup>* r r' \<Longrightarrow> r_workflow_id r' = r_workflow_id r \<and> r_version r' = r_version r"
  by (induction rule: rtranclp_induct) (auto dest: request_move_fixed)

section \<open>A row change moves every row forward\<close>

lemma change_request:
  assumes "row_change d d'" "req_of d q = Some r"
  shows "\<exists>r'. req_of d' q = Some r' \<and> (r' = r \<or> request_move r r')"
  using assms
proof (induction rule: row_change.induct)
  case (req P f d k)
  then show ?case by (cases "q = k"; cases "P r") (auto simp: upd_req_def case_prod_unfold map_of_upd_row)
next
  case (new_req d k r w)
  then show ?case by (auto simp: map_add_def)
qed (auto simp: change_defs)

lemma change_workflow:
  assumes "row_change d d'" "wf_of d i = Some w"
  shows "\<exists>w'. wf_of d' i = Some w' \<and> workflow_advance w w'"
  using assms
proof cases
  case (wf f P k)
  then have "wf_of d' i = Some (if k = i \<and> P w then f w else w)"
    using assms(2) by (cases "i = k") (auto simp: upd_wf_def case_prod_unfold map_of_upd_row)
  then show ?thesis using forward_advance wf(4) [of w] by simp
next
  case (wfs f Q)
  then show ?thesis using assms(2) forward_advance by auto
next
  case (new_req q r v)
  then show ?thesis using assms(2) by (auto simp: upd_wf_def case_prod_unfold map_of_upd_row workflow_advance_def)
qed (auto simp: upd_wf_def upd_job_def upd_jobs_def upd_req_def upd_reqs_def case_prod_unfold map_add_def)

lemma change_new_workflow: "row_change d d' \<Longrightarrow> wf_of d i = None \<Longrightarrow> wf_of d' i = Some w \<Longrightarrow> w_target_version w = 0"
  by (erule row_change.cases)
    (auto simp: upd_wf_def upd_job_def upd_jobs_def upd_req_def upd_reqs_def case_prod_unfold map_of_upd_row map_add_def split: if_splits)

text \<open>A request that appears has the next version of its workflow.\<close>

lemma change_new_request:
  assumes "row_change d d'" "req_of d q = None" "req_of d' q = Some r"
  shows "\<exists>w w'. wf_of d (r_workflow_id r) = Some w \<and> r_version r = w_target_version w + 1 \<and>
    wf_of d' (r_workflow_id r) = Some w' \<and> w_target_version w' = w_target_version w + 1 \<and> (\<forall>k. k \<noteq> q \<longrightarrow> req_of d' k = req_of d k)"
  using assms(1)
proof cases
  case (new_req k r' w)
  then have "k = q" "r' = r" using assms(2,3) by (auto simp: map_add_def split: if_splits)
  then show ?thesis using new_req by (auto simp: row_simps map_add_def split: option.split)
qed (use assms(2,3) in \<open>auto simp: upd_wf_def upd_job_def upd_jobs_def upd_req_def upd_reqs_def case_prod_unfold map_of_upd_row split: if_splits\<close>)

section \<open>The runs of a workflow\<close>

text \<open>A run is over exactly when it has an outcome and the time it ended.\<close>

definition outcome_ok :: "customer_request \<Rightarrow> bool" where
  "outcome_ok r = ((r_run_outcome r \<noteq> None) = (r_status r \<in> {RCompleted, RFailed}) \<and>
     (r_completed_at r \<noteq> None) = (r_status r \<in> {RCompleted, RFailed}))"

definition runs_ok :: "db \<Rightarrow> bool" where
  "runs_ok d = ((\<forall>i w. wf_of d i = Some w \<longrightarrow> 0 \<le> w_target_version w) \<and>
     (\<forall>q r. req_of d q = Some r \<longrightarrow> outcome_ok r \<and>
       (\<exists>w. wf_of d (r_workflow_id r) = Some w \<and> 1 \<le> r_version r \<and> r_version r \<le> w_target_version w)) \<and>
     (\<forall>q q' r r'. req_of d q = Some r \<longrightarrow> req_of d q' = Some r' \<longrightarrow> r_workflow_id r = r_workflow_id r' \<longrightarrow> r_version r = r_version r' \<longrightarrow> q = q'))"

lemma runs_okD:
  assumes "runs_ok d"
  shows "wf_of d i = Some w \<Longrightarrow> 0 \<le> w_target_version w"
    and "req_of d q = Some r \<Longrightarrow> outcome_ok r"
    and "req_of d q = Some r \<Longrightarrow> \<exists>w. wf_of d (r_workflow_id r) = Some w \<and> 1 \<le> r_version r \<and> r_version r \<le> w_target_version w"
    and "req_of d q = Some r \<Longrightarrow> req_of d q' = Some r' \<Longrightarrow> r_workflow_id r = r_workflow_id r' \<Longrightarrow> r_version r = r_version r' \<Longrightarrow> q = q'"
  using assms by (auto simp: runs_ok_def)

lemma move_outcome: "request_move r r' \<Longrightarrow> outcome_ok r \<Longrightarrow> outcome_ok r'"
proof (induction rule: request_move.induct)
  case (moved s r)
  then show ?case by (cases "r_status r") (auto simp: outcome_ok_def)
qed (auto simp: outcome_ok_def)

lemma change_fresh: "row_change d d' \<Longrightarrow> req_of d q = None \<Longrightarrow> req_of d' q = Some r \<Longrightarrow> fresh_run r"
  by (erule row_change.cases)
    (auto simp: upd_wf_def upd_job_def upd_jobs_def upd_req_def upd_reqs_def case_prod_unfold map_of_upd_row map_add_def split: if_splits)

lemma workflow_of_request:
  assumes "sys_ok d" "req_of d q = Some r"
  obtains w where "wf_of d (r_workflow_id r) = Some w"
proof -
  have "has_wf d (r_workflow_id r)" using assms(1) map_of_SomeD [OF assms(2)] by (fastforce simp: sys_ok_def refs_ok_def rows_all_def list_all_iff)
  then show thesis using that by (auto simp: has_wf_def)
qed

text \<open>A request that was there before keeps its workflow and its version.\<close>

lemma change_old_request:
  assumes "row_change d d'" "req_of d q = Some r" "req_of d' q = Some r'"
  shows "r_workflow_id r' = r_workflow_id r" "r_version r' = r_version r"
  using change_request [OF assms(1,2)] assms(3) request_move_fixed [of r r'] by auto

lemma change_runs:
  assumes step: "row_change d d'" and ok: "sys_ok d" and runs: "runs_ok d"
  shows "runs_ok d'"
proof -
  have ok': "sys_ok d'" using change_ok [OF step ok] .
  have target: "0 \<le> w_target_version w" if "wf_of d' i = Some w" for i w
    using change_workflow [OF step, of i] change_new_workflow [OF step, of i] that runs_okD(1) [OF runs, of i]
    by (cases "wf_of d i") (fastforce simp: workflow_advance_def)+
  have outcome: "outcome_ok r" if "req_of d' q = Some r" for q r
    using change_request [OF step, of q] change_fresh [OF step, of q] that runs_okD(2) [OF runs, of q] move_outcome
    by (cases "req_of d q") (auto simp: outcome_ok_def)
  have range: "\<exists>w. wf_of d' (r_workflow_id r) = Some w \<and> 1 \<le> r_version r \<and> r_version r \<le> w_target_version w" if r: "req_of d' q = Some r" for q r
  proof (cases "req_of d q")
    case None
    from change_new_request [OF step this r] show ?thesis using runs_okD(1) [OF runs, of "r_workflow_id r"] by fastforce
  next
    case (Some r0)
    from runs_okD(3) [OF runs Some] obtain w where w: "wf_of d (r_workflow_id r0) = Some w" "1 \<le> r_version r0" "r_version r0 \<le> w_target_version w" by blast
    obtain w' where w': "wf_of d' (r_workflow_id r) = Some w'" using workflow_of_request [OF ok' r] .
    show ?thesis using w w' change_old_request [OF step Some r] change_workflow [OF step w(1)] by (auto simp: workflow_advance_def)
  qed
  have "q = q'" if "req_of d' q = Some r" "req_of d' q' = Some r'" "r_workflow_id r = r_workflow_id r'" "r_version r = r_version r'" for q q' r r'
  proof (rule ccontr)
    assume ne: "q \<noteq> q'"
    have new: False if "req_of d k = None" "req_of d' k = Some s" "req_of d' k' = Some s'" "k \<noteq> k'"
        "r_workflow_id s = r_workflow_id s'" "r_version s = r_version s'" for k k' s s'
      using change_new_request [OF step that(1,2)] that runs_okD(3) [OF runs, of k' s'] by fastforce
    show False
    proof (cases "req_of d q = None \<or> req_of d q' = None")
      case True
      then show ?thesis using new [of q r q' r'] new [of q' r' q r] that ne by auto
    next
      case False
      then obtain s s' where s: "req_of d q = Some s" "req_of d q' = Some s'" by auto
      show ?thesis using runs_okD(4) [OF runs s] change_old_request [OF step s(1) that(1)] change_old_request [OF step s(2) that(2)] that ne by simp
    qed
  qed
  then show ?thesis using target outcome range unfolding runs_ok_def by blast
qed

text \<open>A purge only removes rows.\<close>

lemma purge_rows:
  assumes "purge_change d d'" "db_pk d"
  shows "req_of d' q = None \<or> req_of d' q = req_of d q" "wf_of d' i = None \<or> wf_of d' i = wf_of d i"
proof -
  have gone: "pk t \<Longrightarrow> map_of (del_where Q t) k = None \<or> map_of (del_where Q t) k = map_of t k" for Q :: "string \<Rightarrow> 'a \<Rightarrow> bool" and t k
    by (auto simp: map_of_del_where split: option.split)
  have gone': "pk t \<Longrightarrow> map_of (del_where Q t) k = None \<or> map_of (del_where Q t) k = map_of t k" for Q :: "string \<Rightarrow> customer_request \<Rightarrow> bool" and t k
    by (auto simp: map_of_del_where split: option.split)
  show "req_of d' q = None \<or> req_of d' q = req_of d q" using assms(1)
    by cases (use gone' assms(2) in \<open>auto simp: db_pk_def\<close>)
  show "wf_of d' i = None \<or> wf_of d' i = wf_of d i" using assms(1) by cases (auto simp: map_of_del_key)
qed

lemma purge_runs:
  assumes "purge_change d d'" "sys_ok d" "runs_ok d"
  shows "runs_ok d'"
proof -
  have pk: "db_pk d" and ok': "sys_ok d'" using assms(2) purge_ok [OF assms(1,2)] by (simp_all add: sys_ok_def)
  have req: "req_of d' q = Some r \<Longrightarrow> req_of d q = Some r" for q r using purge_rows(1) [OF assms(1) pk, of q] by auto
  have wf: "wf_of d' i = Some w \<Longrightarrow> wf_of d i = Some w" for i w using purge_rows(2) [OF assms(1) pk, of i] by auto
  have range: "\<exists>w. wf_of d' (r_workflow_id r) = Some w \<and> 1 \<le> r_version r \<and> r_version r \<le> w_target_version w" if r: "req_of d' q = Some r" for q r
  proof -
    obtain w where w: "wf_of d' (r_workflow_id r) = Some w" using workflow_of_request [OF ok' r] .
    then show ?thesis using runs_okD(3) [OF assms(3) req [OF r]] wf [OF w] by auto
  qed
  show ?thesis using req wf range runs_okD [OF assms(3)] unfolding runs_ok_def by blast
qed

section \<open>Over the whole system\<close>

lemma changes_runs: "changes d d' \<Longrightarrow> sys_ok d \<Longrightarrow> runs_ok d \<Longrightarrow> runs_ok d'"
  by (induction rule: rtranclp_induct) (auto intro: change_runs changes_ok)

lemma purges_runs: "purges d d' \<Longrightarrow> sys_ok d \<Longrightarrow> runs_ok d \<Longrightarrow> runs_ok d'"
  by (induction rule: rtranclp_induct) (auto intro: purge_runs purges_ok)

lemma changes_request: "changes d d' \<Longrightarrow> req_of d q = Some r \<Longrightarrow> \<exists>r'. req_of d' q = Some r' \<and> request_move\<^sup>*\<^sup>* r r'"
proof (induction rule: rtranclp_induct)
  case (step e f)
  then show ?case using change_request [OF step.hyps(2), of q] by (metis rtranclp.rtrancl_into_rtrancl)
qed simp

lemma changes_workflow: "changes d d' \<Longrightarrow> wf_of d i = Some w \<Longrightarrow> \<exists>w'. wf_of d' i = Some w' \<and> workflow_advance w w'"
proof (induction rule: rtranclp_induct)
  case (step e f)
  then show ?case using change_workflow [OF step.hyps(2), of i] advance_trans by metis
qed simp

lemma purges_rows:
  assumes "purges d d'" "sys_ok d"
  shows "(req_of d' q = None \<or> req_of d' q = req_of d q) \<and> (wf_of d' i = None \<or> wf_of d' i = wf_of d i)"
  using assms
proof (induction rule: rtranclp_induct)
  case (step e f)
  have "db_pk e" using purges_ok [OF step.hyps(1) step.prems] by (simp add: sys_ok_def)
  then show ?case using step purge_rows(1) [OF step.hyps(2), of q] purge_rows(2) [OF step.hyps(2), of i] by auto
qed simp

lemma lease_change_rows: "lease_change d d' \<Longrightarrow> req_of d' = req_of d \<and> wf_of d' = wf_of d"
  by (auto simp: lease_change_def)

lemma steps_runs: "sys_step\<^sup>*\<^sup>* s s' \<Longrightarrow> sys_ok (sy_db s) \<Longrightarrow> runs_ok (sy_db s) \<Longrightarrow> runs_ok (sy_db s')"
proof (induction rule: rtranclp_induct)
  case (step a b)
  obtain e where e: "changes (sy_db a) e \<or> purges (sy_db a) e" "lease_change e (sy_db b)" using step_changes [OF step.hyps(2)] by blast
  have "runs_ok e" using e(1) changes_runs purges_runs steps_ok [OF step.hyps(1)] step by blast
  then show ?case using lease_change_rows [OF e(2)] by (simp add: runs_ok_def)
qed

text \<open>One step of the system, on a request and a workflow that are there before and after it.\<close>

lemma step_request:
  assumes "sys_step a b" "sys_ok (sy_db a)" "req_of (sy_db a) q = Some r" "req_of (sy_db b) q = Some r'"
  shows "request_move\<^sup>*\<^sup>* r r'"
proof -
  obtain e where e: "changes (sy_db a) e \<or> purges (sy_db a) e" "lease_change e (sy_db b)" using step_changes [OF assms(1)] by blast
  then have "req_of e q = Some r'" using assms(4) lease_change_rows by metis
  then show ?thesis using e(1) changes_request [OF _ assms(3)] purges_rows [OF _ assms(2), of e q] assms(3) by fastforce
qed

lemma step_workflow:
  assumes "sys_step a b" "sys_ok (sy_db a)" "wf_of (sy_db a) i = Some w" "wf_of (sy_db b) i = Some w'"
  shows "workflow_advance w w'"
proof -
  obtain e where e: "changes (sy_db a) e \<or> purges (sy_db a) e" "lease_change e (sy_db b)" using step_changes [OF assms(1)] by blast
  then have "wf_of e i = Some w'" using assms(4) lease_change_rows by metis
  then show ?thesis using e(1) changes_workflow [OF _ assms(3)] purges_rows [OF _ assms(2), of e _ i] assms(3) by fastforce
qed

text \<open>A run of the system during which request \<open>q\<close> is never purged.\<close>

definition step_with :: "string \<Rightarrow> system \<Rightarrow> system \<Rightarrow> bool" where
  "step_with q a b = (sys_step a b \<and> req_of (sy_db b) q \<noteq> None)"

lemma steps_with:
  assumes "(step_with q)\<^sup>*\<^sup>* s0 s" "sys_ok (sy_db s0)" "req_of (sy_db s0) q = Some r" "wf_of (sy_db s0) (r_workflow_id r) = Some w"
  shows "\<exists>r' w'. req_of (sy_db s) q = Some r' \<and> request_move\<^sup>*\<^sup>* r r' \<and> wf_of (sy_db s) (r_workflow_id r) = Some w' \<and>
    workflow_advance w w' \<and> sys_ok (sy_db s)"
  using assms
proof (induction rule: rtranclp_induct)
  case (step a b)
  then obtain r1 w1 where 1: "req_of (sy_db a) q = Some r1" "request_move\<^sup>*\<^sup>* r r1" "wf_of (sy_db a) (r_workflow_id r) = Some w1"
    "workflow_advance w w1" "sys_ok (sy_db a)" by blast
  have s: "sys_step a b" using step.hyps(2) by (simp add: step_with_def)
  obtain r2 where r2: "req_of (sy_db b) q = Some r2" using step.hyps(2) by (auto simp: step_with_def)
  have ok: "sys_ok (sy_db b)" using steps_ok [OF r_into_rtranclp [of sys_step, OF s] 1(5)] .
  have m: "request_move\<^sup>*\<^sup>* r r2" using 1(2) step_request [OF s 1(5,1) r2] by (rule rtranclp_trans)
  obtain w2 where w2: "wf_of (sy_db b) (r_workflow_id r2) = Some w2" using workflow_of_request [OF ok r2] .
  have "r_workflow_id r2 = r_workflow_id r" using moves_fixed [OF m] by simp
  then show ?case using r2 m ok w2 advance_trans [OF 1(4) step_workflow [OF s 1(5,3)]] by auto
qed simp

lemma initial_runs: "runs_ok (sy_db (initial t))"
  by (simp add: runs_ok_def initial_def migrated_db_def empty_db_def)

text \<open>C7. Every run follows one state machine until it is purged with its workflow: whatever the components of the system do, in any
  interleaving of their steps and with any calls failing, the row of a request changes only by the moves unscheduled to scheduled,
  paused, abandoned or superseded, paused to unscheduled or abandoned, scheduled to in progress or superseded, and the two terminal
  writes, which the code does not guard on the status. So a run that is scheduled is never queued again, one that is in progress
  only ends, and one that is completed, failed, abandoned or superseded never waits, starts or runs again. Its
  version and its workflow never change, and meanwhile the target, the current and the counted version of the workflow
  never go back.\<close>

theorem runs_follow_the_request_machine:
  assumes "sys_ok (sy_db s0)" "(step_with q)\<^sup>*\<^sup>* s0 s" "req_of (sy_db s0) q = Some r"
  shows "\<exists>r' w w'. req_of (sy_db s) q = Some r' \<and> request_move\<^sup>*\<^sup>* r r' \<and> r_status r' \<in> set (later_status (r_status r)) \<and>
    r_workflow_id r' = r_workflow_id r \<and> r_version r' = r_version r \<and>
    wf_of (sy_db s0) (r_workflow_id r) = Some w \<and> wf_of (sy_db s) (r_workflow_id r) = Some w' \<and>
    w_target_version w \<le> w_target_version w' \<and> w_current_version w \<le> w_current_version w' \<and> w_metrics_emitted_at w \<le> w_metrics_emitted_at w'"
proof -
  obtain w where w: "wf_of (sy_db s0) (r_workflow_id r) = Some w" using workflow_of_request [OF assms(1,3)] .
  from steps_with [OF assms(2,1,3) w] obtain r' w' where "req_of (sy_db s) q = Some r'" "request_move\<^sup>*\<^sup>* r r'"
    "wf_of (sy_db s) (r_workflow_id r) = Some w'" "workflow_advance w w'" by blast
  then show ?thesis using w moves_later moves_fixed unfolding workflow_advance_def by blast
qed

text \<open>The session of a worker takes the waiting run.\<close>

definition started_run :: system where
  "started_run = (case session_step (\<lambda>_. False) (\<lambda>_. False) sample_worker 20 (MsgReady [(''T'', 1)]) new_session (sy_db waiting_run) of
     (ses, d, cs) \<Rightarrow> waiting_run\<lparr>sy_db := d, sy_sessions := AList.update ''s1'' (''g'', ses) (sy_sessions waiting_run)\<rparr>)"

lemma waiting_run_ok: "sys_ok (sy_db waiting_run)" "runs_ok (sy_db waiting_run)"
  by (simp add: sys_ok_def refs_ok_def jobs_tagged_def owner_group_def owner_tab_def has_wf_def has_tenant_def has_group_def policy_ok_def
        tenant_ok_def rows_all_def db_pk_def pk_def keys_def waiting_run_def sample_row_defs)
    (auto simp: runs_ok_def outcome_ok_def waiting_run_def sample_row_defs split: if_splits)

lemma started_run_step: "sys_step waiting_run started_run"
proof -
  let ?r = "session_step (\<lambda>_. False) (\<lambda>_. False) sample_worker 20 (MsgReady [(''T'', 1)]) new_session (sy_db waiting_run)"
  have "?r = (fst ?r, fst (snd ?r), snd (snd ?r))" by simp
  from sys_step.session [OF _ this] show ?thesis by (simp add: started_run_def case_prod_unfold waiting_run_def sample_worker_def)
qed

lemma started_run_reached: "sys_step\<^sup>*\<^sup>* waiting_run started_run"
  by (rule r_into_rtranclp) (rule started_run_step)

theorem runs_follow_the_request_machine_witness:
  "\<exists>r'. req_of (sy_db started_run) ''r1'' = Some r' \<and> request_move\<^sup>*\<^sup>* (sample_req RScheduled 1) r' \<and>
     r_status r' \<in> {RScheduled, RInProgress, RSuperceded, RCompleted, RFailed}"
proof -
  have "sys_step waiting_run started_run" by (rule started_run_step)
  moreover have "req_of (sy_db started_run) ''r1'' \<noteq> None" by code_simp
  ultimately have "(step_with ''r1'')\<^sup>*\<^sup>* waiting_run started_run" by (intro r_into_rtranclp) (simp add: step_with_def)
  moreover have "req_of (sy_db waiting_run) ''r1'' = Some (sample_req RScheduled 1)" by (simp add: waiting_run_def sample_row_defs)
  ultimately show ?thesis using runs_follow_the_request_machine [OF waiting_run_ok(1), of "''r1''" started_run] by (auto simp: sample_req_def)
qed

text \<open>C8. Runs are numbered once and settled once: in every state reached from a consistent one (the migrated database is), the
  version of a request lies between 1 and the target version of its workflow, no two requests of a workflow have the
  same version, and a request carries an outcome and an end time exactly when it is completed or failed.\<close>

theorem runs_are_numbered_and_settled:
  assumes "sys_ok (sy_db s0)" "runs_ok (sy_db s0)" "sys_step\<^sup>*\<^sup>* s0 s" "req_of (sy_db s) q = Some r"
  shows "(\<exists>w. wf_of (sy_db s) (r_workflow_id r) = Some w \<and> 1 \<le> r_version r \<and> r_version r \<le> w_target_version w) \<and>
    (\<forall>q' r'. req_of (sy_db s) q' = Some r' \<and> r_workflow_id r' = r_workflow_id r \<and> r_version r' = r_version r \<longrightarrow> q' = q) \<and>
    (r_run_outcome r = None) = (r_status r \<notin> {RCompleted, RFailed}) \<and> (r_completed_at r = None) = (r_status r \<notin> {RCompleted, RFailed})"
proof -
  note ok = steps_runs [OF assms(3,1,2)]
  show ?thesis using runs_okD(2,3) [OF ok assms(4)] runs_okD(4) [OF ok assms(4)] by (auto simp: outcome_ok_def)
qed

theorem runs_are_numbered_and_settled_witness:
  "\<exists>r w. req_of (sy_db started_run) ''r1'' = Some r \<and> wf_of (sy_db started_run) (r_workflow_id r) = Some w \<and>
     1 \<le> r_version r \<and> r_version r \<le> w_target_version w \<and> r_run_outcome r = None"
proof -
  have "map_option r_status (req_of (sy_db started_run) ''r1'') = Some RInProgress" by code_simp
  then obtain r where r: "req_of (sy_db started_run) ''r1'' = Some r" "r_status r = RInProgress" by auto
  from runs_are_numbered_and_settled [OF waiting_run_ok started_run_reached r(1)] show ?thesis using r by auto
qed

end
