(* ===== verification/WorkerIsolation.thy ===== *)
theory WorkerIsolation
  imports System
begin

text \<open>
  Isolation of the workers: what a client sends over its session never reaches the rows of another tenant group. Every
  operation of a session stays within one workflow of its group, in the sense of \<open>stays\<close>.
\<close>

section \<open>Staying within one workflow\<close>

text \<open>A job row keeps its request and its group; only rows of the worker's group get a new owner.\<close>

definition same_job :: "worker_env \<Rightarrow> job \<Rightarrow> job \<Rightarrow> bool" where
  "same_job env j j' = (j_request_id j' = j_request_id j \<and> j_tenant_group_id j' = j_tenant_group_id j \<and>
     (j_owner j' = j_owner j \<or> j_owner j' = None \<or> j_tenant_group_id j = we_group env))"

definition keeps :: "worker_env \<Rightarrow> string \<Rightarrow> db \<Rightarrow> db \<Rightarrow> bool" where
  "keeps env i d d' = (stays i (we_group env) d d' \<and> db_tenants d' = db_tenants d \<and>
     (\<forall>q. map_option r_workflow_id (req_of d' q) = map_option r_workflow_id (req_of d q)) \<and>
     (\<forall>k j'. (k, j') \<in> set (db_jobs d') \<longrightarrow> (\<exists>j. (k, j) \<in> set (db_jobs d) \<and> same_job env j j')))"

definition own_request :: "string \<Rightarrow> string \<Rightarrow> db \<Rightarrow> bool" where
  "own_request i q d = (\<forall>r. req_of d q = Some r \<longrightarrow> r_workflow_id r = i)"

lemma same_job_refl [simp]: "same_job env j j"
  by (simp add: same_job_def)

lemma same_job_trans: "same_job env j k \<Longrightarrow> same_job env k l \<Longrightarrow> same_job env j l"
  by (auto simp: same_job_def)

lemma keeps_refl [simp]: "keeps env i d d"
  by (auto simp: keeps_def)

lemma keeps_trans [trans]: "keeps env i d d1 \<Longrightarrow> keeps env i d1 d2 \<Longrightarrow> keeps env i d d2"
  by (auto simp: keeps_def intro: stays_trans) (meson same_job_trans)

lemma keeps_request:
  assumes "keeps env i d d'" "own_request k q d"
  shows "own_request k q d'"
  unfolding own_request_def
proof (intro allI impI)
  fix r assume "req_of d' q = Some r"
  moreover have "map_option r_workflow_id (req_of d' q) = map_option r_workflow_id (req_of d q)" using assms(1) by (simp add: keeps_def)
  ultimately obtain r0 where "req_of d q = Some r0" "r_workflow_id r0 = r_workflow_id r" by (cases "req_of d q") auto
  then show "r_workflow_id r = k" using assms(2) by (simp add: own_request_def)
qed

lemma keeps_owner: "keeps env i d d' \<Longrightarrow> owner_group d' i = owner_group d i"
  using stays_owner unfolding keeps_def by blast

section \<open>Statements\<close>

lemma keeps_wf:
  assumes "\<And>w. w_tenant_id (f w) = w_tenant_id w"
  shows "keeps env i d (fst (upd_wf i P f d))"
  using stays_upd_wf [OF assms, of i "we_group env" d P] by (auto simp: keeps_def upd_wf_def case_prod_unfold)

lemma in_update: "(k, v) \<in> set (AList.update i x t) \<Longrightarrow> (k, v) \<in> set t \<or> k = i \<and> v = x"
  by (induction t) (auto split: if_splits)

lemma keeps_job:
  assumes "\<And>j. P j \<Longrightarrow> same_job env j (f j)"
  shows "keeps env i d (fst (upd_job i P f d))"
proof -
  have "\<exists>j. (k, j) \<in> set t \<and> same_job env j j'" if "(k, j') \<in> set (fst (upd_row i P f t))" for k j' and t :: "(string, job) table"
    using that assms by (auto simp: upd_row_def split: option.splits if_splits dest!: in_update dest: map_of_SomeD intro: exI [of _ j'])
  then show ?thesis using stays_upd_job [of i "we_group env" d P f] by (auto simp: keeps_def upd_job_def case_prod_unfold)
qed

lemma keeps_req:
  assumes "own_request i q d" "\<And>r. r_workflow_id (f r) = r_workflow_id r"
  shows "keeps env i d (fst (upd_req q P f d))"
proof -
  have "stays i (we_group env) d (fst (upd_req q P f d))" using assms by (intro stays_upd_req) (auto simp: own_request_def)
  moreover have "map_option r_workflow_id (req_of (fst (upd_req q P f d)) k) = map_option r_workflow_id (req_of d k)" for k
    using assms(2) by (cases "req_of d k"; cases "k = q") (simp_all add: row_simps)
  ultimately show ?thesis by (auto simp: keeps_def upd_req_def case_prod_unfold)
qed

lemma keeps_unfreeze: "keeps env i d (unfreeze_requests i d)"
proof -
  have "map_option r_workflow_id (req_of (unfreeze_requests i d) k) = map_option r_workflow_id (req_of d k)" for k
    by (cases "req_of d k") (auto simp: unfreeze_requests_def row_simps)
  then show ?thesis using stays_freeze(2) [of i "we_group env" d] by (auto simp: keeps_def unfreeze_requests_def upd_reqs_def)
qed

lemma keeps_delete_job: "keeps env i d (fst (DeleteTerminalJob i rid d))"
proof -
  have "map_of (del_where (\<lambda>k j. k = i \<and> Q j) t) k = map_of t k" if "k \<noteq> i" for k Q and t :: "(string, job) table"
    using that by (induction t) (auto simp: del_where_def)
  then have "stays i (we_group env) d (fst (DeleteTerminalJob i rid d))" by (simp add: DeleteTerminalJob_def Let_def stays_jobs)
  moreover have "x \<in> set (del_where Q t) \<Longrightarrow> x \<in> set t" for x Q and t :: "(string, job) table" by (simp add: del_where_def)
  ultimately show ?thesis by (force simp: keeps_def DeleteTerminalJob_def Let_def)
qed

lemma keeps_other_tables:
  assumes "stays i (we_group env) d d'" "db_tenants d' = db_tenants d" "db_requests d' = db_requests d" "db_jobs d' = db_jobs d"
  shows "keeps env i d d'"
  using assms by (auto simp: keeps_def)

lemma keeps_append: "ae_tenant_group_id e = we_group env \<Longrightarrow> keeps env i d (Append u e d)"
  by (rule keeps_other_tables) (simp_all add: stays_append, simp_all add: Append_def)

lemma keeps_epoch: "keeps env i d (startNewMetricsEpoch i v d)"
  by (rule keeps_other_tables) (rule stays_new_epoch, simp_all add: startNewMetricsEpoch_def Let_def)

lemma keeps_agent: "keeps env i d (upsert_agent i a f d)"
  by (rule keeps_other_tables) (rule stays_upsert_agent, simp_all add: upsert_agent_def)

lemma keeps_version: "keeps env i d (d\<lparr>db_version_metrics := AList.update (i, v) m (db_version_metrics d)\<rparr>)"
  by (rule keeps_other_tables) (auto simp: view_defs intro!: filter_update_other)

named_theorems kept "a statement or an operation stays within one workflow"

lemma keeps_job_writes [kept]:
  "keeps env i d (fst (ReleaseJob i sid d))" "keeps env i d (fst (UpdateJobStatus i sid st d))" "keeps env i d (fst (RenewJobLease i sid ttl now d))"
  "keeps env i d (fst (FailJobWithMetrics i sid reason am wm d))" "keeps env i d (fst (UpdateJobStatusWithMetrics i sid st oc reason res am wm d))"
  "keeps env i d (fst (UpdateJobMetrics i sid am d))" "keeps env i d (fst (UpdateJobWithMetrics i sid st op tmo delay ctx am wm now d))"
  "keeps env i d (fst (DispatchJob i sid op tmo ctx am wm d))" "keeps env i d (fst (ParkForApproval i sid gid tmo detail meta jm am wm now d))"
  "keeps env i d (fst (ParkForInput i sid gid tmo detail meta jm am wm now d))" "keeps env i d (fst (RequeueJob i rid n d))"
  "keeps env i d (fst (ClaimFailedJob i rid n d))"
  by (auto simp: RenewJobLease_def ReleaseJob_def UpdateJobStatus_def FailJobWithMetrics_def UpdateJobStatusWithMetrics_def UpdateJobMetrics_def
      UpdateJobWithMetrics_def DispatchJob_def ParkForApproval_def ParkForInput_def RequeueJob_def ClaimFailedJob_def same_job_def
      clear_gates_def Let_def case_prod_unfold intro!: keeps_job split: option.split)

lemma keeps_acquire [kept]: "keeps env i d (fst (AcquireJob i sid ttl (we_group env) now d))"
  by (auto simp: AcquireJob_def case_prod_unfold same_job_def intro!: keeps_job)

lemma keeps_marks [kept]:
  "keeps env i d (MarkWorkflowInvoking i d)" "keeps env i d (MarkWorkflowAwaitingApproval i d)" "keeps env i d (MarkWorkflowAwaitingInput i d)"
  "keeps env i d (fst (ApplyCompletedJob i s v now d))" "keeps env i d (fst (TryApplyStateResolution i v ws cd rid d))"
  by (auto simp: MarkWorkflowInvoking_def MarkWorkflowAwaitingApproval_def MarkWorkflowAwaitingInput_def ApplyCompletedJob_def
      TryApplyStateResolution_def set_lifecycle_state_def intro!: keeps_wf split: option.split)

lemma keeps_progress [kept]: "own_request i rid d \<Longrightarrow> keeps env i d (MarkRequestInProgress rid d)"
  unfolding MarkRequestInProgress_def by (rule keeps_req) simp_all

lemma keeps_terminal [kept]:
  assumes "own_request i rid d"
  shows "keeps env i d (fst (request_CompleteRequest rid oc reason res now d))" "keeps env i d (fst (request_FailRequest rid reason now d))"
  using assms by (auto simp: request_CompleteRequest_def request_FailRequest_def case_prod_unfold intro!: keeps_req)

lemma keeps_version_resolution [kept]: "keeps env i d (fst (TryApplyVersionResolution i v e t rid d))"
proof -
  let ?P = "\<lambda>w. w_lifecycle_last_resolved w < v \<and> w_current_workflow_version w = e \<and> w_state w \<notin> {WDisabled, WSuspended}"
  let ?f = "\<lambda>w. w\<lparr>w_lifecycle_last_resolved := v, w_current_workflow_version := t, w_last_policy_decision_request_id := rid\<rparr>"
  obtain d1 hit where u: "upd_wf i ?P ?f d = (d1, hit)" by fastforce
  have 1: "keeps env i d d1" using keeps_wf [of ?f env i d ?P] u by simp
  show ?thesis using u 1 keeps_trans [OF 1 keeps_epoch] by (simp add: TryApplyVersionResolution_def)
qed

lemma keeps_failed [kept]: "keeps env i d (fst (ApplyFailedJob i rid s ws v now d))"
proof -
  obtain d1 hit where u: "upd_wf i (\<lambda>w. w_current_version w < v) (interrupt_row rid s ws v now) d = (d1, hit)" by fastforce
  have 1: "keeps env i d d1"
    using keeps_wf [of "interrupt_row rid s ws v now" env i d "\<lambda>w. w_current_version w < v"] u by (simp add: interrupt_row_def)
  show ?thesis using u 1 keeps_trans [OF 1 keeps_unfreeze] by (simp add: ApplyFailedJob_def)
qed

lemma keeps_fold: "(\<And>x d. keeps env i d (f x d)) \<Longrightarrow> keeps env i d (fold f xs d)"
  by (induction xs arbitrary: d) (auto intro: keeps_trans)

lemma keeps_emit [kept]: "keeps env i d (fst (EmitMetrics i v rolling vm agents d))"
proof -
  let ?P = "\<lambda>w. w_metrics_emitted_at w < v" and ?f = "\<lambda>w. w\<lparr>w_metrics_emitted_at := v, w_invocation_metrics := rolling\<rparr>"
  obtain d1 hit where u: "upd_wf i ?P ?f d = (d1, hit)" by fastforce
  have 1: "keeps env i d d1" using keeps_wf [of ?f env i d ?P] u by simp
  have h: "keeps env i e (put_histories i agents e)" for e by (auto simp: put_histories_def intro!: keeps_fold keeps_agent)
  show ?thesis using u 1 keeps_trans [OF keeps_trans [OF 1 keeps_version] h] by (cases hit) (simp_all add: EmitMetrics_def)
qed

section \<open>The ends of a run\<close>

text \<open>The workflow and the request a session works for belong to its group, and to each other.\<close>

definition serving :: "worker_env \<Rightarrow> string \<Rightarrow> string \<Rightarrow> db \<Rightarrow> bool" where
  "serving env i q d = (owner_group d i = Some (we_group env) \<and> own_request i q d)"

lemma serving_kept: "keeps env i d d' \<Longrightarrow> serving env i q d \<Longrightarrow> serving env i q d'"
  by (simp add: serving_def keeps_owner keeps_request)

lemma keeps_record: "serving env i rid d \<Longrightarrow> keeps env i d (recordPolicyAction flt uid i rid act now d)"
  by (auto simp: recordPolicyAction_def TenantGroup_owner serving_def intro!: keeps_append)

interpretation kept_ends: operation_ends "keeps env i" "serving env i rid" i rid env for env i rid
proof
  show "serving env i rid d \<Longrightarrow> keeps env i d (fst (request_CompleteRequest rid oc reason res now d))" for d oc reason res now
    by (simp add: serving_def keeps_terminal)
  show "serving env i rid d \<Longrightarrow> keeps env i d (fst (request_FailRequest rid reason now d))" for d reason now
    by (simp add: serving_def keeps_terminal)
qed (simp_all add: kept keeps_delete_job keeps_record keeps_append serving_kept, rule keeps_trans)

lemmas keeps_operations = kept_ends.operations [OF _ HOL.refl]

section \<open>A session stays within its group\<close>

text \<open>Statement by statement, only workflows of the worker's group are touched.\<close>

definition touches :: "worker_env \<Rightarrow> db \<Rightarrow> db \<Rightarrow> bool" where
  "touches env d d' = (\<exists>i. owner_group d i = Some (we_group env) \<and> keeps env i d d')"

abbreviation confined :: "worker_env \<Rightarrow> db \<Rightarrow> db \<Rightarrow> bool" where
  "confined env \<equiv> (touches env)\<^sup>*\<^sup>*"

lemma confinedI: "serving env i q d \<Longrightarrow> keeps env i d d' \<Longrightarrow> confined env d d'"
  by (rule r_into_rtranclp) (auto simp: touches_def serving_def)

lemma keeps_owners:
  assumes "keeps env i d d'"
  shows "owner_group d' k = owner_group d k"
proof (cases "k = i")
  case False
  then have "wf_of d' k = wf_of d k" "db_tenants d' = db_tenants d" using assms by (auto simp: keeps_def stays_def purge_view_def)
  then show ?thesis by (simp add: owner_group_def owner_tab_def)
qed (use keeps_owner [OF assms] in simp)

lemma confined_owner: "confined env d d' \<Longrightarrow> owner_group d' k = owner_group d k"
  by (induction rule: rtranclp_induct) (auto simp: touches_def keeps_owners)

lemma confined_serving: "confined env d d' \<Longrightarrow> serving env k q d \<Longrightarrow> serving env k q d'"
proof (induction rule: rtranclp_induct)
  case (step d1 d2)
  then show ?case by (auto simp: touches_def serving_def keeps_owners intro: keeps_request)
qed

lemma confined_views:
  assumes "confined env d d'"
  shows "owner_group d k \<noteq> Some (we_group env) \<Longrightarrow> purge_view k d' = purge_view k d"
    "h \<noteq> we_group env \<Longrightarrow> group_view h d' = group_view h d"
proof -
  show "purge_view k d' = purge_view k d" if "owner_group d k \<noteq> Some (we_group env)" using assms
  proof (induction rule: rtranclp_induct)
    case (step d1 d2)
    then obtain i where "owner_group d1 i = Some (we_group env)" "keeps env i d1 d2" by (auto simp: touches_def)
    moreover have "owner_group d1 k \<noteq> Some (we_group env)" using confined_owner [OF step.hyps(1)] that by simp
    ultimately have "purge_view k d2 = purge_view k d1" by (auto simp: keeps_def stays_def)
    then show ?case using step.IH by simp
  qed simp
  show "group_view h d' = group_view h d" if "h \<noteq> we_group env" using assms
    by (induction rule: rtranclp_induct) (use that in \<open>auto simp: touches_def keeps_def stays_def\<close>)
qed

text \<open>
  The jobs carry the group of their workflow and a request of it, and the rows a session owns are of its group; the job it is
  working on is one of these.
\<close>

definition jobs_ok :: "worker_env \<Rightarrow> db \<Rightarrow> bool" where
  "jobs_ok env d = (jobs_tagged d \<and> list_all (\<lambda>(k, j). own_request k (j_request_id j) d \<and>
     (j_owner j = Some (we_session env) \<longrightarrow> j_tenant_group_id j = we_group env)) (db_jobs d))"

definition session_ok :: "worker_env \<Rightarrow> session \<Rightarrow> db \<Rightarrow> bool" where
  "session_ok env s d = (jobs_ok env d \<and> (case ss_job s of None \<Rightarrow> True | Some (i, j) \<Rightarrow> serving env i (j_request_id j) d))"

lemma session_ok_fields [simp]:
  "session_ok env (s\<lparr>ss_state := a\<rparr>) d = session_ok env s d" "session_ok env (s\<lparr>ss_polling := p\<rparr>) d = session_ok env s d"
  "session_ok env (s\<lparr>ss_this_op := x\<rparr>) d = session_ok env s d" "session_ok env (s\<lparr>ss_leases := gs\<rparr>) d = session_ok env s d"
  "session_ok env (s\<lparr>ss_abandon := q\<rparr>) d = session_ok env s d"
  by (simp_all add: session_ok_def)

lemma jobs_ok_row:
  assumes "jobs_ok env d" "(k, j) \<in> set (db_jobs d)"
  shows "owner_group d k = Some (j_tenant_group_id j)" "own_request k (j_request_id j) d"
    "j_owner j = Some (we_session env) \<Longrightarrow> j_tenant_group_id j = we_group env"
  using assms by (auto simp: jobs_ok_def jobs_tagged_def list_all_iff)

lemma jobs_ok_kept:
  assumes "jobs_ok env d" "keeps env i d d'"
  shows "jobs_ok env d'"
proof -
  have "owner_group d' k = Some (j_tenant_group_id j') \<and> own_request k (j_request_id j') d' \<and>
      (j_owner j' = Some (we_session env) \<longrightarrow> j_tenant_group_id j' = we_group env)" if row: "(k, j') \<in> set (db_jobs d')" for k j'
  proof -
    obtain j where j: "(k, j) \<in> set (db_jobs d)" "same_job env j j'" using assms(2) row unfolding keeps_def by blast
    show ?thesis using jobs_ok_row [OF assms(1) j(1)] j(2) keeps_owners [OF assms(2)] keeps_request [OF assms(2)]
      by (auto simp: same_job_def)
  qed
  then show ?thesis by (auto simp: jobs_ok_def jobs_tagged_def list_all_iff)
qed

lemma confined_ok:
  assumes "confined env d d'" "session_ok env s d"
  shows "session_ok env s d'"
proof -
  have "jobs_ok env d'" using assms
    by (induction rule: rtranclp_induct) (auto simp: session_ok_def touches_def intro: jobs_ok_kept)
  then show ?thesis using confined_serving [OF assms(1)] assms(2) by (auto simp: session_ok_def split: option.splits)
qed

text \<open>A statement whose guard implies the group of the row either finds a row of the group or does nothing.\<close>

lemma confined_fenced:
  assumes "jobs_ok env d" "\<And>j. P j \<Longrightarrow> j_owner j = Some (we_session env) \<or> j_tenant_group_id j = we_group env"
    and "keeps env k d (fst (upd_job k P f d))"
  shows "confined env d (fst (upd_job k P f d))"
proof (cases "\<exists>j. job_of d k = Some j \<and> P j")
  case True
  then obtain j where j: "(k, j) \<in> set (db_jobs d)" "P j" by (auto dest: map_of_SomeD)
  note row = jobs_ok_row [OF assms(1) j(1)]
  have "j_tenant_group_id j = we_group env" using assms(2) [OF j(2)] row(3) by blast
  then have "serving env k (j_request_id j) d" using row(1,2) by (simp add: serving_def)
  then show ?thesis by (rule confinedI [OF _ assms(3)])
next
  case False
  then show ?thesis by (auto simp: upd_job_def upd_row_def split: option.split)
qed

lemma confined_release: "jobs_ok env d \<Longrightarrow> confined env d (release flt env g d)"
  using keeps_job_writes(1) [of env "lg_workflow g" d "we_session env"]
  by (auto simp: release_def ReleaseJob_def intro!: confined_fenced)

lemma confined_renew: "jobs_ok env d \<Longrightarrow> confined env d (fst (RenewJobLease i (we_session env) ttl now d))"
  using keeps_job_writes(3) [of env i d "we_session env" ttl now]
  by (auto simp: RenewJobLease_def case_prod_unfold Let_def intro!: confined_fenced split: option.split)

lemma confined_releases: "session_ok env s d \<Longrightarrow> confined env d (fold (release flt env) gs d)"
proof (induction gs arbitrary: d)
  case (Cons g gs)
  have 1: "confined env d (release flt env g d)" using Cons.prems by (auto simp: session_ok_def intro: confined_release)
  from rtranclp_trans [OF this Cons.IH [OF confined_ok [OF this Cons.prems]]] show ?case by simp
qed simp

definition home :: "worker_env \<Rightarrow> db \<Rightarrow> session_result \<Rightarrow> bool" where
  "home env d r = (confined env d (fst (snd r)) \<and> session_ok env (fst r) (fst (snd r)))"

lemma home_stay: "session_ok env s d \<Longrightarrow> home env d (s, d, cs)"
  by (simp add: home_def)

lemma home_move: "confined env d d' \<Longrightarrow> session_ok env s d \<Longrightarrow> home env d (s, d', cs)"
  by (simp add: home_def confined_ok)

lemma home_later: "confined env d d1 \<Longrightarrow> home env d1 r \<Longrightarrow> home env d r"
  by (auto simp: home_def)

lemma home_close: "session_ok env s d \<Longrightarrow> home env d (close_session flt env s d cs)"
  by (simp add: close_session_def home_move confined_releases)

lemma home_ends:
  "session_ok env s d \<Longrightarrow> home env d (crash s d)" "session_ok env s d \<Longrightarrow> home env d (to_idle s d)"
  "session_ok env s d \<Longrightarrow> home env d (closing flt env s d)" "session_ok env s d \<Longrightarrow> home env d (keep_polling s d)"
  by (simp_all add: crash_def to_idle_def closing_def keep_polling_def home_stay home_close)

lemma home_after:
  assumes "confined env d (fst x)" "session_ok env s d" "\<And>s d. session_ok env s d \<Longrightarrow> home env d (nxt s d)"
  shows "home env d (after_operation flt env s x nxt)"
proof -
  obtain d1 p where x: "x = (d1, p)" by (cases x)
  have 1: "confined env d d1" "session_ok env s d1" using assms(1,2) x confined_ok by auto
  obtain s2 d2 where r: "release_lease flt env s d1 = (s2, d2)" by fastforce
  have "confined env d1 d2" "session_ok env s2 d1" using r 1(2) confined_release [of env d1 flt]
    by (auto simp: release_lease_def session_ok_def split: list.splits)
  then have "home env d1 (nxt s2 d2)" using assms(3) confined_ok home_later by blast
  then show ?thesis using x r 1 home_later [OF 1(1)] home_ends(1) by (auto simp: after_operation_def)
qed

lemma home_operations:
  assumes "serving env i (j_request_id j) d"
  shows "confined env d (fst (completeOperation flt sflt env i j thisOp r now d))"
    "confined env d (fst (failOperation flt sflt env i j thisOp reason now d))"
    "confined env d (fst (softFailOperation flt sflt env i j thisOp oc reason now d))"
    "confined env d (fst (suspendOperation flt sflt env i j thisOp now d))"
  by (rule confinedI [OF assms], rule keeps_operations [OF assms])+

lemma home_fail_and_close:
  "session_ok env s d \<Longrightarrow> serving env i (j_request_id j) d \<Longrightarrow> home env d (fail_and_close flt sflt env i j reason now s d)"
  unfolding fail_and_close_def by (rule home_after) (auto intro: home_operations home_ends)

lemmas homes = home_stay home_close home_ends home_fail_and_close home_after home_operations

lemma home_waiting:
  assumes "session_ok env s d" "serving env i (j_request_id j) d"
  shows "home env d (waiting_step flt sflt env i j now ev s d)"
proof -
  obtain d1 hit where u: "UpdateJobStatus i (we_session env) JRunning d = (d1, hit)" by fastforce
  have 1: "confined env d d1" using confinedI [OF assms(2) keeps_job_writes(2)] u by (metis fst_conv)
  have ok: "session_ok env s d1" by (rule confined_ok [OF 1 assms(1)])
  show ?thesis using assms u home_later [OF 1] ok
    by (cases ev; cases hit) (auto simp: homes home_move [OF 1] split: option.split)
qed

lemma home_interim:
  assumes "session_ok env s d" "serving env i (j_request_id j) d"
  shows "home env d (recordInterim flt sflt env i j res now s d)"
proof (cases "agentMetrics (ss_this_op s) j")
  case (Inr am)
  obtain d1 hit where u: "UpdateJobMetrics i (we_session env) am d = (d1, hit)" by fastforce
  have 1: "confined env d d1" using confinedI [OF assms(2) keeps_job_writes(6)] u by (metis fst_conv)
  have "home env d1 (fail_and_close flt sflt env i j ''failed to record interim metrics'' now s d1)"
    using confined_ok [OF 1 assms(1)] confined_serving [OF 1 assms(2)] by (rule home_fail_and_close)
  then show ?thesis using assms u Inr home_later [OF 1] home_move [OF 1] by (cases hit) (auto simp: recordInterim_def homes)
qed (use assms in \<open>simp add: recordInterim_def homes\<close>)

lemma home_busy:
  assumes "session_ok env s d" "serving env i (j_request_id j) d"
  shows "home env d (busy_step flt sflt env i j now ev s d)"
  using assms by (cases ev) (auto simp: Let_def homes home_interim request_cancel_def intro!: home_after split: option.split operation_status.split)

lemma home_cancel:
  assumes "session_ok env s d" "serving env i (j_request_id j) d"
  shows "home env d (cancel_step flt sflt env i j now ev s d)"
  using assms by (cases ev) (auto simp: Let_def homes cancel_ack_def intro!: home_after split: option.split operation_status.split cancel_reason.split)

lemma home_renew: "session_ok env s d \<Longrightarrow> home env d (renew_tick flt env i now s d)"
proof -
  assume ok: "session_ok env s d"
  obtain d1 hit ab where r: "RenewJobLease i (we_session env) leaseTime now d = (d1, hit, ab)" by (metis prod_cases3)
  have 1: "confined env d d1" using confined_renew [of env d i leaseTime now] r ok by (simp add: session_ok_def)
  show ?thesis using ok r home_move [OF 1] by (auto simp: renew_tick_def Let_def home_stay split: list.split bool.split)
qed

lemma confined_acquire: "jobs_ok env d \<Longrightarrow> confined env d (fst (AcquireJob i (we_session env) ttl (we_group env) now d))"
  using keeps_acquire [of env i d "we_session env" ttl now]
  by (auto simp: AcquireJob_def case_prod_unfold intro!: confined_fenced)

lemma acquired_serving:
  assumes "jobs_ok env d" "AcquireJob i (we_session env) ttl (we_group env) now d = (d1, Some j)"
  shows "serving env i (j_request_id j) d1"
proof -
  obtain k where k: "job_of d i = Some k" "j_tenant_group_id k = we_group env" "j_request_id j = j_request_id k"
    using AcquireJob_hit [OF assms(2)] by blast
  then have "serving env i (j_request_id j) d" using jobs_ok_row [OF assms(1), of i k] by (auto simp: serving_def dest: map_of_SomeD)
  moreover have "confined env d d1" using confined_acquire [OF assms(1), of i ttl now] assms(2) by simp
  ultimately show ?thesis using confined_serving by blast
qed

lemma home_launch:
  assumes "session_ok env s d" "serving env i (j_request_id j) d"
  shows "home env d (launch flt env i j s d)"
proof (cases "agentMetrics (ss_this_op s) j")
  case (Inr am)
  obtain d1 hit where u: "DispatchJob i (we_session env) (j_current_atomic_operation j) (j_timeout_seconds j) (j_context j) am (j_workflow_metrics j) d = (d1, hit)"
    by fastforce
  have 1: "keeps env i d d1" using keeps_job_writes(8) u by (metis fst_conv)
  define d2 where "d2 = (if flt ''MarkInvoking'' then d1 else MarkInvoking i d1)"
  define d3 where "d3 = (if flt ''MarkRequestInProgress'' then d2 else MarkRequestInProgress (j_request_id j) d2)"
  define d4 where "d4 = (if flt ''UpdateJobStatus'' then d3 else fst (UpdateJobStatus i (we_session env) JPending d3))"
  have 2: "keeps env i d d2" using 1 keeps_trans [OF 1 keeps_marks(1)] by (simp add: d2_def)
  have "own_request i (j_request_id j) d2" using serving_kept [OF 2 assms(2)] by (simp add: serving_def)
  then have 3: "keeps env i d d3" using 2 keeps_trans [OF 2 keeps_progress] by (simp add: d3_def)
  have 4: "keeps env i d d4" using 3 keeps_trans [OF 3 keeps_job_writes(2)] by (simp add: d4_def)
  note c = confinedI [OF assms(2)]
  have after: "home env d (after_operation flt env s (d1, False) keep_polling)" "home env d (after_operation flt env s (d, False) keep_polling)"
    using assms(1) c [OF 1] by (auto intro!: home_after home_ends)
  have unsent: "home env d (close_session flt env s d4 [])"
    using home_later [OF c [OF 4] home_close] confined_ok [OF c [OF 4] assms(1)] .
  have "session_ok env (s\<lparr>ss_state := ConnectedWaiting, ss_polling := None, ss_job := Some (i, j)\<rparr>) d3"
    using confined_ok [OF c [OF 3] assms(1)] serving_kept [OF 3 assms(2)] by (simp add: session_ok_def)
  then have sent: "home env d (s\<lparr>ss_state := ConnectedWaiting, ss_polling := None, ss_job := Some (i, j)\<rparr>, d3, cs)" for cs
    using c [OF 3] by (simp add: home_def)
  have eq: "launch flt env i j s d = (if flt ''NewStruct'' then after_operation flt env s (d, False) keep_polling
      else if flt ''DispatchJob'' then close_session flt env s d []
      else if hit then (if flt ''Send'' then close_session flt env s d4 []
        else (s\<lparr>ss_state := ConnectedWaiting, ss_polling := None, ss_job := Some (i, j)\<rparr>, d3,
              [Launch (launch_message i j)]))
      else after_operation flt env s (d1, False) keep_polling)"
    unfolding d4_def d3_def d2_def by (cases hit) (simp_all add: launch_def Let_def u Inr)
  show ?thesis unfolding eq using after unsent sent home_close [OF assms(1)] by simp
next
  case (Inl e)
  then show ?thesis using assms(1) by (auto simp: launch_def homes intro!: home_after)
qed

lemma resume_completes_request: "resume_job j = CompleteWith j' res \<Longrightarrow> j_request_id j' = j_request_id j"
  by (auto simp: resume_job_def resolveBranch_def resolveInputBranch_def enter_branch_def recordGateOutcome_def Let_def
      split: job_status.splits option.splits)

lemma home_acquired:
  assumes "session_ok env s1 d1" "serving env i (j_request_id j) d1"
  shows "home env d1 (if j_abandon_requested_at j \<noteq> None
      then after_operation flt env s1 (suspendOperation flt sflt env i j [] now d1) keep_polling
      else case resume_job j of
        LaunchJob j' \<Rightarrow> launch flt env i j' s1 d1
      | CompleteWith j' res \<Rightarrow> after_operation flt env s1 (completeOperation flt sflt env i j' [] (completed_with res) now d1) keep_polling
      | Unexpected \<Rightarrow> after_operation flt env s1 (d1, False) keep_polling
      | MissingGate \<Rightarrow> crash s1 d1)"
proof -
  have stop: "home env d1 (after_operation flt env s1 (suspendOperation flt sflt env i j [] now d1) keep_polling)"
    by (rule home_after [OF home_operations(4) [OF assms(2)] assms(1) home_ends(4)])
  show ?thesis
  proof (cases "resume_job j")
    case (LaunchJob j')
    then have "home env d1 (launch flt env i j' s1 d1)" using home_launch [OF assms(1)] assms(2) resume_keeps_request by simp
    then show ?thesis using stop LaunchJob by simp
  next
    case (CompleteWith j' res)
    then have "serving env i (j_request_id j') d1" using assms(2) resume_completes_request by simp
    then have "home env d1 (after_operation flt env s1 (completeOperation flt sflt env i j' [] (completed_with res) now d1) keep_polling)"
      by (rule home_after [OF home_operations(1) assms(1) home_ends(4)])
    then show ?thesis using stop CompleteWith by simp
  next
    case Unexpected
    have "home env d1 (after_operation flt env s1 (d1, False) keep_polling)" by (rule home_after [OF _ assms(1) home_ends(4)]) simp
    then show ?thesis using stop Unexpected by simp
  qed (use stop assms(1) home_ends(1) in simp)
qed

lemma home_poll:
  assumes "session_ok env s d"
  shows "home env d (poll flt sflt env caps now s d)"
proof (cases "GetAvailableJob (we_group env) caps now d")
  case (Some i)
  have jobs: "jobs_ok env d" using assms by (simp add: session_ok_def)
  obtain d1 jo where acq: "AcquireJob i (we_session env) leaseTime (we_group env) now d = (d1, jo)" by fastforce
  have 1: "confined env d d1" using confined_acquire [OF jobs, of i leaseTime now] acq by simp
  have ok: "session_ok env s d1" by (rule confined_ok [OF 1 assms])
  show ?thesis
  proof (cases jo)
    case None
    then show ?thesis using Some acq assms home_move [OF 1] by (simp add: poll_def homes keep_polling_def)
  next
    case (Some j)
    have sv: "serving env i (j_request_id j) d1" using acquired_serving [OF jobs] acq Some by blast
    let ?s1 = "s\<lparr>ss_this_op := [], ss_leases := ss_leases s @ [\<lparr>lg_workflow = i, lg_request = j_request_id j, lg_signalled = False\<rparr>]\<rparr>"
    have "session_ok env ?s1 d1" using ok by simp
    from home_later [OF 1 home_acquired [OF this sv]] show ?thesis
      using \<open>GetAvailableJob (we_group env) caps now d = Some i\<close> acq Some assms by (simp add: poll_def Let_def home_ends(4))
  qed
qed (use assms in \<open>simp add: poll_def homes\<close>)

lemma home_idle: "session_ok env s d \<Longrightarrow> home env d (idle_step flt sflt env now ev s d)"
  by (cases ev) (auto simp: homes home_poll split: option.split)

lemma home_step:
  assumes "session_ok env s d"
  shows "home env d (session_step flt sflt env now ev s d)"
proof (cases "ss_job s")
  case None
  then show ?thesis using assms by (auto simp: session_step_def home_stay home_renew home_idle simp del: idle_step.simps waiting_step.simps busy_step.simps cancel_step.simps
      split: session_event.split session_state.split)
next
  case (Some x)
  obtain i j where x: "x = (i, j)" by (cases x)
  then have "serving env i (j_request_id j) d" using assms Some by (simp add: session_ok_def)
  then show ?thesis using assms Some x
    by (auto simp: session_step_def home_stay home_renew home_idle home_waiting home_busy home_cancel simp del: idle_step.simps waiting_step.simps busy_step.simps cancel_step.simps
      split: session_event.split session_state.split)
qed

text \<open>A session that has just connected under an id no row carries, to a database in which jobs belong to their workflows.\<close>

lemma new_session_ok:
  assumes "jobs_tagged d" "list_all (\<lambda>(k, j). own_request k (j_request_id j) d) (db_jobs d)" "not_owner (we_session env) d"
  shows "session_ok env new_session d"
  using assms by (fastforce simp: session_ok_def jobs_ok_def new_session_def not_owner_def rows_all_def list_all_iff)

text \<open>A session handling a sequence of events, each at its own time and with its own faults.\<close>

fun session_trace :: "worker_env \<Rightarrow> ((string \<Rightarrow> bool) \<times> (string \<Rightarrow> bool) \<times> timestamp \<times> session_event) list \<Rightarrow> session \<Rightarrow> db \<Rightarrow> session \<times> db" where
  "session_trace env [] s d = (s, d)"
| "session_trace env ((flt, sflt, now, ev) # xs) s d =
     (case session_step flt sflt env now ev s d of (s', d', _) \<Rightarrow> session_trace env xs s' d')"

lemma home_trace: "session_ok env s d \<Longrightarrow> session_trace env xs s d = (s', d') \<Longrightarrow> confined env d d' \<and> session_ok env s' d'"
proof (induction xs arbitrary: s d)
  case (Cons x xs)
  obtain flt sflt now ev where x: "x = (flt, sflt, now, ev)" by (metis prod_cases4)
  obtain s1 d1 cs where st: "session_step flt sflt env now ev s d = (s1, d1, cs)" by (metis prod_cases3)
  have 1: "confined env d d1" "session_ok env s1 d1" using home_step [OF Cons.prems(1), of flt sflt now ev] st by (simp_all add: home_def)
  have "confined env d1 d' \<and> session_ok env s' d'" using Cons.IH [OF 1(2)] Cons.prems(2) x st by simp
  then show ?case using rtranclp_trans [OF 1(1)] by blast
qed simp

section \<open>Properties\<close>

text \<open>C4. Workers are isolated for writing: whatever messages a client sends over its session, in any order, at any times and with any calls
  failing, the acquisitions, reports, gates, completions, failures, policy decisions, audit entries and releases that
  follow change neither a workflow of another tenant group (row, requests, job, agents, version metrics) nor
  that group's own rows, tenants, prices, keys and audit trail. The session starts, and stays, in a state in which jobs belong
  to their workflow's group and request and the rows under its id are of its group.\<close>

theorem sessions_never_touch_other_groups:
  assumes "session_ok env s d" "session_trace env xs s d = (s', d')" "owner_group d k \<noteq> Some (we_group env)" "h \<noteq> we_group env"
  shows "purge_view k d' = purge_view k d \<and> group_view h d' = group_view h d \<and> session_ok env s' d'"
  using home_trace [OF assms(1,2)] confined_views assms(3,4) by blast

text \<open>Workflow \<open>w\<close> of group \<open>g\<close> with a run to be served, and workflow \<open>v\<close> of group \<open>other\<close> beside it.\<close>

definition neighbours :: db where
  "neighbours = (sample_db RScheduled (sample_job JPending None None))
     \<lparr>db_tenants := [(''t'', sample_tenant), (''u'', sample_tenant\<lparr>t_tenant_group_id := ''other''\<rparr>)],
      db_workflows := [(''w'', sample_wf), (''v'', sample_wf\<lparr>w_tenant_id := ''u''\<rparr>)]\<rparr>"

theorem sessions_never_touch_other_groups_witness:
  "let evs = map (\<lambda>e. (\<lambda>_. False, \<lambda>_. False, 20, e)) [MsgReady [(''T'', 1)], MsgUpdate ''r1'' (Some (sample_report 3)), MsgUpdate ''r1'' (Some (completed_with None))];
       d' = snd (session_trace sample_worker evs new_session neighbours)
   in purge_view ''v'' d' = purge_view ''v'' neighbours \<and> group_view ''other'' d' = group_view ''other'' neighbours \<and>
      map_option r_status (req_of d' ''r1'') = Some RCompleted"
proof -
  let ?evs = "map (\<lambda>e. (\<lambda>_. False, \<lambda>_. False, 20, e)) [MsgReady [(''T'', 1)], MsgUpdate ''r1'' (Some (sample_report 3)), MsgUpdate ''r1'' (Some (completed_with None))]"
  let ?r = "session_trace sample_worker ?evs new_session neighbours"
  have ok: "session_ok sample_worker new_session neighbours"
    by (rule new_session_ok) (simp_all add: jobs_tagged_def own_request_def not_owner_def owner_group_def owner_tab_def neighbours_def
        sample_worker_def sample_row_defs)
  have r: "?r = (fst ?r, snd ?r)" by simp
  have f: "owner_group neighbours ''v'' \<noteq> Some (we_group sample_worker)" "''other'' \<noteq> we_group sample_worker"
    by (simp_all add: owner_group_def owner_tab_def neighbours_def sample_worker_def sample_row_defs)
  have "map_option r_status (req_of (snd ?r) ''r1'') = Some RCompleted" by code_simp
  then show ?thesis using sessions_never_touch_other_groups [OF ok r f] by (simp add: Let_def)
qed

end
