(* ===== verification/ServedRun.thy ===== *)
theory ServedRun
  imports Robustness
begin

text \<open>
  A run from its first operation to its end, through all components: a worker session polls, acquires and launches the job,
  the client acknowledges and reports the result, the session stores it, and the scheduler's completion path promotes the
  metrics, resolves the policy and settles the request.
\<close>

section \<open>A completion succeeds when its calls do\<close>

lemma touched_error: "touched sts as = Inl e \<Longrightarrow> e = Panic"
  by (induction as) (auto split: option.splits sum.splits)

lemma metrics_succeed:
  assumes "no_nil im"
  obtains d1 vm w1 where "HandleAgentMetrics (\<lambda>_. False) rid im wm i w now d = (d1, Inr (vm, w1))" "w_lifecycle_policy w1 = w_lifecycle_policy w"
proof -
  obtain d1 x where h: "HandleAgentMetrics (\<lambda>_. False) rid im wm i w now d = (d1, x)" by fastforce
  have "x \<noteq> Inl e" for e
    using HandleAgentMetrics_no_panic [OF assms, of "\<lambda>_. False" rid wm i w now d d1] h touched_error
    by (auto simp: HandleAgentMetrics_def Let_def split: prod.splits sum.splits)
  then obtain vm w1 where "x = Inr (vm, w1)" by (metis old.sum.exhaust surj_pair)
  moreover from this have "w_lifecycle_policy w1 = w_lifecycle_policy w"
    using h by (auto simp: HandleAgentMetrics_def Let_def split: prod.splits sum.splits)
  ultimately show thesis using that h by simp
qed

lemma promotion_succeeds:
  assumes "no_nil am" "policy_ok (w_lifecycle_policy w)"
  obtains d1 where "promote_and_resolve (\<lambda>_. False) uid rid i am wm w now d = (d1, Inr ())"
proof -
  obtain d1 vm w1 where h: "HandleAgentMetrics (\<lambda>_. False) rid am wm i w now d = (d1, Inr (vm, w1))" "w_lifecycle_policy w1 = w_lifecycle_policy w"
    using metrics_succeed [OF assms(1)] by metis
  obtain g fr tr where p: "ResolvePolicy (w_invocation_metrics w1) (w_lifecycle_policy w1) vm = Inr (g, fr, tr)"
    using policy_calm assms(2) h(2) by (metis surj_pair)
  have "snd (ResolveLifecyclePolicy (\<lambda>_. False) i w1 vm rid now d1) \<noteq> Inl e" for e
    by (simp add: ResolveLifecyclePolicy_def p Let_def split: option.split prod.split)
  then obtain d2 y where r: "ResolveLifecyclePolicy (\<lambda>_. False) i w1 vm rid now d1 = (d2, Inr y)"
    by (metis old.sum.exhaust prod.collapse)
  show thesis using that h(1) r by (cases y) (auto simp: promote_and_resolve_def)
qed

lemma completion_succeeds:
  assumes "sys_ok d" "wf_of d i = Some w" "req_of d rid = Some r" "no_nil (fst (GetJobMetrics i rid d))" "rtype \<noteq> THealthCheck"
  obtains d' b where "CompleteRequest (\<lambda>_. False) uid rid i ver rtype oc reason res now d = (d', Inr b)"
proof -
  obtain ls where ls: "completed_lifecycle rtype = Some ls" using assms(5) by (cases rtype) auto
  obtain d1 ap where a: "ApplyCompletedJob i ls ver now d = (d1, ap)" by fastforce
  then have e: "d1 = fst (ApplyCompletedJob i ls ver now d)" by simp
  have d1: "changes d d1" "same_queue d d1" unfolding e by (rule ch_workflow_writes) (simp add: ApplyCompletedJob_def)
  obtain w1 where w1: "wf_of d1 i = Some w1" using assms(2) unfolding e by (auto simp: ApplyCompletedJob_def row_simps)
  have p: "policy_ok (w_lifecycle_policy w1)" using changes_ok [OF d1(1) assms(1)] rows_all_lookup w1 by (fastforce simp: sys_ok_def)
  obtain am wm where m: "GetJobMetrics i rid d1 = (am, wm)" by fastforce
  then have "no_nil am" using assms(4) d1(2) by (simp add: GetJobMetrics_def same_queue_def)
  from promotion_succeeds [OF this, of "w1\<lparr>w_invocation_metrics := sort_key s_ran_at (w_invocation_metrics w1)\<rparr>" uid rid i wm now d1] p
  obtain d2 where d2: "promote_and_resolve (\<lambda>_. False) uid rid i am wm (w1\<lparr>w_invocation_metrics := sort_key s_ran_at (w_invocation_metrics w1)\<rparr>) now d1 = (d2, Inr ())"
    by auto
  have "same_queue d1 d2" using promote_and_resolve_phases [OF d2] by blast
  then have "req_of d2 rid = Some r" using assms(3) d1(2) by (simp add: same_queue_def)
  then show thesis using that ls a m w1 d2
    by (simp add: CompleteRequest_def workflow_Get_def finish_completion_def request_CompleteRequest_def DeleteTerminalJob_def Let_def case_prod_unfold row_simps)
qed

text \<open>The run is over: no job, the workflow has passed its version and counted it, the request carries outcome and result.\<close>

definition settled_run :: "string \<Rightarrow> string \<Rightarrow> int \<Rightarrow> run_outcome \<Rightarrow> json_map option \<Rightarrow> db \<Rightarrow> bool" where
  "settled_run rid i ver oc res d = (job_of d i = None \<and> landed i ver d \<and>
     (case req_of d rid of None \<Rightarrow> False | Some r \<Rightarrow> r_status r = RCompleted \<and> r_run_outcome r = Some oc \<and> r_result r = res))"

lemma completion_settles:
  assumes "db_pk d" "job_of d i = Some j" "j_request_id j = rid" "j_status j = JCompleted"
    and "CompleteRequest (\<lambda>_. False) uid rid i ver rtype oc reason res now d = (d', Inr b)"
  shows "settled_run rid i ver oc res d'"
  using assms(5)
proof (cases rule: CompleteRequest_phases)
  case (finish d2 ls)
  have "pk (db_jobs d2)" "job_of d2 i = Some j" using assms(1,2) finish(2) by (simp_all add: db_pk_def same_queue_def)
  then have "job_of d' i = None"
    using finish_completion_success [OF finish(4)] assms(3,4) by (auto simp: DeleteTerminalJob_def Let_def map_of_del_where)
  moreover have "landed i ver d'" using landed_finish finish(3,4) by (metis fst_conv)
  ultimately show ?thesis using finish_completion_success [OF finish(4)] by (auto simp: settled_run_def)
qed simp

section \<open>The steps of a session that serves one operation\<close>

text \<open>The run of request \<open>rid\<close> has an operation for a worker: its first one, or the next of a chain.\<close>

definition run_ready :: "string \<Rightarrow> string \<Rightarrow> int \<Rightarrow> db \<Rightarrow> bool" where
  "run_ready rid i ver d = (sys_ok d \<and> wf_of d i \<noteq> None \<and> req_of d rid \<noteq> None \<and>
     (case job_of d i of None \<Rightarrow> False
      | Some j \<Rightarrow> j_request_id j = rid \<and> j_version j = ver \<and> j_status j \<in> {JPending, JAwaitingNext} \<and> j_abandon_requested_at j = None \<and>
          0 < j_timeout_seconds j \<and> j_job_type j \<noteq> THealthCheck \<and> no_nil (j_agent_metrics j)))"

text \<open>Session \<open>s\<close> of worker \<open>env\<close> works on that run in state \<open>st\<close>, with \<open>j\<close> the job as it was acquired.\<close>

definition serving :: "worker_env \<Rightarrow> string \<Rightarrow> string \<Rightarrow> int \<Rightarrow> session_state \<Rightarrow> job \<Rightarrow> session \<Rightarrow> db \<Rightarrow> bool" where
  "serving env rid i ver st j s d = (sys_ok d \<and> wf_of d i \<noteq> None \<and> req_of d rid \<noteq> None \<and> ss_state s = st \<and> ss_job s = Some (i, j) \<and>
     map lg_workflow (ss_leases s) = [i] \<and> j_request_id j = rid \<and> j_version j = ver \<and> 0 < j_timeout_seconds j \<and> j_job_type j \<noteq> THealthCheck \<and>
     no_nil (j_agent_metrics j) \<and>
     (case job_of d i of None \<Rightarrow> False
      | Some k \<Rightarrow> j_owner k = Some (we_session env) \<and> j_request_id k = rid \<and> j_version k = ver \<and> j_job_type k \<noteq> THealthCheck \<and>
          j_abandon_requested_at k = None))"

abbreviation no_fault :: "string \<Rightarrow> bool" where
  "no_fault \<equiv> (\<lambda>_. False)"

lemma mark_rows [row_simps]:
  "job_of (MarkWorkflowInvoking i d) k = job_of d k" "req_of (MarkWorkflowInvoking i d) q = req_of d q"
  "wf_of (MarkWorkflowInvoking i d) k = None \<longleftrightarrow> wf_of d k = None"
  "job_of (MarkRequestInProgress q d) k = job_of d k" "wf_of (MarkRequestInProgress q d) k = wf_of d k"
  "req_of (MarkRequestInProgress q d) q' = None \<longleftrightarrow> req_of d q' = None"
  by (auto simp: MarkWorkflowInvoking_def MarkRequestInProgress_def row_simps split: option.split)

lemma ready_is_launched:
  assumes "run_ready rid i ver d" "GetAvailableJob (we_group env) caps t d = Some i"
  obtains s d' j cs where "session_step no_fault no_fault env t (MsgReady caps) new_session d = (s, d', cs)" "serving env rid i ver ConnectedWaiting j s d'"
proof -
  obtain j where j: "job_of d i = Some j" "j_request_id j = rid" "j_version j = ver" "j_status j \<in> {JPending, JAwaitingNext}"
      "j_abandon_requested_at j = None" "0 < j_timeout_seconds j" "j_job_type j \<noteq> THealthCheck" "no_nil (j_agent_metrics j)"
    and d: "sys_ok d" "wf_of d i \<noteq> None" "req_of d rid \<noteq> None"
    using assms(1) by (auto simp: run_ready_def split: option.splits)
  have "pk (db_jobs d)" using d(1) by (simp add: sys_ok_def db_pk_def)
  moreover have "i \<in> set (sel_keys (\<lambda>_. may_pick (we_group env) caps t) (db_jobs d))"
    using assms(2) unfolding GetAvailableJob_def may_pick_def by (auto split: list.splits)
  ultimately have pick: "may_pick (we_group env) caps t j" using j(1) by (simp add: in_sel_keys)
  let ?j1 = "j\<lparr>j_owner := Some (we_session env), j_lease_expires_at := Some (t + leaseTime)\<rparr>"
  define d1 where "d1 = fst (AcquireJob i (we_session env) leaseTime (we_group env) t d)"
  have a: "AcquireJob i (we_session env) leaseTime (we_group env) t d = (d1, Some ?j1)"
    and d1: "job_of d1 i = Some ?j1" "wf_of d1 i = wf_of d i" "req_of d1 rid = req_of d rid"
    using j(1) pick by (simp_all add: d1_def AcquireJob_def case_prod_unfold row_simps may_pick_def)
  let ?dispatch = "DispatchJob i (we_session env) (j_current_atomic_operation j) (j_timeout_seconds j) (j_context j) (j_agent_metrics j)
      (j_workflow_metrics j) d1"
  define d2 where "d2 = fst ?dispatch"
  have x: "?dispatch = (d2, True)" and d2: "wf_of d2 i = wf_of d i" "req_of d2 rid = req_of d rid"
      "\<exists>k. job_of d2 i = Some k \<and> j_owner k = Some (we_session env) \<and> j_request_id k = rid \<and> j_version k = ver \<and> j_job_type k \<noteq> THealthCheck \<and>
        j_abandon_requested_at k = None"
    using d1 j by (auto simp: d2_def DispatchJob_def prod_eq_iff row_simps clear_gates_def)
  let ?r = "session_step no_fault no_fault env t (MsgReady caps) new_session d"
  let ?s = "new_session\<lparr>ss_state := ConnectedWaiting, ss_polling := None, ss_job := Some (i, ?j1), ss_this_op := [],
    ss_leases := [\<lparr>lg_workflow = i, lg_request = rid, lg_signalled = False\<rparr>]\<rparr>"
  have r: "?r = (?s, MarkRequestInProgress rid (MarkWorkflowInvoking i d2), snd (snd ?r))"
    using assms(2) a x j by (auto simp: session_step_def new_session_def poll_def resume_job_def launch_def agentMetrics_def Let_def)
  have "sys_ok (MarkRequestInProgress rid (MarkWorkflowInvoking i d2))"
    using ch_session_step [of d no_fault no_fault env t "MsgReady caps" new_session] changes_ok d(1) r by (metis fst_conv snd_conv)
  then have "serving env rid i ver ConnectedWaiting ?j1 ?s (MarkRequestInProgress rid (MarkWorkflowInvoking i d2))"
    using d2 d j by (auto simp: serving_def row_simps)
  then show thesis using that r by blast
qed

lemma acknowledged_is_busy:
  assumes "serving env rid i ver ConnectedWaiting j s d" "or_status ack = OpInProgress"
  obtains s' d' cs where "session_step no_fault no_fault env t (MsgUpdate rid (Some ack)) s d = (s', d', cs)" "serving env rid i ver ConnectedBusy j s' d'"
proof -
  obtain k where k: "job_of d i = Some k" "j_owner k = Some (we_session env)" using assms(1) by (auto simp: serving_def split: option.splits)
  define e where "e = fst (UpdateJobStatus i (we_session env) JRunning d)"
  have u: "UpdateJobStatus i (we_session env) JRunning d = (e, True)" using k by (simp add: e_def UpdateJobStatus_def prod_eq_iff row_simps)
  have "session_step no_fault no_fault env t (MsgUpdate rid (Some ack)) s d = (s\<lparr>ss_state := ConnectedBusy\<rparr>, e, [])"
    using assms u by (simp add: session_step_def serving_def)
  moreover have "sys_ok e" using assms(1) changes_ok [OF ch_job_writes(3)] by (auto simp: serving_def e_def)
  then have "serving env rid i ver ConnectedBusy j (s\<lparr>ss_state := ConnectedBusy\<rparr>) e"
    using assms(1) by (auto simp: serving_def e_def UpdateJobStatus_def row_simps split: option.splits)
  ultimately show thesis using that by blast
qed

text \<open>What the end of an operation leaves alone: the audit entries it writes are in a table of their own.\<close>

definition same_rows :: "db \<Rightarrow> db \<Rightarrow> bool" where
  "same_rows d d' = (db_jobs d' = db_jobs d \<and> db_requests d' = db_requests d \<and> db_workflows d' = db_workflows d)"

lemma audit_rows: "same_rows d (audit_policy_actions flt env i j r now d)"
proof -
  have "same_rows d (fold (\<lambda>x d. if flt (''Append:'' @ fst x) then d else Append (u x) (e x) d) xs d)" for xs u e d
    by (induction xs arbitrary: d) (auto simp: same_rows_def Append_def)
  then show ?thesis by (simp add: audit_policy_actions_def)
qed

text \<open>A result that ends the run settles it.\<close>

definition final_result :: "op_result \<Rightarrow> bool" where
  "final_result r = (or_status r = OpCompleted \<and> or_next r = None \<and> or_approval_gate r = None \<and> or_input_gate r = None)"

lemma final_result_settles:
  assumes "serving env rid i ver ConnectedBusy j s d" "final_result res"
  shows "\<exists>s' d' cs. session_step no_fault no_fault env t (MsgUpdate rid (Some res)) s d = (s', d', cs) \<and> ss_state s' = ConnectedIdle \<and>
    settled_run rid i ver (fst (result_outcome res)) (or_result res) d'"
proof -
  obtain k w r where k: "job_of d i = Some k" "j_owner k = Some (we_session env)" "j_request_id k = rid" "wf_of d i = Some w" "req_of d rid = Some r"
    using assms(1) by (auto simp: serving_def split: option.splits)
  have j: "sys_ok d" "ss_state s = ConnectedBusy" "ss_job s = Some (i, j)" "j_request_id j = rid" "j_version j = ver" "j_job_type j \<noteq> THealthCheck"
    "no_nil (j_agent_metrics j)" using assms(1) by (simp_all add: serving_def)
  obtain g where g: "ss_leases s = [g]" "lg_workflow g = i" using assms(1) by (auto simp: serving_def)
  obtain am where am: "agentMetrics (recordSnapshot (Some res) (recordSnapshot (Some res) (ss_this_op s))) j = Inr am" "no_nil am"
    using MergeAgentMetrics_total [OF j(7)] unfolding agentMetrics_def by blast
  let ?wm = "merged_workflow_metrics res j" and ?oc = "fst (result_outcome res)" and ?reason = "snd (result_outcome res)"
  define e where "e = fst (UpdateJobStatusWithMetrics i (we_session env) JCompleted ?oc ?reason (or_result res) am ?wm d)"
  have u: "UpdateJobStatusWithMetrics i (we_session env) JCompleted ?oc ?reason (or_result res) am ?wm d = (e, True)"
    using k by (simp add: e_def UpdateJobStatusWithMetrics_def prod_eq_iff row_simps)
  have "sys_ok e" using changes_ok [OF ch_job_writes(5) j(1)] by (simp add: e_def)
  moreover have e: "wf_of e i = Some w" "req_of e rid = Some r"
      "\<exists>k'. job_of e i = Some k' \<and> j_request_id k' = rid \<and> j_status k' = JCompleted \<and> j_agent_metrics k' = am"
    using k by (simp_all add: e_def UpdateJobStatusWithMetrics_def row_simps)
  moreover from e(3) have "no_nil (fst (GetJobMetrics i rid e))" using am(2) by (auto simp: GetJobMetrics_def)
  ultimately obtain f b where f: "CompleteRequest no_fault (we_uid env) rid i ver (j_job_type j) ?oc ?reason (or_result res) t e = (f, Inr b)"
    using completion_succeeds [of e i w rid r "j_job_type j" "we_uid env" ver ?oc ?reason "or_result res" t] j(6) by metis
  have settled: "settled_run rid i ver ?oc (or_result res) f"
    using completion_settles [OF _ _ _ _ f] e(3) \<open>sys_ok e\<close> by (auto simp: sys_ok_def)
  define h where "h = audit_policy_actions no_fault env i j res t f"
  have "completeOperation no_fault no_fault env i j (recordSnapshot (Some res) (ss_this_op s)) res t d = (h, False)"
    using am(1) u f j assms(2) by (simp add: completeOperation_def advance_job_def final_result_def finish_job_def h_def)
  moreover have "settled_run rid i ver ?oc (or_result res) h"
    using settled audit_rows [of f no_fault env i j res t] by (simp add: settled_run_def same_rows_def landed_def h_def)
  moreover from this have "fst (ReleaseJob i (we_session env) h) = h" by (simp add: ReleaseJob_def upd_job_def upd_row_def settled_run_def)
  ultimately show ?thesis using j assms(2) g
    by (simp add: session_step_def final_result_def after_operation_def release_lease_def release_def to_idle_def)
qed

text \<open>A result that names a next operation makes the run ready for it, for any worker.\<close>

definition next_result :: "op_result \<Rightarrow> bool" where
  "next_result r = (or_status r = OpCompleted \<and> (case or_next r of None \<Rightarrow> False | Some n \<Rightarrow> 0 < po_timeout_seconds n))"

lemma next_result_readies:
  assumes "serving env rid i ver ConnectedBusy j s d" "next_result res"
  shows "\<exists>s' d' cs. session_step no_fault no_fault env t (MsgUpdate rid (Some res)) s d = (s', d', cs) \<and> ss_state s' = ConnectedIdle \<and> run_ready rid i ver d'"
proof -
  obtain k where k: "job_of d i = Some k" "j_owner k = Some (we_session env)" "j_request_id k = rid" "j_version k = ver" "j_job_type k \<noteq> THealthCheck"
      "j_abandon_requested_at k = None" using assms(1) by (auto simp: serving_def split: option.splits)
  have j: "sys_ok d" "wf_of d i \<noteq> None" "req_of d rid \<noteq> None" "ss_state s = ConnectedBusy" "ss_job s = Some (i, j)" "j_request_id j = rid"
    "no_nil (j_agent_metrics j)" using assms(1) by (simp_all add: serving_def)
  obtain g where g: "ss_leases s = [g]" "lg_workflow g = i" using assms(1) by (auto simp: serving_def)
  obtain n where n: "or_next res = Some n" "0 < po_timeout_seconds n" using assms(2) by (auto simp: next_result_def split: option.splits)
  obtain am where am: "agentMetrics (recordSnapshot (Some res) (recordSnapshot (Some res) (ss_this_op s))) j = Inr am" "no_nil am"
    using MergeAgentMetrics_total [OF j(7)] unfolding agentMetrics_def by blast
  define e where "e = fst (UpdateJobWithMetrics i (we_session env) JAwaitingNext (po_name n) (po_timeout_seconds n) (po_delay_seconds n)
    (po_context n) am (merged_workflow_metrics res j) t d)"
  define h where "h = audit_policy_actions no_fault env i j res t e"
  define d' where "d' = fst (ReleaseJob i (we_session env) h)"
  have c: "completeOperation no_fault no_fault env i j (recordSnapshot (Some res) (ss_this_op s)) res t d = (h, False)"
    using am(1) n by (simp add: completeOperation_def advance_job_def e_def h_def)
  have "session_step no_fault no_fault env t (MsgUpdate rid (Some res)) s d = (s\<lparr>ss_this_op := recordSnapshot (Some res) (ss_this_op s),
      ss_leases := [], ss_state := ConnectedIdle, ss_polling := None\<rparr>, d', [])"
    using c j assms(2) g by (simp add: session_step_def next_result_def after_operation_def release_lease_def release_def to_idle_def d'_def)
  moreover have "sys_ok d'"
    using ch_session_step [of d no_fault no_fault env t "MsgUpdate rid (Some res)" s] changes_ok j(1) calculation by (metis fst_conv snd_conv)
  moreover have "wf_of h i \<noteq> None" "req_of h rid \<noteq> None" "\<exists>k'. job_of h i = Some k' \<and> j_request_id k' = rid \<and> j_version k' = ver \<and> j_status k' = JAwaitingNext \<and>
      j_abandon_requested_at k' = None \<and> 0 < j_timeout_seconds k' \<and> j_job_type k' \<noteq> THealthCheck \<and> no_nil (j_agent_metrics k')"
    using k j(2,3) n(2) am(2) audit_rows [of e no_fault env i j res t]
    by (simp_all add: h_def same_rows_def e_def UpdateJobWithMetrics_def clear_gates_def row_simps)
  ultimately have "run_ready rid i ver d'" by (auto simp: run_ready_def d'_def ReleaseJob_def row_simps)
  then show ?thesis using \<open>session_step no_fault no_fault env t (MsgUpdate rid (Some res)) s d = _\<close> by simp
qed

section \<open>A run that is served\<close>

text \<open>
  One operation served by a worker: its session says it is ready, acknowledges the launch and reports the result, at three
  times. Every operation of a run may be served by another worker.
\<close>

record served_op =
  so_worker :: worker_env
  so_caps :: "(string \<times> int) list"
  so_ack :: op_result
  so_result :: op_result
  so_times :: "timestamp \<times> timestamp \<times> timestamp"

definition session_run :: "worker_env \<Rightarrow> (timestamp \<times> session_event) list \<Rightarrow> session \<times> db \<Rightarrow> session \<times> db" where
  "session_run env es = fold (\<lambda>(t, e) (s, d). case session_step no_fault no_fault env t e s d of (s', d', _) \<Rightarrow> (s', d')) es"

definition serve_op :: "string \<Rightarrow> served_op \<Rightarrow> db \<Rightarrow> db" where
  "serve_op rid x d = (case so_times x of (t, t', t'') \<Rightarrow>
     snd (session_run (so_worker x) [(t, MsgReady (so_caps x)), (t', MsgUpdate rid (Some (so_ack x))), (t'', MsgUpdate rid (Some (so_result x)))]
       (new_session, d)))"

definition takes :: "string \<Rightarrow> served_op \<Rightarrow> db \<Rightarrow> bool" where
  "takes i x d = (or_status (so_ack x) = OpInProgress \<and> GetAvailableJob (we_group (so_worker x)) (so_caps x) (fst (so_times x)) d = Some i)"

text \<open>The workers take the run's job whenever it is ready, and their results form a chain of operations with an end.\<close>

fun served_chain :: "string \<Rightarrow> string \<Rightarrow> served_op list \<Rightarrow> db \<Rightarrow> bool" where
  "served_chain rid i [] d = False"
| "served_chain rid i [x] d = (takes i x d \<and> final_result (so_result x))"
| "served_chain rid i (x # xs) d = (takes i x d \<and> next_result (so_result x) \<and> served_chain rid i xs (serve_op rid x d))"

lemma served_until_busy:
  assumes "run_ready rid i ver d" "takes i x d"
  obtains s e j where "serving (so_worker x) rid i ver ConnectedBusy j s e"
    "serve_op rid x d = fst (snd (session_step no_fault no_fault (so_worker x) (snd (snd (so_times x))) (MsgUpdate rid (Some (so_result x))) s e))"
proof -
  obtain t t' t'' where ts: "so_times x = (t, t', t'')" by (cases "so_times x")
  obtain s1 d1 j c1 where 1: "session_step no_fault no_fault (so_worker x) t (MsgReady (so_caps x)) new_session d = (s1, d1, c1)"
      "serving (so_worker x) rid i ver ConnectedWaiting j s1 d1"
    using ready_is_launched [OF assms(1), of "so_worker x" "so_caps x" t] assms(2) ts unfolding takes_def by (metis fst_conv)
  obtain s2 d2 c2 where 2: "session_step no_fault no_fault (so_worker x) t' (MsgUpdate rid (Some (so_ack x))) s1 d1 = (s2, d2, c2)"
      "serving (so_worker x) rid i ver ConnectedBusy j s2 d2"
    using acknowledged_is_busy [OF 1(2)] assms(2) unfolding takes_def by metis
  show thesis by (rule that [OF 2(2)]) (simp add: serve_op_def session_run_def ts 1(1) 2(1) split: prod.split)
qed

lemma served_run_settles:
  assumes "run_ready rid i ver d" "served_chain rid i xs d"
  shows "settled_run rid i ver (fst (result_outcome (so_result (last xs)))) (or_result (so_result (last xs))) (fold (serve_op rid) xs d)"
  using assms
proof (induction rid i xs d rule: served_chain.induct)
  case (2 rid i x d)
  obtain s e j where "serving (so_worker x) rid i ver ConnectedBusy j s e"
    "serve_op rid x d = fst (snd (session_step no_fault no_fault (so_worker x) (snd (snd (so_times x))) (MsgUpdate rid (Some (so_result x))) s e))"
    using served_until_busy 2 by (metis served_chain.simps(2))
  then show ?case using final_result_settles [of "so_worker x" rid i ver j s e "so_result x" "snd (snd (so_times x))"] 2(2) by auto
next
  case (3 rid i x y xs d)
  obtain s e j where "serving (so_worker x) rid i ver ConnectedBusy j s e"
    "serve_op rid x d = fst (snd (session_step no_fault no_fault (so_worker x) (snd (snd (so_times x))) (MsgUpdate rid (Some (so_result x))) s e))"
    using served_until_busy 3(2,3) by (metis served_chain.simps(3))
  then have "run_ready rid i ver (serve_op rid x d)" using next_result_readies [of "so_worker x" rid i ver j s e "so_result x" "snd (snd (so_times x))"] 3(3) by auto
  then show ?case using 3(1,3) by simp
qed simp

section \<open>An accepted invocation makes its run ready\<close>

lemma schedule_readies:
  assumes ok: "sys_ok d" and r: "req_of d rid = Some r" "r_status r = RUnscheduled" "r_type r \<noteq> THealthCheck" "r_workflow_id r = i"
    and w: "wf_of d i = Some w" "validateWorkflowState w" and j: "job_of d i = None" and t: "request_timeout (r_info r) = Inr tmo" "0 < tmo"
  shows "run_ready rid i (r_version r) (fst (ScheduleRequest no_fault rid now d))"
proof -
  let ?w = "w\<lparr>w_invocation_metrics := sort_key s_ran_at (w_invocation_metrics w)\<rparr>"
  obtain g where "map_of (db_tenants d) (w_tenant_id w) = Some g"
    using ok map_of_SomeD [OF w(1)] by (fastforce simp: sys_ok_def refs_ok_def has_tenant_def rows_all_def list_all_iff)
  moreover define ctx where "ctx = job_context (r_info r) (GetAllForWorkflow i d)"
  moreover define k where "k = fresh_job rid r w (t_tenant_group_id g) ctx (request_type_name (r_type r) @ ''_entry'') tmo (w_current_workflow_version w) now"
  moreover define e where "e = mark_scheduled rid (d\<lparr>db_jobs := db_jobs d @ [(i, k)]\<rparr>)"
  ultimately have "ScheduleRequest no_fault rid now d =
      (MarkWorkflowScheduled i (if effective_mode ?w \<noteq> Queue then SupercedeOlderRequests i (r_version r) e else e), Inr ())"
    using r w j t by (simp add: ScheduleRequest_def request_Get_def workflow_Get_def validateWorkflowState_def write_job_def UpsertJobAndSchedule_def Let_def)
  moreover have "sys_ok (fst (ScheduleRequest no_fault rid now d))" using changes_ok [OF ch_schedule ok] .
  moreover have "job_of e i = Some k" "wf_of e i = Some w" "req_of e rid \<noteq> None"
    using w(1) j r(1) by (simp_all add: e_def mark_scheduled_def row_simps map_add_def)
  moreover have "j_request_id k = rid \<and> j_version k = r_version r \<and> j_status k = JPending \<and> j_abandon_requested_at k = None \<and>
      j_timeout_seconds k = tmo \<and> j_job_type k = r_type r \<and> j_agent_metrics k = []" by (simp add: k_def fresh_job_def)
  ultimately show ?thesis using r(3) t(2)
    by (auto simp: run_ready_def MarkWorkflowScheduled_def SupercedeOlderRequests_def row_simps no_nil_def)
qed

lemma resolved_timeout:
  assumes "resolve_params flt tmo i w u info d = Inr info'"
  shows "request_timeout info' = Inr (if tmo = 0 then wc_invoke_timeout_seconds (w_config w) else tmo)"
  using assms
  by (auto simp: resolve_params_def ResolveRuntimeParams_def ResolveAgentRuntimeParams_def ResolveModelPricing_def trunc_def
      request_timeout_def set_info_lookup Let_def split: if_splits sum.splits)

lemma submission_readies:
  assumes ok: "sys_ok d" and w: "wf_of d i = Some w" "w_lifecycle_last_resolved w = w_current_version w" "w_state w = WActive"
    and j: "job_of d i = None" and t: "request_timeout info = Inr tmo" "0 < tmo"
    and s: "submit_invocation no_fault no_fault uid i info now d = (d', Inr rid)"
  shows "rid = uid \<and> run_ready rid i (w_target_version w + 1) d'"
proof -
  let ?q = "new_request (run_request i info) (w_target_version w + 1) now"
  define e where "e = fst (CreateInvocationRequest uid (run_request i info) now d)"
  have new: "req_of d uid = None" using s w
    by (cases "req_of d uid") (auto simp: submit_invocation_def CreateInvocationRequest_def run_request_def bump_and_insert_cases)
  have c: "CreateInvocationRequest uid (run_request i info) now d = (e, Inr (w_target_version w + 1))"
    and e: "req_of e uid = Some ?q" "wf_of e i = Some (w\<lparr>w_target_version := w_target_version w + 1\<rparr>)" "job_of e i = None"
    using new w j bump_and_insert_cases(2) [of d "run_request i info" w uid now]
    by (simp_all add: e_def CreateInvocationRequest_def run_request_def map_add_def row_simps)
  have "sys_ok e" using changes_ok [OF ch_new_requests(1) [OF queued_run] ok] by (simp add: e_def)
  from schedule_readies [OF this e(1) _ _ _ e(2) _ e(3), of tmo now]
  have "run_ready uid i (w_target_version w + 1) (fst (ScheduleRequest no_fault uid now e))"
    using t w by (simp add: new_request_def run_request_def validateWorkflowState_def)
  moreover have "rid = uid \<and> d' = fst (ScheduleRequest no_fault uid now e)"
    using s c by (auto simp: submit_invocation_def split: prod.splits sum.splits error.splits)
  ultimately show ?thesis by simp
qed

lemma invocation_readies:
  assumes "sys_ok d" "wf_of d i = Some w" "w_lifecycle_last_resolved w = w_current_version w" "job_of d i = None"
    and t: "0 < (if tmo = 0 then wc_invoke_timeout_seconds (w_config w) else tmo)"
    and inv: "InvokeWorkflow no_fault no_fault uid cid i tmo ctx now d = (d', Inr rid)"
  shows "run_ready rid i (w_target_version w + 1) d'"
proof -
  let ?w = "w\<lparr>w_invocation_metrics := sort_key s_ran_at (w_invocation_metrics w)\<rparr>"
  obtain info where p: "resolve_params no_fault tmo i ?w True [(''correlationId'', JStr cid)] d = Inr info" and active: "w_state w = WActive"
    using inv assms(2) by (auto simp: InvokeWorkflow_def admit_invocation_def workflow_Get_def split: if_splits sum.splits)
  let ?info = "if ctx = [] then info else set_info ''input'' (JObj ctx) info"
  have "submit_invocation no_fault no_fault uid i ?info now d = (d', Inr rid)"
    using inv assms(2) p by (auto simp: InvokeWorkflow_def admit_invocation_def workflow_Get_def split: if_splits)
  moreover have "request_timeout ?info = Inr (if tmo = 0 then wc_invoke_timeout_seconds (w_config w) else tmo)"
    using resolved_timeout [OF p] by (simp add: request_timeout_def set_info_lookup)
  ultimately show ?thesis using submission_readies [OF assms(1-3) active assms(4) _ t] by blast
qed

text \<open>C5. An invoked run completes, through all components: when an invocation of an idle, resolved workflow is accepted and
  workers take the job it leads to, acknowledge each launch and report each operation as completed until one ends the
  run, and no call fails, then the request whose id the caller got is completed with the outcome and the result
  of the last operation, its job is gone, and the workflow has passed the run's version (the next one) and counted
  its metrics. Neither the metrics the workers report nor the workflow's lifecycle policy can prevent it.\<close>

theorem invoked_run_completes:
  assumes "sys_ok d" "wf_of d i = Some w" "w_lifecycle_last_resolved w = w_current_version w" "job_of d i = None"
    and "0 < (if tmo = 0 then wc_invoke_timeout_seconds (w_config w) else tmo)"
    and "InvokeWorkflow no_fault no_fault uid cid i tmo ctx now d = (d', Inr rid)" "served_chain rid i xs d'"
  shows "settled_run rid i (w_target_version w + 1) (fst (result_outcome (so_result (last xs)))) (or_result (so_result (last xs)))
    (fold (serve_op rid) xs d')"
  by (rule served_run_settles [OF invocation_readies [OF assms(1-6)] assms(7)])

text \<open>An idle workflow, invoked and served by two sessions.\<close>

definition idle_workflow :: db where
  "idle_workflow = (sy_db waiting_run)\<lparr>db_jobs := [], db_requests := []\<rparr>"

definition invoked_run :: db where
  "invoked_run = fst (InvokeWorkflow no_fault no_fault ''r1'' ''c'' ''w'' 0 [] 10 idle_workflow)"

definition two_operations :: "served_op list" where
  "two_operations =
     [\<lparr>so_worker = sample_worker, so_caps = [(''T'', 1)], so_ack = (completed_with None)\<lparr>or_status := OpInProgress\<rparr>,
       so_result = (completed_with None)\<lparr>or_next := Some \<lparr>po_name = ''op2'', po_context = [], po_timeout_seconds = 30, po_delay_seconds = 0\<rparr>\<rparr>,
       so_times = (20, 21, 22)\<rparr>,
      \<lparr>so_worker = sample_worker\<lparr>we_session := ''s2''\<rparr>, so_caps = [(''T'', 1)], so_ack = (completed_with None)\<lparr>or_status := OpInProgress\<rparr>,
       so_result = completed_with (Some [(''ok'', JBool True)]), so_times = (30, 31, 32)\<rparr>]"

theorem invoked_run_completes_witness:
  "settled_run ''r1'' ''w'' 2 Successful (Some [(''ok'', JBool True)]) (fold (serve_op ''r1'') two_operations invoked_run)"
proof -
  have d: "sys_ok idle_workflow" "wf_of idle_workflow ''w'' = Some sample_wf" "job_of idle_workflow ''w'' = None"
    by (simp_all add: sys_ok_def refs_ok_def jobs_tagged_def owner_group_def owner_tab_def has_wf_def has_tenant_def has_group_def policy_ok_def
        tenant_ok_def rows_all_def db_pk_def pk_def keys_def idle_workflow_def waiting_run_def sample_row_defs)
  have w: "w_lifecycle_last_resolved sample_wf = w_current_version sample_wf"
    "0 < (if 0 = (0::int) then wc_invoke_timeout_seconds (w_config sample_wf) else 0)" "w_target_version sample_wf = 1" by (simp_all add: sample_wf_def)
  have "snd (InvokeWorkflow no_fault no_fault ''r1'' ''c'' ''w'' 0 [] 10 idle_workflow) = Inr ''r1''" by code_simp
  then have "InvokeWorkflow no_fault no_fault ''r1'' ''c'' ''w'' 0 [] 10 idle_workflow = (invoked_run, Inr ''r1'')"
    by (simp add: invoked_run_def prod_eq_iff)
  moreover have "served_chain ''r1'' ''w'' two_operations invoked_run" by code_simp
  ultimately show ?thesis using invoked_run_completes [OF d(1,2) w(1) d(3) w(2), of "''r1''" "''c''" "[]" 10 invoked_run "''r1''" two_operations]
    by (simp add: two_operations_def completed_with_def result_outcome_def w(3))
qed

end
