(* ===== verification/Recovery.thy ===== *)
theory Recovery
  imports ServedRun
begin

text \<open>
  Recovery from lost writes: a run whose job is completed but whose request could not be settled at once is settled by the
  scheduler's ticks. The job row is the memory of the system: it stays until the request has been written, whatever else
  fails in between, and the first tick whose calls for this run succeed finishes the work.
\<close>

section \<open>A completed run that waits for its settlement\<close>

record completed_run =
  cr_request :: string
  cr_workflow :: string
  cr_outcome :: run_outcome
  cr_result :: "json_map option"

text \<open>
  A row that carries the run is its completed job, with the outcome and the result to be written; a row of any other run only
  has to be readable by the completion sweep.
\<close>

definition row_fits :: "completed_run \<Rightarrow> string \<Rightarrow> job \<Rightarrow> bool" where
  "row_fits x k j = ((j_status j = JCompleted \<longrightarrow> j_result_type j \<noteq> None) \<and>
     (j_request_id j = cr_request x \<longrightarrow> k = cr_workflow x \<and> j_status j = JCompleted \<and> j_result_type j = Some (cr_outcome x) \<and>
        j_result j = cr_result x \<and> j_job_type j \<noteq> THealthCheck \<and> no_nil (j_agent_metrics j)))"

definition settled_as :: "completed_run \<Rightarrow> db \<Rightarrow> bool" where
  "settled_as x d = (case req_of d (cr_request x) of None \<Rightarrow> False
     | Some r \<Rightarrow> r_status r = RCompleted \<and> r_run_outcome r = Some (cr_outcome x) \<and> r_result r = cr_result x)"

definition job_waits :: "completed_run \<Rightarrow> db \<Rightarrow> bool" where
  "job_waits x d = (case job_of d (cr_workflow x) of None \<Rightarrow> False | Some j \<Rightarrow> j_request_id j = cr_request x)"

text \<open>The run is settled, or (unless \<open>b\<close> asks for settlement) its job still waits.\<close>

definition pending :: "bool \<Rightarrow> completed_run \<Rightarrow> db \<Rightarrow> bool" where
  "pending b x d = (list_all (\<lambda>(k, j). row_fits x k j) (db_jobs d) \<and>
     (case req_of d (cr_request x) of None \<Rightarrow> False
      | Some r \<Rightarrow> r_workflow_id r = cr_workflow x \<and> r_status r \<in> {RScheduled, RInProgress, RCompleted}) \<and>
     (settled_as x d \<or> \<not> b \<and> job_waits x d))"

lemma pending_row: "pending b x d \<Longrightarrow> (k, j) \<in> set (db_jobs d) \<Longrightarrow> row_fits x k j"
  by (auto simp: pending_def list_all_iff)

lemma pending_same_queue: "same_queue d d' \<Longrightarrow> pending b x d' = pending b x d"
  by (simp add: pending_def settled_as_def job_waits_def same_queue_def)

lemma pending_weaken: "pending b x d \<Longrightarrow> pending False x d"
  by (auto simp: pending_def)

lemma pending_settled: "pending True x d \<longleftrightarrow> pending False x d \<and> settled_as x d"
  by (auto simp: pending_def)

section \<open>What the statements of other runs do to it\<close>

lemma fits_update:
  "list_all (\<lambda>(k, j). row_fits x k j) t \<Longrightarrow> row_fits x k j \<Longrightarrow> list_all (\<lambda>(k, j). row_fits x k j) (AList.update k j t)"
  by (induction t) auto

lemma pending_upd_job:
  assumes "pending b x d" "\<And>j. P j \<Longrightarrow> j_request_id j \<noteq> cr_request x"
    and "\<And>j. P j \<Longrightarrow> j_request_id (f j) = j_request_id j \<and> j_status (f j) \<noteq> JCompleted"
  shows "pending b x (fst (upd_job k P f d))"
proof -
  have "row_fits x k (f j)" if "P j" for j using assms(2,3) that by (simp add: row_fits_def)
  then have "list_all (\<lambda>(k, j). row_fits x k j) (fst (upd_row k P f (db_jobs d)))"
    using assms(1) by (auto simp: pending_def upd_row_def intro: fits_update split: option.split)
  moreover have "job_waits x d \<Longrightarrow> job_waits x (fst (upd_job k P f d))"
    using assms(2) by (auto simp: job_waits_def row_simps split: option.splits)
  ultimately show ?thesis using assms(1) by (auto simp: pending_def settled_as_def upd_job_def case_prod_unfold)
qed

lemma pending_upd_req: "pending b x d \<Longrightarrow> q \<noteq> cr_request x \<Longrightarrow> pending b x (fst (upd_req q P f d))"
  by (simp add: pending_def settled_as_def job_waits_def row_simps)

lemma pending_delete:
  assumes "pending b x d" "q \<noteq> cr_request x" "pk (db_jobs d)"
  shows "pending b x (fst (DeleteTerminalJob k q d))"
proof -
  let ?js = "db_jobs (fst (DeleteTerminalJob k q d))"
  have "set ?js \<subseteq> set (db_jobs d)" by (auto simp: DeleteTerminalJob_def Let_def del_where_def)
  then have "list_all (\<lambda>(k, j). row_fits x k j) ?js" using assms(1) by (auto simp: pending_def list_all_iff)
  moreover have "job_waits x d \<Longrightarrow> job_waits x (fst (DeleteTerminalJob k q d))"
    using assms(2,3) by (auto simp: job_waits_def DeleteTerminalJob_def Let_def map_of_del_where split: option.splits)
  ultimately show ?thesis using assms(1) by (auto simp: pending_def settled_as_def)
qed

lemma pending_unfreeze: "pending b x d \<Longrightarrow> pending b x (unfreeze_requests k d)"
  by (auto simp: pending_def settled_as_def job_waits_def unfreeze_requests_def row_simps split: option.splits)

text \<open>With the primary keys, which \<open>pending\<close> needs at the deletion of a job row.\<close>

definition kept :: "bool \<Rightarrow> completed_run \<Rightarrow> db \<Rightarrow> db \<Rightarrow> bool" where
  "kept b x d d' = (pk (db_jobs d) \<and> pending b x d \<longrightarrow> pk (db_jobs d') \<and> pending b x d')"

lemma kept_same_queue: "same_queue d d' \<Longrightarrow> kept b x d d'"
  by (simp add: kept_def pending_same_queue) (simp add: same_queue_def)

lemma kept_trans: "kept b x d d1 \<Longrightarrow> kept b x d1 d2 \<Longrightarrow> kept b x d d2"
  by (simp add: kept_def)

lemma kept_queue:
  "kept b x d (fst (ApplyCompletedJob k ls v now d))" "kept b x d (fst (EmitMetrics k v rolling vm agents d))"
  "kept b x d (fst (TryApplyStateResolution k v ws cd q d))" "kept b x d (fst (TryApplyVersionResolution k v e t q d))"
  "kept b x d (recordPolicyAction flt uid k q act now d)"
  by (rule kept_same_queue, simp add: ApplyCompletedJob_def same_queue_resolution same_queue_record)+

lemma kept_failed: "kept b x d (fst (ApplyFailedJob k q ls ws v now d))"
proof -
  obtain d1 hit where u: "upd_wf k (\<lambda>w. w_current_version w < v) (interrupt_row q ls ws v now) d = (d1, hit)" by fastforce
  then have 1: "kept b x d d1" using kept_same_queue [OF same_queue_upd_wf] by (metis fst_conv)
  have "kept b x d1 (unfreeze_requests k d1)" by (simp add: kept_def pending_unfreeze)
  then show ?thesis using u 1 kept_trans by (simp add: ApplyFailedJob_def)
qed

lemma kept_upd_job:
  assumes "\<And>j. P j \<Longrightarrow> j_request_id j \<noteq> cr_request x \<and> j_request_id (f j) = j_request_id j \<and> j_status (f j) \<noteq> JCompleted"
  shows "kept b x d (fst (upd_job k P f d))"
  using assms pending_upd_job [of b x d P f k] by (simp add: kept_def upd_job_def case_prod_unfold)

lemma kept_jobs:
  assumes "q \<noteq> cr_request x"
  shows "kept b x d (fst (RequeueJob k q n d))" "kept b x d (fst (ClaimFailedJob k q n d))"
  using assms by (auto simp: RequeueJob_def ClaimFailedJob_def intro!: kept_upd_job)

lemma kept_delete: "q \<noteq> cr_request x \<Longrightarrow> kept b x d (fst (DeleteTerminalJob k q d))"
  by (simp add: kept_def pending_delete) (simp add: DeleteTerminalJob_def Let_def)

lemma kept_requests:
  assumes "q \<noteq> cr_request x"
  shows "kept b x d (fst (request_CompleteRequest q oc reason res now d))" "kept b x d (fst (request_FailRequest q reason now d))"
  using assms by (auto simp: kept_def request_CompleteRequest_def request_FailRequest_def case_prod_unfold intro!: pending_upd_req)

interpretation other_runs: run_ends "\<lambda>d d'. q \<noteq> cr_request x \<longrightarrow> kept b x d d'" "\<lambda>_. True" k q for b x k q
  by unfold_locales (simp_all add: kept_queue kept_failed kept_jobs kept_delete kept_requests, simp_all add: kept_def)

section \<open>Workflows stay in their partition\<close>

definition same_partitions :: "db \<Rightarrow> db \<Rightarrow> bool" where
  "same_partitions d d' = (in_partition d' = in_partition d)"

lemma same_partitions_upd_wf:
  "(\<And>w. w_scheduler_partition_id (f w) = w_scheduler_partition_id w) \<Longrightarrow> same_partitions d (fst (upd_wf i P f d))"
  by (auto simp: same_partitions_def in_partition_def fun_eq_iff row_simps split: option.split)

lemma same_partitions_other: "db_workflows d' = db_workflows d \<Longrightarrow> same_partitions d d'"
  by (simp add: same_partitions_def in_partition_def fun_eq_iff)

lemma same_partitions_trans: "same_partitions d d1 \<Longrightarrow> same_partitions d1 d2 \<Longrightarrow> same_partitions d d2"
  by (simp add: same_partitions_def)

lemma histories_workflows [simp]: "db_workflows (put_histories i agents d) = db_workflows d"
  by (induction agents arbitrary: d) (auto simp: put_histories_def upsert_agent_def)

lemma same_partitions_then:
  assumes "\<And>w. w_scheduler_partition_id (f w) = w_scheduler_partition_id w" "\<And>d. db_workflows (g d) = db_workflows d"
  shows "same_partitions d (g (fst (upd_wf i P f d)))"
  by (rule same_partitions_trans [OF same_partitions_upd_wf same_partitions_other]) (simp_all add: assms)

lemma epoch_workflows [simp]: "db_workflows (startNewMetricsEpoch i v d) = db_workflows d"
  by (simp add: startNewMetricsEpoch_def Let_def)

interpretation partitions: run_ends same_partitions "\<lambda>_. True" i rid for i rid
proof
  show "same_partitions d d1 \<Longrightarrow> same_partitions d1 d2 \<Longrightarrow> same_partitions d d2" for d d1 d2 by (rule same_partitions_trans)
  show "same_partitions d (fst (EmitMetrics i v rolling vm agents d))" for d v rolling vm agents
    by (auto simp: EmitMetrics_def case_prod_unfold intro!: same_partitions_upd_wf same_partitions_then split: bool.split)
  show "same_partitions d (fst (ApplyFailedJob i rid ls ws v now d))" for d ls ws v now
    by (auto simp: ApplyFailedJob_def case_prod_unfold interrupt_row_def intro!: same_partitions_upd_wf same_partitions_then)
  show "same_partitions d (fst (TryApplyVersionResolution i v expected target rid d))" for d v expected target
    by (auto simp: TryApplyVersionResolution_def case_prod_unfold intro!: same_partitions_upd_wf same_partitions_then)
  show "same_partitions d (fst (ApplyCompletedJob i ls v now d))" "same_partitions d (fst (TryApplyStateResolution i v ws cd rid d))" for d ls v now ws cd
    by (auto simp: ApplyCompletedJob_def TryApplyStateResolution_def intro!: same_partitions_upd_wf)
qed (auto simp: recordPolicyAction_def Append_def DeleteTerminalJob_def RequeueJob_def
    ClaimFailedJob_def request_CompleteRequest_def request_FailRequest_def Let_def case_prod_unfold
    intro!: same_partitions_other split: sum.split)

section \<open>Scheduling and the sweeps\<close>

lemma upsert_phases:
  obtains (none) "UpsertJobAndSchedule q ctx op tmo wfver expected mode now d = (d, None)"
  | (slot) r j js where "UpsertJobAndSchedule q ctx op tmo wfver expected mode now d =
        (mark_scheduled q (d\<lparr>db_jobs := js\<rparr>), Some (r_workflow_id r, r_version r))"
      "req_of d q = Some r" "r_status r = RUnscheduled" "j_request_id j = q" "j_status j = JPending"
      "js = db_jobs d @ [(r_workflow_id r, j)] \<and> job_of d (r_workflow_id r) = None \<or>
       js = AList.update (r_workflow_id r) j (db_jobs d) \<and> (\<exists>j. job_of d (r_workflow_id r) = Some j \<and> slot_free (r_version r) mode j)"
proof -
  let ?u = "UpsertJobAndSchedule q ctx op tmo wfver expected mode now d"
  have "?u = (d, None) \<or> (\<exists>r j js. ?u = (mark_scheduled q (d\<lparr>db_jobs := js\<rparr>), Some (r_workflow_id r, r_version r)) \<and>
      req_of d q = Some r \<and> r_status r = RUnscheduled \<and> j_request_id j = q \<and> j_status j = JPending \<and>
      (js = db_jobs d @ [(r_workflow_id r, j)] \<and> job_of d (r_workflow_id r) = None \<or>
       js = AList.update (r_workflow_id r) j (db_jobs d) \<and> (\<exists>j. job_of d (r_workflow_id r) = Some j \<and> slot_free (r_version r) mode j)))"
    unfolding UpsertJobAndSchedule_def Let_def
    by (auto split: option.split) (auto simp: fresh_job_def overwrite_job_def)
  then show thesis using none slot by blast
qed

lemma upsert_workflows: "db_workflows (fst (UpsertJobAndSchedule q ctx op tmo wfver expected mode now d)) = db_workflows d"
  by (cases rule: upsert_phases [of q ctx op tmo wfver expected mode now d]) (simp_all add: mark_scheduled_def)

lemma pending_upsert:
  assumes "pending b x d" "UpsertJobAndSchedule q ctx op tmo wfver expected mode now d = (d', y)"
  shows "pending b x d'" "y = Some (k, v) \<Longrightarrow> k = cr_workflow x \<Longrightarrow> settled_as x d'"
proof -
  have "pending b x d' \<and> (y = Some (k, v) \<longrightarrow> k = cr_workflow x \<longrightarrow> settled_as x d')"
  proof (cases rule: upsert_phases [of q ctx op tmo wfver expected mode now d])
    case none
    then show ?thesis using assms by simp
  next
    case (slot r j js)
    have q: "q \<noteq> cr_request x" using slot(2,3) assms(1) by (auto simp: pending_def)
    have fits: "row_fits x (r_workflow_id r) j" using slot(4,5) q by (simp add: row_fits_def)
    then have rows: "list_all (\<lambda>(k, j). row_fits x k j) js" using slot(6) assms(1) by (auto simp: pending_def intro: fits_update)
    have other: "r_workflow_id r \<noteq> cr_workflow x" if w: "job_waits x d"
    proof
      assume e: "r_workflow_id r = cr_workflow x"
      then obtain k where "job_of d (cr_workflow x) = Some k" "slot_free (r_version r) mode k" "j_request_id k = cr_request x"
        using slot(6) w by (auto simp: job_waits_def split: option.splits)
      then show False using pending_row [OF assms(1) map_of_SomeD] by (auto simp: row_fits_def slot_free_def)
    qed
    then have "job_waits x d \<Longrightarrow> job_waits x (d\<lparr>db_jobs := js\<rparr>)"
      using slot(6) by (auto simp: job_waits_def update_conv map_add_def split: option.splits)
    moreover have "d' = mark_scheduled q (d\<lparr>db_jobs := js\<rparr>)" "y = Some (r_workflow_id r, r_version r)" using slot(1) assms(2) by simp_all
    ultimately show ?thesis using assms(1) rows q other
      by (auto simp: mark_scheduled_def pending_def settled_as_def job_waits_def row_simps)
  qed
  then show "pending b x d'" "y = Some (k, v) \<Longrightarrow> k = cr_workflow x \<Longrightarrow> settled_as x d'" by blast+
qed

lemma pending_schedule:
  assumes "pending b x d"
  shows "pending b x (fst (ScheduleRequest flt q now d))"
proof -
  have super: "pending b x (SupercedeOlderRequests k v e)" if "pending b x e" "k = cr_workflow x \<Longrightarrow> settled_as x e" for e k v
    using that by (auto simp: pending_def settled_as_def job_waits_def SupercedeOlderRequests_def row_simps split: option.splits)
  have marked: "pending b x (MarkWorkflowScheduled k e)" if "pending b x e" for k e
    using that pending_same_queue [of e "MarkWorkflowScheduled k e" b x] by (simp add: MarkWorkflowScheduled_def same_queue_def)
  have "pending b x (fst (write_job flt q r w tmo now d))" for r w tmo
  proof -
    let ?u = "UpsertJobAndSchedule q (job_context (r_info r) (GetAllForWorkflow (r_workflow_id r) d))
        (request_type_name (r_type r) @ ''_entry'') tmo (w_current_workflow_version w) (w_current_version w) (effective_mode w) now d"
    obtain d1 y where u: "?u = (d1, y)" by fastforce
    show ?thesis using assms u pending_upsert [OF assms u] super marked
      by (cases y) (auto simp: write_job_def Let_def)
  qed
  then show ?thesis using assms by (auto simp: ScheduleRequest_def split: sum.split)
qed

lemma pending_sweeps:
  assumes "pending b x d"
  shows "pending b x (fst (ReconcileWorkflowLifecycles p n now d))" "pending b x (fst (MarkOrphanedJobsFailed p n now d))"
    "pending b x (fst (SweepRequestsInProgress p d))"
proof -
  show "pending b x (fst (ReconcileWorkflowLifecycles p n now d))"
    using assms pending_same_queue [of d "fst (ReconcileWorkflowLifecycles p n now d)"] by (simp add: same_queue_def)
  define Q :: "string \<Rightarrow> job \<Rightarrow> bool" where "Q = (\<lambda>w j. in_partition d p w \<and> j_status j \<in> {JDispatched, JRunning} \<and>
    (j_owner j = None \<or> ts_before (j_lease_expires_at j) (now - secs n)))"
  have e: "fst (MarkOrphanedJobsFailed p n now d) = upd_jobs Q (\<lambda>j. j\<lparr>j_status := JFailed\<rparr>) d"
    by (simp add: MarkOrphanedJobsFailed_def Let_def Q_def)
  have "row_fits x k j \<Longrightarrow> Q k j \<Longrightarrow> row_fits x k (j\<lparr>j_status := JFailed\<rparr>)" for k j by (auto simp: row_fits_def Q_def)
  then have "list_all (\<lambda>(k, j). row_fits x k j) t \<Longrightarrow> list_all (\<lambda>(k, j). row_fits x k j) (upd_where Q (\<lambda>_ j. j\<lparr>j_status := JFailed\<rparr>) t)" for t
    by (induction t) (auto simp: upd_where_def)
  then have "list_all (\<lambda>(k, j). row_fits x k j) (upd_where Q (\<lambda>_ j. j\<lparr>j_status := JFailed\<rparr>) (db_jobs d))"
    using assms by (simp add: pending_def)
  moreover have "job_waits x d \<Longrightarrow> job_waits x (upd_jobs Q (\<lambda>j. j\<lparr>j_status := JFailed\<rparr>) d)"
    by (auto simp: job_waits_def row_simps split: option.splits)
  ultimately show "pending b x (fst (MarkOrphanedJobsFailed p n now d))"
    using assms unfolding e by (auto simp: pending_def settled_as_def upd_jobs_def)
  show "pending b x (fst (SweepRequestsInProgress p d))"
    using assms by (auto simp: pending_def settled_as_def job_waits_def SweepRequestsInProgress_def Let_def row_simps split: option.splits)
qed

section \<open>Completing the run itself\<close>

lemma pending_own_completion:
  assumes "pending b x d" "\<not> flt ''CompleteRequest''"
    and "CompleteRequest flt uid (cr_request x) (cr_workflow x) ver rtype (cr_outcome x) reason (cr_result x) now d = (d', r)"
  shows "pending b x d'" "r = Inr v \<Longrightarrow> settled_as x d'"
proof -
  have "pending b x d' \<and> (r = Inr v \<longrightarrow> settled_as x d')"
    using assms(3)
  proof (cases rule: CompleteRequest_phases)
    case (early e)
    then show ?thesis using assms(1) pending_same_queue by simp
  next
    case (finish d2 ls)
    obtain c where c: "req_of d2 (cr_request x) = Some c" "r_workflow_id c = cr_workflow x"
      using assms(1) finish(2) by (auto simp: pending_def same_queue_def split: option.splits)
    let ?d1 = "if flt ''DeleteTerminalJob'' then d2 else fst (DeleteTerminalJob (cr_workflow x) (cr_request x) d2)"
    have q: "db_requests ?d1 = db_requests d2" by simp
    have "set (db_jobs ?d1) \<subseteq> set (db_jobs d)" using finish(2) by (auto simp: DeleteTerminalJob_def Let_def del_where_def same_queue_def)
    then have rows: "list_all (\<lambda>(k, j). row_fits x k j) (db_jobs ?d1)" using assms(1) by (auto simp: pending_def list_all_iff)
    have "d' = fst (request_CompleteRequest (cr_request x) (cr_outcome x) reason (cr_result x) now ?d1)"
      using finish(4) assms(2) by (auto simp: finish_completion_def Let_def split: prod.splits sum.splits)
    then show ?thesis using rows c q
      by (auto simp: pending_def settled_as_def request_CompleteRequest_def case_prod_unfold row_simps)
  qed
  then show "pending b x d'" "r = Inr v \<Longrightarrow> settled_as x d'" by blast+
qed

section \<open>A tick\<close>

definition on_track :: "bool \<Rightarrow> string \<Rightarrow> completed_run \<Rightarrow> db \<Rightarrow> bool" where
  "on_track b p x d = (sys_ok d \<and> in_partition d p (cr_workflow x) \<and> pending b x d)"

lemma on_trackI:
  "on_track b p x d \<Longrightarrow> changes d d' \<Longrightarrow> same_partitions d d' \<Longrightarrow> pending b x d' \<Longrightarrow> on_track b p x d'"
  by (simp add: on_track_def changes_ok same_partitions_def)

lemma on_track_pk: "on_track b p x d \<Longrightarrow> pk (db_jobs d)"
  by (simp add: on_track_def sys_ok_def db_pk_def)

lemma on_track_pending: "on_track b p x d \<Longrightarrow> pending b x d"
  by (simp add: on_track_def)

lemma on_track_other_runs:
  assumes "on_track b p x d" "q \<noteq> cr_request x"
  shows "on_track b p x (fst (CompleteRequest flt uid q k ver rtype oc reason res now d))" "on_track b p x (fst (FailRequest flt q k ver reason n now d))"
proof -
  note o = on_track_pk [OF assms(1)] on_track_pending [OF assms(1)]
  show "on_track b p x (fst (CompleteRequest flt uid q k ver rtype oc reason res now d))"
    using other_runs.complete [OF TrueI, of q x b d flt uid k ver rtype oc reason res now] assms(2) o
    by (intro on_trackI [OF assms(1) ch_complete partitions.complete [OF TrueI]]) (simp add: kept_def)
  show "on_track b p x (fst (FailRequest flt q k ver reason n now d))"
    using other_runs.fail [OF TrueI, of q x b d flt k ver reason n now] assms(2) o
    by (intro on_trackI [OF assms(1) ch_fail partitions.fail [OF TrueI]]) (simp add: kept_def)
qed

text \<open>What the completion sweep reads of the run.\<close>

definition item_fits :: "completed_run \<Rightarrow> completed_job \<Rightarrow> bool" where
  "item_fits x c = (cj_request_id c = cr_request x \<longrightarrow> cj_workflow_id c = cr_workflow x \<and> cj_result_type c = cr_outcome x \<and>
     cj_result c = cr_result x \<and> cj_request_type c \<noteq> THealthCheck)"

lemma scan_all_map: "(\<And>x. x \<in> set xs \<Longrightarrow> f x \<noteq> None) \<Longrightarrow> scan_all (map f xs) = Inr (map (\<lambda>x. the (f x)) xs)"
proof (induction xs)
  case (Cons a xs)
  then obtain y where "f a = Some y" by fastforce
  then show ?case using Cons by simp
qed simp

lemma completed_items:
  assumes "pending b x d"
  obtains js where "GetCompletedJobs p d = Inr js" "\<And>c. c \<in> set js \<Longrightarrow> item_fits x c"
    "in_partition d p (cr_workflow x) \<Longrightarrow> job_waits x d \<Longrightarrow> \<exists>c\<in>set js. cj_request_id c = cr_request x"
proof -
  let ?f = "\<lambda>(w, j). map_option (\<lambda>oc. \<lparr>cj_request_id = j_request_id j, cj_workflow_id = w, cj_version = j_version j,
      cj_request_type = j_job_type j, cj_result_type = oc, cj_failure_reason = j_failure_reason j, cj_result = j_result j\<rparr>) (j_result_type j)"
  let ?rows = "sel_where (\<lambda>w j. in_partition d p w \<and> j_status j = JCompleted) (db_jobs d)"
  have fits: "row_fits x k j" if "(k, j) \<in> set ?rows" for k j using that assms by (auto simp: sel_where_def intro: pending_row)
  have "?f y \<noteq> None" if y: "y \<in> set ?rows" for y
  proof -
    obtain k j where kj: "y = (k, j)" by (cases y)
    then have "row_fits x k j" "j_status j = JCompleted" using y fits by (auto simp: sel_where_def)
    then show ?thesis by (auto simp: kj row_fits_def)
  qed
  then have js: "GetCompletedJobs p d = Inr (map (\<lambda>y. the (?f y)) ?rows)" unfolding GetCompletedJobs_def by (rule scan_all_map)
  show thesis
  proof (rule that [OF js])
    show "item_fits x c" if "c \<in> set (map (\<lambda>y. the (?f y)) ?rows)" for c
      using that fits by (force simp: item_fits_def row_fits_def sel_where_def)
    show "\<exists>c\<in>set (map (\<lambda>y. the (?f y)) ?rows). cj_request_id c = cr_request x" if w: "in_partition d p (cr_workflow x)" "job_waits x d"
    proof -
      obtain j where j: "job_of d (cr_workflow x) = Some j" "j_request_id j = cr_request x" using w(2) by (auto simp: job_waits_def split: option.splits)
      then have "row_fits x (cr_workflow x) j" using pending_row [OF assms map_of_SomeD] by blast
      then have "(cr_workflow x, j) \<in> set ?rows" "cj_request_id (the (?f (cr_workflow x, j))) = cr_request x"
        using j w(1) map_of_SomeD [OF j(1)] by (auto simp: sel_where_def row_fits_def)
      then show ?thesis by force
    qed
  qed
qed

text \<open>The write that settles the request itself does not fail: it is the one that the job row does not outlive.\<close>

definition spares :: "completed_run \<Rightarrow> (string \<Rightarrow> string \<Rightarrow> bool) \<Rightarrow> bool" where
  "spares x flts = (\<not> flts (cr_request x) ''CompleteRequest'')"

text \<open>The sweep handles one item: the run stays on track, and is settled by its own item when nothing fails.\<close>

abbreviation complete_item :: "(string \<Rightarrow> string \<Rightarrow> bool) \<Rightarrow> string \<Rightarrow> timestamp \<Rightarrow> completed_job \<Rightarrow> db \<Rightarrow> db" where
  "complete_item flts uid now c d \<equiv> fst (CompleteRequest (flts (cj_request_id c)) uid (cj_request_id c) (cj_workflow_id c)
     (cj_version c) (cj_request_type c) (cj_result_type c) (cj_failure_reason c) (cj_result c) now d)"

lemma item_on_track:
  assumes "on_track b p x d" "item_fits x c" "spares x flts"
  shows "on_track b p x (complete_item flts uid now c d)"
proof (cases "cj_request_id c = cr_request x")
  case True
  obtain d' r where c: "CompleteRequest (flts (cr_request x)) uid (cr_request x) (cr_workflow x) (cj_version c) (cj_request_type c) (cr_outcome x)
      (cj_failure_reason c) (cr_result x) now d = (d', r)" by fastforce
  have e: "complete_item flts uid now c d = d'" using True assms(2) c by (simp add: item_fits_def)
  have "pending b x d'" using pending_own_completion(1) [OF on_track_pending [OF assms(1)] _ c] assms(3) by (simp add: spares_def)
  then have "on_track b p x (complete_item flts uid now c d)"
    by (intro on_trackI [OF assms(1) ch_complete partitions.complete [OF TrueI]]) (use e in simp)
  then show ?thesis .
qed (use on_track_other_runs(1) [OF assms(1)] in simp)

lemma own_item_settles:
  assumes "on_track False p x d" "item_fits x c" "cj_request_id c = cr_request x" "flts (cr_request x) = no_fault"
  shows "on_track True p x (complete_item flts uid now c d)"
proof (cases "settled_as x d")
  case True
  then have "on_track True p x d" using assms(1) by (simp add: on_track_def pending_settled)
  then show ?thesis using item_on_track assms(2,4) by (simp add: spares_def)
next
  case False
  have o: "sys_ok d" "in_partition d p (cr_workflow x)" "pending False x d" using assms(1) by (simp_all add: on_track_def)
  then obtain j where j: "job_of d (cr_workflow x) = Some j" "j_request_id j = cr_request x"
    using False by (auto simp: pending_def job_waits_def split: option.splits)
  have "row_fits x (cr_workflow x) j" using pending_row [OF o(3) map_of_SomeD [OF j(1)]] .
  then have m: "no_nil (fst (GetJobMetrics (cr_workflow x) (cr_request x) d))" using j by (simp add: GetJobMetrics_def row_fits_def)
  obtain w r where w: "wf_of d (cr_workflow x) = Some w" "req_of d (cr_request x) = Some r"
    using o by (auto simp: in_partition_def pending_def split: option.splits)
  have t: "cj_request_type c \<noteq> THealthCheck" using assms(2,3) by (simp add: item_fits_def)
  obtain d' v where c: "CompleteRequest no_fault uid (cr_request x) (cr_workflow x) (cj_version c) (cj_request_type c) (cr_outcome x)
      (cj_failure_reason c) (cr_result x) now d = (d', Inr v)"
    using completion_succeeds [OF o(1) w m t] by metis
  have e: "complete_item flts uid now c d = d'" using assms(2-4) c by (simp add: item_fits_def)
  have "settled_as x d'" using pending_own_completion(2) [OF o(3) _ c] by simp
  moreover have "on_track False p x d'" using item_on_track [OF assms(1,2), of flts uid now] assms(4) e by (simp add: spares_def)
  ultimately show ?thesis by (simp add: e on_track_def pending_settled)
qed

lemma items_on_track:
  assumes "on_track b p x d" "\<And>c. c \<in> set cs \<Longrightarrow> item_fits x c" "spares x flts"
  shows "on_track b p x (fold (complete_item flts uid now) cs d)"
  using assms(1,2) by (induction cs arbitrary: d) (auto intro: item_on_track [OF _ _ assms(3)])

lemma completions_on_track:
  assumes "on_track b p x d" "spares x flts"
  shows "on_track b p x (completeJobs flt flts uid p' now d)"
proof (rule completed_items [OF on_track_pending [OF assms(1)], of p'])
  fix js assume "GetCompletedJobs p' d = Inr js" "\<And>c. c \<in> set js \<Longrightarrow> item_fits x c"
  then show ?thesis using assms(1) items_on_track [OF assms(1) _ assms(2), of js uid now] by (simp add: completeJobs_def)
qed

lemma completions_settle:
  assumes "on_track False p x d" "flts (cr_request x) = no_fault" "\<not> flt ''GetCompletedJobs''"
  shows "on_track True p x (completeJobs flt flts uid p now d)"
proof (cases "job_waits x d")
  case True
  have o: "pending False x d" "in_partition d p (cr_workflow x)" using assms(1) by (simp_all add: on_track_def)
  obtain js where js: "GetCompletedJobs p d = Inr js" "\<And>c. c \<in> set js \<Longrightarrow> item_fits x c" "\<exists>c\<in>set js. cj_request_id c = cr_request x"
    using completed_items [OF o(1), of p] o(2) True by metis
  then obtain c cs cs' where c: "cj_request_id c = cr_request x" "js = cs @ c # cs'" by (meson split_list)
  have f: "spares x flts" by (simp add: assms(2) spares_def)
  have 1: "on_track False p x (fold (complete_item flts uid now) cs d)" using items_on_track [OF assms(1) _ f] js(2) c(2) by simp
  have 2: "on_track True p x (complete_item flts uid now c (fold (complete_item flts uid now) cs d))"
    using own_item_settles [of p x _ c flts uid now, OF 1 _ c(1) assms(2)] js(2) c(2) by simp
  have "on_track True p x (fold (complete_item flts uid now) js d)" using items_on_track [OF 2 _ f, of cs'] js(2) c(2) by simp
  then show ?thesis using js(1) assms(3) by (simp add: completeJobs_def)
next
  case False
  then have "on_track True p x d" using assms(1) by (auto simp: on_track_def pending_def)
  then show ?thesis using completions_on_track assms(2) by (simp add: spares_def)
qed

lemma task_on_track:
  assumes "on_track b p x d" "spares x flts"
  shows "on_track b p x (run_task flt flts uid grace p' now t d)"
proof (cases t)
  case TickFail
  have other: "fj_request_id f \<noteq> cr_request x" if "f \<in> set (GetFailedJobs p' d)" for f
    using that pending_row [OF on_track_pending [OF assms(1)]] by (force simp: GetFailedJobs_def sel_where_def row_fits_def)
  have "on_track b p x (fold (\<lambda>j d. fst (FailRequest (flts (fj_request_id j)) (fj_request_id j) (fj_workflow_id j) (fj_version j)
      (fj_failure_reason j) (fj_attempts j) now d)) fs d)" if "\<And>f. f \<in> set fs \<Longrightarrow> fj_request_id f \<noteq> cr_request x" for fs :: "failed_job list"
    using that assms(1) by (induction fs arbitrary: d) (auto intro: on_track_other_runs(2))
  then show ?thesis using assms(1) other TickFail by (simp add: failJobs_def)
next
  case TickComplete
  then show ?thesis using completions_on_track [OF assms] by simp
next
  case TickReconcile
  have "same_partitions d (fst (ReconcileWorkflowLifecycles p' blockedAfterSecs now d))"
    by (auto simp: same_partitions_def in_partition_def fun_eq_iff ReconcileWorkflowLifecycles_def apply_projection_def split: option.split)
  then show ?thesis using TickReconcile assms(1) pending_sweeps(1) on_track_pending [OF assms(1)] by (auto intro: on_trackI ch)
next
  case TickOrphans
  have "same_partitions d (fst (MarkOrphanedJobsFailed p' grace now d))"
    by (rule same_partitions_other) (simp add: MarkOrphanedJobsFailed_def Let_def)
  then show ?thesis using TickOrphans assms(1) pending_sweeps(2) on_track_pending [OF assms(1)] by (auto intro: on_trackI ch)
next
  case TickSweep
  have "same_partitions d (fst (SweepRequestsInProgress p' d))"
    by (rule same_partitions_other) (simp add: SweepRequestsInProgress_def Let_def)
  then show ?thesis using TickSweep assms(1) pending_sweeps(3) on_track_pending [OF assms(1)] by (auto intro: on_trackI ch)
qed

lemma tasks_on_track:
  "on_track b p x d \<Longrightarrow> spares x flts \<Longrightarrow> on_track b p x (fold (run_task flt flts uid grace p' now) ts d)"
  by (induction ts arbitrary: d) (auto intro: task_on_track simp del: run_task.simps)

lemma schedule_on_track:
  assumes "on_track b p x d"
  shows "on_track b p x (fst (ScheduleRequest flt q now d))"
proof -
  have "same_partitions d (fst (write_job flt q r w tmo now d))" for r w tmo
  proof -
    let ?u = "UpsertJobAndSchedule q (job_context (r_info r) (GetAllForWorkflow (r_workflow_id r) d))
        (request_type_name (r_type r) @ ''_entry'') tmo (w_current_workflow_version w) (w_current_version w) (effective_mode w) now d"
    obtain d1 y where u: "?u = (d1, y)" by fastforce
    have 1: "db_workflows d1 = db_workflows d" using upsert_workflows u by (metis fst_conv)
    have m: "same_partitions e (MarkWorkflowScheduled k e)" for k e
      by (simp add: MarkWorkflowScheduled_def same_partitions_other same_partitions_upd_wf set_lifecycle_state_def)
    have mm: "same_partitions d (MarkWorkflowScheduled k e)" if "db_workflows e = db_workflows d" for k e
      by (rule same_partitions_trans [OF same_partitions_other [OF that] m])
    show ?thesis using u 1 by (cases y) (auto simp: write_job_def Let_def SupercedeOlderRequests_def mm same_partitions_other)
  qed
  then have "same_partitions d (fst (ScheduleRequest flt q now d))" by (auto simp: ScheduleRequest_def intro: same_partitions_other split: sum.split)
  then show ?thesis using on_trackI [OF assms ch_schedule] pending_schedule [OF on_track_pending [OF assms]] by blast
qed

text \<open>A tick keeps the run on track, and settles it when its calls for the run succeed.\<close>

lemma tick_end_on_track:
  assumes "on_track b p x d"
  shows "on_track b p x (fst (if flt ''Renew'' then (scheduleJobs flt flts p' now d, False) else Renew p' sid lease now (scheduleJobs flt flts p' now d)))"
proof -
  have "on_track b p x (fold (\<lambda>q d. fst (ScheduleRequest (flts q) q now d)) qs d)" for qs
    using assms by (induction qs arbitrary: d) (auto intro: schedule_on_track)
  then have 1: "on_track b p x (scheduleJobs flt flts p' now d)" using assms by (simp add: scheduleJobs_def)
  have r: "on_track b p x (fst (Renew p' sid lease now e))" if "on_track b p x e" for e
  proof -
    have "db_workflows (fst (Renew p' sid lease now e)) = db_workflows e" by (simp add: Renew_def case_prod_unfold)
    moreover have "pending b x (fst (Renew p' sid lease now e))" 
      using that pending_same_queue [of e "fst (Renew p' sid lease now e)" b x] by (simp add: on_track_def same_queue_def)
    ultimately show ?thesis using that lease_change_ok [OF lease_statements(1)] by (auto simp: on_track_def in_partition_def)
  qed
  show ?thesis using 1 r by simp
qed

lemma tick_on_track:
  assumes "on_track b p x d" "spares x flts"
  shows "on_track b p x (fst (partition_tick flt flts uid sid grace lease p' now ts d))"
  using tick_end_on_track [OF tasks_on_track [OF assms]] by (simp add: partition_tick_def Let_def)

lemma tick_settles:
  assumes "on_track False p x d" "flts (cr_request x) = no_fault" "\<not> flt ''GetCompletedJobs''" "TickComplete \<in> set ts"
  shows "on_track True p x (fst (partition_tick flt flts uid sid grace lease p now ts d))"
proof -
  obtain ts1 ts2 where ts: "ts = ts1 @ TickComplete # ts2" using split_list [OF assms(4)] by blast
  have f: "spares x flts" by (simp add: spares_def assms(2))
  have 1: "on_track False p x (fold (run_task flt flts uid grace p now) ts1 d)" by (rule tasks_on_track [OF assms(1) f])
  have "on_track True p x (fold (run_task flt flts uid grace p now) ts d)"
    using tasks_on_track [OF completions_settle [of p x _ flts flt, OF 1 assms(2,3)] f] by (simp add: ts)
  from tick_end_on_track [OF this] show ?thesis by (simp add: partition_tick_def Let_def)
qed

section \<open>Properties\<close>

text \<open>A completed job of partition \<open>p\<close> whose request is not settled yet, and the readable state of the others.\<close>

definition awaits_settlement :: "string \<Rightarrow> completed_run \<Rightarrow> db \<Rightarrow> bool" where
  "awaits_settlement p x d = (sys_ok d \<and> in_partition d p (cr_workflow x) \<and> list_all (\<lambda>(k, j). row_fits x k j) (db_jobs d) \<and>
     job_waits x d \<and> (case req_of d (cr_request x) of None \<Rightarrow> False
       | Some r \<Rightarrow> r_workflow_id r = cr_workflow x \<and> r_status r \<in> {RScheduled, RInProgress}))"

lemma awaits_on_track: "awaits_settlement p x d \<Longrightarrow> on_track False p x d"
  by (auto simp: awaits_settlement_def on_track_def pending_def split: option.splits)

definition tick_succeeds :: "completed_run \<Rightarrow> tick \<Rightarrow> bool" where
  "tick_succeeds x t = (tk_item_faults t (cr_request x) = no_fault \<and> \<not> tk_faults t ''GetCompletedJobs'' \<and> TickComplete \<in> set (tk_order t))"

lemma ticks_on_track:
  assumes "on_track b p x d" "\<And>t. t \<in> set ts \<Longrightarrow> spares x (tk_item_faults t)"
  shows "on_track b p x (run_ticks uid sid grace lease p ts d)"
  using assms by (induction ts arbitrary: d) (auto intro: tick_on_track)

lemma ticks_settle:
  assumes "on_track False p x d" "\<And>t. t \<in> set ts \<Longrightarrow> spares x (tk_item_faults t)" "t \<in> set ts" "tick_succeeds x t"
  shows "on_track True p x (run_ticks uid sid grace lease p ts d)"
  using assms(1-3)
proof (induction ts arbitrary: d)
  case (Cons u us)
  let ?d = "fst (partition_tick (tk_faults u) (tk_item_faults u) uid sid grace lease p (tk_now u) (tk_order u) d)"
  show ?case
  proof (cases "u = t")
    case True
    then have "on_track True p x ?d" using tick_settles [OF Cons.prems(1), of "tk_item_faults u" "tk_faults u" "tk_order u"] assms(4)
      by (simp add: tick_succeeds_def)
    then show ?thesis using ticks_on_track Cons.prems(2) by simp
  next
    case False
    have "on_track False p x ?d" using tick_on_track [OF Cons.prems(1)] Cons.prems(2) by simp
    then show ?thesis using Cons.IH Cons.prems False by simp
  qed
qed simp

text \<open>C6. A finished run is settled in the end: once the job of a run is completed, however many ticks of its partition fail in whatever calls
  (the write that settles the request excepted), whatever the other runs do and in whatever order the sweeps run, the first
  tick whose calls for this run succeed completes its request with the outcome and the result of the job, and no later
  tick changes them.\<close>

theorem finished_run_is_settled_after_faults:
  assumes "awaits_settlement p x d" "\<forall>t\<in>set ts. spares x (tk_item_faults t)" "\<exists>t\<in>set ts. tick_succeeds x t"
  shows "settled_as x (run_ticks uid sid grace lease p ts d)"
proof -
  obtain t where "t \<in> set ts" "tick_succeeds x t" using assms(3) by blast
  then have "on_track True p x (run_ticks uid sid grace lease p ts d)"
    using ticks_settle [OF awaits_on_track [OF assms(1)]] assms(2) by blast
  then show ?thesis by (simp add: on_track_def pending_def)
qed

text \<open>A tick in which the metrics of the run cannot be written, then one in which everything works.\<close>

definition lost_tick :: tick where
  "lost_tick = \<lparr>tk_faults = (\<lambda>c. c = ''Renew''), tk_item_faults = (\<lambda>_ c. c = ''Get''), tk_now = 9, tk_order = [TickComplete, TickFail]\<rparr>"

definition good_tick :: tick where
  "good_tick = \<lparr>tk_faults = no_fault, tk_item_faults = (\<lambda>_. no_fault), tk_now = 12, tk_order = [TickFail, TickSweep, TickComplete]\<rparr>"

definition finished_r1 :: completed_run where
  "finished_r1 = \<lparr>cr_request = ''r1'', cr_workflow = ''w'', cr_outcome = Successful, cr_result = None\<rparr>"

definition unsettled_run :: db where
  "unsettled_run = (sy_db waiting_run)\<lparr>db_requests := [(''r1'', sample_req RInProgress 1)],
     db_jobs := [(''w'', (sample_job JCompleted None None)\<lparr>j_result_type := Some Successful\<rparr>)]\<rparr>"

theorem finished_run_is_settled_after_faults_witness:
  "settled_as finished_r1 (run_ticks ''u'' ''s'' 30 60 ''0'' [lost_tick, good_tick] unsettled_run) \<and>
   \<not> settled_as finished_r1 (run_ticks ''u'' ''s'' 30 60 ''0'' [lost_tick] unsettled_run)"
proof -
  have "awaits_settlement ''0'' finished_r1 unsettled_run"
    by (simp add: awaits_settlement_def sys_ok_def refs_ok_def jobs_tagged_def owner_group_def owner_tab_def has_wf_def has_tenant_def has_group_def
        policy_ok_def tenant_ok_def rows_all_def db_pk_def pk_def keys_def in_partition_def job_waits_def row_fits_def no_nil_def unsettled_run_def waiting_run_def
        finished_r1_def sample_row_defs)
  moreover have "\<forall>t\<in>set [lost_tick, good_tick]. spares finished_r1 (tk_item_faults t)" by (simp add: spares_def lost_tick_def good_tick_def)
  moreover have "\<exists>t\<in>set [lost_tick, good_tick]. tick_succeeds finished_r1 t" by (simp add: tick_succeeds_def good_tick_def)
  moreover have "\<not> settled_as finished_r1 (run_ticks ''u'' ''s'' 30 60 ''0'' [lost_tick] unsettled_run)" by code_simp
  ultimately show ?thesis using finished_run_is_settled_after_faults by blast
qed

end
