(* ===== verification/Deletion.thy ===== *)
theory Deletion
  imports ServedRun
begin

text \<open>
  The count of live workflows that each tenant row carries. The statements that create, finalise and remove rows keep it exact,
  so that a tenant is deleted only when none of its workflows lives; it rests on finalised workflows staying
  finalised, and an interruption that is acknowledged while a deletion is pending breaks that.
\<close>

section \<open>Counting the live workflows of a tenant\<close>

definition lives_in :: "string \<Rightarrow> workflow \<Rightarrow> bool" where
  "lives_in t w = (w_tenant_id w = t \<and> w_lifecycle_state w \<noteq> LDeleted)"

fun live :: "string \<Rightarrow> (string, workflow) table \<Rightarrow> int" where
  "live t [] = 0"
| "live t ((k, w) # ws) = (if lives_in t w then 1 else 0) + live t ws"

lemma live_append [simp]: "live t (ws @ [(k, w)]) = live t ws + (if lives_in t w then 1 else 0)"
  by (induction t ws rule: live.induct) auto

lemma live_nonneg: "0 \<le> live t ws"
  by (induction t ws rule: live.induct) auto

lemma live_zero: "live t ws = 0 \<longleftrightarrow> (\<forall>(k, w)\<in>set ws. \<not> lives_in t w)"
  using live_nonneg by (induction t ws rule: live.induct) (auto simp: add_nonneg_eq_0_iff)

lemma live_update:
  "pk ws \<Longrightarrow> map_of ws i = Some w \<Longrightarrow>
   live t (AList.update i w' ws) = live t ws - (if lives_in t w then 1 else 0) + (if lives_in t w' then 1 else 0)"
  by (induction t ws rule: live.induct) (auto simp: pk_def keys_def split: if_splits)

lemma live_del:
  "pk ws \<Longrightarrow> map_of ws i = Some w \<Longrightarrow> live t (del_where (\<lambda>k _. k = i) ws) = live t ws - (if lives_in t w then 1 else 0)"
proof (induction t ws rule: live.induct)
  case (2 t k v ws)
  have "del_where (\<lambda>k _. k = i) ws = ws" if "i \<notin> fst ` set ws" using that by (force simp: del_where_def filter_id_conv)
  then show ?case using 2 by (auto simp: pk_def keys_def del_where_def split: if_splits)
qed (simp add: del_where_def)

lemma live_upd_row:
  assumes "pk ws" "\<And>w. P w \<Longrightarrow> w_tenant_id (f w) = w_tenant_id w \<and> (w_lifecycle_state (f w) = LDeleted \<longleftrightarrow> w_lifecycle_state w = LDeleted)"
  shows "live t (fst (upd_row i P f ws)) = live t ws"
proof (cases "map_of ws i")
  case (Some w)
  have "P w \<Longrightarrow> lives_in t (f w) = lives_in t w" using assms(2) by (simp add: lives_in_def)
  then show ?thesis using live_update [OF assms(1) Some, of t "f w"] by (simp add: upd_row_def Some)
qed (simp add: upd_row_def)

text \<open>Every tenant row counts its live workflows, and every workflow has its tenant.\<close>

definition counted :: "db \<Rightarrow> bool" where
  "counted d = (pk (db_tenants d) \<and> pk (db_workflows d) \<and> rows_all (\<lambda>w. has_tenant d (w_tenant_id w)) (db_workflows d) \<and>
     (\<forall>(i, t)\<in>set (db_tenants d). t_workflow_count t = live i (db_workflows d)))"

lemma countedD: "counted d \<Longrightarrow> map_of (db_tenants d) i = Some t \<Longrightarrow> t_workflow_count t = live i (db_workflows d)"
  by (auto simp: counted_def dest!: map_of_SomeD)

lemma counted_iff:
  "counted d \<longleftrightarrow> pk (db_tenants d) \<and> pk (db_workflows d) \<and> rows_all (\<lambda>w. has_tenant d (w_tenant_id w)) (db_workflows d) \<and>
     (\<forall>i t. map_of (db_tenants d) i = Some t \<longrightarrow> t_workflow_count t = live i (db_workflows d))"
  by (auto simp: counted_def pk_def keys_def dest: map_of_SomeD)

section \<open>The statements that count\<close>

inductive count_step :: "db \<Rightarrow> db \<Rightarrow> bool" where
  new_tenant: "count_step d (fst (tenant_Create i t d))"
| new_workflow: "w_lifecycle_state w \<noteq> LDeleted \<Longrightarrow> count_step d (fst (workflow_Create i w now d))"
| finalize: "count_step d (FinalizeDeleted i now d)"
| purge_workflow: "count_step d (fst (PurgeDeleted i d))"
| delete_tenant: "count_step d (fst (MarkDeleted i now d))"
| purge_tenant: "count_step d (fst (PurgeIfEmpty i d))"
| workflow_write: "(\<And>w. P w \<Longrightarrow> w_tenant_id (f w) = w_tenant_id w \<and> (w_lifecycle_state (f w) = LDeleted \<longleftrightarrow> w_lifecycle_state w = LDeleted)) \<Longrightarrow>
    count_step d (fst (upd_wf i P f d))"

lemma finalized_rows:
  assumes "wf_of d i = Some w" "w_lifecycle_state w \<noteq> LDeleted"
  shows "FinalizeDeleted i now d = d\<lparr>db_workflows := AList.update i ((set_lifecycle_state LDeleted w)\<lparr>w_deletion_finalized_at := Some now\<rparr>) (db_workflows d),
    db_tenants := fst (upd_row (w_tenant_id w) (\<lambda>t. t_workflow_count t > 0) (\<lambda>t. t\<lparr>t_workflow_count := t_workflow_count t - 1\<rparr>) (db_tenants d))\<rparr>"
proof -
  have "fst (upd_wf i (\<lambda>_. True) (\<lambda>w. (set_lifecycle_state LDeleted w)\<lparr>w_deletion_finalized_at := Some now\<rparr>) d) =
      d\<lparr>db_workflows := AList.update i ((set_lifecycle_state LDeleted w)\<lparr>w_deletion_finalized_at := Some now\<rparr>) (db_workflows d)\<rparr>"
    using assms(1) by (simp add: upd_wf_def upd_row_def)
  then show ?thesis using assms by (simp add: FinalizeDeleted_def Let_def)
qed

lemma counted_finalize:
  assumes "counted d"
  shows "counted (FinalizeDeleted i now d)"
proof (cases "wf_of d i")
  case (Some w)
  note c = assms [unfolded counted_iff]
  show ?thesis
  proof (cases "w_lifecycle_state w = LDeleted")
    case False
    let ?w = "(set_lifecycle_state LDeleted w)\<lparr>w_deletion_finalized_at := Some now\<rparr>"
    have l: "live k (AList.update i ?w (db_workflows d)) = live k (db_workflows d) - (if k = w_tenant_id w then 1 else 0)" for k
      using live_update [of "db_workflows d" i w k ?w] c Some False by (simp add: lives_in_def set_lifecycle_state_def)
    have "live (w_tenant_id w) (db_workflows d) \<noteq> 0" using map_of_SomeD [OF Some] False by (auto simp: live_zero lives_in_def)
    then have pos: "0 < live (w_tenant_id w) (db_workflows d)" using live_nonneg [of "w_tenant_id w" "db_workflows d"] by simp
    have refs: "rows_all (\<lambda>w. has_tenant d (w_tenant_id w)) (AList.update i ?w (db_workflows d))"
      using c rows_all_lookup Some by (fastforce simp: set_lifecycle_state_def intro!: rows_all_update)
    note e = finalized_rows [OF Some False, of now]
    let ?ts = "fst (upd_row (w_tenant_id w) (\<lambda>t. t_workflow_count t > 0) (\<lambda>t. t\<lparr>t_workflow_count := t_workflow_count t - 1\<rparr>) (db_tenants d))"
    have ht: "has_tenant (d\<lparr>db_workflows := AList.update i ?w (db_workflows d), db_tenants := ?ts\<rparr>) = has_tenant d"
      by (simp add: has_tenant_def row_lookup_None fun_eq_iff)
    have count: "t_workflow_count t = live k (AList.update i ?w (db_workflows d))" if t: "map_of ?ts k = Some t" for k t
    proof (cases "k = w_tenant_id w")
      case True
      then obtain t0 where t0: "map_of (db_tenants d) k = Some t0" "t = (if t_workflow_count t0 > 0 then t0\<lparr>t_workflow_count := t_workflow_count t0 - 1\<rparr> else t0)"
        using t by (auto simp: map_of_upd_row)
      have "t_workflow_count t0 = live k (db_workflows d)" using c t0(1) by blast
      then show ?thesis using l pos t0(2) True by simp
    qed (use t c l in \<open>simp add: map_of_upd_row\<close>)
    show ?thesis unfolding e counted_iff
    proof (intro conjI allI impI)
      show "rows_all (\<lambda>x. has_tenant (d\<lparr>db_workflows := AList.update i ?w (db_workflows d), db_tenants := ?ts\<rparr>) (w_tenant_id x))
          (db_workflows (d\<lparr>db_workflows := AList.update i ?w (db_workflows d), db_tenants := ?ts\<rparr>))"
        unfolding ht using refs by simp
      show "t_workflow_count t = live k (db_workflows (d\<lparr>db_workflows := AList.update i ?w (db_workflows d), db_tenants := ?ts\<rparr>))"
        if "map_of (db_tenants (d\<lparr>db_workflows := AList.update i ?w (db_workflows d), db_tenants := ?ts\<rparr>)) k = Some t" for k t
      proof -
        have "map_of ?ts k = Some t" using that by simp
        from count [OF this] show ?thesis by simp
      qed
    qed (use conjunct1 [OF c] conjunct1 [OF conjunct2 [OF c]] in simp_all)
  qed (use assms Some in \<open>simp add: FinalizeDeleted_def\<close>)
qed (use assms in \<open>simp add: FinalizeDeleted_def\<close>)

lemma counted_create_workflow:
  assumes "counted d" "w_lifecycle_state w \<noteq> LDeleted"
  shows "counted (fst (workflow_Create i w now d))"
proof (cases "\<exists>t. map_of (db_tenants d) (w_tenant_id w) = Some t \<and> t_deleted_at t = None \<and> wf_of d i = None")
  case True
  note c = assms(1) [unfolded counted_iff]
  obtain t where t: "map_of (db_tenants d) (w_tenant_id w) = Some t" "t_deleted_at t = None" "wf_of d i = None" using True by blast
  obtain v where v: "fst (workflow_Create i w now d) = d\<lparr>db_tenants := AList.update (w_tenant_id w) (t\<lparr>t_workflow_count := t_workflow_count t + 1\<rparr>) (db_tenants d),
      db_workflows := db_workflows d @ [(i, v)]\<rparr>" "w_tenant_id v = w_tenant_id w" "w_lifecycle_state v = w_lifecycle_state w"
    using t by (simp add: workflow_Create_def Let_def)
  have "rows_all (\<lambda>x. has_tenant (d\<lparr>db_tenants := AList.update (w_tenant_id w) y (db_tenants d)\<rparr>) (w_tenant_id x)) (db_workflows d)" for y
    using c by (auto simp: has_tenant_def update_conv elim!: rows_all_mono)
  then show ?thesis unfolding v(1) counted_iff using c t v(2,3) assms(2)
    by (auto simp: has_tenant_def update_conv lives_in_def split: if_splits)
next
  case False
  then show ?thesis using assms(1) by (auto simp: workflow_Create_def split: option.splits)
qed

lemma counted_step: "count_step d d' \<Longrightarrow> counted d \<Longrightarrow> counted d'"
proof (induction rule: count_step.induct)
  case (new_tenant d i t)
  have "live i (db_workflows d) = 0" if "map_of (db_tenants d) i = None"
    using that new_tenant by (force simp: counted_iff live_zero lives_in_def rows_all_def list_all_iff has_tenant_def)
  then show ?case using new_tenant
    by (auto simp: tenant_Create_def counted_iff has_tenant_def map_add_Some_iff elim!: rows_all_mono)
next
  case (new_workflow w d i now)
  then show ?case by (simp add: counted_create_workflow)
next
  case (finalize d i now)
  then show ?case by (rule counted_finalize)
next
  case (purge_workflow d i)
  show ?case
  proof (cases "wf_of d i")
    case (Some w)
    show ?thesis using purge_workflow Some live_del [of "db_workflows d" i w]
      by (auto simp: PurgeDeleted_def counted_iff lives_in_def has_tenant_def rows_all_del_where)
  qed (use purge_workflow in \<open>simp add: PurgeDeleted_def\<close>)
next
  case (delete_tenant d i now)
  then show ?case by (auto simp: MarkDeleted_def counted_iff has_tenant_def row_lookup_None map_of_upd_row case_prod_unfold split: if_splits)
next
  case (purge_tenant d i)
  let ?Q = "\<lambda>k t. k = i \<and> t_deleted_at t \<noteq> None \<and> \<not> exists_row (\<lambda>_ w. w_tenant_id w = i) (db_workflows d)"
  have "map_of (del_where ?Q (db_tenants d)) k = map_of (db_tenants d) k" if "(n, w) \<in> set (db_workflows d)" "k = w_tenant_id w" for n w k
    using that by (intro map_of_del_keep) (auto simp: exists_row_def list_ex_iff)
  then have "rows_all (\<lambda>w. has_tenant (d\<lparr>db_tenants := del_where ?Q (db_tenants d)\<rparr>) (w_tenant_id w)) (db_workflows d)"
    using purge_tenant by (auto simp: counted_iff has_tenant_def elim!: rows_all_mono)
  moreover have "\<forall>(k, t)\<in>set (del_where ?Q (db_tenants d)). t_workflow_count t = live k (db_workflows d)"
    using purge_tenant by (auto simp: counted_def del_where_def)
  ultimately show ?case using purge_tenant by (simp add: PurgeIfEmpty_def Let_def counted_def)
next
  case (workflow_write P f d i)
  have "rows_all (\<lambda>w. has_tenant d (w_tenant_id w)) (fst (upd_row i P f (db_workflows d)))"
    using workflow_write by (auto simp: counted_def intro!: rows_all_upd_row)
  then show ?case using workflow_write live_upd_row [of "db_workflows d" P f]
    by (simp add: counted_def upd_wf_def case_prod_unfold has_tenant_def)
qed

text \<open>The statements of the scheduler and of the services that write a workflow without moving it into or out of the deleted state.\<close>

lemma counting_statements:
  "count_step d (fst (MarkDeletionRequested i now d))" "count_step d (fst (TryActivateWorkflow i rid d))"
  "count_step d (fst (TryApplyStateResolution i v ws cd rid d))" "count_step d (fst (ResolveInterruptedWorkflow i rid d))"
  "job_of d i \<noteq> None \<Longrightarrow> count_step d (MarkWorkflowScheduled i d)" "job_of d i \<noteq> None \<Longrightarrow> count_step d (MarkWorkflowInvoking i d)"
  by (auto simp: MarkDeletionRequested_def TryActivateWorkflow_def TryApplyStateResolution_def ResolveInterruptedWorkflow_def
      MarkWorkflowScheduled_def MarkWorkflowInvoking_def set_lifecycle_state_def protected_state_def case_prod_unfold intro!: workflow_write)

section \<open>Properties\<close>

text \<open>C29. The tenant rows count exactly: over any sequence of creations, finalised deletions and purges of tenants and workflows, and of
  writes that leave deleted workflows deleted, every tenant carries the number of its live workflows, and its deletion is
  accepted only when all of them are gone.\<close>

theorem tenants_count_live_workflows:
  assumes "count_step\<^sup>*\<^sup>* d d'" "counted d" "map_of (db_tenants d') i = Some t"
  shows "t_workflow_count t = live i (db_workflows d') \<and>
    (snd (MarkDeleted i now d') = Inr () \<longrightarrow> (\<forall>(k, w)\<in>set (db_workflows d'). w_tenant_id w = i \<longrightarrow> w_lifecycle_state w = LDeleted))"
proof -
  have c: "counted d'" using assms(1,2) by (induction rule: rtranclp_induct) (auto intro: counted_step)
  have n: "t_workflow_count t = live i (db_workflows d')" by (rule countedD [OF c assms(3)])
  have "live i (db_workflows d') = 0" if "snd (MarkDeleted i now d') = Inr ()"
    using that n assms(3) by (auto simp: MarkDeleted_def upd_row_def split: if_splits)
  then show ?thesis using n live_zero [of i "db_workflows d'"] by (auto simp: lives_in_def)
qed

text \<open>One tenant with two workflows; the run of the first has failed and is about to be torn down.\<close>

definition two_workflows :: db where
  "two_workflows = (sample_db RInProgress (sample_job JFailed None None))
     \<lparr>db_groups := [(''g'', \<lparr>tg_name = ''g'', tg_policies = sample_policies, tg_created_at = 0\<rparr>)],
      db_tenants := [(''t'', sample_tenant\<lparr>t_workflow_count := 2\<rparr>)],
      db_workflows := [(''w'', sample_wf), (''v'', sample_wf)]\<rparr>"

theorem tenants_count_live_workflows_witness:
  "map_option t_workflow_count (map_of (db_tenants (FinalizeDeleted ''v'' 9 two_workflows)) ''t'') = Some (live ''t'' (db_workflows (FinalizeDeleted ''v'' 9 two_workflows)))"
proof -
  let ?d = "FinalizeDeleted ''v'' 9 two_workflows"
  have s: "count_step\<^sup>*\<^sup>* two_workflows ?d" by (intro r_into_rtranclp count_step.finalize)
  have c: "counted two_workflows"
    by (simp add: counted_def pk_def keys_def rows_all_def has_tenant_def lives_in_def two_workflows_def sample_row_defs)
  obtain t where t: "map_of (db_tenants ?d) ''t'' = Some t"
    by (simp add: FinalizeDeleted_def Let_def upd_wf_def upd_row_def two_workflows_def sample_row_defs)
  show ?thesis using tenants_count_live_workflows [OF s c t, of 0] t by simp
qed

section \<open>A deletion that is undone\<close>

text \<open>
  Workflow \<open>w\<close> is deleted while its run is in progress; the run fails and the user acknowledges the interruption, which makes
  the workflow active again; the sweep finalises the deletion, and the workflow, still active, accepts and completes
  another run, which takes it out of the deleted state; the next sweep finalises it once more.
\<close>

definition acknowledged_deletion :: db where
  "acknowledged_deletion = fst (service_ResolveInterruptedWorkflow no_fault ''w'' ''r1''
     (fst (FailRequest no_fault ''r1'' ''w'' 1 [] 0 6 (fst (DeleteWorkflow no_fault ''w'' 5 two_workflows)))))"

definition finalized_once :: db where
  "finalized_once = deletion_sweep no_fault (\<lambda>_. no_fault) ''0'' 8 acknowledged_deletion"

definition one_operation :: served_op where
  "one_operation = \<lparr>so_worker = sample_worker, so_caps = [(''T'', 1)], so_ack = sample_report 1, so_result = completed_with None, so_times = (10, 11, 12)\<rparr>"

definition finalized_twice :: db where
  "finalized_twice = deletion_sweep no_fault (\<lambda>_. no_fault) ''0'' 14
     (serve_op ''r2'' one_operation (fst (InvokeWorkflow no_fault no_fault ''r2'' ''c'' ''w'' 60 [] 9 finalized_once)))"

text \<open>The tenant is charged twice for one deletion: its count says 0 while its other workflow lives, and its deletion is accepted.\<close>

theorem acknowledged_deletion_miscounts:
  "map_option w_lifecycle_state (wf_of finalized_once ''w'') = Some LDeleted \<and>
   snd (InvokeWorkflow no_fault no_fault ''r2'' ''c'' ''w'' 60 [] 9 finalized_once) = Inr ''r2'' \<and>
   map_option t_workflow_count (map_of (db_tenants finalized_twice) ''t'') = Some 0 \<and> live ''t'' (db_workflows finalized_twice) = 1 \<and>
   snd (DeleteTenant no_fault ''t'' 20 finalized_twice) = Inr ()"
  by (intro conjI) code_simp+

end
