(* ===== verification/Spec2Isabelle.thy ===== *)
theory Spec2Isabelle
  imports Admission Startup RunHistory WorkerIsolation Recovery Deletion
begin

text \<open>
  BoundFlow is a control plane for agentic workflows: clients invoke workflows over gRPC, a scheduler
  turns queued requests into jobs, workers stream operations to the customer's SDK and report back, and
  lifecycle policies pause, cool down or roll back a workflow from the metrics of its runs. All shared
  state is a Postgres database; the processes (server, scheduler, worker) only meet there. The development
  models that state, every repository statement on it, and the Go code that calls them.

  \<^bold>\<open>The parts and their theories\<close> (paths are under \<open>src/internal\<close>):

  \<^item> \<open>Prelude\<close>: tables as association lists with the SQL statements on them (\<open>upd_row\<close>, \<open>upd_where\<close>,
    \<open>del_where\<close>, \<open>sel_keys\<close>), primary keys (\<open>pk\<close>), JSON values, \<open>int32\<close> wrap-around, the errors of
    \<open>storage/errors.go\<close> and of the services, and the result type \<open>error + 'a\<close>.
  \<^item> \<open>Domain\<close>: the types of \<open>domain/*.go\<close>, one record or datatype each.
  \<^item> \<open>Database\<close>: the schema of \<open>src/migrations\<close> as one record of tables, with lookup lemmas for updated rows. The rows the
    migrations insert are \<open>migrated_db\<close> of \<open>System\<close>.
  \<^item> \<open>PolicyEngine\<close>: \<open>lifecyclepolicy/engine.go\<close>. \<open>ResolvePolicy\<close> with its loop, windows and totals, shown
    equal to a declarative choice of the first fired rule of highest priority.
  \<^item> \<open>Leases\<close>, \<open>VersionGate\<close>: the two interfaces the code relies on again and again, as locales: a lease that
    excludes others while it is renewed in time, and a write gated by a version column that takes effect at
    most once per version. Job and partition leases interpret the first; ending a run, resolving its policy and
    emitting its metrics interpret the second.
  \<^item> \<open>JobRepo\<close>, \<open>PartitionRepo\<close>, \<open>SchedulerRepo\<close>, \<open>WorkflowRepo\<close>, \<open>RequestRepo\<close>, \<open>ResolverRepo\<close>, \<open>TenantRepo\<close>:
    the repositories of \<open>storage/postgres\<close>. \<open>ResolverRepo\<close> holds lifecycle_resolver.go, agent_state.go,
    version_metrics.go, metrics.go and audit.go; \<open>TenantRepo\<close> holds tenant.go, tenant_group.go, api_key.go,
    model_pricing.go, \<open>pricing/defaults.go\<close> and \<open>service/registration.go\<close>; \<open>PartitionRepo\<close> also has
    \<open>partitionForID\<close> with the FNV-1a hash on 32-bit words.
  \<^item> \<open>MetricsModel\<close>: \<open>metrics/metricshandler.go\<close>, merging reports and promoting a finished run's metrics.
  \<^item> \<open>SchedulerCore\<close>: \<open>scheduler/scheduler.go\<close> and \<open>ResolveLifecyclePolicy\<close> of \<open>scheduler/lifecycleresolver.go\<close>:
    \<open>CompleteRequest\<close>, \<open>FailRequest\<close>, \<open>ScheduleRequest\<close> and one tick of a partition.
  \<^item> \<open>SchedulerTick\<close>: invariants over any sequence of ticks, through a locale over the tick's parts.
  \<^item> \<open>LifecycleService\<close>: \<open>service/lifecycle.go\<close>, every call of the customer-facing service. \<open>Admission\<close>: its invocations
    in two phases, the check of the backlog and the insert, interleaved by any number of callers.
  \<^item> \<open>Reconcilers\<close>: the other partition workers of \<open>scheduler/\<close>: gate timeouts, abandoned jobs, cooldowns,
    deletion, suspension, purges and periodic workflows.
  \<^item> \<open>Convert\<close>, \<open>Views\<close>: the conversions of \<open>convert/\<close>: policies, configs and prices in both directions, and the views
    of workflows, runs, agents, audit events, tenants and groups.
  \<^item> \<open>Auth\<close>: \<open>auth/\<close> with SHA-256 and the encodings written out, and the provisioning of keys in \<open>src/cmd/boundflow\<close>.
  \<^item> \<open>Handlers\<close>: \<open>server/handlers\<close> and \<open>server/server.go\<close>: every gRPC handler, its checks and its status codes; \<open>serve\<close>
    is one call through the interceptor. \<open>Isolation\<close>: what a caller can change and see of other tenant groups.
    \<open>WorkerIsolation\<close>: the same for the writes of a worker session, over any sequence of its events.
  \<^item> \<open>Worker\<close>, \<open>WorkerSession\<close>: \<open>rpcworker/rpcworker.go\<close>, the session state machine with its lease goroutines, and
    what it guarantees.
  \<^item> \<open>System\<close>: the composition. \<open>sys_step\<close> is one step of any process (an API call, a session event, a tick, a sweep, a
    command); \<open>row_change\<close> lists the row changes a statement can make, every operation of every component is shown to be
    a sequence of them or a purge (\<open>purge_change\<close>), and the well-formedness \<open>sys_ok\<close> of the database follows for all states
    reachable from the migrated database.
  \<^item> \<open>RunEnds\<close>: the statements with which runs and operations end, as two locales over a relation on databases: what every
    single statement keeps, \<open>CompleteRequest\<close>, \<open>FailRequest\<close> and the operations of a session keep. \<open>System\<close> (row changes),
    \<open>WorkerIsolation\<close> (rows of other groups) and \<open>Recovery\<close> (runs that wait) interpret them.
  \<^item> \<open>RunHistory\<close>: the life of a request and of the versions of a workflow over the whole system: until a request is
    purged its row changes only along \<open>request_move\<close>, and the numbering of runs is an invariant.
  \<^item> \<open>SchedulerLoop\<close>: \<open>Run\<close> and \<open>runPartition\<close> of \<open>scheduler/scheduler.go\<close>, the \<open>Run\<close> of every partition worker, and any
    number of such loops over one database (\<open>fleet_step\<close>).
  \<^item> \<open>Robustness\<close>, \<open>ServedRun\<close>, \<open>Startup\<close>: what the API survives and how a failing run ends; an invocation followed through
    all components to its settled request; configuration, the modes of \<open>src/cmd/boundflow/main.go\<close> and the gRPC servers they
    start.
  \<^item> \<open>Recovery\<close>, \<open>Deletion\<close>: a completed run whose calls fail for a while is settled by a later tick; the count of live
    workflows on each tenant row, and how an acknowledged interruption breaks it.

  \<^bold>\<open>How the code is modelled.\<close> A repository method is one SQL statement or one transaction and so one atomic
  function \<open>db \<Rightarrow> db \<times> result\<close>, its WHERE clause the guard of the update; the database clock is the argument
  \<open>now\<close>. Code above the repositories takes an oracle \<open>flt\<close>: when \<open>flt\<close> holds of the name of a call, that call
  fails with \<open>DbError\<close> and has no effect, so that theorems for every \<open>flt\<close> cover every pattern of failures between
  calls. The theorems about
  sequences (ticks, writers, lease events, session events) quantify over those sequences, at the grain of the step they name:
  the relations of \<open>JobRepo\<close>, \<open>PartitionRepo\<close> and \<open>VersionGate\<close> interleave single statements, \<open>sys_step\<close> runs one API
  call, session event, tick or sweep to its end before the next begins, although in the code their statements may
  interleave. The invariants over \<open>sys_step\<close> are proved statement by statement (each is a \<open>row_change\<close> that keeps
  them); the functional theorems about a whole call (that it completes, lands or restores something) take the call as one
  step. The check of the queue's backlog, which another call can overtake, is
  stated in two phases in \<open>Admission\<close>. Ids drawn by the code
  or the database are arguments. Goroutines of one sweep run in the order of the list they are started from, and
  the five goroutines of a tick in the order of the argument \<open>ts\<close>. A nil dereference, a failed type assertion
  and a bad ticker period are the value \<open>Panic\<close>, which a handler turns into \<open>Crashed\<close>, or the state \<open>SessionCrashed\<close>.
  Timestamp, Duration and Struct messages are the values they hold, an absent message \<open>None\<close>.

  \<^bold>\<open>What the theorems show.\<close> Across components: every reachable database is well formed (keys, references, jobs tagged
  with the group of their workflow, stored tenant counts); no call of one tenant group changes rows of another, what a call answers depends
  on the caller's own data and the shared prices only, and a foreign workflow is answered like an absent one (a lookup by request
  id excepted, a finding); a worker is sent only operations of workflows of the group it
  authenticated for; a server that started never panics on a call; a run that keeps failing ends after at most
  \<open>maxJobAttempts + 1\<close> attempts; an invoked run whose operations are served completes and settles its request;
  a completed run is settled once its
  calls succeed again; requests follow
  one state machine until they are purged, are numbered once and never reopened; no two schedulers own a partition at once. Per component: leases exclude and fence stale owners; a job slot is handed over only
  from an older run that is pending without an attempt; each run ends once, its metrics are stored and its policy decision lands once; the request
  is marked terminal only after version, metrics and policy have landed; a
  failed run is retried at most 20 times and else interrupts the workflow; invocations are all or nothing and the
  backlog of a queue is bounded by its cap plus the invocations in flight; suspension and resumption restore the queue; deletions wait for the run and purges remove
  only what is due; tenants count their live workflows as long as deleted ones stay deleted; a provisioned key authenticates until it is revoked;
  the engine picks the right rule.
  Some lemmas record behaviour that differs from what the code or its comments intend: they are listed
  as findings beside the development.

  \<^bold>\<open>Termination and bounds.\<close> Every function is total by structural recursion over the rows, rules, agents or
  events it processes; no fuel is used. The endless loops of the code (tickers, session) are step functions, and
  theorems quantify over lists of steps of any length.

  \<^bold>\<open>Not modelled.\<close> Float rounding, NaN and infinities (\<open>float64\<close> is \<open>rat\<close>) and 64-bit overflow (Go's \<open>int\<close> is \<open>int\<close>;
  proto int32 counters and configured durations wrap); failures of JSON encoding and of row scanning; the order Postgres
  returns rows in where the statement leaves it open (here the order of the table); transactions that fail to
  serialise; a statement whose effect is kept although its answer is lost. Inside the gRPC
  library: transport, when \<open>Serve\<close> returns, graceful stops. Logging, the migration library (a parameter of \<open>runMigrate\<close>).
  Constructors that only store their arguments, the interface declarations of \<open>storage/repository.go\<close>, generated code, mocks and the
  Python SDK have no behaviour of their own to model.

  \<^bold>\<open>Open.\<close> Worker isolation is stated for the events of one session; over the whole system it needs identifiers that are
  never drawn twice, which \<open>uuid\<close> only makes likely. Settlement after faults is stated for completed jobs; the settlement
  write itself is exempt from failing, since losing it strands the request (a finding).
\<close>

end
